(* ===== verification/Go_Prelude.thy ===== *)
theory Go_Prelude
  imports Main "HOL-Library.Word" "HOL-Library.Sublist" "HOL-Library.Monad_Syntax"
begin

text \<open>
  What every component shares: the parts of the Go language and of its standard library that the
  modelled sources use.

  \<^item> A Go \<^verbatim>\<open>string\<close> is a HOL \<^typ>\<open>string\<close>, a list of bytes. \<open>runes\<close> is the conversion
    \<^verbatim>\<open>[]rune(s)\<close>: UTF-8 decoding in which every invalid byte gives U+FFFD.
  \<^item> A computation that may panic has type \<open>'a option\<close>, \<^const>\<open>None\<close> being the panic.
  \<^item> A function that returns \<^verbatim>\<open>(T, error)\<close> has a sum type, \<^const>\<open>Inl\<close> being the error.
  \<^item> A map used as a set, \<^verbatim>\<open>map[T]struct{}\<close>, is a list without repetitions whose order is the
    (arbitrary) iteration order of the map: a statement about every such list is a statement
    about every iteration order.
\<close>

named_theorems go_defs \<open>definitions of the string and slice functions of the Go library\<close>

section \<open>Strings\<close>

type_synonym rune = nat

abbreviation byte :: "char \<Rightarrow> nat" where
  "byte c \<equiv> of_char c"

text \<open>The ranges of UTF-8: continuation bytes, and the second bytes the first byte allows.\<close>

definition utf8_cont :: "nat \<Rightarrow> bool" where
  "utf8_cont b \<longleftrightarrow> 128 \<le> b \<and> b \<le> 191"

definition utf8_second :: "nat \<Rightarrow> nat \<Rightarrow> bool" where
  "utf8_second b0 b1 \<longleftrightarrow>
     (if b0 = 224 then 160 \<le> b1 \<and> b1 \<le> 191
      else if b0 = 237 then 128 \<le> b1 \<and> b1 \<le> 159
      else if b0 = 240 then 144 \<le> b1 \<and> b1 \<le> 191
      else if b0 = 244 then 128 \<le> b1 \<and> b1 \<le> 143
      else utf8_cont b1)"

definition rune_error :: rune where
  "rune_error = 65533"

text \<open>
  \<open>utf8_head bs\<close> decodes the first rune of a non-empty byte sequence and says how many bytes it
  takes, as \<^verbatim>\<open>utf8.DecodeRune\<close> does.
\<close>

fun utf8_head :: "nat list \<Rightarrow> rune \<times> nat" where
  "utf8_head (b0 # bs) =
     (if b0 < 128 then (b0, 1)
      else if 194 \<le> b0 \<and> b0 \<le> 223 then
        (case bs of
           b1 # _ \<Rightarrow> if utf8_cont b1 then ((b0 - 192) * 64 + (b1 - 128), 2) else (rune_error, 1)
         | _ \<Rightarrow> (rune_error, 1))
      else if 224 \<le> b0 \<and> b0 \<le> 239 then
        (case bs of
           b1 # b2 # _ \<Rightarrow>
             if utf8_second b0 b1 \<and> utf8_cont b2
             then ((b0 - 224) * 4096 + (b1 - 128) * 64 + (b2 - 128), 3) else (rune_error, 1)
         | _ \<Rightarrow> (rune_error, 1))
      else if 240 \<le> b0 \<and> b0 \<le> 244 then
        (case bs of
           b1 # b2 # b3 # _ \<Rightarrow>
             if utf8_second b0 b1 \<and> utf8_cont b2 \<and> utf8_cont b3
             then ((b0 - 240) * 262144 + (b1 - 128) * 4096 + (b2 - 128) * 64 + (b3 - 128), 4)
             else (rune_error, 1)
         | _ \<Rightarrow> (rune_error, 1))
      else (rune_error, 1))"
| "utf8_head [] = (rune_error, 1)"

lemma utf8_head_width: "1 \<le> snd (utf8_head bs)"
  by (cases bs) (auto split: list.splits)

fun utf8_runes :: "nat list \<Rightarrow> rune list" where
  "utf8_runes [] = []"
| "utf8_runes (b # bs) =
     (let (r, w) = utf8_head (b # bs) in r # utf8_runes (drop (w - 1) bs))"

definition runes :: "string \<Rightarrow> rune list" where
  "runes s = utf8_runes (map byte s)"

definition ascii :: "string \<Rightarrow> bool" where
  "ascii s \<longleftrightarrow> (\<forall>c \<in> set s. byte c < (128::nat))"

lemma utf8_runes_ascii: "(\<forall>b \<in> set bs. b < 128) \<Longrightarrow> utf8_runes bs = bs"
  by (induction bs) auto

lemma runes_ascii: "ascii s \<Longrightarrow> runes s = map byte s"
  by (simp add: runes_def ascii_def utf8_runes_ascii)

lemma runes_Nil [simp]: "runes [] = []"
  by (simp add: runes_def)

lemma runes_eq_Nil [simp]: "runes s = [] \<longleftrightarrow> s = []"
  by (cases s) (auto simp: runes_def split: prod.splits)

text \<open>An ASCII suffix never completes a multi-byte sequence, so it decodes on its own.\<close>

lemma utf8_head_append_ascii:
  assumes "bs \<noteq> []" "a < 128"
  shows "utf8_head (bs @ a # as) = utf8_head bs \<and> snd (utf8_head bs) \<le> length bs"
proof -
  have a: "\<not> utf8_cont a" using assms(2) by (simp add: utf8_cont_def)
  obtain b0 t where bs: "bs = b0 # t" using assms(1) by (cases bs) auto
  show ?thesis
  proof (cases t)
    case Nil
    with bs a assms(2) show ?thesis
      by (auto simp: utf8_second_def split: list.splits)
  next
    case (Cons b1 t1)
    note t = this
    show ?thesis
    proof (cases t1)
      case Nil
      with bs t a assms(2) show ?thesis
        by (auto simp: utf8_second_def split: list.splits)
    next
      case (Cons b2 t2)
      show ?thesis
      proof (cases t2)
        case Nil
        with bs t Cons a show ?thesis by auto
      next
        case (Cons b3 t3)
        with bs t \<open>t1 = b2 # t2\<close> show ?thesis by auto
      qed
    qed
  qed
qed

lemma utf8_runes_append_ascii:
  "a < 128 \<Longrightarrow> utf8_runes (bs @ a # as) = utf8_runes bs @ utf8_runes (a # as)"
proof (induction bs rule: utf8_runes.induct)
  case 1
  then show ?case by simp
next
  case (2 b bs)
  obtain r w where rw: "utf8_head (b # bs) = (r, w)" by (cases "utf8_head (b # bs)")
  from utf8_head_append_ascii [of "b # bs" a as] 2(2) rw
  have h: "utf8_head (b # bs @ a # as) = (r, w)" and w: "w \<le> Suc (length bs)" by auto
  have "utf8_runes (drop (w - 1) bs @ a # as) = utf8_runes (drop (w - 1) bs) @ utf8_runes (a # as)"
    using 2 rw by simp
  with h w rw show ?case by simp
qed

lemma runes_append_ascii:
  assumes "byte a < (128::nat)"
  shows "runes (s @ a # t) = runes s @ runes (a # t)"
  using utf8_runes_append_ascii [of "byte a" "map byte s" "map byte t"] assms
  by (simp add: runes_def)

section \<open>Slices\<close>

text \<open>The loop that returns the position of the first element with a property.\<close>

fun find_index :: "('a \<Rightarrow> bool) \<Rightarrow> 'a list \<Rightarrow> nat option" where
  "find_index p [] = None"
| "find_index p (x # xs) = (if p x then Some 0 else map_option Suc (find_index p xs))"

lemma find_index_None_iff: "find_index p xs = None \<longleftrightarrow> (\<forall>x \<in> set xs. \<not> p x)"
  by (induction xs) auto

lemma find_index_SomeD:
  "find_index p xs = Some i \<Longrightarrow> i < length xs \<and> p (xs ! i) \<and> (\<forall>j < i. \<not> p (xs ! j))"
proof (induction xs arbitrary: i)
  case (Cons x xs)
  then show ?case by (auto split: if_splits simp: nth_Cons split: nat.splits)
qed simp

text \<open>\<^verbatim>\<open>append(s[:i], s[i+1:]...)\<close>: the slice without the element at a position.\<close>

definition remove_at :: "nat \<Rightarrow> 'a list \<Rightarrow> 'a list" where
  "remove_at i xs = take i xs @ drop (Suc i) xs"

lemma length_remove_at: "i < length xs \<Longrightarrow> length (remove_at i xs) = length xs - 1"
  by (simp add: remove_at_def)

lemma set_remove_at: "set (remove_at i xs) \<subseteq> set xs"
  by (auto simp: remove_at_def dest: in_set_takeD in_set_dropD)

lemma in_set_remove_at:
  assumes "x \<in> set xs" "i < length xs" "x \<noteq> xs ! i"
  shows "x \<in> set (remove_at i xs)"
proof -
  have "xs = take i xs @ xs ! i # drop (Suc i) xs" using assms(2) by (rule id_take_nth_drop)
  then have "set xs = set (take i xs @ xs ! i # drop (Suc i) xs)" by simp
  then show ?thesis using assms(1,3) by (auto simp: remove_at_def)
qed

lemma distinct_remove_at: "distinct xs \<Longrightarrow> distinct (remove_at i xs)"
  by (auto simp: remove_at_def set_take_disj_set_drop_if_distinct)

end
