(* ===== verification/Go_Strings.thy ===== *)
theory Go_Strings
  imports Go_Prelude "HOL-Library.List_Lexorder" "HOL-Library.Char_ord"
begin

text \<open>
  The functions of the Go packages \<^verbatim>\<open>strings\<close>, \<^verbatim>\<open>strconv\<close>, \<^verbatim>\<open>sort\<close> and \<^verbatim>\<open>net/textproto\<close> that the
  modelled sources call, on byte strings. Strings are ordered bytewise
  (\<^verbatim>\<open>HOL-Library.List_Lexorder\<close> over \<^verbatim>\<open>Char_ord\<close>), which is Go's \<^verbatim>\<open><\<close> on strings.
\<close>

section \<open>Prefixes, suffixes, substrings\<close>

abbreviation HasPrefix :: "string \<Rightarrow> string \<Rightarrow> bool" where
  "HasPrefix s p \<equiv> prefix p s"

abbreviation HasSuffix :: "string \<Rightarrow> string \<Rightarrow> bool" where
  "HasSuffix s p \<equiv> suffix p s"

definition TrimPrefix :: "string \<Rightarrow> string \<Rightarrow> string" where
  "TrimPrefix s p = (if prefix p s then drop (length p) s else s)"

definition TrimSuffix :: "string \<Rightarrow> string \<Rightarrow> string" where
  "TrimSuffix s p = (if suffix p s then take (length s - length p) s else s)"

lemma TrimPrefix_append [simp]: "TrimPrefix (p @ s) p = s"
  by (simp add: TrimPrefix_def)

lemma TrimPrefix_Nil [simp]: "TrimPrefix s '''' = s"
  by (simp add: TrimPrefix_def)

lemma TrimSuffix_append [simp]: "TrimSuffix (s @ p) p = s"
  by (simp add: TrimSuffix_def suffix_def)

text \<open>\<^verbatim>\<open>strings.Contains\<close> for a separator of one byte.\<close>

abbreviation contains_byte :: "string \<Rightarrow> char \<Rightarrow> bool" where
  "contains_byte s c \<equiv> c \<in> set s"

text \<open>\<^verbatim>\<open>strings.SplitN(s, sep, 2)\<close> and \<^verbatim>\<open>strings.Split(s, sep)\<close> for a separator of one byte.\<close>

definition SplitN2 :: "string \<Rightarrow> char \<Rightarrow> string list" where
  "SplitN2 s c =
     (if c \<in> set s then [takeWhile (\<lambda>x. x \<noteq> c) s, tl (dropWhile (\<lambda>x. x \<noteq> c) s)] else [s])"

fun split_byte :: "char \<Rightarrow> string \<Rightarrow> string list" where
  "split_byte c [] = [[]]"
| "split_byte c (x # xs) =
     (if x = c then [] # split_byte c xs
      else (case split_byte c xs of [] \<Rightarrow> [[x]] | w # ws \<Rightarrow> (x # w) # ws))"

lemma split_byte_ne: "split_byte c s \<noteq> []"
  by (induction s) (auto split: list.splits)

lemma split_byte_no_sep: "w \<in> set (split_byte c s) \<Longrightarrow> c \<notin> set w"
  by (induction s arbitrary: w) (auto split: if_splits list.splits)

fun join_byte :: "char \<Rightarrow> string list \<Rightarrow> string" where
  "join_byte c [] = []"
| "join_byte c [w] = w"
| "join_byte c (w # ws) = w @ c # join_byte c ws"

lemma join_split_byte: "join_byte c (split_byte c s) = s"
proof (induction s)
  case (Cons x xs)
  then show ?case
    by (cases "split_byte c xs"; cases "tl (split_byte c xs)")
      (auto simp: split_byte_ne)
qed simp

lemma split_byte_append:
  "c \<notin> set w \<Longrightarrow> split_byte c (w @ c # s) = w # split_byte c s"
  by (induction w) (auto split: list.splits)

lemma split_byte_id: "c \<notin> set w \<Longrightarrow> split_byte c w = [w]"
  by (induction w) auto

lemma split_join_byte:
  "ws \<noteq> [] \<Longrightarrow> \<forall>w \<in> set ws. c \<notin> set w \<Longrightarrow> split_byte c (join_byte c ws) = ws"
  by (induction c ws rule: join_byte.induct) (auto simp: split_byte_append split_byte_id)

text \<open>\<^verbatim>\<open>strings.Replace(s, old, new, -1)\<close> for a non-empty \<^verbatim>\<open>old\<close>.\<close>

function ReplaceAll :: "string \<Rightarrow> string \<Rightarrow> string \<Rightarrow> string" where
  "ReplaceAll s old new =
     (if old = [] \<or> s = [] then s
      else if prefix old s then new @ ReplaceAll (drop (length old) s) old new
      else hd s # ReplaceAll (tl s) old new)"
  by pat_completeness auto
termination
  by (relation "measure (\<lambda>(s, old, new). length s)") auto

declare ReplaceAll.simps [simp del]

lemma ReplaceAll_absent:
  "hd old \<notin> set s \<Longrightarrow> ReplaceAll s old new = s"
proof (induction s)
  case Nil
  then show ?case by (simp add: ReplaceAll.simps)
next
  case (Cons c s)
  show ?case
  proof (cases "old = []")
    case True
    then show ?thesis by (simp add: ReplaceAll.simps)
  next
    case False
    with Cons.prems have "\<not> prefix old (c # s)" by (cases old) auto
    with Cons show ?thesis by (simp add: ReplaceAll.simps [of "c # s"])
  qed
qed

section \<open>Numbers\<close>

text \<open>The decimal digits of a natural number and \<^verbatim>\<open>strconv.Itoa\<close>.\<close>

definition digit_char :: "nat \<Rightarrow> char" where
  "digit_char d = char_of (48 + d)"

fun dec_digits :: "nat \<Rightarrow> string" where
  "dec_digits n =
     (if n < 10 then [digit_char n] else dec_digits (n div 10) @ [digit_char (n mod 10)])"

declare dec_digits.simps [simp del]

definition Itoa :: "int \<Rightarrow> string" where
  "Itoa i = (if i < 0 then CHR ''-'' # dec_digits (nat (- i)) else dec_digits (nat i))"

definition is_digit :: "char \<Rightarrow> bool" where
  "is_digit c \<longleftrightarrow> 48 \<le> byte c \<and> byte c \<le> (57::nat)"

definition dec_value :: "string \<Rightarrow> nat" where
  "dec_value s = foldl (\<lambda>n c. 10 * n + (byte c - 48)) 0 s"

text \<open>
  \<^verbatim>\<open>strconv.Atoi\<close> on a 64-bit machine (and \<^verbatim>\<open>strconv.ParseInt(s, 10, 64)\<close>): an optional sign, at
  least one digit, nothing else, and a value that an \<^verbatim>\<open>int64\<close> can hold. \<^const>\<open>None\<close> is the error.
\<close>

definition min_int64 :: int where "min_int64 = - (2 ^ 63)"
definition max_int64 :: int where "max_int64 = 2 ^ 63 - 1"

definition signed_digits :: "string \<Rightarrow> bool \<times> string" where
  "signed_digits s =
     (case s of
        [] \<Rightarrow> (False, [])
      | c # cs \<Rightarrow> if c = CHR ''-'' then (True, cs) else if c = CHR ''+'' then (False, cs)
                 else (False, s))"

definition Atoi :: "string \<Rightarrow> int option" where
  "Atoi s =
     (let (neg, ds) = signed_digits s;
          v = (if neg then - int (dec_value ds) else int (dec_value ds))
      in if ds \<noteq> [] \<and> list_all is_digit ds \<and> min_int64 \<le> v \<and> v \<le> max_int64
         then Some v else None)"

lemma byte_digit_char: "d < 10 \<Longrightarrow> byte (digit_char d) = (48 + d :: nat)"
  by (simp add: digit_char_def)

lemma is_digit_digit_char: "d < 10 \<Longrightarrow> is_digit (digit_char d)"
  by (simp add: is_digit_def byte_digit_char)

lemma dec_digits_spec:
  "list_all is_digit (dec_digits n) \<and> dec_value (dec_digits n) = n \<and> dec_digits n \<noteq> []"
proof (induction n rule: dec_digits.induct)
  case (1 n)
  show ?case
  proof (cases "n < 10")
    case True
    then show ?thesis
      by (simp add: dec_digits.simps [of n] dec_value_def is_digit_digit_char byte_digit_char)
  next
    case False
    with 1 have IH: "list_all is_digit (dec_digits (n div 10))"
      "dec_value (dec_digits (n div 10)) = n div 10" by auto
    have "dec_value (dec_digits n) = 10 * (n div 10) + n mod 10"
      using False IH(2)
      by (simp add: dec_digits.simps [of n] dec_value_def byte_digit_char)
    with False IH show ?thesis
      by (simp add: dec_digits.simps [of n] is_digit_digit_char)
  qed
qed

lemma is_digit_not_sign: "is_digit c \<Longrightarrow> c \<noteq> CHR ''-'' \<and> c \<noteq> CHR ''+''"
  by (auto simp: is_digit_def)

lemma signed_digits_digits:
  "list_all is_digit ds \<Longrightarrow> signed_digits ds = (False, ds)"
  by (cases ds) (auto simp: signed_digits_def dest: is_digit_not_sign)

lemma signed_digits_Itoa: "signed_digits (Itoa i) = (i < 0, dec_digits (nat \<bar>i\<bar>))"
proof (cases "i < 0")
  case True
  then show ?thesis by (simp add: Itoa_def signed_digits_def)
next
  case False
  then show ?thesis using dec_digits_spec [of "nat i"]
    by (simp add: Itoa_def signed_digits_digits)
qed

lemma Atoi_Itoa: "min_int64 \<le> i \<Longrightarrow> i \<le> max_int64 \<Longrightarrow> Atoi (Itoa i) = Some i"
  using dec_digits_spec [of "nat \<bar>i\<bar>"]
  by (cases "i < 0") (simp_all add: Atoi_def signed_digits_Itoa Let_def)

lemma Atoi_range: "Atoi s = Some i \<Longrightarrow> min_int64 \<le> i \<and> i \<le> max_int64"
  by (auto simp: Atoi_def Let_def split: prod.splits if_splits)

text \<open>\<^verbatim>\<open>strconv.ParseBool\<close> and \<^verbatim>\<open>strconv.FormatBool\<close>.\<close>

definition ParseBool :: "string \<Rightarrow> bool option" where
  "ParseBool s =
     (if s \<in> {''1'', ''t'', ''T'', ''TRUE'', ''true'', ''True''} then Some True
      else if s \<in> {''0'', ''f'', ''F'', ''FALSE'', ''false'', ''False''} then Some False
      else None)"

definition FormatBool :: "bool \<Rightarrow> string" where
  "FormatBool b = (if b then ''true'' else ''false'')"

lemma ParseBool_FormatBool [simp]: "ParseBool (FormatBool b) = Some b"
  by (simp add: ParseBool_def FormatBool_def)

section \<open>Formatting and header keys\<close>

text \<open>\<^verbatim>\<open>fmt.Sprintf("%v", xs)\<close> of a slice of strings, and of the triple the conditions print.\<close>

definition show_slice :: "string list \<Rightarrow> string" where
  "show_slice ws = ''['' @ join_byte CHR '' '' ws @ '']''"

definition show_triple :: "string \<Rightarrow> string \<Rightarrow> string \<Rightarrow> string" where
  "show_triple a b c = a @ '':'' @ b @ '':'' @ c"

definition is_lower :: "char \<Rightarrow> bool" where
  "is_lower c \<longleftrightarrow> 97 \<le> byte c \<and> byte c \<le> (122::nat)"

definition is_upper :: "char \<Rightarrow> bool" where
  "is_upper c \<longleftrightarrow> 65 \<le> byte c \<and> byte c \<le> (90::nat)"

definition to_upper :: "char \<Rightarrow> char" where
  "to_upper c = (if is_lower c then char_of (byte c - (32::nat)) else c)"

definition to_lower :: "char \<Rightarrow> char" where
  "to_lower c = (if is_upper c then char_of (byte c + (32::nat)) else c)"

definition header_token_byte :: "char \<Rightarrow> bool" where
  "header_token_byte c \<longleftrightarrow> is_digit c \<or> is_lower c \<or> is_upper c \<or>
     c \<in> set ''!#$%&*+-.^_|~'' \<or> byte c = (39::nat) \<or> byte c = (96::nat)"

fun canonical_bytes :: "bool \<Rightarrow> string \<Rightarrow> string" where
  "canonical_bytes up [] = []"
| "canonical_bytes up (c # cs) =
     (let c' = (if up then to_upper c else to_lower c) in c' # canonical_bytes (c' = CHR ''-'') cs)"

text \<open>
  \<^verbatim>\<open>http.CanonicalHeaderKey\<close>: a key with a byte that no header name may have is returned as it is;
  otherwise the first letter and every letter after a hyphen become upper case, the rest lower.
\<close>

definition CanonicalHeaderKey :: "string \<Rightarrow> string" where
  "CanonicalHeaderKey s = (if list_all header_token_byte s then canonical_bytes True s else s)"

section \<open>Upper and lower case\<close>

text \<open>
  \<^verbatim>\<open>unicode.ToUpper\<close> and \<^verbatim>\<open>unicode.ToLower\<close> on the runes whose result is ASCII; outside ASCII these are
  the dotless i, the long s, the capital i with dot and the Kelvin sign. On other runes the result is
  not ASCII, and the rune itself stands for it.
\<close>

definition upper_rune :: "rune \<Rightarrow> rune" where
  "upper_rune r =
     (if 97 \<le> r \<and> r \<le> 122 then r - 32 else if r = 0x131 then 0x49 else if r = 0x17F then 0x53 else r)"

definition lower_rune :: "rune \<Rightarrow> rune" where
  "lower_rune r =
     (if 65 \<le> r \<and> r \<le> 90 then r + 32 else if r = 0x130 then 0x69 else if r = 0x212A then 0x6B else r)"

text \<open>\<^verbatim>\<open>strings.ToUpper(s) == t\<close> and \<^verbatim>\<open>strings.ToLower(s) == t\<close> for an ASCII string \<open>t\<close>.\<close>

definition upper_is :: "string \<Rightarrow> string \<Rightarrow> bool" where
  "upper_is s t \<longleftrightarrow> map upper_rune (runes s) = map byte t"

definition lower_is :: "string \<Rightarrow> string \<Rightarrow> bool" where
  "lower_is s t \<longleftrightarrow> map lower_rune (runes s) = map byte t"

end
