(* ===== verification/Condition_Keys.thy ===== *)
theory Condition_Keys
  imports Go_Strings
begin

text \<open>
  \<^verbatim>\<open>pkg/bucket/policy/condition\<close>: condition keys (\<^verbatim>\<open>key.go\<close>, \<^verbatim>\<open>jwt.go\<close>), condition names
  (\<^verbatim>\<open>name.go\<close>) and condition values (\<^verbatim>\<open>value.go\<close>, \<^verbatim>\<open>valueset.go\<close>). Key sets and value sets are Go
  maps used as sets.
\<close>

section \<open>Keys\<close>

type_synonym key = string

text \<open>The values of a request, \<^verbatim>\<open>map[string][]string\<close>.\<close>

type_synonym cond_values = "string \<Rightarrow> string list option"

definition S3XAmzCopySource :: key where "S3XAmzCopySource = ''s3:x-amz-copy-source''"
definition S3XAmzServerSideEncryption :: key where
  "S3XAmzServerSideEncryption = ''s3:x-amz-server-side-encryption''"
definition S3XAmzServerSideEncryptionCustomerAlgorithm :: key where
  "S3XAmzServerSideEncryptionCustomerAlgorithm =
     ''s3:x-amz-server-side-encryption-customer-algorithm''"
definition S3XAmzMetadataDirective :: key where
  "S3XAmzMetadataDirective = ''s3:x-amz-metadata-directive''"
definition S3XAmzContentSha256 :: key where "S3XAmzContentSha256 = ''s3:x-amz-content-sha256''"
definition AWSSourceIP :: key where "AWSSourceIP = ''aws:SourceIp''"
definition AWSSecureTransport :: key where "AWSSecureTransport = ''aws:SecureTransport''"
definition S3ExistingObjectTag :: key where "S3ExistingObjectTag = ''s3:ExistingObjectTag/''"
definition S3RequestObjectTag :: key where "S3RequestObjectTag = ''s3:RequestObjectTag/''"

lemmas key_const_defs = S3XAmzCopySource_def S3XAmzServerSideEncryption_def
  S3XAmzServerSideEncryptionCustomerAlgorithm_def S3XAmzMetadataDirective_def
  S3XAmzContentSha256_def AWSSourceIP_def AWSSecureTransport_def S3ExistingObjectTag_def
  S3RequestObjectTag_def

definition JWTKeys :: "key list" where
  "JWTKeys =
     [''jwt:sub'', ''jwt:iss'', ''jwt:aud'', ''jwt:jti'', ''jwt:name'', ''jwt:upn'', ''jwt:groups'',
      ''jwt:given_name'', ''jwt:family_name'', ''jwt:middle_name'', ''jwt:nickname'',
      ''jwt:preferred_username'', ''jwt:profile'', ''jwt:picture'', ''jwt:website'', ''jwt:email'',
      ''jwt:gender'', ''jwt:birthdate'', ''jwt:phone_number'', ''jwt:address'', ''jwt:scope'',
      ''jwt:client_id'']"

definition AllSupportedKeys :: "key list" where
  "AllSupportedKeys =
     [''s3:signatureversion'', ''s3:authType'', S3XAmzCopySource, S3XAmzServerSideEncryption,
      S3XAmzServerSideEncryptionCustomerAlgorithm, S3XAmzMetadataDirective,
      ''s3:x-amz-storage-class'', S3XAmzContentSha256, ''s3:LocationConstraint'', ''s3:prefix'',
      ''s3:delimiter'', ''s3:max-keys'', ''s3:versionid'',
      ''s3:object-lock-remaining-retention-days'', ''s3:object-lock-mode'',
      ''s3:object-lock-legal-hold'', ''s3:object-lock-retain-until-date'', S3ExistingObjectTag,
      S3RequestObjectTag, ''aws:Referer'', AWSSourceIP, ''aws:UserAgent'', AWSSecureTransport,
      ''aws:CurrentTime'', ''aws:EpochTime'', ''aws:principaltype'', ''aws:userid'',
      ''aws:username'', ''ldap:user''] @ JWTKeys"

definition CommonKeys :: "key list" where
  "CommonKeys =
     [''s3:signatureversion'', ''s3:authType'', S3XAmzContentSha256, ''s3:LocationConstraint'',
      ''aws:Referer'', AWSSourceIP, ''aws:UserAgent'', AWSSecureTransport, ''aws:CurrentTime'',
      ''aws:EpochTime'', ''aws:principaltype'', ''aws:userid'', ''aws:username'', ''ldap:user'']
     @ JWTKeys"

definition AllSupportedAdminKeys :: "key list" where
  "AllSupportedAdminKeys =
     [''aws:Referer'', AWSSourceIP, ''aws:UserAgent'', AWSSecureTransport, ''aws:CurrentTime'',
      ''aws:EpochTime'']"

definition tagConditionKeyPrefixes :: "key list" where
  "tagConditionKeyPrefixes = [S3ExistingObjectTag, S3RequestObjectTag]"

definition Key_IsValid :: "key \<Rightarrow> bool" where
  "Key_IsValid key =
     (if key \<in> set tagConditionKeyPrefixes then False
      else if key \<in> set AllSupportedKeys then True
      else list_ex (\<lambda>pfx. HasPrefix key pfx \<and> length pfx < length key)
             tagConditionKeyPrefixes)"

definition Key_VarName :: "key \<Rightarrow> string" where
  "Key_VarName key = ''${'' @ key @ ''}''"

definition Key_Name :: "key \<Rightarrow> string" where
  "Key_Name key =
     (if HasPrefix key ''aws:'' then TrimPrefix key ''aws:''
      else if HasPrefix key ''jwt:'' then TrimPrefix key ''jwt:''
      else if HasPrefix key ''ldap:'' then TrimPrefix key ''ldap:''
      else TrimPrefix key ''s3:'')"

definition parseKey :: "string \<Rightarrow> key option" where
  "parseKey s = (if Key_IsValid s then Some s else None)"

text \<open>
  The substitution of policy variables. \<^verbatim>\<open>rvalues[0]\<close> panics when the request carries a key with
  an empty list of values, before any comparison of the value.
\<close>

fun subst_keys :: "cond_values \<Rightarrow> key list \<Rightarrow> string \<Rightarrow> string option" where
  "subst_keys values [] v = Some v"
| "subst_keys values (k # ks) v =
     (case values (Key_Name k) of
        None \<Rightarrow> subst_keys values ks v
      | Some [] \<Rightarrow> None
      | Some (r # _) \<Rightarrow>
          subst_keys values ks (if r \<noteq> '''' then ReplaceAll v (Key_VarName k) r else v))"

definition substFuncFromValues :: "cond_values \<Rightarrow> string \<Rightarrow> string option" where
  "substFuncFromValues values v = subst_keys values CommonKeys v"

subsection \<open>Key sets\<close>

type_synonym key_set = "key list"

definition set_add :: "'a list \<Rightarrow> 'a \<Rightarrow> 'a list" where
  "set_add s x = (if x \<in> set s then s else s @ [x])"

lemma set_set_add [simp]: "set (set_add s x) = insert x (set s)"
  by (auto simp: set_add_def)

lemma distinct_set_add [simp]: "distinct (set_add s x) = distinct s"
  by (auto simp: set_add_def)

definition NewKeySet :: "key list \<Rightarrow> key_set" where
  "NewKeySet keys = foldl set_add [] keys"

definition KeySet_Merge :: "key_set \<Rightarrow> key_set \<Rightarrow> key_set" where
  "KeySet_Merge s mset = foldl set_add s mset"

definition coveredByPrefixIn :: "key \<Rightarrow> key_set \<Rightarrow> bool" where
  "coveredByPrefixIn key sset =
     list_ex (\<lambda>pfx. HasPrefix key pfx \<and> length pfx < length key \<and> pfx \<in> set sset)
       tagConditionKeyPrefixes"

definition KeySet_Difference :: "key_set \<Rightarrow> key_set \<Rightarrow> key_set" where
  "KeySet_Difference s sset =
     filter (\<lambda>k. k \<notin> set sset \<and> \<not> coveredByPrefixIn k sset) s"

definition KeySet_IsEmpty :: "key_set \<Rightarrow> bool" where
  "KeySet_IsEmpty s = (length s = 0)"

lemma set_foldl_add: "set (foldl set_add s xs) = set s \<union> set xs"
  by (induction xs arbitrary: s) auto

lemma distinct_foldl_add: "distinct s \<Longrightarrow> distinct (foldl set_add s xs)"
  by (induction xs arbitrary: s) auto

section \<open>Names\<close>

datatype cond_name =
    stringEquals | stringNotEquals | stringEqualsIgnoreCase | stringNotEqualsIgnoreCase
  | stringLike | stringNotLike | binaryEquals | ipAddress | notIPAddress | null | boolean
  | numericEquals | numericNotEquals | numericLessThan | numericLessThanEquals
  | numericGreaterThan | numericGreaterThanEquals
  | dateEquals | dateNotEquals | dateLessThan | dateLessThanEquals
  | dateGreaterThan | dateGreaterThanEquals

fun name_string :: "cond_name \<Rightarrow> string" where
  "name_string stringEquals = ''StringEquals''"
| "name_string stringNotEquals = ''StringNotEquals''"
| "name_string stringEqualsIgnoreCase = ''StringEqualsIgnoreCase''"
| "name_string stringNotEqualsIgnoreCase = ''StringNotEqualsIgnoreCase''"
| "name_string stringLike = ''StringLike''"
| "name_string stringNotLike = ''StringNotLike''"
| "name_string binaryEquals = ''BinaryEquals''"
| "name_string ipAddress = ''IpAddress''"
| "name_string notIPAddress = ''NotIpAddress''"
| "name_string null = ''Null''"
| "name_string boolean = ''Bool''"
| "name_string numericEquals = ''NumericEquals''"
| "name_string numericNotEquals = ''NumericNotEquals''"
| "name_string numericLessThan = ''NumericLessThan''"
| "name_string numericLessThanEquals = ''NumericLessThanEquals''"
| "name_string numericGreaterThan = ''NumericGreaterThan''"
| "name_string numericGreaterThanEquals = ''NumericGreaterThanEquals''"
| "name_string dateEquals = ''DateEquals''"
| "name_string dateNotEquals = ''DateNotEquals''"
| "name_string dateLessThan = ''DateLessThan''"
| "name_string dateLessThanEquals = ''DateLessThanEquals''"
| "name_string dateGreaterThan = ''DateGreaterThan''"
| "name_string dateGreaterThanEquals = ''DateGreaterThanEquals''"

definition supportedConditions :: "cond_name list" where
  "supportedConditions =
     [stringEquals, stringNotEquals, stringEqualsIgnoreCase, stringNotEqualsIgnoreCase,
      binaryEquals, stringLike, stringNotLike, ipAddress, notIPAddress, null, boolean,
      numericEquals, numericNotEquals, numericLessThan, numericLessThanEquals,
      numericGreaterThan, numericGreaterThanEquals, dateEquals, dateNotEquals, dateLessThan,
      dateLessThanEquals, dateGreaterThan, dateGreaterThanEquals]"

definition parseName :: "string \<Rightarrow> cond_name option" where
  "parseName s = find (\<lambda>n. name_string n = s) supportedConditions"

lemma parseName_name_string [simp]: "parseName (name_string n) = Some n"
  by (cases n) (simp_all add: parseName_def supportedConditions_def)

section \<open>Values\<close>

datatype cond_value = StringValue string | IntValue int | BoolValue bool

fun Value_GetString :: "cond_value \<Rightarrow> string option" where
  "Value_GetString (StringValue s) = Some s"
| "Value_GetString _ = None"

fun Value_GetInt :: "cond_value \<Rightarrow> int option" where
  "Value_GetInt (IntValue i) = Some i"
| "Value_GetInt _ = None"

fun Value_GetBool :: "cond_value \<Rightarrow> bool option" where
  "Value_GetBool (BoolValue b) = Some b"
| "Value_GetBool _ = None"

fun Value_String :: "cond_value \<Rightarrow> string" where
  "Value_String (StringValue s) = s"
| "Value_String (IntValue i) = Itoa i"
| "Value_String (BoolValue b) = FormatBool b"

type_synonym value_set = "cond_value list"

definition NewValueSet :: "cond_value list \<Rightarrow> value_set" where
  "NewValueSet vs = foldl set_add [] vs"

definition ValueSet_Clone :: "value_set \<Rightarrow> value_set" where
  "ValueSet_Clone s = NewValueSet s"

lemma foldl_add_distinct:
  "distinct (s @ xs) \<Longrightarrow> foldl set_add s xs = s @ xs"
proof (induction xs arbitrary: s)
  case (Cons x xs)
  then have "foldl set_add (s @ [x]) xs = (s @ [x]) @ xs" by (intro Cons.IH) auto
  moreover have "set_add s x = s @ [x]" using Cons.prems by (simp add: set_add_def)
  ultimately show ?case by simp
qed simp

lemma ValueSet_Clone_id: "distinct s \<Longrightarrow> ValueSet_Clone s = s"
  by (simp add: ValueSet_Clone_def NewValueSet_def foldl_add_distinct)

definition path2BucketAndObject :: "string \<Rightarrow> string \<times> string" where
  "path2BucketAndObject path =
     (case SplitN2 (TrimPrefix path ''/'') CHR ''/'' of
        [b] \<Rightarrow> (b, '''')
      | [b, ob] \<Rightarrow> (b, ob)
      | _ \<Rightarrow> ('''', ''''))"

section \<open>Facts about keys\<close>

lemma Key_IsValid_tag:
  "pfx \<in> set tagConditionKeyPrefixes \<Longrightarrow> t \<noteq> '''' \<Longrightarrow> Key_IsValid (pfx @ t)"
  by (auto simp: Key_IsValid_def tagConditionKeyPrefixes_def S3ExistingObjectTag_def
      S3RequestObjectTag_def)

lemma KeySet_Difference_empty_iff:
  "KeySet_IsEmpty (KeySet_Difference s sset) \<longleftrightarrow>
     (\<forall>k \<in> set s. k \<in> set sset \<or>
        (\<exists>p t. p \<in> set tagConditionKeyPrefixes \<and> p \<in> set sset \<and> t \<noteq> '''' \<and> k = p @ t))"
proof -
  have "coveredByPrefixIn k sset \<longleftrightarrow>
      (\<exists>p t. p \<in> set tagConditionKeyPrefixes \<and> p \<in> set sset \<and> t \<noteq> '''' \<and> k = p @ t)" for k
    by (auto simp: coveredByPrefixIn_def list_ex_iff prefix_def)
  moreover have "KeySet_IsEmpty (KeySet_Difference s sset) \<longleftrightarrow>
      (\<forall>k \<in> set s. k \<in> set sset \<or> coveredByPrefixIn k sset)"
    by (auto simp: KeySet_IsEmpty_def KeySet_Difference_def filter_empty_conv)
  ultimately show ?thesis by simp
qed

end
