(* ===== verification/Wildcard.thy ===== *)
theory Wildcard
  imports Go_Prelude
begin

text \<open>
  \<^verbatim>\<open>pkg/wildcard/match.go\<close>: the pattern matcher that policies, principals and conditions share.
  The slice expression \<^verbatim>\<open>str[1:]\<close> panics on an empty slice, so \<open>deepMatchRune\<close> is option-valued.
\<close>

section \<open>The matcher\<close>

abbreviation rune_star :: rune where "rune_star \<equiv> 42"

abbreviation rune_any :: rune where "rune_any \<equiv> 63"

function deepMatchRune :: "rune list \<Rightarrow> rune list \<Rightarrow> bool \<Rightarrow> bool option" where
  "deepMatchRune str [] simple = Some (str = [])"
| "deepMatchRune str (p # ps) simple =
     (if p = rune_any then
        (if str = [] then (if simple then None else Some False)
         else deepMatchRune (tl str) ps simple)
      else if p = rune_star then
        (case deepMatchRune str ps simple of
           None \<Rightarrow> None
         | Some True \<Rightarrow> Some True
         | Some False \<Rightarrow>
             (if str = [] then Some False else deepMatchRune (tl str) (p # ps) simple))
      else if str = [] \<or> hd str \<noteq> p then Some False
      else deepMatchRune (tl str) ps simple)"
  by pat_completeness auto
termination
  by (relation "measure (\<lambda>(str, pattern, simple). length str + length pattern)")
    (auto simp: neq_Nil_conv)

definition MatchSimple :: "string \<Rightarrow> string \<Rightarrow> bool option" where
  "MatchSimple pattern name =
     (if pattern = '''' then Some (name = pattern)
      else if pattern = ''*'' then Some True
      else deepMatchRune (runes name) (runes pattern) True)"

definition Match :: "string \<Rightarrow> string \<Rightarrow> bool option" where
  "Match pattern name =
     (if pattern = '''' then Some (name = pattern)
      else if pattern = ''*'' then Some True
      else deepMatchRune (runes name) (runes pattern) False)"

section \<open>What a pattern denotes\<close>

text \<open>
  The specification: a star stands for any sequence of runes, a question mark for any single rune,
  any other rune for itself.
\<close>

inductive globs :: "rune list \<Rightarrow> rune list \<Rightarrow> bool" where
  globs_Nil: "globs [] []"
| globs_star: "globs ps ys \<Longrightarrow> globs (rune_star # ps) (xs @ ys)"
| globs_any: "globs ps ys \<Longrightarrow> globs (rune_any # ps) (y # ys)"
| globs_lit: "globs ps ys \<Longrightarrow> p \<noteq> rune_star \<Longrightarrow> p \<noteq> rune_any \<Longrightarrow>
    globs (p # ps) (p # ys)"

inductive_cases globs_NilE [elim!]: "globs [] ys"
inductive_cases globs_ConsE: "globs (p # ps) ys"
inductive_simps globs_Nil_iff [simp]: "globs [] ys"

lemma globs_star_iff:
  "globs (rune_star # ps) ys \<longleftrightarrow>
     globs ps ys \<or> (ys \<noteq> [] \<and> globs (rune_star # ps) (tl ys))"
proof
  assume "globs (rune_star # ps) ys"
  then obtain xs zs where ys: "ys = xs @ zs" and g: "globs ps zs"
    by (auto elim: globs_ConsE)
  show "globs ps ys \<or> (ys \<noteq> [] \<and> globs (rune_star # ps) (tl ys))"
  proof (cases xs)
    case Nil
    with ys g show ?thesis by simp
  next
    case (Cons x xs')
    with ys g globs_star [OF g, of xs'] show ?thesis by simp
  qed
next
  assume "globs ps ys \<or> (ys \<noteq> [] \<and> globs (rune_star # ps) (tl ys))"
  then show "globs (rune_star # ps) ys"
  proof
    assume "globs ps ys"
    from globs_star [OF this, of "[]"] show ?thesis by simp
  next
    assume "ys \<noteq> [] \<and> globs (rune_star # ps) (tl ys)"
    then obtain xs zs where "tl ys = xs @ zs" "globs ps zs" "ys \<noteq> []"
      by (auto elim: globs_ConsE)
    with globs_star [of ps zs "hd ys # xs"] show ?thesis by (cases ys) auto
  qed
qed

lemma globs_any_iff: "globs (rune_any # ps) ys \<longleftrightarrow> ys \<noteq> [] \<and> globs ps (tl ys)"
  by (cases ys) (auto elim: globs_ConsE intro: globs_any)

lemma globs_lit_iff:
  "p \<noteq> rune_star \<Longrightarrow> p \<noteq> rune_any \<Longrightarrow>
     globs (p # ps) ys \<longleftrightarrow> ys \<noteq> [] \<and> hd ys = p \<and> globs ps (tl ys)"
  by (cases ys) (auto elim: globs_ConsE intro: globs_lit)

section \<open>Correctness\<close>

lemma deepMatchRune_globs:
  "simple = False \<or> rune_any \<notin> set pattern \<Longrightarrow>
     deepMatchRune str pattern simple = Some (globs pattern str)"
proof (induction str pattern simple rule: deepMatchRune.induct)
  case (1 str simple)
  then show ?case by simp
next
  case (2 str p ps simple)
  consider (any) "p = rune_any" | (star) "p = rune_star"
    | (lit) "p \<noteq> rune_any" "p \<noteq> rune_star" by blast
  then show ?case
  proof cases
    case any
    with 2 show ?thesis by (auto simp: globs_any_iff)
  next
    case star
    with 2 show ?thesis by (auto simp: globs_star_iff [of ps str] split: bool.splits)
  next
    case lit
    with 2 show ?thesis by (auto simp: globs_lit_iff)
  qed
qed

lemma runes_star: "runes ''*'' = [rune_star]"
  by (simp add: runes_ascii ascii_def)

lemma globs_all: "globs [rune_star] ys"
  using globs_star [OF globs_Nil, of ys] by simp

lemma Match_globs: "Match pattern name = Some (globs (runes pattern) (runes name))"
  by (auto simp: Match_def deepMatchRune_globs runes_star globs_all)

text \<open>
  C10: \<^verbatim>\<open>wildcard.Match\<close> never panics and decides exactly the language of the pattern: the name
  matches if and only if it is the pattern with every star replaced by some sequence of runes and
  every question mark by some single rune.
\<close>

theorem Match_correct: "Match pattern name = Some (globs (runes pattern) (runes name))"
  by (rule Match_globs)

lemma MatchSimple_globs:
  "rune_any \<notin> set (runes pattern) \<Longrightarrow>
     MatchSimple pattern name = Some (globs (runes pattern) (runes name))"
  by (auto simp: MatchSimple_def deepMatchRune_globs runes_star globs_all)

text \<open>A pattern that ends in a question mark, on the name without it: the loop slices an empty slice.\<close>

lemma deepMatchRune_overrun:
  "rune_star \<notin> set str \<Longrightarrow> deepMatchRune str (str @ [rune_any]) True = None"
  by (induction str) auto

text \<open>
  C14: \<^verbatim>\<open>wildcard.MatchSimple\<close> on a pattern without question marks never panics and decides the
  language of the pattern; and on a pattern that is a star-free name followed by a question mark,
  it panics on that very name.
\<close>

theorem MatchSimple_outcomes:
  "(rune_any \<notin> set (runes pattern) \<longrightarrow>
      MatchSimple pattern name = Some (globs (runes pattern) (runes name))) \<and>
   (rune_star \<notin> set (runes name) \<longrightarrow> MatchSimple (name @ ''?'') name = None)"
proof -
  have "MatchSimple (name @ ''?'') name = None" if "rune_star \<notin> set (runes name)"
  proof -
    have "runes (name @ ''?'') = runes name @ [rune_any]"
      using runes_append_ascii [of "CHR ''?''" name "[]"] by (simp add: runes_ascii ascii_def)
    moreover have "name @ ''?'' \<noteq> ''*''" by (cases name) auto
    ultimately show ?thesis
      using that by (simp add: MatchSimple_def deepMatchRune_overrun)
  qed
  then show ?thesis by (simp add: MatchSimple_globs)
qed

theorem MatchSimple_outcomes_witness:
  "MatchSimple ''ab*'' ''abc'' = Some (globs (runes ''ab*'') (runes ''abc'')) \<and>
   MatchSimple ''ab?'' ''ab'' = None"
  using MatchSimple_outcomes [of "''ab*''" "''abc''"] MatchSimple_outcomes [of "''''" "''ab''"]
  by (simp add: runes_ascii ascii_def)

end
