(* ===== verification/Condition.thy ===== *)
theory Condition
  imports Condition_Keys Wildcard
begin

text \<open>
  \<^verbatim>\<open>pkg/bucket/policy/condition\<close>: the condition functions, one group per source file, and
  \<^verbatim>\<open>func.go\<close>, which evaluates, clones, compares and parses lists of them. A function is a value
  of \<open>cond_function\<close> with one constructor per Go struct. Evaluation may panic, so it is
  option-valued.

  The string sets come from a package that is not part of the repository
  (\<^verbatim>\<open>otterio-sdk/pkg/set\<close>), the bucket name check from another (\<^verbatim>\<open>otterio-sdk/pkg/s3utils\<close>). They
  and the library parsers of addresses, times and base64 are fields of the record \<open>libs\<close>, an
  argument of every definition that calls them; \<open>string_set_laws\<close> states what their
  documentation promises.
\<close>

section \<open>The libraries\<close>

text \<open>A \<^verbatim>\<open>time.Time\<close>: the instant in nanoseconds and the zone offset it is printed in.\<close>

type_synonym gotime = "int \<times> int"

text \<open>A \<^verbatim>\<open>net.IPNet\<close>: address bytes and mask bytes.\<close>

type_synonym ipnet = "8 word list \<times> 8 word list"

record libs =
  CreateStringSet :: "string list \<Rightarrow> string list"
  ToSlice :: "string list \<Rightarrow> string list"
  ApplyFunc :: "(string \<Rightarrow> string) \<Rightarrow> string list \<Rightarrow> string list"
  FuncMatch :: "(string \<Rightarrow> string \<Rightarrow> bool) \<Rightarrow> string \<Rightarrow> string list \<Rightarrow> string list"
  Intersection :: "string list \<Rightarrow> string list \<Rightarrow> string list"
  StringSet_Equals :: "string list \<Rightarrow> string list \<Rightarrow> bool"
  StringSet_IsEmpty :: "string list \<Rightarrow> bool"
  StringSet_Add :: "string list \<Rightarrow> string \<Rightarrow> string list"
  StringSet_Remove :: "string list \<Rightarrow> string \<Rightarrow> string list"
  CheckValidBucketName :: "string \<Rightarrow> bool"
  EqualFold :: "string \<Rightarrow> string \<Rightarrow> bool"
  ParseIP :: "string \<Rightarrow> 8 word list option"
  ParseCIDR :: "string \<Rightarrow> ipnet option"
  IPNet_String :: "ipnet \<Rightarrow> string"
  ParseTime :: "string \<Rightarrow> gotime option"
  FormatTime :: "gotime \<Rightarrow> string"
  Base64Encode :: "string \<Rightarrow> string"
  Base64Decode :: "string \<Rightarrow> string option"

definition string_set_laws :: "libs \<Rightarrow> bool" where
  "string_set_laws L \<longleftrightarrow>
     (\<forall>xs. set (CreateStringSet L xs) = set xs \<and> distinct (CreateStringSet L xs)) \<and>
     (\<forall>s. distinct s \<longrightarrow> set (ToSlice L s) = set s \<and> distinct (ToSlice L s)) \<and>
     (\<forall>f s. set (ApplyFunc L f s) = f ` set s) \<and>
     (\<forall>m x s. set (FuncMatch L m x s) = {v \<in> set s. m v x}) \<and>
     (\<forall>a b. set (Intersection L a b) = set a \<inter> set b) \<and>
     (\<forall>a b. StringSet_Equals L a b = (set a = set b)) \<and>
     (\<forall>s. StringSet_IsEmpty L s = (set s = {})) \<and>
     (\<forall>s x. set (StringSet_Add L s x) = insert x (set s))"

lemma string_set_lawsD:
  assumes "string_set_laws L"
  shows "set (CreateStringSet L xs) = set xs" "distinct (CreateStringSet L xs)"
    "distinct s \<Longrightarrow> set (ToSlice L s) = set s" "distinct s \<Longrightarrow> distinct (ToSlice L s)"
    "set (ApplyFunc L f s) = f ` set s" "set (FuncMatch L m x s) = {v \<in> set s. m v x}"
    "set (Intersection L a b) = set a \<inter> set b" "StringSet_Equals L a b = (set a = set b)"
    "StringSet_IsEmpty L s = (set s = {})" "set (StringSet_Add L s x) = insert x (set s)"
  using assms by (simp_all add: string_set_laws_def)

text \<open>
  \<^verbatim>\<open>net.IP.To4\<close> and \<^verbatim>\<open>net.IPNet.Contains\<close>: an IPv4 address may be stored in four bytes or, behind
  the prefix \<^verbatim>\<open>::ffff:0:0/96\<close>, in sixteen.
\<close>

definition IP_To4 :: "8 word list \<Rightarrow> 8 word list option" where
  "IP_To4 ip =
     (if length ip = 4 then Some ip
      else if length ip = 16 \<and> take 10 ip = replicate 10 0 \<and> ip ! 10 = 255 \<and> ip ! 11 = 255
      then Some (drop 12 ip)
      else None)"

definition networkNumberAndMask :: "ipnet \<Rightarrow> 8 word list \<times> 8 word list" where
  "networkNumberAndMask n =
     (let ip = (case IP_To4 (fst n) of Some ip4 \<Rightarrow> ip4 | None \<Rightarrow> fst n)
      in if IP_To4 (fst n) = None \<and> length ip \<noteq> 16 then ([], [])
         else if length (snd n) = 4 then (if length ip \<noteq> 4 then ([], []) else (ip, snd n))
         else if length (snd n) = 16 then (ip, if length ip = 4 then drop 12 (snd n) else snd n)
         else ([], []))"

definition IPNet_Contains :: "ipnet \<Rightarrow> 8 word list \<Rightarrow> bool" where
  "IPNet_Contains n addr =
     (let (nn, m) = networkNumberAndMask n;
          ip = (case IP_To4 addr of Some x \<Rightarrow> x | None \<Rightarrow> addr)
      in length ip = length nn \<and>
         list_all (\<lambda>(a, b, k). and a k = and b k) (zip nn (zip ip m)))"

section \<open>The functions\<close>

datatype cond_function =
    StringEqualsFunc key "string list"
  | StringNotEqualsFunc key "string list"
  | StringEqualsIgnoreCaseFunc key "string list"
  | StringNotEqualsIgnoreCaseFunc key "string list"
  | BinaryEqualsFunc key "string list"
  | StringLikeFunc key "string list"
  | StringNotLikeFunc key "string list"
  | IPAddressFunc key "ipnet list"
  | NotIPAddressFunc key "ipnet list"
  | NullFunc key bool
  | BooleanFunc key string
  | NumericEqualsFunc key int
  | NumericNotEqualsFunc key int
  | NumericLessThanFunc key int
  | NumericLessThanEqualsFunc key int
  | NumericGreaterThanFunc key int
  | NumericGreaterThanEqualsFunc key int
  | DateEqualsFunc key gotime
  | DateNotEqualsFunc key gotime
  | DateLessThanFunc key gotime
  | DateLessThanEqualsFunc key gotime
  | DateGreaterThanFunc key gotime
  | DateGreaterThanEqualsFunc key gotime

datatype cond_error =
    ErrNotString | ErrInvalidValue | ErrBucketName | ErrKeyNotAllowed | ErrOneValue
  | ErrNotBool | ErrNotInt | ErrNotTime | ErrNotCIDR | ErrBase64
  | ErrEmptyCondition | ErrName string | ErrKey string

text \<open>What every \<^verbatim>\<open>evaluate\<close> does first: the canonical header name, then the plain name.\<close>

definition requestValue :: "key \<Rightarrow> cond_values \<Rightarrow> string list" where
  "requestValue k values =
     (case values (CanonicalHeaderKey (Key_Name k)) of
        Some v \<Rightarrow> v
      | None \<Rightarrow> (case values (Key_Name k) of Some v \<Rightarrow> v | None \<Rightarrow> []))"

text \<open>
  \<^verbatim>\<open>f.values.ApplyFunc(substFuncFromValues(values))\<close>: the callback runs on every element, so the
  panic of one is the panic of the call.
\<close>

definition apply_subst :: "libs \<Rightarrow> cond_values \<Rightarrow> string list \<Rightarrow> string list option" where
  "apply_subst L values vs =
     (if list_ex (\<lambda>v. substFuncFromValues values v = None) vs then None
      else Some (ApplyFunc L (\<lambda>v. the (substFuncFromValues values v)) vs))"

subsection \<open>\<^verbatim>\<open>stringequalsfunc.go\<close>\<close>

definition toStringEqualsFuncString :: "libs \<Rightarrow> cond_name \<Rightarrow> key \<Rightarrow> string list \<Rightarrow> string" where
  "toStringEqualsFuncString L n k vs =
     show_triple (name_string n) k (show_slice (sort (ToSlice L vs)))"

definition stringEqualsFunc_evaluate ::
    "libs \<Rightarrow> key \<Rightarrow> string list \<Rightarrow> cond_values \<Rightarrow> bool option" where
  "stringEqualsFunc_evaluate L k vs values =
     (case apply_subst L values vs of
        None \<Rightarrow> None
      | Some fvalues \<Rightarrow>
          Some (\<not> StringSet_IsEmpty L
            (Intersection L fvalues (CreateStringSet L (requestValue k values)))))"

definition stringNotEqualsFunc_evaluate ::
    "libs \<Rightarrow> key \<Rightarrow> string list \<Rightarrow> cond_values \<Rightarrow> bool option" where
  "stringNotEqualsFunc_evaluate L k vs values =
     map_option Not (stringEqualsFunc_evaluate L k vs values)"

definition stringEqualsFunc_toMap :: "libs \<Rightarrow> key \<Rightarrow> string list \<Rightarrow> (key \<times> value_set) list" where
  "stringEqualsFunc_toMap L k vs =
     (if \<not> Key_IsValid k then [] else [(k, NewValueSet (map StringValue (ToSlice L vs)))])"

fun valuesToStringSlice :: "value_set \<Rightarrow> cond_error + string list" where
  "valuesToStringSlice [] = Inr []"
| "valuesToStringSlice (v # vs) =
     (case Value_GetString v of
        None \<Rightarrow> Inl ErrNotString
      | Some s \<Rightarrow>
          (case valuesToStringSlice vs of Inl e \<Rightarrow> Inl e | Inr ss \<Rightarrow> Inr (s # ss)))"

text \<open>The check of one value, and the loop over the slice of the set.\<close>

definition validateStringEqualsValue :: "libs \<Rightarrow> key \<Rightarrow> string \<Rightarrow> cond_error option" where
  "validateStringEqualsValue L k s =
     (if k = S3XAmzCopySource then
        (let (bucket, object) = path2BucketAndObject s
         in if object = '''' then Some ErrInvalidValue
            else if \<not> CheckValidBucketName L bucket then Some ErrBucketName else None)
      else if k = S3XAmzServerSideEncryption \<or> k = S3XAmzServerSideEncryptionCustomerAlgorithm then
        (if s \<noteq> ''AES256'' then Some ErrInvalidValue else None)
      else if k = S3XAmzMetadataDirective then
        (if s \<noteq> ''COPY'' \<and> s \<noteq> ''REPLACE'' then Some ErrInvalidValue else None)
      else if k = S3XAmzContentSha256 then
        (if s = '''' then Some ErrInvalidValue else None)
      else None)"

fun first_error :: "('a \<Rightarrow> 'e option) \<Rightarrow> 'a list \<Rightarrow> 'e option" where
  "first_error chk [] = None"
| "first_error chk (x # xs) = (case chk x of Some e \<Rightarrow> Some e | None \<Rightarrow> first_error chk xs)"

definition validateStringEqualsValues :: "libs \<Rightarrow> key \<Rightarrow> string list \<Rightarrow> cond_error option" where
  "validateStringEqualsValues L k vs = first_error (validateStringEqualsValue L k) (ToSlice L vs)"

definition NewStringEqualsFunc :: "libs \<Rightarrow> key \<Rightarrow> string list \<Rightarrow> cond_error + cond_function" where
  "NewStringEqualsFunc L k values =
     (let sset = CreateStringSet L values
      in case validateStringEqualsValues L k sset of
           Some e \<Rightarrow> Inl e
         | None \<Rightarrow> Inr (StringEqualsFunc k sset))"

definition NewStringNotEqualsFunc :: "libs \<Rightarrow> key \<Rightarrow> string list \<Rightarrow> cond_error + cond_function" where
  "NewStringNotEqualsFunc L k values =
     (let sset = CreateStringSet L values
      in case validateStringEqualsValues L k sset of
           Some e \<Rightarrow> Inl e
         | None \<Rightarrow> Inr (StringNotEqualsFunc k sset))"

definition newStringEqualsFunc :: "libs \<Rightarrow> key \<Rightarrow> value_set \<Rightarrow> cond_error + cond_function" where
  "newStringEqualsFunc L k values =
     (case valuesToStringSlice values of Inl e \<Rightarrow> Inl e | Inr ss \<Rightarrow> NewStringEqualsFunc L k ss)"

definition newStringNotEqualsFunc :: "libs \<Rightarrow> key \<Rightarrow> value_set \<Rightarrow> cond_error + cond_function" where
  "newStringNotEqualsFunc L k values =
     (case valuesToStringSlice values of Inl e \<Rightarrow> Inl e | Inr ss \<Rightarrow> NewStringNotEqualsFunc L k ss)"

subsection \<open>\<^verbatim>\<open>stringequalsignorecasefunc.go\<close>\<close>

definition stringEqualsIgnoreCaseFunc_evaluate ::
    "libs \<Rightarrow> key \<Rightarrow> string list \<Rightarrow> cond_values \<Rightarrow> bool option" where
  "stringEqualsIgnoreCaseFunc_evaluate L k vs values =
     (case apply_subst L values vs of
        None \<Rightarrow> None
      | Some fvalues \<Rightarrow>
          Some (list_ex (\<lambda>v. \<not> StringSet_IsEmpty L (FuncMatch L (EqualFold L) v fvalues))
            (requestValue k values)))"

definition stringNotEqualsIgnoreCaseFunc_evaluate ::
    "libs \<Rightarrow> key \<Rightarrow> string list \<Rightarrow> cond_values \<Rightarrow> bool option" where
  "stringNotEqualsIgnoreCaseFunc_evaluate L k vs values =
     map_option Not (stringEqualsIgnoreCaseFunc_evaluate L k vs values)"

definition stringEqualsIgnoreCaseFunc_toMap ::
    "libs \<Rightarrow> key \<Rightarrow> string list \<Rightarrow> (key \<times> value_set) list" where
  "stringEqualsIgnoreCaseFunc_toMap L k vs =
     (if \<not> Key_IsValid k then [] else [(k, NewValueSet (map StringValue (ToSlice L vs)))])"

definition newStringEqualsIgnoreCaseFunc ::
    "libs \<Rightarrow> key \<Rightarrow> value_set \<Rightarrow> cond_error + cond_function" where
  "newStringEqualsIgnoreCaseFunc L k values =
     (case valuesToStringSlice values of
        Inl e \<Rightarrow> Inl e
      | Inr ss \<Rightarrow>
          (let sset = CreateStringSet L ss
           in case validateStringEqualsValues L k sset of
                Some e \<Rightarrow> Inl e
              | None \<Rightarrow> Inr (StringEqualsIgnoreCaseFunc k sset)))"

definition newStringNotEqualsIgnoreCaseFunc ::
    "libs \<Rightarrow> key \<Rightarrow> value_set \<Rightarrow> cond_error + cond_function" where
  "newStringNotEqualsIgnoreCaseFunc L k values =
     (case valuesToStringSlice values of
        Inl e \<Rightarrow> Inl e
      | Inr ss \<Rightarrow>
          (let sset = CreateStringSet L ss
           in case validateStringEqualsValues L k sset of
                Some e \<Rightarrow> Inl e
              | None \<Rightarrow> Inr (StringNotEqualsIgnoreCaseFunc k sset)))"

subsection \<open>\<^verbatim>\<open>binaryequalsfunc.go\<close>\<close>

definition binaryEqualsFunc_evaluate ::
    "libs \<Rightarrow> key \<Rightarrow> string list \<Rightarrow> cond_values \<Rightarrow> bool option" where
  "binaryEqualsFunc_evaluate L k vs values =
     (case apply_subst L values vs of
        None \<Rightarrow> None
      | Some fvalues \<Rightarrow>
          Some (\<not> StringSet_IsEmpty L
            (Intersection L fvalues (CreateStringSet L (requestValue k values)))))"

definition binaryEqualsFunc_toMap :: "libs \<Rightarrow> key \<Rightarrow> string list \<Rightarrow> (key \<times> value_set) list" where
  "binaryEqualsFunc_toMap L k vs =
     (if \<not> Key_IsValid k then []
      else [(k, NewValueSet (map (\<lambda>v. StringValue (Base64Encode L v)) (ToSlice L vs)))])"

text \<open>The loop replaces every value of the set by its decoding while it checks it.\<close>

fun binary_values :: "libs \<Rightarrow> key \<Rightarrow> string list \<Rightarrow> string list \<Rightarrow> cond_error + string list" where
  "binary_values L k values [] = Inr values"
| "binary_values L k values (s # ss) =
     (case Base64Decode L s of
        None \<Rightarrow> Inl ErrBase64
      | Some d \<Rightarrow>
          (case validateStringEqualsValue L k d of
             Some e \<Rightarrow> Inl e
           | None \<Rightarrow>
               binary_values L k (StringSet_Add L (StringSet_Remove L values s) d) ss))"

definition validateBinaryEqualsValues ::
    "libs \<Rightarrow> key \<Rightarrow> string list \<Rightarrow> cond_error + string list" where
  "validateBinaryEqualsValues L k values = binary_values L k values (ToSlice L values)"

definition newBinaryEqualsFunc :: "libs \<Rightarrow> key \<Rightarrow> value_set \<Rightarrow> cond_error + cond_function" where
  "newBinaryEqualsFunc L k values =
     (case valuesToStringSlice values of
        Inl e \<Rightarrow> Inl e
      | Inr ss \<Rightarrow>
          (case validateBinaryEqualsValues L k (CreateStringSet L ss) of
             Inl e \<Rightarrow> Inl e
           | Inr sset \<Rightarrow> Inr (BinaryEqualsFunc k sset)))"

subsection \<open>\<^verbatim>\<open>stringlikefunc.go\<close>\<close>

definition toStringLikeFuncString :: "libs \<Rightarrow> cond_name \<Rightarrow> key \<Rightarrow> string list \<Rightarrow> string" where
  "toStringLikeFuncString L n k vs =
     show_triple (name_string n) k (show_slice (sort (ToSlice L vs)))"

text \<open>\<^verbatim>\<open>wildcard.Match\<close> as a callback; it never panics (\<^verbatim>\<open>Wildcard.thy\<close>).\<close>

definition wildcard_matches :: "string \<Rightarrow> string \<Rightarrow> bool" where
  "wildcard_matches pattern name \<longleftrightarrow> Match pattern name = Some True"

definition stringLikeFunc_evaluate ::
    "libs \<Rightarrow> key \<Rightarrow> string list \<Rightarrow> cond_values \<Rightarrow> bool option" where
  "stringLikeFunc_evaluate L k vs values =
     (case apply_subst L values vs of
        None \<Rightarrow> None
      | Some fvalues \<Rightarrow>
          Some (list_ex (\<lambda>v. \<not> StringSet_IsEmpty L (FuncMatch L wildcard_matches v fvalues))
            (requestValue k values)))"

definition stringNotLikeFunc_evaluate ::
    "libs \<Rightarrow> key \<Rightarrow> string list \<Rightarrow> cond_values \<Rightarrow> bool option" where
  "stringNotLikeFunc_evaluate L k vs values =
     map_option Not (stringLikeFunc_evaluate L k vs values)"

definition stringLikeFunc_toMap :: "libs \<Rightarrow> key \<Rightarrow> string list \<Rightarrow> (key \<times> value_set) list" where
  "stringLikeFunc_toMap L k vs =
     (if \<not> Key_IsValid k then [] else [(k, NewValueSet (map StringValue (ToSlice L vs)))])"

definition validateStringLikeValues :: "libs \<Rightarrow> key \<Rightarrow> string list \<Rightarrow> cond_error option" where
  "validateStringLikeValues L k vs =
     first_error
       (\<lambda>s. if k = S3XAmzCopySource then
              (let (bucket, object) = path2BucketAndObject s
               in if object = '''' then Some ErrInvalidValue
                  else if \<not> CheckValidBucketName L bucket then Some ErrBucketName else None)
            else None)
       (ToSlice L vs)"

definition newStringLikeFunc :: "libs \<Rightarrow> key \<Rightarrow> value_set \<Rightarrow> cond_error + cond_function" where
  "newStringLikeFunc L k values =
     (case valuesToStringSlice values of
        Inl e \<Rightarrow> Inl e
      | Inr ss \<Rightarrow>
          (let sset = CreateStringSet L ss
           in case validateStringLikeValues L k sset of
                Some e \<Rightarrow> Inl e
              | None \<Rightarrow> Inr (StringLikeFunc k sset)))"

definition newStringNotLikeFunc :: "libs \<Rightarrow> key \<Rightarrow> value_set \<Rightarrow> cond_error + cond_function" where
  "newStringNotLikeFunc L k values =
     (case valuesToStringSlice values of
        Inl e \<Rightarrow> Inl e
      | Inr ss \<Rightarrow>
          (let sset = CreateStringSet L ss
           in case validateStringLikeValues L k sset of
                Some e \<Rightarrow> Inl e
              | None \<Rightarrow> Inr (StringNotLikeFunc k sset)))"

subsection \<open>\<^verbatim>\<open>ipaddressfunc.go\<close>\<close>

definition toIPAddressFuncString :: "libs \<Rightarrow> cond_name \<Rightarrow> key \<Rightarrow> ipnet list \<Rightarrow> string" where
  "toIPAddressFuncString L n k nets =
     show_triple (name_string n) k (show_slice (sort (map (IPNet_String L) nets)))"

definition ipAddressFunc_evaluate ::
    "libs \<Rightarrow> key \<Rightarrow> ipnet list \<Rightarrow> cond_values \<Rightarrow> bool option" where
  "ipAddressFunc_evaluate L k nets values =
     (let ips = map (ParseIP L) (requestValue k values)
      in if list_ex (\<lambda>ip. ip = None) ips then None
         else Some (list_ex (\<lambda>ip. list_ex (\<lambda>net. IPNet_Contains net (the ip)) nets) ips))"

definition notIPAddressFunc_evaluate ::
    "libs \<Rightarrow> key \<Rightarrow> ipnet list \<Rightarrow> cond_values \<Rightarrow> bool option" where
  "notIPAddressFunc_evaluate L k nets values =
     map_option Not (ipAddressFunc_evaluate L k nets values)"

definition ipAddressFunc_toMap :: "libs \<Rightarrow> key \<Rightarrow> ipnet list \<Rightarrow> (key \<times> value_set) list" where
  "ipAddressFunc_toMap L k nets =
     (if \<not> Key_IsValid k then []
      else [(k, NewValueSet (map (\<lambda>n. StringValue (IPNet_String L n)) nets))])"

fun valuesToIPNets :: "libs \<Rightarrow> value_set \<Rightarrow> cond_error + ipnet list" where
  "valuesToIPNets L [] = Inr []"
| "valuesToIPNets L (v # vs) =
     (case Value_GetString v of
        None \<Rightarrow> Inl ErrNotString
      | Some s \<Rightarrow>
          (case ParseCIDR L s of
             None \<Rightarrow> Inl ErrNotCIDR
           | Some n \<Rightarrow>
               (case valuesToIPNets L vs of Inl e \<Rightarrow> Inl e | Inr ns \<Rightarrow> Inr (n # ns))))"

definition newIPAddressFunc :: "libs \<Rightarrow> key \<Rightarrow> value_set \<Rightarrow> cond_error + cond_function" where
  "newIPAddressFunc L k values =
     (case valuesToIPNets L values of
        Inl e \<Rightarrow> Inl e
      | Inr nets \<Rightarrow> if k \<noteq> AWSSourceIP then Inl ErrKeyNotAllowed else Inr (IPAddressFunc k nets))"

definition newNotIPAddressFunc :: "libs \<Rightarrow> key \<Rightarrow> value_set \<Rightarrow> cond_error + cond_function" where
  "newNotIPAddressFunc L k values =
     (case valuesToIPNets L values of
        Inl e \<Rightarrow> Inl e
      | Inr nets \<Rightarrow> if k \<noteq> AWSSourceIP then Inl ErrKeyNotAllowed else Inr (NotIPAddressFunc k nets))"

subsection \<open>\<^verbatim>\<open>nullfunc.go\<close> and \<^verbatim>\<open>boolfunc.go\<close>\<close>

definition nullFunc_evaluate :: "key \<Rightarrow> bool \<Rightarrow> cond_values \<Rightarrow> bool" where
  "nullFunc_evaluate k value values =
     (if value then length (requestValue k values) = 0 else length (requestValue k values) \<noteq> 0)"

definition nullFunc_toMap :: "key \<Rightarrow> bool \<Rightarrow> (key \<times> value_set) list" where
  "nullFunc_toMap k value = (if \<not> Key_IsValid k then [] else [(k, NewValueSet [BoolValue value])])"

definition newNullFunc :: "key \<Rightarrow> value_set \<Rightarrow> cond_error + cond_function" where
  "newNullFunc k values =
     (case values of
        [v] \<Rightarrow>
          (case v of
             BoolValue b \<Rightarrow> Inr (NullFunc k b)
           | StringValue s \<Rightarrow>
               (case ParseBool s of None \<Rightarrow> Inl ErrNotBool | Some b \<Rightarrow> Inr (NullFunc k b))
           | IntValue _ \<Rightarrow> Inl ErrNotBool)
      | _ \<Rightarrow> Inl ErrOneValue)"

definition booleanFunc_evaluate :: "key \<Rightarrow> string \<Rightarrow> cond_values \<Rightarrow> bool" where
  "booleanFunc_evaluate k value values =
     (case requestValue k values of [] \<Rightarrow> False | r # _ \<Rightarrow> value = r)"

definition booleanFunc_toMap :: "key \<Rightarrow> string \<Rightarrow> (key \<times> value_set) list" where
  "booleanFunc_toMap k value =
     (if \<not> Key_IsValid k then [] else [(k, NewValueSet [StringValue value])])"

definition newBooleanFunc :: "key \<Rightarrow> value_set \<Rightarrow> cond_error + cond_function" where
  "newBooleanFunc k values =
     (if k \<noteq> AWSSecureTransport then Inl ErrKeyNotAllowed
      else case values of
        [v] \<Rightarrow>
          (case v of
             BoolValue b \<Rightarrow> Inr (BooleanFunc k (Value_String v))
           | StringValue s \<Rightarrow>
               (case ParseBool s of
                  None \<Rightarrow> Inl ErrNotBool
                | Some _ \<Rightarrow> Inr (BooleanFunc k (Value_String v)))
           | IntValue _ \<Rightarrow> Inl ErrNotBool)
      | _ \<Rightarrow> Inl ErrOneValue)"

subsection \<open>\<^verbatim>\<open>numericequalsfunc.go\<close>, \<^verbatim>\<open>numericlessfunc.go\<close>, \<^verbatim>\<open>numericgreaterfunc.go\<close>\<close>

definition toNumericEqualsFuncString :: "cond_name \<Rightarrow> key \<Rightarrow> int \<Rightarrow> string" where
  "toNumericEqualsFuncString n k value = show_triple (name_string n) k (Itoa value)"

definition numericEqualsFunc_evaluate :: "key \<Rightarrow> int \<Rightarrow> cond_values \<Rightarrow> bool" where
  "numericEqualsFunc_evaluate k value values =
     (case requestValue k values of
        [] \<Rightarrow> False
      | r # _ \<Rightarrow> (case Atoi r of None \<Rightarrow> False | Some rvInt \<Rightarrow> value = rvInt))"

definition numericNotEqualsFunc_evaluate :: "key \<Rightarrow> int \<Rightarrow> cond_values \<Rightarrow> bool" where
  "numericNotEqualsFunc_evaluate k value values = (\<not> numericEqualsFunc_evaluate k value values)"

definition numericEqualsFunc_toMap :: "key \<Rightarrow> int \<Rightarrow> (key \<times> value_set) list" where
  "numericEqualsFunc_toMap k value =
     (if \<not> Key_IsValid k then [] else [(k, NewValueSet [IntValue value])])"

definition valueToInt :: "value_set \<Rightarrow> cond_error + int" where
  "valueToInt values =
     (case values of
        [v] \<Rightarrow>
          (case v of
             IntValue i \<Rightarrow> Inr i
           | StringValue s \<Rightarrow> (case Atoi s of None \<Rightarrow> Inl ErrNotInt | Some i \<Rightarrow> Inr i)
           | BoolValue _ \<Rightarrow> Inl ErrNotInt)
      | _ \<Rightarrow> Inl ErrOneValue)"

definition newNumericEqualsFunc :: "key \<Rightarrow> value_set \<Rightarrow> cond_error + cond_function" where
  "newNumericEqualsFunc k values = map_sum id (NumericEqualsFunc k) (valueToInt values)"

definition newNumericNotEqualsFunc :: "key \<Rightarrow> value_set \<Rightarrow> cond_error + cond_function" where
  "newNumericNotEqualsFunc k values = map_sum id (NumericNotEqualsFunc k) (valueToInt values)"

definition numericLessThanFunc_evaluate :: "key \<Rightarrow> int \<Rightarrow> cond_values \<Rightarrow> bool" where
  "numericLessThanFunc_evaluate k value values =
     (case requestValue k values of
        [] \<Rightarrow> False
      | r # _ \<Rightarrow> (case Atoi r of None \<Rightarrow> False | Some rvInt \<Rightarrow> rvInt < value))"

definition numericLessThanEqualsFunc_evaluate :: "key \<Rightarrow> int \<Rightarrow> cond_values \<Rightarrow> bool" where
  "numericLessThanEqualsFunc_evaluate k value values =
     (case requestValue k values of
        [] \<Rightarrow> False
      | r # _ \<Rightarrow> (case Atoi r of None \<Rightarrow> False | Some rvInt \<Rightarrow> rvInt \<le> value))"

definition numericLessThanFunc_toMap :: "key \<Rightarrow> int \<Rightarrow> (key \<times> value_set) list" where
  "numericLessThanFunc_toMap k value =
     (if \<not> Key_IsValid k then [] else [(k, NewValueSet [IntValue value])])"

definition newNumericLessThanFunc :: "key \<Rightarrow> value_set \<Rightarrow> cond_error + cond_function" where
  "newNumericLessThanFunc k values = map_sum id (NumericLessThanFunc k) (valueToInt values)"

definition newNumericLessThanEqualsFunc :: "key \<Rightarrow> value_set \<Rightarrow> cond_error + cond_function" where
  "newNumericLessThanEqualsFunc k values =
     map_sum id (NumericLessThanEqualsFunc k) (valueToInt values)"

definition numericGreaterThanFunc_evaluate :: "key \<Rightarrow> int \<Rightarrow> cond_values \<Rightarrow> bool" where
  "numericGreaterThanFunc_evaluate k value values =
     (case requestValue k values of
        [] \<Rightarrow> False
      | r # _ \<Rightarrow> (case Atoi r of None \<Rightarrow> False | Some rvInt \<Rightarrow> rvInt > value))"

definition numericGreaterThanEqualsFunc_evaluate :: "key \<Rightarrow> int \<Rightarrow> cond_values \<Rightarrow> bool" where
  "numericGreaterThanEqualsFunc_evaluate k value values =
     (case requestValue k values of
        [] \<Rightarrow> False
      | r # _ \<Rightarrow> (case Atoi r of None \<Rightarrow> False | Some rvInt \<Rightarrow> rvInt \<ge> value))"

definition numericGreaterThanFunc_toMap :: "key \<Rightarrow> int \<Rightarrow> (key \<times> value_set) list" where
  "numericGreaterThanFunc_toMap k value =
     (if \<not> Key_IsValid k then [] else [(k, NewValueSet [IntValue value])])"

definition newNumericGreaterThanFunc :: "key \<Rightarrow> value_set \<Rightarrow> cond_error + cond_function" where
  "newNumericGreaterThanFunc k values =
     map_sum id (NumericGreaterThanFunc k) (valueToInt values)"

definition newNumericGreaterThanEqualsFunc :: "key \<Rightarrow> value_set \<Rightarrow> cond_error + cond_function" where
  "newNumericGreaterThanEqualsFunc k values =
     map_sum id (NumericGreaterThanEqualsFunc k) (valueToInt values)"

subsection \<open>\<^verbatim>\<open>dateequalsfunc.go\<close>, \<^verbatim>\<open>datelessthanfunc.go\<close>, \<^verbatim>\<open>dategreaterthanfunc.go\<close>\<close>

definition toDateEqualsFuncString :: "libs \<Rightarrow> cond_name \<Rightarrow> key \<Rightarrow> gotime \<Rightarrow> string" where
  "toDateEqualsFuncString L n k value = show_triple (name_string n) k (FormatTime L value)"

text \<open>\<^verbatim>\<open>t.Equal\<close>, \<^verbatim>\<open>t.Before\<close> and \<^verbatim>\<open>t.After\<close> compare instants, whatever the zones.\<close>

definition dateEqualsFunc_evaluate :: "libs \<Rightarrow> key \<Rightarrow> gotime \<Rightarrow> cond_values \<Rightarrow> bool" where
  "dateEqualsFunc_evaluate L k value values =
     (case requestValue k values of
        [] \<Rightarrow> False
      | r # _ \<Rightarrow> (case ParseTime L r of None \<Rightarrow> False | Some t \<Rightarrow> fst value = fst t))"

definition dateNotEqualsFunc_evaluate :: "libs \<Rightarrow> key \<Rightarrow> gotime \<Rightarrow> cond_values \<Rightarrow> bool" where
  "dateNotEqualsFunc_evaluate L k value values = (\<not> dateEqualsFunc_evaluate L k value values)"

definition dateEqualsFunc_toMap :: "libs \<Rightarrow> key \<Rightarrow> gotime \<Rightarrow> (key \<times> value_set) list" where
  "dateEqualsFunc_toMap L k value =
     (if \<not> Key_IsValid k then [] else [(k, NewValueSet [StringValue (FormatTime L value)])])"

definition valueToTime :: "libs \<Rightarrow> value_set \<Rightarrow> cond_error + gotime" where
  "valueToTime L values =
     (case values of
        [v] \<Rightarrow>
          (case v of
             StringValue s \<Rightarrow> (case ParseTime L s of None \<Rightarrow> Inl ErrNotTime | Some t \<Rightarrow> Inr t)
           | _ \<Rightarrow> Inl ErrNotTime)
      | _ \<Rightarrow> Inl ErrOneValue)"

definition newDateEqualsFunc :: "libs \<Rightarrow> key \<Rightarrow> value_set \<Rightarrow> cond_error + cond_function" where
  "newDateEqualsFunc L k values = map_sum id (DateEqualsFunc k) (valueToTime L values)"

definition newDateNotEqualsFunc :: "libs \<Rightarrow> key \<Rightarrow> value_set \<Rightarrow> cond_error + cond_function" where
  "newDateNotEqualsFunc L k values = map_sum id (DateNotEqualsFunc k) (valueToTime L values)"

definition dateLessThanFunc_evaluate :: "libs \<Rightarrow> key \<Rightarrow> gotime \<Rightarrow> cond_values \<Rightarrow> bool" where
  "dateLessThanFunc_evaluate L k value values =
     (case requestValue k values of
        [] \<Rightarrow> False
      | r # _ \<Rightarrow> (case ParseTime L r of None \<Rightarrow> False | Some t \<Rightarrow> fst t < fst value))"

definition dateLessThanEqualsFunc_evaluate :: "libs \<Rightarrow> key \<Rightarrow> gotime \<Rightarrow> cond_values \<Rightarrow> bool" where
  "dateLessThanEqualsFunc_evaluate L k value values =
     (case requestValue k values of
        [] \<Rightarrow> False
      | r # _ \<Rightarrow>
          (case ParseTime L r of
             None \<Rightarrow> False
           | Some t \<Rightarrow> fst t < fst value \<or> fst t = fst value))"

definition dateLessThanFunc_toMap :: "libs \<Rightarrow> key \<Rightarrow> gotime \<Rightarrow> (key \<times> value_set) list" where
  "dateLessThanFunc_toMap L k value =
     (if \<not> Key_IsValid k then [] else [(k, NewValueSet [StringValue (FormatTime L value)])])"

text \<open>\<^verbatim>\<open>dateLessThanEqualsFunc.String\<close> prints the name \<^verbatim>\<open>DateNotEquals\<close>.\<close>

definition dateLessThanEqualsFunc_String :: "libs \<Rightarrow> key \<Rightarrow> gotime \<Rightarrow> string" where
  "dateLessThanEqualsFunc_String L k value = toDateEqualsFuncString L dateNotEquals k value"

definition newDateLessThanFunc :: "libs \<Rightarrow> key \<Rightarrow> value_set \<Rightarrow> cond_error + cond_function" where
  "newDateLessThanFunc L k values = map_sum id (DateLessThanFunc k) (valueToTime L values)"

definition newDateLessThanEqualsFunc :: "libs \<Rightarrow> key \<Rightarrow> value_set \<Rightarrow> cond_error + cond_function" where
  "newDateLessThanEqualsFunc L k values =
     map_sum id (DateLessThanEqualsFunc k) (valueToTime L values)"

definition dateGreaterThanFunc_evaluate :: "libs \<Rightarrow> key \<Rightarrow> gotime \<Rightarrow> cond_values \<Rightarrow> bool" where
  "dateGreaterThanFunc_evaluate L k value values =
     (case requestValue k values of
        [] \<Rightarrow> False
      | r # _ \<Rightarrow> (case ParseTime L r of None \<Rightarrow> False | Some t \<Rightarrow> fst t > fst value))"

definition dateGreaterThanEqualsFunc_evaluate ::
    "libs \<Rightarrow> key \<Rightarrow> gotime \<Rightarrow> cond_values \<Rightarrow> bool" where
  "dateGreaterThanEqualsFunc_evaluate L k value values =
     (case requestValue k values of
        [] \<Rightarrow> False
      | r # _ \<Rightarrow>
          (case ParseTime L r of
             None \<Rightarrow> False
           | Some t \<Rightarrow> fst t > fst value \<or> fst t = fst value))"

definition dateGreaterThanFunc_toMap :: "libs \<Rightarrow> key \<Rightarrow> gotime \<Rightarrow> (key \<times> value_set) list" where
  "dateGreaterThanFunc_toMap L k value =
     (if \<not> Key_IsValid k then [] else [(k, NewValueSet [StringValue (FormatTime L value)])])"

definition dateGreaterThanEqualsFunc_String :: "libs \<Rightarrow> key \<Rightarrow> gotime \<Rightarrow> string" where
  "dateGreaterThanEqualsFunc_String L k value = toDateEqualsFuncString L dateNotEquals k value"

definition newDateGreaterThanFunc :: "libs \<Rightarrow> key \<Rightarrow> value_set \<Rightarrow> cond_error + cond_function" where
  "newDateGreaterThanFunc L k values = map_sum id (DateGreaterThanFunc k) (valueToTime L values)"

definition newDateGreaterThanEqualsFunc ::
    "libs \<Rightarrow> key \<Rightarrow> value_set \<Rightarrow> cond_error + cond_function" where
  "newDateGreaterThanEqualsFunc L k values =
     map_sum id (DateGreaterThanEqualsFunc k) (valueToTime L values)"

end
