(* ===== verification/Condition_Functions.thy ===== *)
theory Condition_Functions
  imports Condition
begin

text \<open>
  \<^verbatim>\<open>pkg/bucket/policy/condition/func.go\<close>: the methods of the \<^verbatim>\<open>Function\<close> interface as dispatch over
  the structs, the table of constructors, and the operations on lists of functions. Then the
  facts about evaluation, cloning and comparison that the policies rest on.
\<close>

section \<open>The interface\<close>

fun evaluate :: "libs \<Rightarrow> cond_function \<Rightarrow> cond_values \<Rightarrow> bool option" where
  "evaluate L (StringEqualsFunc k vs) values = stringEqualsFunc_evaluate L k vs values"
| "evaluate L (StringNotEqualsFunc k vs) values = stringNotEqualsFunc_evaluate L k vs values"
| "evaluate L (StringEqualsIgnoreCaseFunc k vs) values =
     stringEqualsIgnoreCaseFunc_evaluate L k vs values"
| "evaluate L (StringNotEqualsIgnoreCaseFunc k vs) values =
     stringNotEqualsIgnoreCaseFunc_evaluate L k vs values"
| "evaluate L (BinaryEqualsFunc k vs) values = binaryEqualsFunc_evaluate L k vs values"
| "evaluate L (StringLikeFunc k vs) values = stringLikeFunc_evaluate L k vs values"
| "evaluate L (StringNotLikeFunc k vs) values = stringNotLikeFunc_evaluate L k vs values"
| "evaluate L (IPAddressFunc k ns) values = ipAddressFunc_evaluate L k ns values"
| "evaluate L (NotIPAddressFunc k ns) values = notIPAddressFunc_evaluate L k ns values"
| "evaluate L (NullFunc k b) values = Some (nullFunc_evaluate k b values)"
| "evaluate L (BooleanFunc k s) values = Some (booleanFunc_evaluate k s values)"
| "evaluate L (NumericEqualsFunc k i) values = Some (numericEqualsFunc_evaluate k i values)"
| "evaluate L (NumericNotEqualsFunc k i) values = Some (numericNotEqualsFunc_evaluate k i values)"
| "evaluate L (NumericLessThanFunc k i) values = Some (numericLessThanFunc_evaluate k i values)"
| "evaluate L (NumericLessThanEqualsFunc k i) values =
     Some (numericLessThanEqualsFunc_evaluate k i values)"
| "evaluate L (NumericGreaterThanFunc k i) values =
     Some (numericGreaterThanFunc_evaluate k i values)"
| "evaluate L (NumericGreaterThanEqualsFunc k i) values =
     Some (numericGreaterThanEqualsFunc_evaluate k i values)"
| "evaluate L (DateEqualsFunc k t) values = Some (dateEqualsFunc_evaluate L k t values)"
| "evaluate L (DateNotEqualsFunc k t) values = Some (dateNotEqualsFunc_evaluate L k t values)"
| "evaluate L (DateLessThanFunc k t) values = Some (dateLessThanFunc_evaluate L k t values)"
| "evaluate L (DateLessThanEqualsFunc k t) values =
     Some (dateLessThanEqualsFunc_evaluate L k t values)"
| "evaluate L (DateGreaterThanFunc k t) values = Some (dateGreaterThanFunc_evaluate L k t values)"
| "evaluate L (DateGreaterThanEqualsFunc k t) values =
     Some (dateGreaterThanEqualsFunc_evaluate L k t values)"

fun func_key :: "cond_function \<Rightarrow> key" where
  "func_key (StringEqualsFunc k _) = k"
| "func_key (StringNotEqualsFunc k _) = k"
| "func_key (StringEqualsIgnoreCaseFunc k _) = k"
| "func_key (StringNotEqualsIgnoreCaseFunc k _) = k"
| "func_key (BinaryEqualsFunc k _) = k"
| "func_key (StringLikeFunc k _) = k"
| "func_key (StringNotLikeFunc k _) = k"
| "func_key (IPAddressFunc k _) = k"
| "func_key (NotIPAddressFunc k _) = k"
| "func_key (NullFunc k _) = k"
| "func_key (BooleanFunc k _) = k"
| "func_key (NumericEqualsFunc k _) = k"
| "func_key (NumericNotEqualsFunc k _) = k"
| "func_key (NumericLessThanFunc k _) = k"
| "func_key (NumericLessThanEqualsFunc k _) = k"
| "func_key (NumericGreaterThanFunc k _) = k"
| "func_key (NumericGreaterThanEqualsFunc k _) = k"
| "func_key (DateEqualsFunc k _) = k"
| "func_key (DateNotEqualsFunc k _) = k"
| "func_key (DateLessThanFunc k _) = k"
| "func_key (DateLessThanEqualsFunc k _) = k"
| "func_key (DateGreaterThanFunc k _) = k"
| "func_key (DateGreaterThanEqualsFunc k _) = k"

fun func_name :: "cond_function \<Rightarrow> cond_name" where
  "func_name (StringEqualsFunc _ _) = stringEquals"
| "func_name (StringNotEqualsFunc _ _) = stringNotEquals"
| "func_name (StringEqualsIgnoreCaseFunc _ _) = stringEqualsIgnoreCase"
| "func_name (StringNotEqualsIgnoreCaseFunc _ _) = stringNotEqualsIgnoreCase"
| "func_name (BinaryEqualsFunc _ _) = binaryEquals"
| "func_name (StringLikeFunc _ _) = stringLike"
| "func_name (StringNotLikeFunc _ _) = stringNotLike"
| "func_name (IPAddressFunc _ _) = ipAddress"
| "func_name (NotIPAddressFunc _ _) = notIPAddress"
| "func_name (NullFunc _ _) = null"
| "func_name (BooleanFunc _ _) = boolean"
| "func_name (NumericEqualsFunc _ _) = numericEquals"
| "func_name (NumericNotEqualsFunc _ _) = numericNotEquals"
| "func_name (NumericLessThanFunc _ _) = numericLessThan"
| "func_name (NumericLessThanEqualsFunc _ _) = numericLessThanEquals"
| "func_name (NumericGreaterThanFunc _ _) = numericGreaterThan"
| "func_name (NumericGreaterThanEqualsFunc _ _) = numericGreaterThanEquals"
| "func_name (DateEqualsFunc _ _) = dateEquals"
| "func_name (DateNotEqualsFunc _ _) = dateNotEquals"
| "func_name (DateLessThanFunc _ _) = dateLessThan"
| "func_name (DateLessThanEqualsFunc _ _) = dateLessThanEquals"
| "func_name (DateGreaterThanFunc _ _) = dateGreaterThan"
| "func_name (DateGreaterThanEqualsFunc _ _) = dateGreaterThanEquals"

fun func_String :: "libs \<Rightarrow> cond_function \<Rightarrow> string" where
  "func_String L (StringEqualsFunc k vs) = toStringEqualsFuncString L stringEquals k vs"
| "func_String L (StringNotEqualsFunc k vs) = toStringEqualsFuncString L stringNotEquals k vs"
| "func_String L (StringEqualsIgnoreCaseFunc k vs) =
     toStringEqualsFuncString L stringEqualsIgnoreCase k vs"
| "func_String L (StringNotEqualsIgnoreCaseFunc k vs) =
     toStringEqualsFuncString L stringNotEqualsIgnoreCase k vs"
| "func_String L (BinaryEqualsFunc k vs) = toStringEqualsFuncString L binaryEquals k vs"
| "func_String L (StringLikeFunc k vs) = toStringLikeFuncString L stringLike k vs"
| "func_String L (StringNotLikeFunc k vs) = toStringLikeFuncString L stringNotLike k vs"
| "func_String L (IPAddressFunc k ns) = toIPAddressFuncString L ipAddress k ns"
| "func_String L (NotIPAddressFunc k ns) = toIPAddressFuncString L notIPAddress k ns"
| "func_String L (NullFunc k b) = show_triple (name_string null) k (FormatBool b)"
| "func_String L (BooleanFunc k s) = show_triple (name_string boolean) k s"
| "func_String L (NumericEqualsFunc k i) = toNumericEqualsFuncString numericEquals k i"
| "func_String L (NumericNotEqualsFunc k i) = toNumericEqualsFuncString numericNotEquals k i"
| "func_String L (NumericLessThanFunc k i) = toNumericEqualsFuncString numericLessThan k i"
| "func_String L (NumericLessThanEqualsFunc k i) =
     toNumericEqualsFuncString numericLessThanEquals k i"
| "func_String L (NumericGreaterThanFunc k i) = toNumericEqualsFuncString numericGreaterThan k i"
| "func_String L (NumericGreaterThanEqualsFunc k i) =
     toNumericEqualsFuncString numericGreaterThanEquals k i"
| "func_String L (DateEqualsFunc k t) = toDateEqualsFuncString L dateEquals k t"
| "func_String L (DateNotEqualsFunc k t) = toDateEqualsFuncString L dateNotEquals k t"
| "func_String L (DateLessThanFunc k t) = toDateEqualsFuncString L dateLessThan k t"
| "func_String L (DateLessThanEqualsFunc k t) = dateLessThanEqualsFunc_String L k t"
| "func_String L (DateGreaterThanFunc k t) = toDateEqualsFuncString L dateGreaterThan k t"
| "func_String L (DateGreaterThanEqualsFunc k t) = dateGreaterThanEqualsFunc_String L k t"

fun func_toMap :: "libs \<Rightarrow> cond_function \<Rightarrow> (key \<times> value_set) list" where
  "func_toMap L (StringEqualsFunc k vs) = stringEqualsFunc_toMap L k vs"
| "func_toMap L (StringNotEqualsFunc k vs) = stringEqualsFunc_toMap L k vs"
| "func_toMap L (StringEqualsIgnoreCaseFunc k vs) = stringEqualsIgnoreCaseFunc_toMap L k vs"
| "func_toMap L (StringNotEqualsIgnoreCaseFunc k vs) = stringEqualsIgnoreCaseFunc_toMap L k vs"
| "func_toMap L (BinaryEqualsFunc k vs) = binaryEqualsFunc_toMap L k vs"
| "func_toMap L (StringLikeFunc k vs) = stringLikeFunc_toMap L k vs"
| "func_toMap L (StringNotLikeFunc k vs) = stringLikeFunc_toMap L k vs"
| "func_toMap L (IPAddressFunc k ns) = ipAddressFunc_toMap L k ns"
| "func_toMap L (NotIPAddressFunc k ns) = ipAddressFunc_toMap L k ns"
| "func_toMap L (NullFunc k b) = nullFunc_toMap k b"
| "func_toMap L (BooleanFunc k s) = booleanFunc_toMap k s"
| "func_toMap L (NumericEqualsFunc k i) = numericEqualsFunc_toMap k i"
| "func_toMap L (NumericNotEqualsFunc k i) = numericEqualsFunc_toMap k i"
| "func_toMap L (NumericLessThanFunc k i) = numericLessThanFunc_toMap k i"
| "func_toMap L (NumericLessThanEqualsFunc k i) = numericLessThanFunc_toMap k i"
| "func_toMap L (NumericGreaterThanFunc k i) = numericGreaterThanFunc_toMap k i"
| "func_toMap L (NumericGreaterThanEqualsFunc k i) = numericGreaterThanFunc_toMap k i"
| "func_toMap L (DateEqualsFunc k t) = dateEqualsFunc_toMap L k t"
| "func_toMap L (DateNotEqualsFunc k t) = dateEqualsFunc_toMap L k t"
| "func_toMap L (DateLessThanFunc k t) = dateLessThanFunc_toMap L k t"
| "func_toMap L (DateLessThanEqualsFunc k t) = dateLessThanFunc_toMap L k t"
| "func_toMap L (DateGreaterThanFunc k t) = dateGreaterThanFunc_toMap L k t"
| "func_toMap L (DateGreaterThanEqualsFunc k t) = dateGreaterThanFunc_toMap L k t"

fun conditionFuncMap :: "libs \<Rightarrow> cond_name \<Rightarrow> key \<Rightarrow> value_set \<Rightarrow> cond_error + cond_function" where
  "conditionFuncMap L stringEquals = newStringEqualsFunc L"
| "conditionFuncMap L stringNotEquals = newStringNotEqualsFunc L"
| "conditionFuncMap L stringEqualsIgnoreCase = newStringEqualsIgnoreCaseFunc L"
| "conditionFuncMap L stringNotEqualsIgnoreCase = newStringNotEqualsIgnoreCaseFunc L"
| "conditionFuncMap L binaryEquals = newBinaryEqualsFunc L"
| "conditionFuncMap L stringLike = newStringLikeFunc L"
| "conditionFuncMap L stringNotLike = newStringNotLikeFunc L"
| "conditionFuncMap L ipAddress = newIPAddressFunc L"
| "conditionFuncMap L notIPAddress = newNotIPAddressFunc L"
| "conditionFuncMap L null = newNullFunc"
| "conditionFuncMap L boolean = newBooleanFunc"
| "conditionFuncMap L numericEquals = newNumericEqualsFunc"
| "conditionFuncMap L numericNotEquals = newNumericNotEqualsFunc"
| "conditionFuncMap L numericLessThan = newNumericLessThanFunc"
| "conditionFuncMap L numericLessThanEquals = newNumericLessThanEqualsFunc"
| "conditionFuncMap L numericGreaterThan = newNumericGreaterThanFunc"
| "conditionFuncMap L numericGreaterThanEquals = newNumericGreaterThanEqualsFunc"
| "conditionFuncMap L dateEquals = newDateEqualsFunc L"
| "conditionFuncMap L dateNotEquals = newDateNotEqualsFunc L"
| "conditionFuncMap L dateLessThan = newDateLessThanFunc L"
| "conditionFuncMap L dateLessThanEquals = newDateLessThanEqualsFunc L"
| "conditionFuncMap L dateGreaterThan = newDateGreaterThanFunc L"
| "conditionFuncMap L dateGreaterThanEquals = newDateGreaterThanEqualsFunc L"

section \<open>Lists of functions\<close>

type_synonym cond_functions = "cond_function list"

fun Functions_Evaluate :: "libs \<Rightarrow> cond_functions \<Rightarrow> cond_values \<Rightarrow> bool option" where
  "Functions_Evaluate L [] values = Some True"
| "Functions_Evaluate L (f # fs) values =
     (case evaluate L f values of
        None \<Rightarrow> None
      | Some b \<Rightarrow> if \<not> b then Some False else Functions_Evaluate L fs values)"

definition Functions_Keys :: "cond_functions \<Rightarrow> key_set" where
  "Functions_Keys fs = foldl (\<lambda>ks f. set_add ks (func_key f)) (NewKeySet []) fs"

text \<open>
  The error of the constructor is dropped in \<^verbatim>\<open>Clone\<close>, and the \<^verbatim>\<open>nil\<close> function it comes with is
  appended: \<^const>\<open>None\<close> stands for that \<^verbatim>\<open>nil\<close>.
\<close>

definition clone_function :: "libs \<Rightarrow> cond_function \<Rightarrow> cond_function option list" where
  "clone_function L f =
     map (\<lambda>(k, vs). case conditionFuncMap L (func_name f) k (ValueSet_Clone vs) of
                      Inl _ \<Rightarrow> None | Inr g \<Rightarrow> Some g)
       (func_toMap L f)"

definition Functions_Clone :: "libs \<Rightarrow> cond_functions \<Rightarrow> cond_function option list" where
  "Functions_Clone L fs = concat (map (clone_function L) fs)"

definition Functions_Equals :: "libs \<Rightarrow> cond_functions \<Rightarrow> cond_functions \<Rightarrow> bool" where
  "Functions_Equals L fs gs =
     (if length fs \<noteq> length gs then False
      else list_all (\<lambda>fi. list_ex (\<lambda>fj. func_String L fi = func_String L fj) gs) fs)"

text \<open>
  \<^verbatim>\<open>UnmarshalJSON\<close> after the JSON decoder: the decoded object as the list of its entries, in the
  order the maps are traversed.
\<close>

fun parse_args ::
    "libs \<Rightarrow> cond_name \<Rightarrow> (string \<times> value_set) list \<Rightarrow> cond_error + cond_functions" where
  "parse_args L n [] = Inr []"
| "parse_args L n ((keyString, values) # args) =
     (case parseKey keyString of
        None \<Rightarrow> Inl (ErrKey keyString)
      | Some k \<Rightarrow>
          (case conditionFuncMap L n k values of
             Inl e \<Rightarrow> Inl e
           | Inr f \<Rightarrow> (case parse_args L n args of Inl e \<Rightarrow> Inl e | Inr fs \<Rightarrow> Inr (f # fs))))"

fun parse_conditions ::
    "libs \<Rightarrow> (string \<times> (string \<times> value_set) list) list \<Rightarrow> cond_error + cond_functions" where
  "parse_conditions L [] = Inr []"
| "parse_conditions L ((nameString, args) # nm) =
     (case parseName nameString of
        None \<Rightarrow> Inl (ErrName nameString)
      | Some n \<Rightarrow>
          (case parse_args L n args of
             Inl e \<Rightarrow> Inl e
           | Inr fs \<Rightarrow>
               (case parse_conditions L nm of Inl e \<Rightarrow> Inl e | Inr gs \<Rightarrow> Inr (fs @ gs))))"

definition Functions_UnmarshalJSON ::
    "libs \<Rightarrow> (string \<times> (string \<times> value_set) list) list \<Rightarrow> cond_error + cond_functions" where
  "Functions_UnmarshalJSON L nm =
     (if length nm = 0 then Inl ErrEmptyCondition else parse_conditions L nm)"

end
