(* ===== verification/Condition_Facts.thy ===== *)
theory Condition_Facts
  imports Condition_Functions
begin

text \<open>
  What the condition functions compute: the meaning of policy variables and of the string
  operators, the order laws of the numeric ones, when an evaluation panics, and what cloning and
  comparing functions preserve.
\<close>

section \<open>Policy variables\<close>

definition no_empty_values :: "cond_values \<Rightarrow> bool" where
  "no_empty_values values \<longleftrightarrow> list_all (\<lambda>k. values (Key_Name k) \<noteq> Some []) CommonKeys"

definition expand_key :: "cond_values \<Rightarrow> string \<Rightarrow> key \<Rightarrow> string" where
  "expand_key values v k =
     (case values (Key_Name k) of
        Some (r # _) \<Rightarrow> if r \<noteq> '''' then ReplaceAll v (Key_VarName k) r else v
      | _ \<Rightarrow> v)"

definition expand :: "cond_values \<Rightarrow> string \<Rightarrow> string" where
  "expand values v = foldl (expand_key values) v CommonKeys"

lemma subst_keys_total:
  "list_all (\<lambda>k. values (Key_Name k) \<noteq> Some []) ks \<Longrightarrow>
     subst_keys values ks v = Some (foldl (expand_key values) v ks)"
  by (induction ks arbitrary: v) (auto simp: expand_key_def split: option.splits list.splits)

lemma substFuncFromValues_total:
  "no_empty_values values \<Longrightarrow> substFuncFromValues values v = Some (expand values v)"
  by (simp add: no_empty_values_def substFuncFromValues_def expand_def subst_keys_total)

lemma subst_keys_panic:
  "\<exists>k \<in> set ks. values (Key_Name k) = Some [] \<Longrightarrow> subst_keys values ks v = None"
  by (induction ks arbitrary: v) (auto split: option.splits list.splits)

lemma apply_subst_total:
  "no_empty_values values \<Longrightarrow> apply_subst L values vs = Some (ApplyFunc L (expand values) vs)"
proof -
  assume a: "no_empty_values values"
  then have "(\<lambda>v. the (substFuncFromValues values v)) = expand values"
    by (simp add: substFuncFromValues_total)
  with a show ?thesis by (simp add: apply_subst_def substFuncFromValues_total list_ex_iff)
qed

section \<open>What the string conditions mean\<close>

lemma stringEqualsFunc_evaluate_sem:
  "string_set_laws L \<Longrightarrow> no_empty_values values \<Longrightarrow>
     stringEqualsFunc_evaluate L k vs values =
       Some (\<exists>v \<in> set vs. expand values v \<in> set (requestValue k values))"
  by (auto simp: stringEqualsFunc_evaluate_def apply_subst_total string_set_lawsD)

lemma stringLikeFunc_evaluate_sem:
  "string_set_laws L \<Longrightarrow> no_empty_values values \<Longrightarrow>
     stringLikeFunc_evaluate L k vs values =
       Some (\<exists>r \<in> set (requestValue k values). \<exists>v \<in> set vs.
               globs (runes (expand values v)) (runes r))"
  by (auto simp: stringLikeFunc_evaluate_def apply_subst_total string_set_lawsD list_ex_iff
      wildcard_matches_def Match_globs)

lemma stringEqualsIgnoreCaseFunc_evaluate_sem:
  "string_set_laws L \<Longrightarrow> no_empty_values values \<Longrightarrow>
     stringEqualsIgnoreCaseFunc_evaluate L k vs values =
       Some (\<exists>r \<in> set (requestValue k values). \<exists>v \<in> set vs. EqualFold L (expand values v) r)"
  by (auto simp: stringEqualsIgnoreCaseFunc_evaluate_def apply_subst_total string_set_lawsD
      list_ex_iff)

lemma evaluate_total:
  assumes "no_empty_values values"
    and "func_name f \<in> {ipAddress, notIPAddress} \<Longrightarrow>
      \<forall>s \<in> set (requestValue (func_key f) values). ParseIP L s \<noteq> None"
  shows "\<exists>b. evaluate L f values = Some b"
proof -
  have "ipAddressFunc_evaluate L (func_key f) ns values \<noteq> None"
    if "func_name f \<in> {ipAddress, notIPAddress}" for ns
    using assms(2) [OF that] by (auto simp: ipAddressFunc_evaluate_def Let_def list_ex_iff)
  then show ?thesis
    using assms(1)
    by (cases f) (auto simp: stringEqualsFunc_evaluate_def stringNotEqualsFunc_evaluate_def
        stringEqualsIgnoreCaseFunc_evaluate_def stringNotEqualsIgnoreCaseFunc_evaluate_def
        binaryEqualsFunc_evaluate_def stringLikeFunc_evaluate_def stringNotLikeFunc_evaluate_def
        notIPAddressFunc_evaluate_def apply_subst_total)
qed

lemma Functions_Evaluate_total:
  assumes "\<forall>f \<in> set fs. \<exists>b. evaluate L f values = Some b"
  shows "Functions_Evaluate L fs values =
    Some (\<forall>f \<in> set fs. evaluate L f values = Some True)"
  using assms by (induction fs) auto

section \<open>A concrete instance of the libraries\<close>

definition list_libs :: libs where
  "list_libs =
     \<lparr>CreateStringSet = remdups, ToSlice = (\<lambda>s. s), ApplyFunc = (\<lambda>f s. remdups (map f s)),
      FuncMatch = (\<lambda>m x s. filter (\<lambda>v. m v x) s), Intersection = (\<lambda>a b. filter (\<lambda>x. x \<in> set b) a),
      StringSet_Equals = (\<lambda>a b. set a = set b), StringSet_IsEmpty = (\<lambda>s. s = []),
      StringSet_Add = set_add, StringSet_Remove = (\<lambda>s x. filter (\<lambda>y. y \<noteq> x) s),
      CheckValidBucketName = (\<lambda>b. 3 \<le> length b), EqualFold = (=), ParseIP = (\<lambda>s. None),
      ParseCIDR = (\<lambda>s. None), IPNet_String = (\<lambda>n. ''''),
      ParseTime = (\<lambda>s. map_option (\<lambda>i. (i, 0)) (Atoi s)),
      FormatTime = (\<lambda>t. Itoa (fst t)), Base64Encode = (\<lambda>s. s), Base64Decode = Some\<rparr>"

lemma list_libs_laws: "string_set_laws list_libs"
  by (auto simp: string_set_laws_def list_libs_def)

section \<open>Cloning\<close>

text \<open>The functions that the parser builds: a constructor of the table applied to a valid key.\<close>

definition parsed_function :: "libs \<Rightarrow> cond_function \<Rightarrow> bool" where
  "parsed_function L f \<longleftrightarrow> (\<exists>n k vs. Key_IsValid k \<and> conditionFuncMap L n k vs = Inr f)"

lemma first_error_None_iff: "first_error chk xs = None \<longleftrightarrow> (\<forall>x \<in> set xs. chk x = None)"
  by (induction xs) (auto split: option.splits)

lemma valuesToStringSlice_map [simp]: "valuesToStringSlice (map StringValue ss) = Inr ss"
  by (induction ss) auto

lemma NewValueSet_distinct: "distinct vs \<Longrightarrow> NewValueSet vs = vs"
  by (simp add: NewValueSet_def foldl_add_distinct)

lemma NewValueSet_singleton [simp]: "NewValueSet [v] = [v]"
  by (simp add: NewValueSet_distinct)

lemma ValueSet_Clone_singleton [simp]: "ValueSet_Clone [v] = [v]"
  by (simp add: ValueSet_Clone_id)

lemma cloned_strings:
  assumes "string_set_laws L" "distinct sset"
  shows "ValueSet_Clone (NewValueSet (map StringValue (ToSlice L sset))) =
      map StringValue (ToSlice L sset)"
    and "set (CreateStringSet L (ToSlice L sset)) = set sset"
    and "set (ToSlice L (CreateStringSet L (ToSlice L sset))) = set sset"
proof -
  have "distinct (map StringValue (ToSlice L sset))"
    using assms by (simp add: string_set_lawsD distinct_map inj_on_def)
  then show "ValueSet_Clone (NewValueSet (map StringValue (ToSlice L sset))) =
      map StringValue (ToSlice L sset)"
    by (simp add: NewValueSet_distinct ValueSet_Clone_id)
  show "set (CreateStringSet L (ToSlice L sset)) = set sset"
    "set (ToSlice L (CreateStringSet L (ToSlice L sset))) = set sset"
    using assms by (simp_all add: string_set_lawsD)
qed

lemma string_evaluate_cong:
  assumes "string_set_laws L" "set vs = set ws"
  shows "stringEqualsFunc_evaluate L k vs values = stringEqualsFunc_evaluate L k ws values"
    "stringEqualsIgnoreCaseFunc_evaluate L k vs values =
       stringEqualsIgnoreCaseFunc_evaluate L k ws values"
    "stringLikeFunc_evaluate L k vs values = stringLikeFunc_evaluate L k ws values"
proof -
  have ex: "list_ex P vs = list_ex P ws" for P using assms(2) by (simp add: list_ex_iff)
  show "stringEqualsFunc_evaluate L k vs values = stringEqualsFunc_evaluate L k ws values"
    "stringEqualsIgnoreCaseFunc_evaluate L k vs values =
       stringEqualsIgnoreCaseFunc_evaluate L k ws values"
    "stringLikeFunc_evaluate L k vs values = stringLikeFunc_evaluate L k ws values"
    using assms
    by (auto simp: stringEqualsFunc_evaluate_def stringEqualsIgnoreCaseFunc_evaluate_def
        stringLikeFunc_evaluate_def apply_subst_def ex string_set_lawsD list_ex_iff)
qed

lemma validate_clone:
  assumes "string_set_laws L" "distinct sset"
  shows "validateStringEqualsValues L k sset = None \<Longrightarrow>
      validateStringEqualsValues L k (CreateStringSet L (ToSlice L sset)) = None"
    "validateStringLikeValues L k sset = None \<Longrightarrow>
      validateStringLikeValues L k (CreateStringSet L (ToSlice L sset)) = None"
  using assms
  by (simp_all add: validateStringEqualsValues_def validateStringLikeValues_def
      first_error_None_iff cloned_strings string_set_lawsD)

lemmas new_string_defs =
  newStringEqualsFunc_def NewStringEqualsFunc_def newStringNotEqualsFunc_def
  NewStringNotEqualsFunc_def newStringEqualsIgnoreCaseFunc_def
  newStringNotEqualsIgnoreCaseFunc_def newStringLikeFunc_def newStringNotLikeFunc_def

lemmas new_number_defs =
  newNumericEqualsFunc_def newNumericNotEqualsFunc_def newNumericLessThanFunc_def
  newNumericLessThanEqualsFunc_def newNumericGreaterThanFunc_def
  newNumericGreaterThanEqualsFunc_def valueToInt_def numericEqualsFunc_toMap_def
  numericLessThanFunc_toMap_def numericGreaterThanFunc_toMap_def

lemma parsed_string_set:
  assumes "string_set_laws L" "parsed_function L f"
  shows "Key_IsValid (func_key f)"
    "f = StringEqualsFunc k s \<or> f = StringNotEqualsFunc k s \<or>
     f = StringEqualsIgnoreCaseFunc k s \<or> f = StringNotEqualsIgnoreCaseFunc k s \<Longrightarrow>
       distinct s \<and> validateStringEqualsValues L k s = None"
    "f = StringLikeFunc k s \<or> f = StringNotLikeFunc k s \<Longrightarrow>
       distinct s \<and> validateStringLikeValues L k s = None"
    "f = BooleanFunc k b \<Longrightarrow> k = AWSSecureTransport \<and> ParseBool b \<noteq> None"
proof -
  obtain n k' vs where *: "Key_IsValid k'" "conditionFuncMap L n k' vs = Inr f"
    using assms(2) by (auto simp: parsed_function_def)
  then show "Key_IsValid (func_key f)"
    by (cases n) (auto simp: new_string_defs new_number_defs newBinaryEqualsFunc_def
        newIPAddressFunc_def newNotIPAddressFunc_def newNullFunc_def newBooleanFunc_def
        newDateEqualsFunc_def newDateNotEqualsFunc_def newDateLessThanFunc_def
        newDateLessThanEqualsFunc_def newDateGreaterThanFunc_def newDateGreaterThanEqualsFunc_def
        valueToTime_def Let_def
        split: sum.splits option.splits list.splits cond_value.splits if_splits)
  show "f = StringEqualsFunc k s \<or> f = StringNotEqualsFunc k s \<or>
     f = StringEqualsIgnoreCaseFunc k s \<or> f = StringNotEqualsIgnoreCaseFunc k s \<Longrightarrow>
       distinct s \<and> validateStringEqualsValues L k s = None"
    "f = StringLikeFunc k s \<or> f = StringNotLikeFunc k s \<Longrightarrow>
       distinct s \<and> validateStringLikeValues L k s = None"
    "f = BooleanFunc k b \<Longrightarrow> k = AWSSecureTransport \<and> ParseBool b \<noteq> None"
    using *(2) assms(1)
    by (cases n; auto simp: new_string_defs new_number_defs newBinaryEqualsFunc_def
        newIPAddressFunc_def newNotIPAddressFunc_def newNullFunc_def newBooleanFunc_def
        newDateEqualsFunc_def newDateNotEqualsFunc_def newDateLessThanFunc_def
        newDateLessThanEqualsFunc_def newDateGreaterThanFunc_def newDateGreaterThanEqualsFunc_def
        valueToTime_def Let_def string_set_lawsD
        split: sum.splits option.splits list.splits cond_value.splits if_splits)+
qed

definition textual_name :: "cond_name \<Rightarrow> bool" where
  "textual_name n \<longleftrightarrow>
     n \<in> {stringEquals, stringNotEquals, stringEqualsIgnoreCase, stringNotEqualsIgnoreCase,
          stringLike, stringNotLike, null, boolean, numericEquals, numericNotEquals,
          numericLessThan, numericLessThanEquals, numericGreaterThan, numericGreaterThanEquals}"

lemma clone_string_functions:
  assumes "string_set_laws L" "Key_IsValid k" "distinct s"
  shows "validateStringEqualsValues L k s = None \<Longrightarrow>
      clone_function L (StringEqualsFunc k s) =
        [Some (StringEqualsFunc k (CreateStringSet L (ToSlice L s)))]"
    and "validateStringEqualsValues L k s = None \<Longrightarrow>
      clone_function L (StringNotEqualsFunc k s) =
        [Some (StringNotEqualsFunc k (CreateStringSet L (ToSlice L s)))]"
    and "validateStringEqualsValues L k s = None \<Longrightarrow>
      clone_function L (StringEqualsIgnoreCaseFunc k s) =
        [Some (StringEqualsIgnoreCaseFunc k (CreateStringSet L (ToSlice L s)))]"
    and "validateStringEqualsValues L k s = None \<Longrightarrow>
      clone_function L (StringNotEqualsIgnoreCaseFunc k s) =
        [Some (StringNotEqualsIgnoreCaseFunc k (CreateStringSet L (ToSlice L s)))]"
    and "validateStringLikeValues L k s = None \<Longrightarrow>
      clone_function L (StringLikeFunc k s) =
        [Some (StringLikeFunc k (CreateStringSet L (ToSlice L s)))]"
    and "validateStringLikeValues L k s = None \<Longrightarrow>
      clone_function L (StringNotLikeFunc k s) =
        [Some (StringNotLikeFunc k (CreateStringSet L (ToSlice L s)))]"
  using assms
  by (simp_all add: clone_function_def stringEqualsFunc_toMap_def
      stringEqualsIgnoreCaseFunc_toMap_def stringLikeFunc_toMap_def new_string_defs
      cloned_strings validate_clone Let_def)

lemma clone_scalar_functions:
  assumes "Key_IsValid k"
  shows "clone_function L (NullFunc k b) = [Some (NullFunc k b)]"
    and "clone_function L (NumericEqualsFunc k i) = [Some (NumericEqualsFunc k i)]"
    and "clone_function L (NumericNotEqualsFunc k i) = [Some (NumericNotEqualsFunc k i)]"
    and "clone_function L (NumericLessThanFunc k i) = [Some (NumericLessThanFunc k i)]"
    and "clone_function L (NumericLessThanEqualsFunc k i) = [Some (NumericLessThanEqualsFunc k i)]"
    and "clone_function L (NumericGreaterThanFunc k i) = [Some (NumericGreaterThanFunc k i)]"
    and "clone_function L (NumericGreaterThanEqualsFunc k i) =
      [Some (NumericGreaterThanEqualsFunc k i)]"
  using assms
  by (simp_all add: clone_function_def nullFunc_toMap_def newNullFunc_def new_number_defs)

lemma clone_boolean_function:
  "Key_IsValid k \<Longrightarrow> k = AWSSecureTransport \<and> ParseBool s \<noteq> None \<Longrightarrow>
     clone_function L (BooleanFunc k s) = [Some (BooleanFunc k s)]"
  by (auto simp: clone_function_def booleanFunc_toMap_def newBooleanFunc_def)



text \<open>
  \<^verbatim>\<open>Functions.Evaluate\<close> is the conjunction of its functions and never panics on a request
  in which no common key has an empty list of values and every value a condition reads as an
  address is an address.
\<close>

theorem Functions_Evaluate_conjunction:
  assumes "no_empty_values values"
    and "\<forall>f \<in> set fs. \<forall>s \<in> set (requestValue (func_key f) values).
           func_name f \<in> {ipAddress, notIPAddress} \<longrightarrow> ParseIP L s \<noteq> None"
  shows "Functions_Evaluate L fs values =
    Some (\<forall>f \<in> set fs. evaluate L f values = Some True)"
  using assms by (intro Functions_Evaluate_total ballI evaluate_total) auto

theorem Functions_Evaluate_conjunction_witness:
  "Functions_Evaluate list_libs [NumericLessThanFunc ''s3:max-keys'' 20]
      [''Max-Keys'' \<mapsto> [''12'']] =
     Some (\<forall>f \<in> set [NumericLessThanFunc ''s3:max-keys'' 20].
             evaluate list_libs f [''Max-Keys'' \<mapsto> [''12'']] = Some True)"
proof (rule Functions_Evaluate_conjunction)
  show "no_empty_values [''Max-Keys'' \<mapsto> [''12'']]" by code_simp
qed simp

lemma clone_one:
  assumes L: "string_set_laws L" and p: "parsed_function L f" and t: "textual_name (func_name f)"
  shows "\<exists>g. Functions_Clone L [f] = [Some g] \<and> func_name g = func_name f \<and>
    func_key g = func_key f \<and> (\<forall>values. evaluate L g values = evaluate L f values)"
proof -
  note key = parsed_string_set(1) [OF L p]
  note eq = parsed_string_set(2) [OF L p]
  note lk = parsed_string_set(3) [OF L p]
  note bl = parsed_string_set(4) [OF L p]
  note cong = string_evaluate_cong [OF L cloned_strings(2) [OF L]]
  show ?thesis
    using t key eq lk bl
    by (cases f) (auto simp: textual_name_def Functions_Clone_def clone_string_functions [OF L]
        clone_scalar_functions clone_boolean_function cong
        stringNotEqualsFunc_evaluate_def stringNotEqualsIgnoreCaseFunc_evaluate_def
        stringNotLikeFunc_evaluate_def)
qed

text \<open>
  \<^verbatim>\<open>Functions.Clone\<close> copies a parsed string, numeric, \<^verbatim>\<open>Null\<close> or \<^verbatim>\<open>Bool\<close> condition without loss:
  exactly one function comes back, it is not \<^verbatim>\<open>nil\<close>, it has the same name and key, and it
  evaluates to the same value (or panics alike) on every request.
\<close>

theorem Functions_Clone_preserves:
  assumes "string_set_laws L" "parsed_function L f" "textual_name (func_name f)"
  shows "\<exists>g. Functions_Clone L [f] = [Some g] \<and> func_name g = func_name f \<and>
    func_key g = func_key f \<and> (\<forall>values. evaluate L g values = evaluate L f values)"
  using assms by (rule clone_one)

theorem Functions_Clone_preserves_witness:
  "\<exists>g. Functions_Clone list_libs [StringLikeFunc ''s3:prefix'' [''a*'']] = [Some g] \<and>
     func_name g = stringLike \<and> func_key g = ''s3:prefix'' \<and>
     (\<forall>values. evaluate list_libs g values =
        evaluate list_libs (StringLikeFunc ''s3:prefix'' [''a*'']) values)"
proof -
  have "conditionFuncMap list_libs stringLike ''s3:prefix'' [StringValue ''a*''] =
      Inr (StringLikeFunc ''s3:prefix'' [''a*''])"
    by (simp add: newStringLikeFunc_def validateStringLikeValues_def list_libs_def
        S3XAmzCopySource_def)
  moreover have "Key_IsValid ''s3:prefix''" by code_simp
  ultimately have "parsed_function list_libs (StringLikeFunc ''s3:prefix'' [''a*''])"
    unfolding parsed_function_def by blast
  from Functions_Clone_preserves [OF list_libs_laws this]
  show ?thesis by (simp add: textual_name_def)
qed

text \<open>
  the six numeric operators are the comparisons of the request's number with the
  condition's: exactly one of \<^verbatim>\<open>NumericLessThan\<close>, \<^verbatim>\<open>NumericEquals\<close>, \<^verbatim>\<open>NumericGreaterThan\<close> holds, and
  the other three are the unions and the complement they name.
\<close>

theorem numeric_conditions_order:
  "(case requestValue k values of [] \<Rightarrow> None | r # _ \<Rightarrow> Atoi r) = Some n \<Longrightarrow>
     evaluate L (NumericLessThanFunc k i) values = Some (n < i) \<and>
     evaluate L (NumericLessThanEqualsFunc k i) values = Some (n \<le> i) \<and>
     evaluate L (NumericEqualsFunc k i) values = Some (n = i) \<and>
     evaluate L (NumericNotEqualsFunc k i) values = Some (n \<noteq> i) \<and>
     evaluate L (NumericGreaterThanEqualsFunc k i) values = Some (n \<ge> i) \<and>
     evaluate L (NumericGreaterThanFunc k i) values = Some (n > i)"
  by (auto simp: numericLessThanFunc_evaluate_def numericLessThanEqualsFunc_evaluate_def
      numericEqualsFunc_evaluate_def numericNotEqualsFunc_evaluate_def
      numericGreaterThanFunc_evaluate_def numericGreaterThanEqualsFunc_evaluate_def
      split: list.splits)

theorem numeric_conditions_order_witness:
  "evaluate list_libs (NumericLessThanFunc ''s3:max-keys'' 20) [''Max-Keys'' \<mapsto> [''12'']] =
     Some True"
proof -
  have "(case requestValue ''s3:max-keys'' [''Max-Keys'' \<mapsto> [''12'']] of
           [] \<Rightarrow> None | r # _ \<Rightarrow> Atoi r) = Some 12"
    by code_simp
  from numeric_conditions_order [OF this, of list_libs 20] show ?thesis by simp
qed

text \<open>
  two comparisons of functions that should differ. \<^verbatim>\<open>DateLessThanEquals\<close> and
  \<^verbatim>\<open>DateGreaterThanEquals\<close> with the same key and date print the same string, that of
  \<^verbatim>\<open>DateNotEquals\<close>, so \<^verbatim>\<open>Functions.Equals\<close> takes them for equal although one holds and the other
  does not on every earlier date.
\<close>

theorem date_conditions_collide:
  "Functions_Equals L [DateLessThanEqualsFunc k t] [DateGreaterThanEqualsFunc k t] \<and>
   Functions_Equals L [DateLessThanEqualsFunc k t] [DateNotEqualsFunc k t] \<and>
   (requestValue k values = [r] \<and> ParseTime L r = Some u \<and> fst u < fst t \<longrightarrow>
      evaluate L (DateLessThanEqualsFunc k t) values = Some True \<and>
      evaluate L (DateGreaterThanEqualsFunc k t) values = Some False)"
  by (auto simp: Functions_Equals_def dateLessThanEqualsFunc_String_def
      dateGreaterThanEqualsFunc_String_def dateLessThanEqualsFunc_evaluate_def
      dateGreaterThanEqualsFunc_evaluate_def)

theorem date_conditions_collide_witness:
  "Functions_Equals list_libs [DateLessThanEqualsFunc ''aws:CurrentTime'' (9, 0)]
     [DateGreaterThanEqualsFunc ''aws:CurrentTime'' (9, 0)] \<and>
   evaluate list_libs (DateLessThanEqualsFunc ''aws:CurrentTime'' (9, 0))
     [''CurrentTime'' \<mapsto> [''5'']] = Some True \<and>
   evaluate list_libs (DateGreaterThanEqualsFunc ''aws:CurrentTime'' (9, 0))
     [''CurrentTime'' \<mapsto> [''5'']] = Some False"
proof -
  have "requestValue ''aws:CurrentTime'' [''CurrentTime'' \<mapsto> [''5'']] = [''5'']" by code_simp
  moreover have "ParseTime list_libs ''5'' = Some (5, 0)" by code_simp
  ultimately show ?thesis
    using date_conditions_collide [of list_libs "''aws:CurrentTime''" "(9, 0)"
        "[''CurrentTime'' \<mapsto> [''5'']]" "''5''" "(5, 0)"]
    by simp
qed

end
