(* ===== verification/Bucket_Policy.thy ===== *)
theory Bucket_Policy
  imports Condition_Facts
begin

text \<open>
  \<^verbatim>\<open>pkg/bucket/policy\<close>: effects, actions, resources, principals, statements and the policy itself,
  with the evaluation of a request (\<^verbatim>\<open>IsAllowed\<close>), the validity checks and the removal of
  duplicate statements. Sets are lists in iteration order; a panic is \<^const>\<open>None\<close>.
\<close>

section \<open>Effects and actions\<close>

type_synonym effect = string

abbreviation Allow :: effect where "Allow \<equiv> ''Allow''"
abbreviation Deny :: effect where "Deny \<equiv> ''Deny''"

definition Effect_IsAllowed :: "effect \<Rightarrow> bool \<Rightarrow> bool" where
  "Effect_IsAllowed effect b = (if effect = Allow then b else \<not> b)"

definition Effect_IsValid :: "effect \<Rightarrow> bool" where
  "Effect_IsValid effect \<longleftrightarrow> effect = Allow \<or> effect = Deny"

type_synonym action = string
type_synonym action_set = "action list"

definition supportedObjectActions :: "action list" where
  "supportedObjectActions =
     [''s3:AbortMultipartUpload'', ''s3:DeleteObject'', ''s3:GetObject'',
      ''s3:ListMultipartUploadParts'', ''s3:PutObject'', ''s3:BypassGovernanceRetention'',
      ''s3:PutObjectRetention'', ''s3:GetObjectRetention'', ''s3:PutObjectLegalHold'',
      ''s3:GetObjectLegalHold'', ''s3:GetObjectTagging'', ''s3:PutObjectTagging'',
      ''s3:DeleteObjectTagging'', ''s3:GetObjectVersion'', ''s3:GetObjectVersionTagging'',
      ''s3:DeleteObjectVersion'', ''s3:DeleteObjectVersionTagging'',
      ''s3:PutObjectVersionTagging'', ''s3:ReplicateObject'', ''s3:ReplicateDelete'',
      ''s3:ReplicateTags'', ''s3:GetObjectVersionForReplication'', ''s3:RestoreObject'']"

definition supportedActions :: "action list" where
  "supportedActions =
     [''s3:AbortMultipartUpload'', ''s3:CreateBucket'', ''s3:DeleteBucket'',
      ''s3:ForceDeleteBucket'', ''s3:DeleteBucketPolicy'', ''s3:DeleteObject'',
      ''s3:GetBucketLocation'', ''s3:GetBucketNotification'', ''s3:GetBucketPolicy'',
      ''s3:GetObject'', ''s3:HeadBucket'', ''s3:ListAllMyBuckets'', ''s3:ListBucket'',
      ''s3:GetBucketPolicyStatus'', ''s3:ListBucketVersions'', ''s3:ListBucketMultipartUploads'',
      ''s3:ListenNotification'', ''s3:ListenBucketNotification'', ''s3:ListMultipartUploadParts'',
      ''s3:PutBucketNotification'', ''s3:PutBucketPolicy'', ''s3:PutObject'',
      ''s3:GetLifecycleConfiguration'', ''s3:PutLifecycleConfiguration'',
      ''s3:PutObjectRetention'', ''s3:GetObjectRetention'', ''s3:GetObjectLegalHold'',
      ''s3:PutObjectLegalHold'', ''s3:PutBucketObjectLockConfiguration'',
      ''s3:GetBucketObjectLockConfiguration'', ''s3:PutBucketTagging'', ''s3:GetBucketTagging'',
      ''s3:GetObjectVersion'', ''s3:GetObjectVersionTagging'', ''s3:DeleteObjectVersion'',
      ''s3:DeleteObjectVersionTagging'', ''s3:PutObjectVersionTagging'',
      ''s3:BypassGovernanceRetention'', ''s3:GetObjectTagging'', ''s3:PutObjectTagging'',
      ''s3:DeleteObjectTagging'', ''s3:PutEncryptionConfiguration'',
      ''s3:GetEncryptionConfiguration'', ''s3:PutBucketVersioning'', ''s3:GetBucketVersioning'',
      ''s3:GetReplicationConfiguration'', ''s3:PutReplicationConfiguration'',
      ''s3:ReplicateObject'', ''s3:ReplicateDelete'', ''s3:ReplicateTags'',
      ''s3:GetObjectVersionForReplication'', ''s3:RestoreObject'']"

definition objectTagConditionKeys :: "key list" where
  "objectTagConditionKeys = [S3ExistingObjectTag, S3RequestObjectTag]"

definition actionConditionKeyMap :: "(action \<times> key_set) list" where
  "actionConditionKeyMap =
     [(''s3:AbortMultipartUpload'', NewKeySet CommonKeys),
      (''s3:CreateBucket'', NewKeySet CommonKeys),
      (''s3:DeleteObject'', NewKeySet (objectTagConditionKeys @ CommonKeys)),
      (''s3:GetBucketLocation'', NewKeySet CommonKeys),
      (''s3:GetBucketPolicyStatus'', NewKeySet CommonKeys),
      (''s3:GetObject'', NewKeySet ([S3XAmzServerSideEncryption,
         S3XAmzServerSideEncryptionCustomerAlgorithm] @ objectTagConditionKeys @ CommonKeys)),
      (''s3:HeadBucket'', NewKeySet CommonKeys),
      (''s3:ListAllMyBuckets'', NewKeySet CommonKeys),
      (''s3:ListBucket'', NewKeySet ([''s3:prefix'', ''s3:delimiter'',
         ''s3:max-keys''] @ CommonKeys)),
      (''s3:ListBucketVersions'', NewKeySet ([''s3:prefix'', ''s3:delimiter'',
         ''s3:max-keys''] @ CommonKeys)),
      (''s3:ListBucketMultipartUploads'', NewKeySet CommonKeys),
      (''s3:ListenNotification'', NewKeySet CommonKeys),
      (''s3:ListenBucketNotification'', NewKeySet CommonKeys),
      (''s3:ListMultipartUploadParts'', NewKeySet CommonKeys),
      (''s3:PutObject'', NewKeySet ([S3XAmzCopySource, S3XAmzServerSideEncryption,
         S3XAmzServerSideEncryptionCustomerAlgorithm, S3XAmzMetadataDirective,
         ''s3:x-amz-storage-class'', ''s3:object-lock-retain-until-date'',
         ''s3:object-lock-mode'',
         ''s3:object-lock-legal-hold''] @ objectTagConditionKeys @ CommonKeys)),
      (''s3:PutObjectRetention'', NewKeySet ([''s3:object-lock-remaining-retention-days'',
         ''s3:object-lock-retain-until-date'', ''s3:object-lock-mode''] @ CommonKeys)),
      (''s3:GetObjectRetention'', NewKeySet CommonKeys),
      (''s3:PutObjectLegalHold'', NewKeySet ([''s3:object-lock-legal-hold''] @ CommonKeys)),
      (''s3:GetObjectLegalHold'', NewKeySet CommonKeys),
      (''s3:BypassGovernanceRetention'', NewKeySet ([''s3:object-lock-remaining-retention-days'',
         ''s3:object-lock-retain-until-date'', ''s3:object-lock-mode'',
         ''s3:object-lock-legal-hold''] @ CommonKeys)),
      (''s3:GetBucketObjectLockConfiguration'', NewKeySet CommonKeys),
      (''s3:PutBucketObjectLockConfiguration'', NewKeySet CommonKeys),
      (''s3:GetBucketTagging'', NewKeySet CommonKeys),
      (''s3:PutBucketTagging'', NewKeySet CommonKeys),
      (''s3:PutObjectTagging'', NewKeySet (objectTagConditionKeys @ CommonKeys)),
      (''s3:GetObjectTagging'', NewKeySet (objectTagConditionKeys @ CommonKeys)),
      (''s3:DeleteObjectTagging'', NewKeySet (objectTagConditionKeys @ CommonKeys)),
      (''s3:PutObjectVersionTagging'', NewKeySet (objectTagConditionKeys @ CommonKeys)),
      (''s3:GetObjectVersion'',
         NewKeySet ([''s3:versionid''] @ objectTagConditionKeys @ CommonKeys)),
      (''s3:GetObjectVersionTagging'', NewKeySet ([''s3:versionid''] @ CommonKeys)),
      (''s3:DeleteObjectVersion'', NewKeySet ([''s3:versionid''] @ CommonKeys)),
      (''s3:DeleteObjectVersionTagging'', NewKeySet ([''s3:versionid''] @ CommonKeys)),
      (''s3:GetReplicationConfiguration'', NewKeySet CommonKeys),
      (''s3:PutReplicationConfiguration'', NewKeySet CommonKeys),
      (''s3:ReplicateObject'', NewKeySet CommonKeys),
      (''s3:ReplicateDelete'', NewKeySet CommonKeys),
      (''s3:ReplicateTags'', NewKeySet CommonKeys),
      (''s3:GetObjectVersionForReplication'', NewKeySet CommonKeys),
      (''s3:RestoreObject'', NewKeySet CommonKeys)]"

definition Action_isObjectAction :: "action \<Rightarrow> bool" where
  "Action_isObjectAction action \<longleftrightarrow> action \<in> set supportedObjectActions"

definition Action_IsValid :: "action \<Rightarrow> bool" where
  "Action_IsValid action \<longleftrightarrow> action \<in> set supportedActions"

definition parseAction :: "string \<Rightarrow> action option" where
  "parseAction s = (if Action_IsValid s then Some s else None)"

text \<open>A missing entry of the map is the \<^verbatim>\<open>nil\<close> key set, which has no key.\<close>

definition action_keys :: "action \<Rightarrow> key_set" where
  "action_keys action =
     (case map_of actionConditionKeyMap action of None \<Rightarrow> [] | Some ks \<Rightarrow> ks)"

definition NewActionSet :: "action list \<Rightarrow> action_set" where
  "NewActionSet actions = foldl set_add [] actions"

definition ActionSet_Contains :: "action_set \<Rightarrow> action \<Rightarrow> bool" where
  "ActionSet_Contains actionSet action \<longleftrightarrow> action \<in> set actionSet"

text \<open>The comparison of two Go maps used as sets: equal sizes, and every key of one in the other.\<close>

definition map_set_Equals :: "'a list \<Rightarrow> 'a list \<Rightarrow> bool" where
  "map_set_Equals s t = (if length s \<noteq> length t then False else list_all (\<lambda>k. k \<in> set t) s)"

definition ActionSet_Equals :: "action_set \<Rightarrow> action_set \<Rightarrow> bool" where
  "ActionSet_Equals actionSet sactionSet = map_set_Equals actionSet sactionSet"

definition ActionSet_Intersection :: "action_set \<Rightarrow> action_set \<Rightarrow> action_set" where
  "ActionSet_Intersection actionSet sset = filter (\<lambda>k. k \<in> set sset) actionSet"

definition ActionSet_Clone :: "action_set \<Rightarrow> action_set" where
  "ActionSet_Clone actionSet = NewActionSet actionSet"

section \<open>Resources\<close>

record resource =
  BucketName :: string
  Pattern :: string

type_synonym resource_set = "resource list"

definition ResourceARNPrefix :: string where
  "ResourceARNPrefix = ''arn:aws:s3:::''"

definition Resource_isBucketPattern :: "resource \<Rightarrow> bool" where
  "Resource_isBucketPattern r \<longleftrightarrow> \<not> contains_byte (Pattern r) CHR ''/''"

definition Resource_isObjectPattern :: "resource \<Rightarrow> bool" where
  "Resource_isObjectPattern r \<longleftrightarrow>
     contains_byte (Pattern r) CHR ''/'' \<or> contains_byte (BucketName r) CHR ''*''"

definition Resource_IsValid :: "resource \<Rightarrow> bool" where
  "Resource_IsValid r \<longleftrightarrow> BucketName r \<noteq> '''' \<and> Pattern r \<noteq> ''''"

definition Resource_Match :: "resource \<Rightarrow> string \<Rightarrow> cond_values \<Rightarrow> bool option" where
  "Resource_Match r resource conditionValues =
     (case subst_keys conditionValues CommonKeys (Pattern r) of
        None \<Rightarrow> None
      | Some pattern \<Rightarrow> Match pattern resource)"

definition Resource_String :: "resource \<Rightarrow> string" where
  "Resource_String r = ResourceARNPrefix @ Pattern r"

datatype policy_error =
    InvalidVersion | InvalidEffect | InvalidPrincipal | EmptyAction | EmptyResource
  | UnsupportedResource | UnsupportedKeys | InvalidResource | BucketMismatch
  | InvalidResourceFormat | UnsupportedAction | InvalidSID

definition Resource_Validate :: "resource \<Rightarrow> string \<Rightarrow> policy_error option" where
  "Resource_Validate r bucketName =
     (if \<not> Resource_IsValid r then Some InvalidResource
      else if Match (BucketName r) bucketName \<noteq> Some True then Some BucketMismatch
      else None)"

definition parseResource :: "string \<Rightarrow> policy_error + resource" where
  "parseResource s =
     (if \<not> HasPrefix s ResourceARNPrefix then Inl InvalidResource
      else (let pattern = TrimPrefix s ResourceARNPrefix;
                bucketName = hd (SplitN2 pattern CHR ''/'')
            in if bucketName = '''' then Inl InvalidResourceFormat
               else Inr \<lparr>BucketName = bucketName, Pattern = pattern\<rparr>))"

definition NewResource :: "string \<Rightarrow> string \<Rightarrow> resource" where
  "NewResource bucketName keyName =
     \<lparr>BucketName = bucketName,
      Pattern = (if keyName \<noteq> '''' then
                   (if \<not> HasPrefix keyName ''/'' then bucketName @ ''/'' @ keyName
                    else bucketName @ keyName)
                 else bucketName)\<rparr>"

definition bucketResourceExists :: "resource_set \<Rightarrow> bool" where
  "bucketResourceExists resourceSet = list_ex Resource_isBucketPattern resourceSet"

definition objectResourceExists :: "resource_set \<Rightarrow> bool" where
  "objectResourceExists resourceSet = list_ex Resource_isObjectPattern resourceSet"

definition ResourceSet_Equals :: "resource_set \<Rightarrow> resource_set \<Rightarrow> bool" where
  "ResourceSet_Equals resourceSet sresourceSet = map_set_Equals resourceSet sresourceSet"

definition ResourceSet_Intersection :: "resource_set \<Rightarrow> resource_set \<Rightarrow> resource_set" where
  "ResourceSet_Intersection resourceSet sset = filter (\<lambda>k. k \<in> set sset) resourceSet"

text \<open>The first element for which a test that may panic holds, tried in order.\<close>

fun any_match :: "('a \<Rightarrow> bool option) \<Rightarrow> 'a list \<Rightarrow> bool option" where
  "any_match p [] = Some False"
| "any_match p (x # xs) =
     (case p x of None \<Rightarrow> None | Some True \<Rightarrow> Some True | Some False \<Rightarrow> any_match p xs)"

definition ResourceSet_Match :: "resource_set \<Rightarrow> string \<Rightarrow> cond_values \<Rightarrow> bool option" where
  "ResourceSet_Match resourceSet resource conditionValues =
     any_match (\<lambda>r. Resource_Match r resource conditionValues) resourceSet"

definition ResourceSet_Validate :: "resource_set \<Rightarrow> string \<Rightarrow> policy_error option" where
  "ResourceSet_Validate resourceSet bucketName =
     first_error (\<lambda>r. Resource_Validate r bucketName) resourceSet"

definition ResourceSet_Clone :: "resource_set \<Rightarrow> resource_set" where
  "ResourceSet_Clone resourceSet = foldl set_add [] resourceSet"

section \<open>Principals\<close>

text \<open>A principal is its set of \<^verbatim>\<open>AWS\<close> patterns.\<close>

type_synonym principal = "string list"

definition Principal_IsValid :: "principal \<Rightarrow> bool" where
  "Principal_IsValid p \<longleftrightarrow> length p \<noteq> 0"

definition Principal_Equals :: "libs \<Rightarrow> principal \<Rightarrow> principal \<Rightarrow> bool" where
  "Principal_Equals L p pp = StringSet_Equals L p pp"

definition Principal_Match :: "libs \<Rightarrow> principal \<Rightarrow> string \<Rightarrow> bool option" where
  "Principal_Match L p account =
     any_match (\<lambda>pattern. MatchSimple pattern account) (ToSlice L p)"

definition Principal_Clone :: "libs \<Rightarrow> principal \<Rightarrow> principal" where
  "Principal_Clone L p = CreateStringSet L (ToSlice L p)"

section \<open>Statements\<close>

record args =
  AccountName :: string
  Groups :: "string list"
  Action :: action
  ArgsBucketName :: string
  ConditionValues :: cond_values
  IsOwner :: bool
  ObjectName :: string

record statement =
  SID :: string
  Effect :: effect
  Principal :: principal
  Actions :: action_set
  Resources :: resource_set
  Conditions :: cond_functions

definition Statement_Equals :: "libs \<Rightarrow> statement \<Rightarrow> statement \<Rightarrow> bool" where
  "Statement_Equals L statement st =
     (if Effect statement \<noteq> Effect st then False
      else if \<not> Principal_Equals L (Principal statement) (Principal st) then False
      else if \<not> ActionSet_Equals (Actions statement) (Actions st) then False
      else if \<not> ResourceSet_Equals (Resources statement) (Resources st) then False
      else if \<not> Functions_Equals L (Conditions statement) (Conditions st) then False
      else True)"

definition request_resource :: "args \<Rightarrow> string" where
  "request_resource args =
     (if ObjectName args \<noteq> '''' then
        (if \<not> HasPrefix (ObjectName args) ''/''
         then ArgsBucketName args @ ''/'' @ ObjectName args
         else ArgsBucketName args @ ObjectName args)
      else ArgsBucketName args)"

text \<open>The closure \<^verbatim>\<open>check\<close> of \<^verbatim>\<open>Statement.IsAllowed\<close>.\<close>

definition Statement_check :: "libs \<Rightarrow> statement \<Rightarrow> args \<Rightarrow> bool option" where
  "Statement_check L statement args =
     (case Principal_Match L (Principal statement) (AccountName args) of
        None \<Rightarrow> None
      | Some pm \<Rightarrow>
          if \<not> pm then Some False
          else if \<not> ActionSet_Contains (Actions statement) (Action args) then Some False
          else
            (case ResourceSet_Match (Resources statement) (request_resource args)
                    (ConditionValues args) of
               None \<Rightarrow> None
             | Some rm \<Rightarrow>
                 if \<not> rm then Some False
                 else Functions_Evaluate L (Conditions statement) (ConditionValues args)))"

definition Statement_IsAllowed :: "libs \<Rightarrow> statement \<Rightarrow> args \<Rightarrow> bool option" where
  "Statement_IsAllowed L statement args =
     map_option (Effect_IsAllowed (Effect statement)) (Statement_check L statement args)"

definition statement_action_error :: "statement \<Rightarrow> action \<Rightarrow> policy_error option" where
  "statement_action_error statement action =
     (if Action_isObjectAction action \<and> \<not> objectResourceExists (Resources statement)
      then Some UnsupportedResource
      else if \<not> Action_isObjectAction action \<and> \<not> bucketResourceExists (Resources statement)
      then Some UnsupportedResource
      else if \<not> KeySet_IsEmpty
                  (KeySet_Difference (Functions_Keys (Conditions statement)) (action_keys action))
      then Some UnsupportedKeys
      else None)"

definition Statement_isValid :: "statement \<Rightarrow> policy_error option" where
  "Statement_isValid statement =
     (if \<not> Effect_IsValid (Effect statement) then Some InvalidEffect
      else if \<not> Principal_IsValid (Principal statement) then Some InvalidPrincipal
      else if length (Actions statement) = 0 then Some EmptyAction
      else if length (Resources statement) = 0 then Some EmptyResource
      else first_error (statement_action_error statement) (Actions statement))"

definition Statement_Validate :: "statement \<Rightarrow> string \<Rightarrow> policy_error option" where
  "Statement_Validate statement bucketName =
     (case Statement_isValid statement of
        Some e \<Rightarrow> Some e
      | None \<Rightarrow> ResourceSet_Validate (Resources statement) bucketName)"

section \<open>Policies\<close>

record policy =
  ID :: string
  Version :: string
  Statements :: "statement list"

definition DefaultVersion :: string where
  "DefaultVersion = ''2012-10-17''"

text \<open>The two loops of \<^verbatim>\<open>Policy.IsAllowed\<close>.\<close>

fun deny_loop :: "libs \<Rightarrow> args \<Rightarrow> statement list \<Rightarrow> bool option" where
  "deny_loop L args [] = Some True"
| "deny_loop L args (st # sts) =
     (if Effect st = Deny then
        (case Statement_IsAllowed L st args of
           None \<Rightarrow> None
         | Some b \<Rightarrow> if \<not> b then Some False else deny_loop L args sts)
      else deny_loop L args sts)"

fun allow_loop :: "libs \<Rightarrow> args \<Rightarrow> statement list \<Rightarrow> bool option" where
  "allow_loop L args [] = Some False"
| "allow_loop L args (st # sts) =
     (if Effect st = Allow then
        (case Statement_IsAllowed L st args of
           None \<Rightarrow> None
         | Some b \<Rightarrow> if b then Some True else allow_loop L args sts)
      else allow_loop L args sts)"

definition Policy_IsAllowed :: "libs \<Rightarrow> policy \<Rightarrow> args \<Rightarrow> bool option" where
  "Policy_IsAllowed L policy args =
     (case deny_loop L args (Statements policy) of
        None \<Rightarrow> None
      | Some ok \<Rightarrow>
          if \<not> ok then Some False
          else if IsOwner args then Some True
          else allow_loop L args (Statements policy))"

definition Policy_IsEmpty :: "policy \<Rightarrow> bool" where
  "Policy_IsEmpty policy \<longleftrightarrow> length (Statements policy) = 0"

definition Policy_isValid :: "policy \<Rightarrow> policy_error option" where
  "Policy_isValid policy =
     (if Version policy \<noteq> DefaultVersion \<and> Version policy \<noteq> '''' then Some InvalidVersion
      else first_error Statement_isValid (Statements policy))"

definition Policy_Validate :: "policy \<Rightarrow> string \<Rightarrow> policy_error option" where
  "Policy_Validate policy bucketName =
     (case Policy_isValid policy of
        Some e \<Rightarrow> Some e
      | None \<Rightarrow> first_error (\<lambda>st. Statement_Validate st bucketName) (Statements policy))"

text \<open>
  \<^verbatim>\<open>dropDuplicateStatements\<close>: the position \<^verbatim>\<open>j\<close> of the duplicate is counted from \<^verbatim>\<open>i+1\<close>, and it is
  the element at \<^verbatim>\<open>j\<close> of the whole slice that goes, before the search starts again.
\<close>

fun index_of :: "('a \<Rightarrow> bool) \<Rightarrow> 'a list \<Rightarrow> nat option" where
  "index_of p [] = None"
| "index_of p (x # xs) = (if p x then Some 0 else map_option Suc (index_of p xs))"

fun find_duplicate :: "('a \<Rightarrow> 'a \<Rightarrow> bool) \<Rightarrow> 'a list \<Rightarrow> nat option" where
  "find_duplicate eq [] = None"
| "find_duplicate eq (x # xs) =
     (case index_of (eq x) xs of Some j \<Rightarrow> Some j | None \<Rightarrow> find_duplicate eq xs)"

lemma index_of_less: "index_of p xs = Some j \<Longrightarrow> j < length xs"
  by (induction xs arbitrary: j) (auto split: if_splits)

lemma find_duplicate_less: "find_duplicate eq xs = Some j \<Longrightarrow> Suc j < length xs"
  by (induction xs arbitrary: j) (auto split: option.splits dest: index_of_less less_SucI)

function drop_duplicates :: "('a \<Rightarrow> 'a \<Rightarrow> bool) \<Rightarrow> 'a list \<Rightarrow> 'a list" where
  "drop_duplicates eq xs =
     (case find_duplicate eq xs of
        None \<Rightarrow> xs
      | Some j \<Rightarrow> drop_duplicates eq (take j xs @ drop (Suc j) xs))"
  by pat_completeness auto
termination
  by (relation "measure (\<lambda>(eq, xs). length xs)") (auto dest: find_duplicate_less)

declare drop_duplicates.simps [simp del]

definition Policy_dropDuplicateStatements :: "libs \<Rightarrow> policy \<Rightarrow> policy" where
  "Policy_dropDuplicateStatements L policy =
     policy\<lparr>Statements := drop_duplicates (Statement_Equals L) (Statements policy)\<rparr>"

text \<open>\<^verbatim>\<open>UnmarshalJSON\<close> and \<^verbatim>\<open>ParseConfig\<close> after the JSON decoder.\<close>

definition Policy_UnmarshalJSON :: "libs \<Rightarrow> policy \<Rightarrow> policy_error + policy" where
  "Policy_UnmarshalJSON L p =
     (case Policy_isValid p of
        Some e \<Rightarrow> Inl e
      | None \<Rightarrow> Inr (Policy_dropDuplicateStatements L p))"

definition Policy_ParseConfig :: "libs \<Rightarrow> policy \<Rightarrow> string \<Rightarrow> policy_error + policy" where
  "Policy_ParseConfig L p bucketName =
     (case Policy_UnmarshalJSON L p of
        Inl e \<Rightarrow> Inl e
      | Inr policy \<Rightarrow>
          (case Policy_Validate policy bucketName of Some e \<Rightarrow> Inl e | None \<Rightarrow> Inr policy))"

text \<open>
  \<^verbatim>\<open>Statement.Clone\<close> and \<^verbatim>\<open>Policy.Merge\<close>. \<^const>\<open>None\<close> when a condition clones to the \<^verbatim>\<open>nil\<close>
  function, which panics at its next use.
\<close>

definition Statement_Clone :: "libs \<Rightarrow> statement \<Rightarrow> statement option" where
  "Statement_Clone L statement =
     map_option
       (\<lambda>conds. \<lparr>SID = '''', Effect = Effect statement,
          Principal = Principal_Clone L (Principal statement),
          Actions = ActionSet_Clone (Actions statement),
          Resources = ResourceSet_Clone (Resources statement), Conditions = conds\<rparr>)
       (those (Functions_Clone L (Conditions statement)))"

definition Policy_Merge :: "libs \<Rightarrow> policy \<Rightarrow> policy \<Rightarrow> policy option" where
  "Policy_Merge L policy input =
     map_option
       (\<lambda>sts. Policy_dropDuplicateStatements L
          \<lparr>ID = '''', Version = (if Version policy \<noteq> '''' then Version policy else Version input),
           Statements = sts\<rparr>)
       (those (map (Statement_Clone L) (Statements policy @ Statements input)))"

end
