(* ===== verification/Bucket_Policy_Facts.thy ===== *)
theory Bucket_Policy_Facts
  imports Bucket_Policy Condition_Facts
begin

text \<open>
  What the bucket policy engine decides: the two-phase evaluation as a locale, the meaning of a
  statement, the decision of a policy, what the removal of duplicate statements keeps and loses,
  and the separation of buckets.
\<close>

section \<open>Two-phase evaluation\<close>

text \<open>
  Bucket policies and IAM policies share one scheme: a loop that stops at the first \<^verbatim>\<open>Deny\<close>
  statement that applies, and a loop that stops at the first \<^verbatim>\<open>Allow\<close> statement that applies. The
  locale states the scheme once; \<open>check\<close> says whether a statement applies to the request.
\<close>

locale effect_loops =
  fixes eff :: "'st \<Rightarrow> effect"
    and allowed :: "'st \<Rightarrow> bool option"
    and check :: "'st \<Rightarrow> bool option"
    and dloop :: "'st list \<Rightarrow> bool option"
    and aloop :: "'st list \<Rightarrow> bool option"
  assumes allowed_check: "allowed st = map_option (Effect_IsAllowed (eff st)) (check st)"
    and dloop_Nil: "dloop [] = Some True"
    and dloop_Cons: "dloop (st # sts) =
      (if eff st = Deny then
         (case allowed st of None \<Rightarrow> None | Some b \<Rightarrow> if \<not> b then Some False else dloop sts)
       else dloop sts)"
    and aloop_Nil: "aloop [] = Some False"
    and aloop_Cons: "aloop (st # sts) =
      (if eff st = Allow then
         (case allowed st of None \<Rightarrow> None | Some b \<Rightarrow> if b then Some True else aloop sts)
       else aloop sts)"
begin

lemma dloop_total:
  "\<forall>st \<in> set sts. check st \<noteq> None \<Longrightarrow>
     dloop sts = Some (\<forall>st \<in> set sts. eff st = Deny \<longrightarrow> check st = Some False)"
  by (induction sts) (auto simp: dloop_Nil dloop_Cons allowed_check Effect_IsAllowed_def)

lemma aloop_total:
  "\<forall>st \<in> set sts. check st \<noteq> None \<Longrightarrow>
     aloop sts = Some (\<exists>st \<in> set sts. eff st = Allow \<and> check st = Some True)"
  by (induction sts) (auto simp: aloop_Nil aloop_Cons allowed_check Effect_IsAllowed_def)

lemma loops_set_cong:
  assumes "set sts = set sts'" and "\<forall>st \<in> set sts. check st \<noteq> None"
  shows "dloop sts = dloop sts' \<and> aloop sts = aloop sts'"
  using assms by (simp add: dloop_total aloop_total)

lemma dloop_denied:
  assumes "st \<in> set sts" "eff st = Deny" "check st = Some True" "\<forall>s \<in> set sts. check s \<noteq> None"
  shows "dloop sts = Some False"
  using assms by (auto simp: dloop_total)

end

interpretation bucket: effect_loops Effect "\<lambda>st. Statement_IsAllowed L st args"
  "\<lambda>st. Statement_check L st args" "deny_loop L args" "allow_loop L args" for L args
  by unfold_locales (auto simp: Statement_IsAllowed_def)

section \<open>When a statement applies\<close>

definition well_behaved :: "libs \<Rightarrow> statement \<Rightarrow> args \<Rightarrow> bool" where
  "well_behaved L st args \<longleftrightarrow>
     no_empty_values (ConditionValues args) \<and> distinct (Principal st) \<and>
     (\<forall>p \<in> set (Principal st). rune_any \<notin> set (runes p)) \<and>
     (\<forall>f \<in> set (Conditions st). func_name f \<in> {ipAddress, notIPAddress} \<longrightarrow>
        (\<forall>s \<in> set (requestValue (func_key f) (ConditionValues args)). ParseIP L s \<noteq> None))"

definition statement_applies :: "libs \<Rightarrow> statement \<Rightarrow> args \<Rightarrow> bool" where
  "statement_applies L st args \<longleftrightarrow>
     (\<exists>p \<in> set (Principal st). globs (runes p) (runes (AccountName args))) \<and>
     Action args \<in> set (Actions st) \<and>
     (\<exists>r \<in> set (Resources st).
        globs (runes (expand (ConditionValues args) (Pattern r))) (runes (request_resource args))) \<and>
     (\<forall>f \<in> set (Conditions st). evaluate L f (ConditionValues args) = Some True)"

lemma any_match_total:
  "\<forall>x \<in> set xs. p x = Some (q x) \<Longrightarrow> any_match p xs = Some (\<exists>x \<in> set xs. q x)"
  by (induction xs) (auto split: bool.splits)

lemma Resource_Match_sem:
  "no_empty_values vals \<Longrightarrow>
     Resource_Match r res vals = Some (globs (runes (expand vals (Pattern r))) (runes res))"
  using substFuncFromValues_total [of vals "Pattern r"]
  by (simp add: Resource_Match_def substFuncFromValues_def Match_globs)

lemma ResourceSet_Match_sem:
  "no_empty_values vals \<Longrightarrow>
     ResourceSet_Match rs res vals =
       Some (\<exists>r \<in> set rs. globs (runes (expand vals (Pattern r))) (runes res))"
  unfolding ResourceSet_Match_def
  by (rule any_match_total) (simp add: Resource_Match_sem)

lemma Principal_Match_sem:
  assumes "string_set_laws L" "distinct p" "\<forall>q \<in> set p. rune_any \<notin> set (runes q)"
  shows "Principal_Match L p account = Some (\<exists>q \<in> set p. globs (runes q) (runes account))"
proof -
  have "any_match (\<lambda>q. MatchSimple q account) (ToSlice L p) =
      Some (\<exists>q \<in> set (ToSlice L p). globs (runes q) (runes account))"
    using assms by (intro any_match_total) (simp add: MatchSimple_globs string_set_lawsD)
  with assms show ?thesis by (simp add: Principal_Match_def string_set_lawsD)
qed

lemma Statement_check_sem:
  assumes "string_set_laws L" "well_behaved L st args"
  shows "Statement_check L st args = Some (statement_applies L st args)"
proof -
  have "\<exists>b. evaluate L f (ConditionValues args) = Some b" if "f \<in> set (Conditions st)" for f
    using assms(2) that by (intro evaluate_total) (auto simp: well_behaved_def)
  then have "Functions_Evaluate L (Conditions st) (ConditionValues args) =
      Some (\<forall>f \<in> set (Conditions st). evaluate L f (ConditionValues args) = Some True)"
    by (intro Functions_Evaluate_total) simp
  with assms show ?thesis
    by (auto simp: Statement_check_def statement_applies_def well_behaved_def Principal_Match_sem
        ResourceSet_Match_sem ActionSet_Contains_def)
qed

lemma Policy_IsAllowed_sem:
  assumes "string_set_laws L" "\<forall>st \<in> set (Statements p). well_behaved L st args"
  shows "Policy_IsAllowed L p args =
    Some ((\<forall>st \<in> set (Statements p). Effect st = Deny \<longrightarrow> \<not> statement_applies L st args) \<and>
          (IsOwner args \<or>
           (\<exists>st \<in> set (Statements p). Effect st = Allow \<and> statement_applies L st args)))"
proof -
  have c: "\<forall>st \<in> set (Statements p).
      Statement_check L st args = Some (statement_applies L st args)"
    using assms by (simp add: Statement_check_sem)
  then have "\<forall>st \<in> set (Statements p). Statement_check L st args \<noteq> None" by simp
  with c show ?thesis
    by (auto simp: Policy_IsAllowed_def bucket.dloop_total bucket.aloop_total)
qed

section \<open>Duplicate statements\<close>

lemma drop_duplicates_subset: "set (drop_duplicates eq xs) \<subseteq> set xs"
proof (induction eq xs rule: drop_duplicates.induct)
  case (1 eq xs)
  show ?case
  proof (cases "find_duplicate eq xs")
    case None
    then show ?thesis by (simp add: drop_duplicates.simps)
  next
    case (Some j)
    from 1 [OF Some] show ?thesis
      using set_take_subset [of j xs] set_drop_subset [of "Suc j" xs]
      by (auto simp: drop_duplicates.simps [of eq xs] Some)
  qed
qed

lemma find_duplicate_drop_duplicates: "find_duplicate eq (drop_duplicates eq xs) = None"
proof (induction eq xs rule: drop_duplicates.induct)
  case (1 eq xs)
  then show ?case
    by (cases "find_duplicate eq xs") (simp_all add: drop_duplicates.simps [of eq xs])
qed

lemma index_of_None_iff: "index_of p xs = None \<longleftrightarrow> (\<forall>x \<in> set xs. \<not> p x)"
  by (induction xs) auto

lemma find_duplicate_None_iff:
  "find_duplicate eq xs = None \<longleftrightarrow> sorted_wrt (\<lambda>x y. \<not> eq x y) xs"
proof (induction xs)
  case (Cons x xs)
  then show ?case
    using index_of_None_iff [of "eq x" xs] by (cases "index_of (eq x) xs") auto
qed simp

lemma drop_duplicates_sorted_wrt: "sorted_wrt (\<lambda>x y. \<not> eq x y) (drop_duplicates eq xs)"
  using find_duplicate_drop_duplicates [of eq xs] by (simp add: find_duplicate_None_iff)

lemma drop_duplicates_id: "sorted_wrt (\<lambda>x y. \<not> eq x y) xs \<Longrightarrow> drop_duplicates eq xs = xs"
  by (simp add: drop_duplicates.simps find_duplicate_None_iff [symmetric])

lemma drop_duplicates_loses:
  "eq a a \<Longrightarrow> \<not> eq a d \<Longrightarrow> drop_duplicates eq [a, d, a] = [a]"
  by (simp add: drop_duplicates.simps)

lemma map_set_Equals_refl: "map_set_Equals s s"
  by (simp add: map_set_Equals_def list_all_iff)

lemma Statement_Equals_refl: "string_set_laws L \<Longrightarrow> Statement_Equals L st st"
  by (auto simp: Statement_Equals_def Principal_Equals_def ActionSet_Equals_def
      ResourceSet_Equals_def Functions_Equals_def map_set_Equals_refl string_set_lawsD
      list_all_iff list_ex_iff)

lemma Statement_Equals_effect: "Effect a \<noteq> Effect b \<Longrightarrow> \<not> Statement_Equals L a b"
  by (simp add: Statement_Equals_def)

section \<open>Resources of one bucket\<close>

definition plain :: "string \<Rightarrow> bool" where
  "plain s \<longleftrightarrow> ascii s \<and> list_all (\<lambda>c. c \<notin> {CHR ''*'', CHR ''?'', CHR ''$''}) s"

lemma expand_absent: "CHR ''$'' \<notin> set v \<Longrightarrow> expand vals v = v"
proof -
  assume a: "CHR ''$'' \<notin> set v"
  have "foldl (expand_key vals) v ks = v" for ks
    using a by (induction ks)
      (auto simp: expand_key_def ReplaceAll_absent Key_VarName_def split: option.splits list.splits)
  then show ?thesis by (simp add: expand_def)
qed

lemma globs_literal_append:
  "\<forall>r \<in> set ls. r \<noteq> rune_star \<and> r \<noteq> rune_any \<Longrightarrow>
     globs (ls @ ps) ys \<longleftrightarrow> prefix ls ys \<and> globs ps (drop (length ls) ys)"
proof (induction ls arbitrary: ys)
  case (Cons l ls)
  then show ?case by (cases ys) (auto simp: globs_lit_iff)
qed simp

lemma utf8_second_cases:
  "utf8_second b0 b1 \<Longrightarrow> 128 \<le> b1 \<and> (b0 = 224 \<longrightarrow> 160 \<le> b1) \<and> (b0 = 240 \<longrightarrow> 144 \<le> b1)"
  by (auto simp: utf8_second_def utf8_cont_def split: if_splits)

lemma utf8_two: "194 \<le> (b0::nat) \<Longrightarrow> 128 \<le> (b0 - 192) * 64 + c"
  by arith

lemma utf8_three:
  "224 \<le> (b0::nat) \<Longrightarrow> utf8_second b0 b1 \<Longrightarrow> 128 \<le> (b0 - 224) * 4096 + (b1 - 128) * 64 + c"
  by (drule utf8_second_cases) (cases "b0 = 224", auto)

lemma utf8_four:
  "240 \<le> (b0::nat) \<Longrightarrow> utf8_second b0 b1 \<Longrightarrow>
     128 \<le> (b0 - 240) * 262144 + (b1 - 128) * 4096 + c + d"
  by (drule utf8_second_cases) (cases "b0 = 240", auto)

lemma utf8_head_ascii: "\<not> b < 128 \<Longrightarrow> 128 \<le> fst (utf8_head (b # bs))"
  by (simp add: rune_error_def utf8_two utf8_three utf8_four split: list.split)

lemma prefix_utf8_runes:
  "\<forall>b \<in> set bs. b < 128 \<Longrightarrow> prefix bs (utf8_runes cs) \<longleftrightarrow> prefix bs cs"
proof (induction bs arbitrary: cs)
  case (Cons b bs)
  show ?case
  proof (cases cs)
    case (Cons c cs')
    obtain r w where rw: "utf8_head (c # cs') = (r, w)" by (cases "utf8_head (c # cs')")
    show ?thesis
    proof (cases "c < 128")
      case True
      with Cons Cons.IH Cons.prems show ?thesis by auto
    next
      case False
      then have "\<not> r < 128" using utf8_head_ascii [of c cs'] rw by simp
      with Cons rw Cons.prems False show ?thesis by auto
    qed
  qed simp
qed simp

lemma prefix_map_byte: "prefix (map byte s :: nat list) (map byte t) \<longleftrightarrow> prefix s t"
proof (induction s arbitrary: t)
  case (Cons c s)
  then show ?case by (cases t) auto
qed simp

lemma prefix_runes: "ascii s \<Longrightarrow> prefix (map byte s) (runes t) \<longleftrightarrow> prefix s t"
  using prefix_utf8_runes [of "map byte s" "map byte t"]
  by (simp add: runes_def ascii_def prefix_map_byte)

lemma byte_eqD: "byte c = (byte d :: nat) \<Longrightarrow> c = d"
  by simp

lemma globs_plain:
  assumes "plain s"
  shows "globs (map byte s @ ps) ys \<longleftrightarrow> prefix (map byte s) ys \<and> globs ps (drop (length s) ys)"
proof -
  have "byte c \<noteq> rune_star \<and> byte c \<noteq> rune_any" if "c \<in> set s" for c
  proof -
    have "c \<noteq> CHR ''*''" "c \<noteq> CHR ''?''" using that assms by (auto simp: plain_def list_all_iff)
    then show ?thesis using byte_eqD [of c "CHR ''*''"] byte_eqD [of c "CHR ''?''"] by auto
  qed
  then show ?thesis using globs_literal_append [of "map byte s" ps ys] by simp
qed

lemma plain_resource_match:
  assumes "no_empty_values vals" "plain bucketName"
  shows "Resource_Match (NewResource bucketName ''*'') res vals =
    Some (prefix (bucketName @ ''/'') res)"
proof -
  have p: "plain (bucketName @ ''/'')" using assms(2) by (simp add: plain_def ascii_def)
  have v: "CHR ''$'' \<notin> set (bucketName @ ''/*'')"
    using assms(2) by (auto simp: plain_def list_all_iff)
  have a: "ascii (bucketName @ ''/*'')" using p by (simp add: plain_def ascii_def)
  have "runes (bucketName @ ''/*'') = map byte (bucketName @ ''/'') @ [rune_star]"
    using runes_ascii [OF a] by simp
  then have "globs (runes (bucketName @ ''/*'')) (runes res) \<longleftrightarrow>
      prefix (map byte (bucketName @ ''/'')) (runes res)"
    using globs_plain [OF p, of "[rune_star]" "runes res"] globs_all by simp
  with prefix_runes [of "bucketName @ ''/''" res] p v assms(1) show ?thesis
    by (simp add: Resource_Match_sem NewResource_def expand_absent plain_def)
qed

section \<open>Parsing\<close>

lemma HasPrefix_append: "HasPrefix (p @ s) p"
  by simp

lemma parseResource_String:
  "parseResource s = Inr r \<Longrightarrow> Resource_String r = s"
  by (auto simp: parseResource_def Resource_String_def TrimPrefix_def Let_def prefix_def
      split: if_splits)

lemma parseResource_roundtrip:
  assumes "parseResource s = Inr r"
  shows "parseResource (Resource_String r) = Inr r"
  using assms parseResource_String [OF assms] by simp

lemma Policy_isValid_subset:
  assumes "Policy_isValid p = None" "set sts \<subseteq> set (Statements p)"
  shows "Policy_isValid (p\<lparr>Statements := sts\<rparr>) = None"
  using assms by (auto simp: Policy_isValid_def first_error_None_iff split: if_splits)

section \<open>Properties\<close>

lemma owner_and_allow:
  assumes "string_set_laws L" "\<forall>st \<in> set (xs @ x # ys). well_behaved L st args"
    and "Statements p = xs @ x # ys" "Statements q = xs @ ys"
  shows "Effect x = Deny \<Longrightarrow> Policy_IsAllowed L p args = Some True \<Longrightarrow> Policy_IsAllowed L q args = Some True"
    and "Effect x = Allow \<Longrightarrow> Policy_IsAllowed L q args = Some True \<Longrightarrow> Policy_IsAllowed L p args = Some True"
proof -
  have p: "\<forall>st \<in> set (Statements p). well_behaved L st args"
    and q: "\<forall>st \<in> set (Statements q). well_behaved L st args"
    using assms(2-4) by auto
  show "Effect x = Deny \<Longrightarrow> Policy_IsAllowed L p args = Some True \<Longrightarrow> Policy_IsAllowed L q args = Some True"
    by (auto simp: Policy_IsAllowed_sem [OF assms(1) p] Policy_IsAllowed_sem [OF assms(1) q] assms(3,4))
  show "Effect x = Allow \<Longrightarrow> Policy_IsAllowed L q args = Some True \<Longrightarrow> Policy_IsAllowed L p args = Some True"
    by (auto simp: Policy_IsAllowed_sem [OF assms(1) p] Policy_IsAllowed_sem [OF assms(1) q] assms(3,4))
qed

lemma prefix_slash_absent:
  assumes "CHR ''/'' \<notin> set b'" "CHR ''/'' \<notin> set b" "prefix (b @ [CHR ''/'']) (b' @ s)"
    and "s = [] \<or> hd s = CHR ''/''"
  shows "b' = b"
  using assms
proof (induction b arbitrary: b')
  case Nil
  then show ?case by (cases b') auto
next
  case (Cons c b)
  then show ?case by (cases b') (auto simp: prefix_def)
qed

text \<open>
  A small bucket policy for the witnesses: everyone may read the objects of \<^verbatim>\<open>photos\<close>, and nobody
  whose name starts with \<^verbatim>\<open>ev\<close>.
\<close>

definition photos_allow :: statement where
  "photos_allow = \<lparr>SID = '''', Effect = Allow, Principal = [''*''], Actions = [''s3:GetObject''],
     Resources = [NewResource ''photos'' ''*''], Conditions = []\<rparr>"

definition photos_deny :: statement where
  "photos_deny = photos_allow\<lparr>Effect := Deny, Principal := [''ev*'']\<rparr>"

definition photos_args :: "string \<Rightarrow> string \<Rightarrow> args" where
  "photos_args account bucket =
     \<lparr>AccountName = account, Groups = [], Action = ''s3:GetObject'', ArgsBucketName = bucket,
      ConditionValues = (\<lambda>k. None), IsOwner = False, ObjectName = ''cat''\<rparr>"

definition photos_policy :: "statement list \<Rightarrow> policy" where
  "photos_policy sts = \<lparr>ID = '''', Version = DefaultVersion, Statements = sts\<rparr>"

lemmas photos_defs = photos_allow_def photos_deny_def photos_args_def photos_policy_def

lemma photos_effects [simp]: "Effect photos_allow = Allow" "Effect photos_deny = Deny"
  by (simp_all add: photos_allow_def photos_deny_def)

lemma photos_well_behaved:
  "st \<in> {photos_allow, photos_deny} \<Longrightarrow> well_behaved L st (photos_args account bucket)"
proof -
  have "rune_any \<notin> set (runes ''*'')" "rune_any \<notin> set (runes ''ev*'')" by code_simp+
  then show "st \<in> {photos_allow, photos_deny} \<Longrightarrow> well_behaved L st (photos_args account bucket)"
    by (auto simp: well_behaved_def photos_defs no_empty_values_def list_all_iff)
qed

lemma photos_checks:
  "Statement_check list_libs photos_allow (photos_args ''eve'' ''photos'') = Some True"
  "Statement_check list_libs photos_deny (photos_args ''eve'' ''photos'') = Some True"
  by code_simp+

lemma photos_applies:
  "statement_applies list_libs photos_allow (photos_args ''eve'' ''photos'')"
  "statement_applies list_libs photos_deny (photos_args ''eve'' ''photos'')"
  using photos_checks Statement_check_sem [OF list_libs_laws photos_well_behaved] by auto

lemma photos_valid:
  "Statement_isValid photos_allow = None" "Statement_isValid photos_deny = None"
proof -
  have "Action_isObjectAction ''s3:GetObject''" "objectResourceExists [NewResource ''photos'' ''*'']"
    by code_simp+
  then show "Statement_isValid photos_allow = None" "Statement_isValid photos_deny = None"
    by (simp_all add: Statement_isValid_def statement_action_error_def photos_defs
        Functions_Keys_def NewKeySet_def KeySet_Difference_def KeySet_IsEmpty_def Effect_IsValid_def
        Principal_IsValid_def)
qed

lemma photos_policy_valid:
  "set sts \<subseteq> {photos_allow, photos_deny} \<Longrightarrow> Policy_isValid (photos_policy sts) = None"
  using photos_valid by (auto simp: Policy_isValid_def photos_policy_def first_error_None_iff)

lemma photos_unmarshal:
  assumes "set sts \<subseteq> {photos_allow, photos_deny}"
  shows "Policy_UnmarshalJSON L (photos_policy sts) =
    Inr (photos_policy (drop_duplicates (Statement_Equals L) sts))"
proof -
  have "Policy_dropDuplicateStatements L (photos_policy sts) =
      photos_policy (drop_duplicates (Statement_Equals L) sts)"
    by (simp add: Policy_dropDuplicateStatements_def photos_policy_def)
  then show ?thesis by (simp add: Policy_UnmarshalJSON_def photos_policy_valid [OF assms])
qed

lemma photos_Equals [simp]:
  "Statement_Equals list_libs photos_allow photos_allow"
  "Statement_Equals list_libs photos_deny photos_deny"
  "\<not> Statement_Equals list_libs photos_allow photos_deny"
  "\<not> Statement_Equals list_libs photos_deny photos_allow"
  by (simp_all add: Statement_Equals_refl list_libs_laws Statement_Equals_effect)

text \<open>
  C1: Deny overrides Allow. For a request on which no part of the policy panics, the decision of
  \<^verbatim>\<open>Policy.IsAllowed\<close> is: no \<^verbatim>\<open>Deny\<close> statement applies, and the caller is the owner or some
  \<^verbatim>\<open>Allow\<close> statement applies, where a statement applies when a principal pattern matches the
  account, the action is listed, an expanded resource pattern matches the resource, and every
  condition holds.
\<close>
theorem Policy_IsAllowed_deny_overrides:
  assumes "string_set_laws L" "\<forall>st \<in> set (Statements p). well_behaved L st args"
  shows "Policy_IsAllowed L p args =
    Some ((\<forall>st \<in> set (Statements p). Effect st = Deny \<longrightarrow> \<not> statement_applies L st args) \<and>
          (IsOwner args \<or>
           (\<exists>st \<in> set (Statements p). Effect st = Allow \<and> statement_applies L st args)))"
  using assms by (rule Policy_IsAllowed_sem)

theorem Policy_IsAllowed_deny_overrides_witness:
  "Policy_IsAllowed list_libs (photos_policy [photos_allow, photos_deny])
     (photos_args ''eve'' ''photos'') = Some False"
proof -
  have "\<forall>st \<in> set (Statements (photos_policy [photos_allow, photos_deny])).
      well_behaved list_libs st (photos_args ''eve'' ''photos'')"
    by (simp add: photos_policy_def photos_well_behaved)
  from Policy_IsAllowed_deny_overrides [OF list_libs_laws this] show ?thesis
    by (simp add: photos_applies photos_policy_def photos_effects)
qed

text \<open>
  C16: The effect of one statement. Inserting a \<^verbatim>\<open>Deny\<close> statement anywhere in a policy never turns a
  refused request into an allowed one, and inserting an \<^verbatim>\<open>Allow\<close> statement never turns an allowed
  request into a refused one; two policies with the same statements in another order, or repeated,
  decide alike.
\<close>
theorem Policy_IsAllowed_monotone:
  assumes "string_set_laws L" "\<forall>st \<in> set (xs @ x # ys). well_behaved L st args"
    and "Statements p = xs @ x # ys" "Statements q = xs @ ys"
  shows "(Effect x = Deny \<longrightarrow> Policy_IsAllowed L q args = Some False \<longrightarrow>
            Policy_IsAllowed L p args = Some False) \<and>
         (Effect x = Allow \<longrightarrow> Policy_IsAllowed L q args = Some True \<longrightarrow>
            Policy_IsAllowed L p args = Some True) \<and>
         (set (Statements r) = set (Statements p) \<longrightarrow>
            Policy_IsAllowed L r args = Policy_IsAllowed L p args)"
proof (intro conjI impI)
  have p: "\<forall>st \<in> set (Statements p). well_behaved L st args" using assms by simp
  then obtain b where b: "Policy_IsAllowed L p args = Some b"
    using Policy_IsAllowed_sem [OF assms(1)] by blast
  show "Policy_IsAllowed L p args = Some False"
    if "Effect x = Deny" "Policy_IsAllowed L q args = Some False"
    using owner_and_allow(1) [OF assms that(1)] that(2) b by (cases b) auto
  show "Policy_IsAllowed L p args = Some True"
    if "Effect x = Allow" "Policy_IsAllowed L q args = Some True"
    using owner_and_allow(2) [OF assms] that .
  show "Policy_IsAllowed L r args = Policy_IsAllowed L p args"
    if "set (Statements r) = set (Statements p)"
    using p that Policy_IsAllowed_sem [OF assms(1), of p args] Policy_IsAllowed_sem [OF assms(1), of r args]
    by simp
qed

theorem Policy_IsAllowed_monotone_witness:
  "Policy_IsAllowed list_libs (photos_policy [photos_deny, photos_allow])
       (photos_args ''eve'' ''photos'') =
     Policy_IsAllowed list_libs (photos_policy [photos_allow, photos_deny, photos_allow])
       (photos_args ''eve'' ''photos'')"
proof -
  have w: "\<forall>st \<in> set ([photos_allow] @ photos_deny # [photos_allow]).
      well_behaved list_libs st (photos_args ''eve'' ''photos'')"
    by (simp add: photos_well_behaved)
  show ?thesis
    using Policy_IsAllowed_monotone [OF list_libs_laws w,
        of "photos_policy [photos_allow, photos_deny, photos_allow]"
          "photos_policy [photos_allow, photos_allow]" "photos_policy [photos_deny, photos_allow]"]
    by (simp add: photos_policy_def insert_commute)
qed

text \<open>
  What parsing keeps. A policy that \<^verbatim>\<open>UnmarshalJSON\<close> accepts has only statements of the
  document, no two of which are equal; a document without equal statements is kept as it is, and
  parsing the result again changes nothing.
\<close>
theorem Policy_UnmarshalJSON_statements:
  assumes "Policy_UnmarshalJSON L p = Inr p'"
  shows "set (Statements p') \<subseteq> set (Statements p) \<and>
    sorted_wrt (\<lambda>x y. \<not> Statement_Equals L x y) (Statements p') \<and>
    (sorted_wrt (\<lambda>x y. \<not> Statement_Equals L x y) (Statements p) \<longrightarrow> p' = p) \<and>
    Policy_UnmarshalJSON L p' = Inr p'"
proof -
  have v: "Policy_isValid p = None" and p': "p' = Policy_dropDuplicateStatements L p"
    using assms by (auto simp: Policy_UnmarshalJSON_def split: option.splits)
  have s: "set (Statements p') \<subseteq> set (Statements p)"
    using drop_duplicates_subset by (simp add: p' Policy_dropDuplicateStatements_def)
  have d: "sorted_wrt (\<lambda>x y. \<not> Statement_Equals L x y) (Statements p')"
    using drop_duplicates_sorted_wrt by (simp add: p' Policy_dropDuplicateStatements_def)
  have "Policy_isValid p' = None"
    using Policy_isValid_subset [OF v s] by (simp add: p' Policy_dropDuplicateStatements_def)
  then have "Policy_UnmarshalJSON L p' = Inr p'"
    using d by (simp add: Policy_UnmarshalJSON_def Policy_dropDuplicateStatements_def drop_duplicates_id)
  with s d show ?thesis
    by (simp add: p' Policy_dropDuplicateStatements_def drop_duplicates_id)
qed

theorem Policy_UnmarshalJSON_statements_witness:
  "Policy_UnmarshalJSON list_libs (photos_policy [photos_allow, photos_deny]) =
     Inr (photos_policy [photos_allow, photos_deny])"
proof -
  have "Policy_UnmarshalJSON list_libs (photos_policy [photos_allow, photos_allow, photos_deny]) =
     Inr (photos_policy [photos_allow, photos_deny])"
    by (simp add: photos_unmarshal drop_duplicates.simps)
  from Policy_UnmarshalJSON_statements [OF this] show ?thesis by simp
qed


text \<open>
  C11: The removal of duplicates can drop a \<^verbatim>\<open>Deny\<close>. The loop deletes the statement at position
  \<^verbatim>\<open>j\<close> of the whole list although \<^verbatim>\<open>j\<close> counts from \<^verbatim>\<open>i+1\<close>. A document that lists an \<^verbatim>\<open>Allow\<close>
  statement, a \<^verbatim>\<open>Deny\<close> statement and the \<^verbatim>\<open>Allow\<close> statement again is parsed into the \<^verbatim>\<open>Allow\<close>
  statement alone, so that a request both statements apply to is refused by the document and
  allowed by the parsed policy.
\<close>
theorem duplicate_removal_loses_deny:
  assumes "string_set_laws L" "Effect a = Allow" "Effect d = Deny"
    and "Statements p = [a, d, a]" "Policy_isValid p = None"
    and "well_behaved L a args" "well_behaved L d args"
    and "statement_applies L a args" "statement_applies L d args"
  shows "Policy_IsAllowed L p args = Some False \<and>
    Policy_UnmarshalJSON L p = Inr (p\<lparr>Statements := [a]\<rparr>) \<and>
    Policy_IsAllowed L (p\<lparr>Statements := [a]\<rparr>) args = Some True"
proof -
  have "drop_duplicates (Statement_Equals L) [a, d, a] = [a]"
    using assms(1-3) by (simp add: drop_duplicates_loses Statement_Equals_refl Statement_Equals_effect)
  then have u: "Policy_UnmarshalJSON L p = Inr (p\<lparr>Statements := [a]\<rparr>)"
    using assms(4,5) by (simp add: Policy_UnmarshalJSON_def Policy_dropDuplicateStatements_def)
  have "Policy_IsAllowed L p args = Some False"
    using assms Policy_IsAllowed_sem [OF assms(1), of p args] by simp
  moreover have "Policy_IsAllowed L (p\<lparr>Statements := [a]\<rparr>) args = Some True"
    using assms Policy_IsAllowed_sem [OF assms(1), of "p\<lparr>Statements := [a]\<rparr>" args] by simp
  ultimately show ?thesis using u by simp
qed

theorem duplicate_removal_loses_deny_witness:
  "Policy_UnmarshalJSON list_libs (photos_policy [photos_allow, photos_deny, photos_allow]) =
     Inr (photos_policy [photos_allow])"
  using duplicate_removal_loses_deny [OF list_libs_laws photos_effects,
      of "photos_policy [photos_allow, photos_deny, photos_allow]" "photos_args ''eve'' ''photos''"]
    photos_policy_valid [of "[photos_allow, photos_deny, photos_allow]"]
  by (simp add: photos_well_behaved photos_applies photos_policy_def)



text \<open>
  C38: What a configured policy guarantees. A policy that \<^verbatim>\<open>ParseConfig\<close> accepts for a bucket has
  only valid statements of the document, every resource of which names that bucket, by name or by a
  wildcard pattern.
\<close>
theorem Policy_ParseConfig_sound:
  assumes "Policy_ParseConfig L p bucketName = Inr p'"
  shows "\<forall>st \<in> set (Statements p'). st \<in> set (Statements p) \<and> Statement_isValid st = None \<and>
    (\<forall>r \<in> set (Resources st). Resource_IsValid r \<and> globs (runes (BucketName r)) (runes bucketName))"
proof
  fix st assume st: "st \<in> set (Statements p')"
  have v: "Policy_Validate p' bucketName = None" and u: "Policy_UnmarshalJSON L p = Inr p'"
    using assms by (auto simp: Policy_ParseConfig_def split: sum.splits option.splits)
  have "set (Statements p') \<subseteq> set (Statements p)"
    using u drop_duplicates_subset [of "Statement_Equals L" "Statements p"]
    by (auto simp: Policy_UnmarshalJSON_def Policy_dropDuplicateStatements_def split: option.splits)
  moreover have "Statement_Validate st bucketName = None"
    using v st by (auto simp: Policy_Validate_def first_error_None_iff split: option.splits)
  ultimately show "st \<in> set (Statements p) \<and> Statement_isValid st = None \<and>
      (\<forall>r \<in> set (Resources st). Resource_IsValid r \<and> globs (runes (BucketName r)) (runes bucketName))"
    using st by (auto simp: Statement_Validate_def ResourceSet_Validate_def Resource_Validate_def
        first_error_None_iff Match_globs split: option.splits if_splits)
qed

theorem Policy_ParseConfig_sound_witness:
  "Policy_ParseConfig list_libs (photos_policy [photos_allow]) ''photos'' =
     Inr (photos_policy [photos_allow]) \<and>
   globs (runes (BucketName (NewResource ''photos'' ''*''))) (runes ''photos'')"
proof -
  have "ResourceSet_Validate (Resources photos_allow) ''photos'' = None" by code_simp
  then have "Statement_Validate photos_allow ''photos'' = None"
    by (simp add: Statement_Validate_def photos_valid)
  then have p: "Policy_ParseConfig list_libs (photos_policy [photos_allow]) ''photos'' =
      Inr (photos_policy [photos_allow])"
    using photos_policy_valid [of "[photos_allow]"]
    by (simp add: Policy_ParseConfig_def photos_unmarshal drop_duplicates_id Policy_Validate_def)
      (simp add: photos_policy_def)
  have "Resources photos_allow = [NewResource ''photos'' ''*'']" by (simp add: photos_allow_def)
  with Policy_ParseConfig_sound [OF p] p show ?thesis by (simp add: photos_policy_def)
qed

end
