(* ===== verification/Go_Path.thy ===== *)
theory Go_Path
  imports Go_Strings
begin

text \<open>
  More of the Go library: \<^verbatim>\<open>path.Clean\<close>, \<^verbatim>\<open>path.Join\<close>, \<^verbatim>\<open>strings.TrimSpace\<close> and
  \<^verbatim>\<open>utf8.ValidString\<close>.
\<close>

section \<open>Paths\<close>

text \<open>
  One component of the path against the stack of the components kept so far, last one first:
  empty components and \<^verbatim>\<open>.\<close> go, and \<^verbatim>\<open>..\<close> takes the component before it with it, except at the
  start of the path.
\<close>

definition clean_step :: "bool \<Rightarrow> string list \<Rightarrow> string \<Rightarrow> string list" where
  "clean_step rooted stack c =
     (if c = '''' \<or> c = ''.'' then stack
      else if c = ''..'' then
        (case stack of
           [] \<Rightarrow> if rooted then [] else [''..'']
         | t # ts \<Rightarrow> if t = ''..'' then ''..'' # stack else ts)
      else c # stack)"

definition clean_components :: "bool \<Rightarrow> string \<Rightarrow> string list" where
  "clean_components rooted p = rev (foldl (clean_step rooted) [] (split_byte CHR ''/'' p))"

definition path_Clean :: "string \<Rightarrow> string" where
  "path_Clean p =
     (let rooted = HasPrefix p ''/'';
          cs = clean_components rooted p
      in if rooted then ''/'' @ join_byte CHR ''/'' cs
         else if cs = [] then ''.''
         else join_byte CHR ''/'' cs)"

text \<open>\<^verbatim>\<open>path.Join\<close>: the non-empty elements with slashes between, cleaned.\<close>

definition path_Join :: "string list \<Rightarrow> string" where
  "path_Join elems =
     (case filter (\<lambda>e. e \<noteq> '''') elems of
        [] \<Rightarrow> ''''
      | es \<Rightarrow> path_Clean (join_byte CHR ''/'' es))"

text \<open>\<^verbatim>\<open>path.Dir\<close>: what stands before the last slash, cleaned.\<close>

definition path_Dir :: "string \<Rightarrow> string" where
  "path_Dir p = path_Clean (rev (dropWhile (\<lambda>c. c \<noteq> CHR ''/'') (rev p)))"

text \<open>A component that cleaning keeps.\<close>

definition clean_name :: "string \<Rightarrow> bool" where
  "clean_name c \<longleftrightarrow> c \<noteq> '''' \<and> c \<noteq> ''.'' \<and> c \<noteq> ''..'' \<and> CHR ''/'' \<notin> set c"

lemma clean_step_name: "clean_name c \<Longrightarrow> clean_step rooted stack c = c # stack"
  by (simp add: clean_name_def clean_step_def)

lemma foldl_clean_step_names:
  "list_all clean_name cs \<Longrightarrow> foldl (clean_step rooted) stack cs = rev cs @ stack"
  by (induction cs arbitrary: stack) (auto simp: clean_step_name)

section \<open>White space and validity\<close>

text \<open>The UTF-8 encodings of the white space runes (\<^verbatim>\<open>unicode.IsSpace\<close>).\<close>

definition space_encodings :: "string list" where
  "space_encodings =
     map (map char_of)
       ([[9], [10], [11], [12], [13], [32], [194, 133], [194, 160], [225, 154, 128 :: nat]] @
        map (\<lambda>b. [226, 128, b]) [128, 129, 130, 131, 132, 133, 134, 135, 136, 137, 138, 168, 169, 175] @
        [[226, 129, 159], [227, 128, 128]])"

text \<open>The loop that takes encodings of \<open>es\<close> off the front as long as there is one.\<close>

lemma find_prefix_shorter:
  "find (\<lambda>e. e \<noteq> [] \<and> prefix e s) es = Some e \<Longrightarrow> length s - length e < length s"
  by (auto simp: find_Some_iff dest: prefix_length_le intro!: diff_less)

function trim_prefixes :: "'a list list \<Rightarrow> 'a list \<Rightarrow> 'a list" where
  "trim_prefixes es s =
     (case find (\<lambda>e. e \<noteq> [] \<and> prefix e s) es of
        None \<Rightarrow> s
      | Some e \<Rightarrow> trim_prefixes es (drop (length e) s))"
  by pat_completeness auto
termination
  by (relation "measure (\<lambda>(es, s). length s)") (auto dest: find_prefix_shorter)

declare trim_prefixes.simps [simp del]

definition TrimSpace :: "string \<Rightarrow> string" where
  "TrimSpace s =
     rev (trim_prefixes (map rev space_encodings) (rev (trim_prefixes space_encodings s)))"

lemma set_trim_prefixes: "set (trim_prefixes es s) \<subseteq> set s"
proof (induction es s rule: trim_prefixes.induct)
  case (1 es s)
  show ?case
  proof (cases "find (\<lambda>e. e \<noteq> [] \<and> prefix e s) es")
    case None
    then show ?thesis by (simp add: trim_prefixes.simps [of es s])
  next
    case (Some e)
    with 1 [OF Some] show ?thesis
      by (auto simp: trim_prefixes.simps [of es s] dest: in_set_dropD)
  qed
qed

lemma set_TrimSpace: "set (TrimSpace s) \<subseteq> set s"
  using set_trim_prefixes [of "map rev space_encodings" "rev (trim_prefixes space_encodings s)"]
    set_trim_prefixes [of space_encodings s]
  by (auto simp: TrimSpace_def)

lemma trim_prefixes_none:
  "\<forall>e \<in> set es. e \<noteq> [] \<longrightarrow> \<not> prefix e s \<Longrightarrow> trim_prefixes es s = s"
  by (subst trim_prefixes.simps) (auto split: option.split simp: find_Some_iff)

text \<open>\<^verbatim>\<open>utf8.ValidString\<close>: no byte decodes to the error rune of width one.\<close>

fun utf8_valid :: "nat list \<Rightarrow> bool" where
  "utf8_valid [] = True"
| "utf8_valid (b # bs) =
     (let (r, w) = utf8_head (b # bs)
      in (r, w) \<noteq> (rune_error, 1) \<and> utf8_valid (drop (w - 1) bs))"

definition ValidString :: "string \<Rightarrow> bool" where
  "ValidString s = utf8_valid (map byte s)"

lemma ValidString_ascii: "ascii s \<Longrightarrow> ValidString s"
proof -
  have "(\<forall>b \<in> set bs. b < 128) \<Longrightarrow> utf8_valid bs" for bs
    by (induction bs) (auto simp: rune_error_def)
  then show "ascii s \<Longrightarrow> ValidString s" by (simp add: ascii_def ValidString_def)
qed

end
