(* ===== verification/IAM_Policy.thy ===== *)
theory IAM_Policy
  imports Bucket_Policy_Facts Go_Path
begin

text \<open>
  \<^verbatim>\<open>pkg/iam/policy\<close>: the policies of users and groups. They share effects, conditions and the
  evaluation scheme with bucket policies; actions are wildcard patterns, there is no principal,
  administrative statements ignore the resource, and the policies of a request may come from the
  claims of a token.
\<close>

section \<open>Actions\<close>

definition iamObjectTagConditionKeys :: "key list" where
  "iamObjectTagConditionKeys = [S3ExistingObjectTag, S3RequestObjectTag]"

definition IAM_supportedActions :: "action list" where
  "IAM_supportedActions =
     [''s3:AbortMultipartUpload'', ''s3:CreateBucket'', ''s3:DeleteBucket'',
      ''s3:ForceDeleteBucket'', ''s3:DeleteBucketPolicy'', ''s3:DeleteObject'',
      ''s3:GetBucketLocation'', ''s3:GetBucketNotification'', ''s3:GetBucketPolicy'',
      ''s3:GetObject'', ''s3:HeadBucket'', ''s3:ListAllMyBuckets'', ''s3:ListBucket'',
      ''s3:GetBucketPolicyStatus'', ''s3:ListBucketVersions'', ''s3:ListBucketMultipartUploads'',
      ''s3:ListenNotification'', ''s3:ListenBucketNotification'', ''s3:ListMultipartUploadParts'',
      ''s3:PutLifecycleConfiguration'', ''s3:GetLifecycleConfiguration'',
      ''s3:PutBucketNotification'', ''s3:PutBucketPolicy'', ''s3:PutObject'',
      ''s3:BypassGovernanceRetention'', ''s3:PutObjectRetention'', ''s3:GetObjectRetention'',
      ''s3:GetObjectLegalHold'', ''s3:PutObjectLegalHold'',
      ''s3:GetBucketObjectLockConfiguration'', ''s3:PutBucketObjectLockConfiguration'',
      ''s3:GetBucketTagging'', ''s3:PutBucketTagging'', ''s3:GetObjectVersion'',
      ''s3:GetObjectVersionTagging'', ''s3:DeleteObjectVersion'',
      ''s3:DeleteObjectVersionTagging'', ''s3:PutObjectVersionTagging'', ''s3:GetObjectTagging'',
      ''s3:PutObjectTagging'', ''s3:DeleteObjectTagging'', ''s3:PutEncryptionConfiguration'',
      ''s3:GetEncryptionConfiguration'', ''s3:PutBucketVersioning'', ''s3:GetBucketVersioning'',
      ''s3:GetReplicationConfiguration'', ''s3:PutReplicationConfiguration'',
      ''s3:ReplicateObject'', ''s3:ReplicateDelete'', ''s3:ReplicateTags'',
      ''s3:GetObjectVersionForReplication'', ''s3:*'']"

definition IAM_supportedObjectActions :: "action list" where
  "IAM_supportedObjectActions =
     [''s3:*'', ''s3:AbortMultipartUpload'', ''s3:DeleteObject'', ''s3:GetObject'',
      ''s3:ListMultipartUploadParts'', ''s3:PutObject'', ''s3:BypassGovernanceRetention'',
      ''s3:PutObjectRetention'', ''s3:GetObjectRetention'', ''s3:PutObjectLegalHold'',
      ''s3:GetObjectLegalHold'', ''s3:GetObjectTagging'', ''s3:PutObjectTagging'',
      ''s3:DeleteObjectTagging'', ''s3:GetObjectVersion'', ''s3:GetObjectVersionTagging'',
      ''s3:DeleteObjectVersion'', ''s3:DeleteObjectVersionTagging'',
      ''s3:PutObjectVersionTagging'', ''s3:ReplicateObject'', ''s3:ReplicateDelete'',
      ''s3:ReplicateTags'', ''s3:GetObjectVersionForReplication'']"

definition iamActionConditionKeyMap :: "(action \<times> key_set) list" where
  "iamActionConditionKeyMap =
     [(''s3:*'', NewKeySet AllSupportedKeys),
      (''s3:GetObject'', NewKeySet ([S3XAmzServerSideEncryption,
         S3XAmzServerSideEncryptionCustomerAlgorithm,
         ''s3:versionid''] @ iamObjectTagConditionKeys @ CommonKeys)),
      (''s3:ListBucket'', NewKeySet ([''s3:prefix'', ''s3:delimiter'',
         ''s3:max-keys''] @ CommonKeys)),
      (''s3:ListBucketVersions'', NewKeySet ([''s3:prefix'', ''s3:delimiter'',
         ''s3:max-keys''] @ CommonKeys)),
      (''s3:DeleteObject'',
         NewKeySet ([''s3:versionid''] @ iamObjectTagConditionKeys @ CommonKeys)),
      (''s3:PutObject'', NewKeySet ([S3XAmzCopySource, S3XAmzServerSideEncryption,
         S3XAmzServerSideEncryptionCustomerAlgorithm, S3XAmzMetadataDirective,
         ''s3:x-amz-storage-class'', ''s3:versionid'', ''s3:object-lock-retain-until-date'',
         ''s3:object-lock-mode'',
         ''s3:object-lock-legal-hold''] @ iamObjectTagConditionKeys @ CommonKeys)),
      (''s3:PutObjectRetention'', NewKeySet ([S3XAmzServerSideEncryption,
         S3XAmzServerSideEncryptionCustomerAlgorithm,
         ''s3:object-lock-remaining-retention-days'', ''s3:object-lock-retain-until-date'',
         ''s3:object-lock-mode'', ''s3:versionid''] @ CommonKeys)),
      (''s3:GetObjectRetention'', NewKeySet ([S3XAmzServerSideEncryption,
         S3XAmzServerSideEncryptionCustomerAlgorithm, ''s3:versionid''] @ CommonKeys)),
      (''s3:PutObjectLegalHold'', NewKeySet ([S3XAmzServerSideEncryption,
         S3XAmzServerSideEncryptionCustomerAlgorithm, ''s3:object-lock-legal-hold'',
         ''s3:versionid''] @ CommonKeys)),
      (''s3:GetObjectLegalHold'', NewKeySet CommonKeys),
      (''s3:BypassGovernanceRetention'', NewKeySet ([''s3:versionid'',
         ''s3:object-lock-remaining-retention-days'', ''s3:object-lock-retain-until-date'',
         ''s3:object-lock-mode'', ''s3:object-lock-legal-hold''] @ CommonKeys)),
      (''s3:PutObjectTagging'',
         NewKeySet ([''s3:versionid''] @ iamObjectTagConditionKeys @ CommonKeys)),
      (''s3:GetObjectTagging'',
         NewKeySet ([''s3:versionid''] @ iamObjectTagConditionKeys @ CommonKeys)),
      (''s3:DeleteObjectTagging'',
         NewKeySet ([''s3:versionid''] @ iamObjectTagConditionKeys @ CommonKeys)),
      (''s3:PutObjectVersionTagging'',
         NewKeySet ([''s3:versionid''] @ iamObjectTagConditionKeys @ CommonKeys)),
      (''s3:GetObjectVersion'',
         NewKeySet ([''s3:versionid''] @ iamObjectTagConditionKeys @ CommonKeys)),
      (''s3:GetObjectVersionTagging'', NewKeySet ([''s3:versionid''] @ CommonKeys)),
      (''s3:DeleteObjectVersion'', NewKeySet ([''s3:versionid''] @ CommonKeys)),
      (''s3:DeleteObjectVersionTagging'', NewKeySet ([''s3:versionid''] @ CommonKeys)),
      (''s3:ReplicateObject'', NewKeySet ([''s3:versionid''] @ CommonKeys)),
      (''s3:ReplicateDelete'', NewKeySet ([''s3:versionid''] @ CommonKeys)),
      (''s3:ReplicateTags'', NewKeySet ([''s3:versionid''] @ CommonKeys)),
      (''s3:GetObjectVersionForReplication'', NewKeySet ([''s3:versionid''] @ CommonKeys))]"

definition supportedAdminActions :: "action list" where
  "supportedAdminActions =
     [''admin:Heal'', ''admin:StorageInfo'', ''admin:DataUsageInfo'', ''admin:TopLocksInfo'',
      ''admin:Profiling'', ''admin:ServerTrace'', ''admin:ConsoleLog'', ''admin:KMSKeyStatus'',
      ''admin:ServerInfo'', ''admin:OBDInfo'', ''admin:BandwidthMonitor'',
      ''admin:ServiceRestart'', ''admin:ServiceStop'', ''admin:ConfigUpdate'',
      ''admin:CreateUser'', ''admin:DeleteUser'', ''admin:ListUsers'', ''admin:EnableUser'',
      ''admin:DisableUser'', ''admin:GetUser'', ''admin:AddUserToGroup'',
      ''admin:RemoveUserFromGroup'', ''admin:GetGroup'', ''admin:ListGroups'',
      ''admin:EnableGroup'', ''admin:DisableGroup'', ''admin:CreateServiceAccount'',
      ''admin:UpdateServiceAccount'', ''admin:RemoveServiceAccount'',
      ''admin:ListServiceAccounts'', ''admin:CreatePolicy'', ''admin:DeletePolicy'',
      ''admin:GetPolicy'', ''admin:AttachUserOrGroupPolicy'', ''admin:ListUserPolicies'',
      ''admin:SetBucketQuota'', ''admin:GetBucketQuota'', ''admin:SetBucketTarget'',
      ''admin:GetBucketTarget'', ''admin:*'']"

definition adminActionConditionKeyMap :: "(action \<times> key_set) list" where
  "adminActionConditionKeyMap =
     map (\<lambda>a. (a, NewKeySet AllSupportedAdminKeys))
      [''admin:*'', ''admin:Heal'', ''admin:StorageInfo'', ''admin:ServerInfo'',
      ''admin:DataUsageInfo'', ''admin:OBDInfo'', ''admin:BandwidthMonitor'',
      ''admin:TopLocksInfo'', ''admin:Profiling'', ''admin:ServerTrace'', ''admin:ConsoleLog'',
      ''admin:KMSKeyStatus'', ''admin:ServiceRestart'', ''admin:ServiceStop'',
      ''admin:ConfigUpdate'', ''admin:CreateUser'', ''admin:DeleteUser'', ''admin:ListUsers'',
      ''admin:EnableUser'', ''admin:DisableUser'', ''admin:GetUser'', ''admin:AddUserToGroup'',
      ''admin:RemoveUserFromGroup'', ''admin:ListGroups'', ''admin:EnableGroup'',
      ''admin:DisableGroup'', ''admin:CreateServiceAccount'', ''admin:UpdateServiceAccount'',
      ''admin:RemoveServiceAccount'', ''admin:ListServiceAccounts'', ''admin:CreatePolicy'',
      ''admin:DeletePolicy'', ''admin:GetPolicy'', ''admin:AttachUserOrGroupPolicy'',
      ''admin:ListUserPolicies'', ''admin:SetBucketQuota'', ''admin:GetBucketQuota'',
      ''admin:SetBucketTarget'', ''admin:GetBucketTarget'']"


definition IAM_Action_Match :: "action \<Rightarrow> action \<Rightarrow> bool option" where
  "IAM_Action_Match action a = Match action a"

definition IAM_Action_isObjectAction :: "action \<Rightarrow> bool option" where
  "IAM_Action_isObjectAction action = any_match (IAM_Action_Match action) IAM_supportedObjectActions"

definition IAM_Action_IsValid :: "action \<Rightarrow> bool option" where
  "IAM_Action_IsValid action = any_match (IAM_Action_Match action) IAM_supportedActions"

definition AdminAction_IsValid :: "action \<Rightarrow> bool" where
  "AdminAction_IsValid action \<longleftrightarrow> action \<in> set supportedAdminActions"

definition Lookup :: "(action \<times> key_set) list \<Rightarrow> action \<Rightarrow> key_set" where
  "Lookup a action =
     foldl (\<lambda>ckeysMerged (act, ckey).
              if IAM_Action_Match action act = Some True then KeySet_Merge ckeysMerged ckey
              else ckeysMerged)
       (NewKeySet CommonKeys) a"

definition admin_action_keys :: "action \<Rightarrow> key_set" where
  "admin_action_keys action =
     (case map_of adminActionConditionKeyMap action of None \<Rightarrow> [] | Some ks \<Rightarrow> ks)"

definition IAM_ActionSet_Match :: "action_set \<Rightarrow> action \<Rightarrow> bool option" where
  "IAM_ActionSet_Match actionSet action = any_match (\<lambda>r. IAM_Action_Match r action) actionSet"

definition IAM_ActionSet_Equals :: "action_set \<Rightarrow> action_set \<Rightarrow> bool" where
  "IAM_ActionSet_Equals actionSet sactionSet = map_set_Equals actionSet sactionSet"

definition IAM_ActionSet_Intersection :: "action_set \<Rightarrow> action_set \<Rightarrow> action_set" where
  "IAM_ActionSet_Intersection actionSet sset = filter (\<lambda>k. k \<in> set sset) actionSet"

definition IAM_NewActionSet :: "action list \<Rightarrow> action_set" where
  "IAM_NewActionSet actions = foldl set_add [] actions"

definition IAM_ActionSet_Clone :: "action_set \<Rightarrow> action_set" where
  "IAM_ActionSet_Clone actionSet = IAM_NewActionSet actionSet"

definition IAM_ActionSet_ValidateAdmin :: "action_set \<Rightarrow> policy_error option" where
  "IAM_ActionSet_ValidateAdmin actionSet =
     first_error (\<lambda>a. if \<not> AdminAction_IsValid a then Some UnsupportedAction else None) actionSet"

definition IAM_ActionSet_Validate :: "action_set \<Rightarrow> policy_error option" where
  "IAM_ActionSet_Validate actionSet =
     first_error (\<lambda>a. if IAM_Action_IsValid a \<noteq> Some True then Some UnsupportedAction else None)
       actionSet"

section \<open>Resources\<close>

definition IAM_Resource_isBucketPattern :: "resource \<Rightarrow> bool" where
  "IAM_Resource_isBucketPattern r \<longleftrightarrow> CHR ''/'' \<notin> set (Pattern r) \<or> Pattern r = ''*''"

definition IAM_Resource_isObjectPattern :: "resource \<Rightarrow> bool" where
  "IAM_Resource_isObjectPattern r \<longleftrightarrow>
     CHR ''/'' \<in> set (Pattern r) \<or> CHR ''*'' \<in> set (BucketName r) \<or> Pattern r = ''*/*''"

definition IAM_Resource_IsValid :: "resource \<Rightarrow> bool" where
  "IAM_Resource_IsValid r \<longleftrightarrow> Pattern r \<noteq> ''''"

definition IAM_Resource_Match :: "resource \<Rightarrow> string \<Rightarrow> cond_values \<Rightarrow> bool option" where
  "IAM_Resource_Match r resource conditionValues =
     (case subst_keys conditionValues CommonKeys (Pattern r) of
        None \<Rightarrow> None
      | Some pattern \<Rightarrow>
          if path_Clean resource \<noteq> ''.'' \<and> path_Clean resource = pattern then Some True
          else Match pattern resource)"

definition IAM_Resource_Validate :: "resource \<Rightarrow> policy_error option" where
  "IAM_Resource_Validate r = (if \<not> IAM_Resource_IsValid r then Some InvalidResource else None)"

definition IAM_parseResource :: "string \<Rightarrow> policy_error + resource" where
  "IAM_parseResource s =
     (if \<not> HasPrefix s ResourceARNPrefix then Inl InvalidResource
      else (let pattern = TrimPrefix s ResourceARNPrefix;
                bucketName = hd (SplitN2 pattern CHR ''/'')
            in if bucketName = '''' then Inl InvalidResourceFormat
               else Inr \<lparr>BucketName = bucketName, Pattern = pattern\<rparr>))"

definition IAM_NewResource :: "string \<Rightarrow> string \<Rightarrow> resource" where
  "IAM_NewResource bucketName keyName =
     \<lparr>BucketName = bucketName,
      Pattern = (if keyName \<noteq> '''' then
                   (if \<not> HasPrefix keyName ''/'' then bucketName @ ''/'' @ keyName
                    else bucketName @ keyName)
                 else bucketName)\<rparr>"

definition IAM_bucketResourceExists :: "resource_set \<Rightarrow> bool" where
  "IAM_bucketResourceExists resourceSet = list_ex IAM_Resource_isBucketPattern resourceSet"

definition IAM_objectResourceExists :: "resource_set \<Rightarrow> bool" where
  "IAM_objectResourceExists resourceSet = list_ex IAM_Resource_isObjectPattern resourceSet"

definition IAM_ResourceSet_Equals :: "resource_set \<Rightarrow> resource_set \<Rightarrow> bool" where
  "IAM_ResourceSet_Equals resourceSet sresourceSet = map_set_Equals resourceSet sresourceSet"

definition IAM_ResourceSet_Intersection :: "resource_set \<Rightarrow> resource_set \<Rightarrow> resource_set" where
  "IAM_ResourceSet_Intersection resourceSet sset = filter (\<lambda>k. k \<in> set sset) resourceSet"

definition IAM_ResourceSet_Match :: "resource_set \<Rightarrow> string \<Rightarrow> cond_values \<Rightarrow> bool option" where
  "IAM_ResourceSet_Match resourceSet resource conditionValues =
     any_match (\<lambda>r. IAM_Resource_Match r resource conditionValues) resourceSet"

definition IAM_ResourceSet_Validate :: "resource_set \<Rightarrow> policy_error option" where
  "IAM_ResourceSet_Validate resourceSet = first_error IAM_Resource_Validate resourceSet"

definition IAM_NewResourceSet :: "resource list \<Rightarrow> resource_set" where
  "IAM_NewResourceSet resources = foldl set_add [] resources"

definition IAM_ResourceSet_Clone :: "resource_set \<Rightarrow> resource_set" where
  "IAM_ResourceSet_Clone resourceSet = IAM_NewResourceSet resourceSet"

section \<open>Statements\<close>

text \<open>A claim of a token: the JSON values that the policies are read from, and any other.\<close>

datatype claim = ClaimString string | ClaimList "claim list" | ClaimOther

record iam_args = args +
  Claims :: "string \<Rightarrow> claim option"
  DenyOnly :: bool

record iam_statement =
  IAM_SID :: string
  IAM_Effect :: effect
  IAM_Actions :: action_set
  IAM_Resources :: resource_set
  IAM_Conditions :: cond_functions

definition IAM_Statement_isAdmin :: "iam_statement \<Rightarrow> bool" where
  "IAM_Statement_isAdmin statement = list_ex AdminAction_IsValid (IAM_Actions statement)"

definition iam_request_resource :: "'a args_scheme \<Rightarrow> string" where
  "iam_request_resource args =
     (if ObjectName args \<noteq> '''' then
        (if \<not> HasPrefix (ObjectName args) ''/''
         then ArgsBucketName args @ ''/'' @ ObjectName args
         else ArgsBucketName args @ ObjectName args)
      else ArgsBucketName args @ ''/'')"

text \<open>The closure \<^verbatim>\<open>check\<close> of \<^verbatim>\<open>Statement.IsAllowed\<close>.\<close>

definition IAM_Statement_check :: "libs \<Rightarrow> iam_statement \<Rightarrow> iam_args \<Rightarrow> bool option" where
  "IAM_Statement_check L statement args =
     (case IAM_ActionSet_Match (IAM_Actions statement) (Action args) of
        None \<Rightarrow> None
      | Some am \<Rightarrow>
          if \<not> am then Some False
          else
            (case IAM_ResourceSet_Match (IAM_Resources statement) (iam_request_resource args)
                    (ConditionValues args) of
               None \<Rightarrow> None
             | Some rm \<Rightarrow>
                 if \<not> rm \<and> \<not> IAM_Statement_isAdmin statement then Some False
                 else Functions_Evaluate L (IAM_Conditions statement) (ConditionValues args)))"

definition IAM_Statement_IsAllowed :: "libs \<Rightarrow> iam_statement \<Rightarrow> iam_args \<Rightarrow> bool option" where
  "IAM_Statement_IsAllowed L statement args =
     map_option (Effect_IsAllowed (IAM_Effect statement)) (IAM_Statement_check L statement args)"

definition iam_admin_action_error :: "iam_statement \<Rightarrow> action \<Rightarrow> policy_error option" where
  "iam_admin_action_error statement action =
     (if \<not> KeySet_IsEmpty
             (KeySet_Difference (Functions_Keys (IAM_Conditions statement)) (admin_action_keys action))
      then Some UnsupportedKeys else None)"

definition iam_action_error :: "iam_statement \<Rightarrow> action \<Rightarrow> policy_error option" where
  "iam_action_error statement action =
     (if \<not> IAM_objectResourceExists (IAM_Resources statement) \<and>
         \<not> IAM_bucketResourceExists (IAM_Resources statement)
      then Some UnsupportedResource
      else if \<not> KeySet_IsEmpty
                  (KeySet_Difference (Functions_Keys (IAM_Conditions statement))
                     (Lookup iamActionConditionKeyMap action))
      then Some UnsupportedKeys
      else None)"

definition IAM_Statement_isValid :: "iam_statement \<Rightarrow> policy_error option" where
  "IAM_Statement_isValid statement =
     (if \<not> Effect_IsValid (IAM_Effect statement) then Some InvalidEffect
      else if length (IAM_Actions statement) = 0 then Some EmptyAction
      else if IAM_Statement_isAdmin statement then
        (case IAM_ActionSet_ValidateAdmin (IAM_Actions statement) of
           Some e \<Rightarrow> Some e
         | None \<Rightarrow> first_error (iam_admin_action_error statement) (IAM_Actions statement))
      else if \<not> ValidString (IAM_SID statement) then Some InvalidSID
      else if length (IAM_Resources statement) = 0 then Some EmptyResource
      else
        (case IAM_ResourceSet_Validate (IAM_Resources statement) of
           Some e \<Rightarrow> Some e
         | None \<Rightarrow>
             (case IAM_ActionSet_Validate (IAM_Actions statement) of
                Some e \<Rightarrow> Some e
              | None \<Rightarrow> first_error (iam_action_error statement) (IAM_Actions statement))))"

definition IAM_Statement_Equals :: "libs \<Rightarrow> iam_statement \<Rightarrow> iam_statement \<Rightarrow> bool" where
  "IAM_Statement_Equals L statement st =
     (if IAM_Effect statement \<noteq> IAM_Effect st then False
      else if \<not> IAM_ActionSet_Equals (IAM_Actions statement) (IAM_Actions st) then False
      else if \<not> IAM_ResourceSet_Equals (IAM_Resources statement) (IAM_Resources st) then False
      else if \<not> Functions_Equals L (IAM_Conditions statement) (IAM_Conditions st) then False
      else True)"

definition IAM_NewStatement ::
  "effect \<Rightarrow> action_set \<Rightarrow> resource_set \<Rightarrow> cond_functions \<Rightarrow> iam_statement" where
  "IAM_NewStatement effect actionSet resourceSet conditions =
     \<lparr>IAM_SID = '''', IAM_Effect = effect, IAM_Actions = actionSet, IAM_Resources = resourceSet,
      IAM_Conditions = conditions\<rparr>"

text \<open>\<^const>\<open>None\<close> when a condition clones to the \<^verbatim>\<open>nil\<close> function.\<close>

definition IAM_Statement_Clone :: "libs \<Rightarrow> iam_statement \<Rightarrow> iam_statement option" where
  "IAM_Statement_Clone L statement =
     map_option
       (IAM_NewStatement (IAM_Effect statement) (IAM_ActionSet_Clone (IAM_Actions statement))
          (IAM_ResourceSet_Clone (IAM_Resources statement)))
       (those (Functions_Clone L (IAM_Conditions statement)))"

section \<open>Policies\<close>

record iam_policy =
  IAM_ID :: string
  IAM_Version :: string
  IAM_Statements :: "iam_statement list"

fun iam_deny_loop :: "libs \<Rightarrow> iam_args \<Rightarrow> iam_statement list \<Rightarrow> bool option" where
  "iam_deny_loop L args [] = Some True"
| "iam_deny_loop L args (st # sts) =
     (if IAM_Effect st = Deny then
        (case IAM_Statement_IsAllowed L st args of
           None \<Rightarrow> None
         | Some b \<Rightarrow> if \<not> b then Some False else iam_deny_loop L args sts)
      else iam_deny_loop L args sts)"

fun iam_allow_loop :: "libs \<Rightarrow> iam_args \<Rightarrow> iam_statement list \<Rightarrow> bool option" where
  "iam_allow_loop L args [] = Some False"
| "iam_allow_loop L args (st # sts) =
     (if IAM_Effect st = Allow then
        (case IAM_Statement_IsAllowed L st args of
           None \<Rightarrow> None
         | Some b \<Rightarrow> if b then Some True else iam_allow_loop L args sts)
      else iam_allow_loop L args sts)"

definition IAM_Policy_IsAllowed :: "libs \<Rightarrow> iam_policy \<Rightarrow> iam_args \<Rightarrow> bool option" where
  "IAM_Policy_IsAllowed L iamp args =
     (case iam_deny_loop L args (IAM_Statements iamp) of
        None \<Rightarrow> None
      | Some ok \<Rightarrow>
          if \<not> ok then Some False
          else if DenyOnly args then Some True
          else if IsOwner args then Some True
          else iam_allow_loop L args (IAM_Statements iamp))"

definition IAM_Policy_IsEmpty :: "iam_policy \<Rightarrow> bool" where
  "IAM_Policy_IsEmpty iamp \<longleftrightarrow> length (IAM_Statements iamp) = 0"

definition IAM_Policy_isValid :: "iam_policy \<Rightarrow> policy_error option" where
  "IAM_Policy_isValid iamp =
     (if IAM_Version iamp \<noteq> DefaultVersion \<and> IAM_Version iamp \<noteq> '''' then Some InvalidVersion
      else first_error IAM_Statement_isValid (IAM_Statements iamp))"

definition IAM_Policy_dropDuplicateStatements :: "libs \<Rightarrow> iam_policy \<Rightarrow> iam_policy" where
  "IAM_Policy_dropDuplicateStatements L iamp =
     iamp\<lparr>IAM_Statements := drop_duplicates (IAM_Statement_Equals L) (IAM_Statements iamp)\<rparr>"

definition IAM_Policy_Merge :: "libs \<Rightarrow> iam_policy \<Rightarrow> iam_policy \<Rightarrow> iam_policy option" where
  "IAM_Policy_Merge L iamp input =
     map_option
       (\<lambda>sts. IAM_Policy_dropDuplicateStatements L
          \<lparr>IAM_ID = '''',
           IAM_Version = (if IAM_Version iamp \<noteq> '''' then IAM_Version iamp else IAM_Version input),
           IAM_Statements = sts\<rparr>)
       (those (map (IAM_Statement_Clone L) (IAM_Statements iamp @ IAM_Statements input)))"

text \<open>\<^verbatim>\<open>UnmarshalJSON\<close> and \<^verbatim>\<open>ParseConfig\<close> after the JSON decoder.\<close>

definition IAM_Policy_UnmarshalJSON :: "libs \<Rightarrow> iam_policy \<Rightarrow> policy_error + iam_policy" where
  "IAM_Policy_UnmarshalJSON L p =
     (case IAM_Policy_isValid p of
        Some e \<Rightarrow> Inl e
      | None \<Rightarrow> Inr (IAM_Policy_dropDuplicateStatements L p))"

definition IAM_ParseConfig :: "libs \<Rightarrow> iam_policy \<Rightarrow> policy_error + iam_policy" where
  "IAM_ParseConfig L p =
     (case IAM_Policy_UnmarshalJSON L p of
        Inl e \<Rightarrow> Inl e
      | Inr iamp \<Rightarrow> (case IAM_Policy_isValid iamp of Some e \<Rightarrow> Inl e | None \<Rightarrow> Inr iamp))"

section \<open>Policies named by the claims of a token\<close>

text \<open>The names of one claim string: split at commas, trimmed, the empty ones left out.\<close>

definition add_names :: "libs \<Rightarrow> string list \<Rightarrow> string \<Rightarrow> string list" where
  "add_names L s pnameStr =
     foldl (\<lambda>s pname. if TrimSpace pname = '''' then s else StringSet_Add L s (TrimSpace pname))
       s (split_byte CHR '','' pnameStr)"

fun add_claims :: "libs \<Rightarrow> string list \<Rightarrow> claim list \<Rightarrow> string list" where
  "add_claims L s [] = s"
| "add_claims L s (pname # pnames) =
     (case pname of
        ClaimString pnameStr \<Rightarrow> add_claims L (add_names L s pnameStr) pnames
      | _ \<Rightarrow> add_claims L s pnames)"

definition GetPoliciesFromClaims ::
  "libs \<Rightarrow> (string \<Rightarrow> claim option) \<Rightarrow> string \<Rightarrow> string list \<times> bool" where
  "GetPoliciesFromClaims L claims policyClaimName =
     (case claims policyClaimName of
        None \<Rightarrow> (CreateStringSet L [], False)
      | Some (ClaimList pnames) \<Rightarrow> (add_claims L (CreateStringSet L []) pnames, True)
      | Some (ClaimString pnameStr) \<Rightarrow> (add_names L (CreateStringSet L []) pnameStr, True)
      | Some ClaimOther \<Rightarrow> (CreateStringSet L [], False))"

definition GetPolicies :: "libs \<Rightarrow> iam_args \<Rightarrow> string \<Rightarrow> string list \<times> bool" where
  "GetPolicies L a policyClaimName = GetPoliciesFromClaims L (Claims a) policyClaimName"

section \<open>The canned policies\<close>

definition canned :: "iam_statement list \<Rightarrow> iam_policy" where
  "canned sts = \<lparr>IAM_ID = '''', IAM_Version = DefaultVersion, IAM_Statements = sts\<rparr>"

definition ReadWrite :: iam_policy where
  "ReadWrite = canned
     [IAM_NewStatement Allow (IAM_NewActionSet [''s3:*''])
        (IAM_NewResourceSet [IAM_NewResource ''*'' '''']) []]"

definition ReadOnly :: iam_policy where
  "ReadOnly = canned
     [IAM_NewStatement Allow (IAM_NewActionSet [''s3:GetBucketLocation'', ''s3:GetObject''])
        (IAM_NewResourceSet [IAM_NewResource ''*'' '''']) []]"

definition WriteOnly :: iam_policy where
  "WriteOnly = canned
     [IAM_NewStatement Allow (IAM_NewActionSet [''s3:PutObject''])
        (IAM_NewResourceSet [IAM_NewResource ''*'' '''']) []]"

definition AdminDiagnostics :: iam_policy where
  "AdminDiagnostics = canned
     [IAM_NewStatement Allow
        (IAM_NewActionSet [''admin:Profiling'', ''admin:ServerTrace'', ''admin:ConsoleLog'',
           ''admin:ServerInfo'', ''admin:TopLocksInfo'', ''admin:OBDInfo'',
           ''admin:BandwidthMonitor''])
        (IAM_NewResourceSet [IAM_NewResource ''*'' '''']) []]"

definition Admin :: iam_policy where
  "Admin = canned
     [IAM_NewStatement Allow (IAM_NewActionSet [''admin:*'']) (IAM_NewResourceSet []) [],
      IAM_NewStatement Allow (IAM_NewActionSet [''s3:*''])
        (IAM_NewResourceSet [IAM_NewResource ''*'' '''']) []]"

end
