(* ===== verification/IAM_Policy_Facts.thy ===== *)
theory IAM_Policy_Facts
  imports IAM_Policy
begin

text \<open>
  What the IAM policies decide: the evaluation as an instance of the two-phase scheme, the meaning
  of a statement, the canned policies, merging, and the policy names of a token.
\<close>

interpretation iam: effect_loops IAM_Effect "\<lambda>st. IAM_Statement_IsAllowed L st args"
  "\<lambda>st. IAM_Statement_check L st args" "iam_deny_loop L args" "iam_allow_loop L args" for L args
  by unfold_locales (auto simp: IAM_Statement_IsAllowed_def)

section \<open>When a statement applies\<close>

definition iam_well_behaved :: "libs \<Rightarrow> iam_statement \<Rightarrow> iam_args \<Rightarrow> bool" where
  "iam_well_behaved L st args \<longleftrightarrow>
     no_empty_values (ConditionValues args) \<and>
     (\<forall>f \<in> set (IAM_Conditions st). func_name f \<in> {ipAddress, notIPAddress} \<longrightarrow>
        (\<forall>s \<in> set (requestValue (func_key f) (ConditionValues args)). ParseIP L s \<noteq> None))"

definition resource_covers :: "cond_values \<Rightarrow> string \<Rightarrow> resource \<Rightarrow> bool" where
  "resource_covers vals res r \<longleftrightarrow>
     (path_Clean res \<noteq> ''.'' \<and> path_Clean res = expand vals (Pattern r)) \<or>
     globs (runes (expand vals (Pattern r))) (runes res)"

definition iam_statement_applies :: "libs \<Rightarrow> iam_statement \<Rightarrow> iam_args \<Rightarrow> bool" where
  "iam_statement_applies L st args \<longleftrightarrow>
     (\<exists>a \<in> set (IAM_Actions st). globs (runes a) (runes (Action args))) \<and>
     ((\<exists>r \<in> set (IAM_Resources st).
         resource_covers (ConditionValues args) (iam_request_resource args) r) \<or>
      (\<exists>a \<in> set (IAM_Actions st). a \<in> set supportedAdminActions)) \<and>
     (\<forall>f \<in> set (IAM_Conditions st). evaluate L f (ConditionValues args) = Some True)"

lemma IAM_ActionSet_Match_sem:
  "IAM_ActionSet_Match as a = Some (\<exists>r \<in> set as. globs (runes r) (runes a))"
  unfolding IAM_ActionSet_Match_def
  by (rule any_match_total) (simp add: IAM_Action_Match_def Match_globs)

lemma IAM_ResourceSet_Match_sem:
  assumes "no_empty_values vals"
  shows "IAM_ResourceSet_Match rs res vals = Some (\<exists>r \<in> set rs. resource_covers vals res r)"
  unfolding IAM_ResourceSet_Match_def
proof (rule any_match_total, rule ballI)
  fix r
  show "IAM_Resource_Match r res vals = Some (resource_covers vals res r)"
    using substFuncFromValues_total [OF assms, of "Pattern r"]
    by (auto simp: IAM_Resource_Match_def substFuncFromValues_def Match_globs resource_covers_def)
qed

lemma IAM_Statement_check_sem:
  assumes "iam_well_behaved L st args"
  shows "IAM_Statement_check L st args = Some (iam_statement_applies L st args)"
proof -
  have "\<exists>b. evaluate L f (ConditionValues args) = Some b" if "f \<in> set (IAM_Conditions st)" for f
    using assms that by (intro evaluate_total) (auto simp: iam_well_behaved_def)
  then have "Functions_Evaluate L (IAM_Conditions st) (ConditionValues args) =
      Some (\<forall>f \<in> set (IAM_Conditions st). evaluate L f (ConditionValues args) = Some True)"
    by (intro Functions_Evaluate_total) simp
  with assms show ?thesis
    by (auto simp: IAM_Statement_check_def iam_statement_applies_def iam_well_behaved_def
        IAM_ActionSet_Match_sem IAM_ResourceSet_Match_sem IAM_Statement_isAdmin_def
        AdminAction_IsValid_def list_ex_iff)
qed

lemma IAM_Policy_IsAllowed_sem:
  assumes "\<forall>st \<in> set (IAM_Statements p). iam_well_behaved L st args"
  shows "IAM_Policy_IsAllowed L p args =
    Some ((\<forall>st \<in> set (IAM_Statements p). IAM_Effect st = Deny \<longrightarrow> \<not> iam_statement_applies L st args) \<and>
          (DenyOnly args \<or> IsOwner args \<or>
           (\<exists>st \<in> set (IAM_Statements p). IAM_Effect st = Allow \<and> iam_statement_applies L st args)))"
proof -
  have c: "\<forall>st \<in> set (IAM_Statements p).
      IAM_Statement_check L st args = Some (iam_statement_applies L st args)"
    using assms by (simp add: IAM_Statement_check_sem)
  then have "\<forall>st \<in> set (IAM_Statements p). IAM_Statement_check L st args \<noteq> None" by simp
  with c show ?thesis
    by (auto simp: IAM_Policy_IsAllowed_def iam.dloop_total iam.aloop_total)
qed

section \<open>Merging\<close>

lemma length_drop_duplicates: "length (drop_duplicates eq xs) \<le> length xs"
proof (induction eq xs rule: drop_duplicates.induct)
  case (1 eq xs)
  then show ?case
    by (cases "find_duplicate eq xs") (auto simp: drop_duplicates.simps [of eq xs] dest: find_duplicate_less)
qed

lemma drop_duplicates_same_length:
  assumes "length (drop_duplicates eq xs) = length xs"
  shows "drop_duplicates eq xs = xs"
proof (cases "find_duplicate eq xs")
  case (Some j)
  then have "length (drop_duplicates eq xs) < length xs"
    using find_duplicate_less [OF Some] length_drop_duplicates [of eq "take j xs @ drop (Suc j) xs"]
    by (simp add: drop_duplicates.simps [of eq xs])
  with assms show ?thesis by simp
qed (simp add: drop_duplicates.simps)

definition same_function :: "libs \<Rightarrow> cond_function \<Rightarrow> cond_function \<Rightarrow> bool" where
  "same_function L f g \<longleftrightarrow> func_name g = func_name f \<and> func_key g = func_key f \<and>
     evaluate L g = evaluate L f"

definition clonable :: "libs \<Rightarrow> cond_function \<Rightarrow> bool" where
  "clonable L f \<longleftrightarrow> parsed_function L f \<and> textual_name (func_name f)"

lemma Functions_Clone_all:
  assumes "string_set_laws L" "\<forall>f \<in> set fs. clonable L f"
  shows "\<exists>gs. those (Functions_Clone L fs) = Some gs \<and> list_all2 (same_function L) fs gs"
  using assms(2)
proof (induction fs)
  case Nil
  then show ?case by (simp add: Functions_Clone_def)
next
  case (Cons f fs)
  from Cons obtain gs where "those (Functions_Clone L fs) = Some gs" "list_all2 (same_function L) fs gs"
    by auto
  moreover obtain g where "clone_function L f = [Some g]" "same_function L f g"
    using clone_one [OF assms(1), of f] Cons.prems
    by (auto simp: Functions_Clone_def clonable_def same_function_def fun_eq_iff)
  ultimately show ?case by (simp add: Functions_Clone_def)
qed

lemma list_all2_set_iff:
  assumes "list_all2 R xs ys" "\<And>x y. R x y \<Longrightarrow> P x = Q y"
  shows "(\<forall>x \<in> set xs. P x) \<longleftrightarrow> (\<forall>y \<in> set ys. Q y)" "(\<exists>x \<in> set xs. P x) \<longleftrightarrow> (\<exists>y \<in> set ys. Q y)"
  using assms by (induction rule: list_all2_induct) auto

definition same_statement :: "libs \<Rightarrow> iam_args \<Rightarrow> iam_statement \<Rightarrow> iam_statement \<Rightarrow> bool" where
  "same_statement L args st st' \<longleftrightarrow> IAM_Effect st' = IAM_Effect st \<and>
     iam_well_behaved L st' args = iam_well_behaved L st args \<and>
     iam_statement_applies L st' args = iam_statement_applies L st args"

lemma IAM_Statement_Clone_same:
  assumes "string_set_laws L" "\<forall>f \<in> set (IAM_Conditions st). clonable L f"
  shows "\<exists>st'. IAM_Statement_Clone L st = Some st' \<and> same_statement L args st st'"
proof -
  obtain gs where g: "those (Functions_Clone L (IAM_Conditions st)) = Some gs"
    and same: "list_all2 (same_function L) (IAM_Conditions st) gs"
    using Functions_Clone_all [OF assms] by blast
  note iff = list_all2_set_iff [OF same]
  have "(\<forall>f \<in> set (IAM_Conditions st). evaluate L f (ConditionValues args) = Some True) \<longleftrightarrow>
      (\<forall>g \<in> set gs. evaluate L g (ConditionValues args) = Some True)"
    by (rule iff) (simp add: same_function_def)
  moreover have "(\<forall>f \<in> set (IAM_Conditions st). func_name f \<in> {ipAddress, notIPAddress} \<longrightarrow>
        (\<forall>s \<in> set (requestValue (func_key f) (ConditionValues args)). ParseIP L s \<noteq> None)) \<longleftrightarrow>
      (\<forall>f \<in> set gs. func_name f \<in> {ipAddress, notIPAddress} \<longrightarrow>
        (\<forall>s \<in> set (requestValue (func_key f) (ConditionValues args)). ParseIP L s \<noteq> None))"
    by (rule iff) (simp add: same_function_def)
  ultimately show ?thesis
    by (simp add: IAM_Statement_Clone_def g same_statement_def IAM_NewStatement_def
        iam_well_behaved_def iam_statement_applies_def IAM_ActionSet_Clone_def IAM_NewActionSet_def
        IAM_ResourceSet_Clone_def IAM_NewResourceSet_def set_foldl_add)
qed

lemma those_clone_same:
  assumes "string_set_laws L" "\<forall>st \<in> set sts. \<forall>f \<in> set (IAM_Conditions st). clonable L f"
    and "those (map (IAM_Statement_Clone L) sts) = Some sts'"
  shows "list_all2 (same_statement L args) sts sts'"
  using assms(2,3)
proof (induction sts arbitrary: sts')
  case (Cons st sts)
  from Cons.prems obtain st' ts where "IAM_Statement_Clone L st = Some st'"
    and "those (map (IAM_Statement_Clone L) sts) = Some ts" "sts' = st' # ts"
    by (auto split: option.splits)
  with Cons IAM_Statement_Clone_same [OF assms(1), of st args] show ?case by auto
qed simp

lemma IsAllowed_same:
  assumes "list_all2 (same_statement L args) (IAM_Statements p) (IAM_Statements q)"
    and "\<forall>st \<in> set (IAM_Statements p). iam_well_behaved L st args"
  shows "IAM_Policy_IsAllowed L q args = IAM_Policy_IsAllowed L p args"
proof -
  note iff = list_all2_set_iff [OF assms(1)]
  have "(\<forall>st \<in> set (IAM_Statements p). iam_well_behaved L st args) \<longleftrightarrow>
      (\<forall>st \<in> set (IAM_Statements q). iam_well_behaved L st args)"
    by (rule iff) (simp add: same_statement_def)
  moreover have "(\<forall>st \<in> set (IAM_Statements p). IAM_Effect st = Deny \<longrightarrow> \<not> iam_statement_applies L st args)
      \<longleftrightarrow> (\<forall>st \<in> set (IAM_Statements q). IAM_Effect st = Deny \<longrightarrow> \<not> iam_statement_applies L st args)"
    by (rule iff) (simp add: same_statement_def)
  moreover have "(\<exists>st \<in> set (IAM_Statements p). IAM_Effect st = Allow \<and> iam_statement_applies L st args)
      \<longleftrightarrow> (\<exists>st \<in> set (IAM_Statements q). IAM_Effect st = Allow \<and> iam_statement_applies L st args)"
    by (rule iff) (simp add: same_statement_def)
  ultimately show ?thesis using assms(2) by (simp add: IAM_Policy_IsAllowed_sem)
qed

section \<open>Claims\<close>

lemma set_add_names:
  assumes "string_set_laws L"
  shows "set (add_names L s p) =
    set s \<union> {TrimSpace n | n. n \<in> set (split_byte CHR '','' p) \<and> TrimSpace n \<noteq> ''''}"
proof -
  have "set (foldl (\<lambda>s pname. if TrimSpace pname = '''' then s else StringSet_Add L s (TrimSpace pname)) s ns)
      = set s \<union> {TrimSpace n | n. n \<in> set ns \<and> TrimSpace n \<noteq> ''''}" for ns
    by (induction ns arbitrary: s) (auto simp: string_set_lawsD [OF assms])
  then show ?thesis by (simp add: add_names_def)
qed

section \<open>The canned policies\<close>

lemma utf8_runes_ascii_append: "\<forall>b \<in> set bs. b < 128 \<Longrightarrow> utf8_runes (bs @ cs) = bs @ utf8_runes cs"
  by (induction bs) auto

lemma runes_eq_ascii: "ascii s \<Longrightarrow> runes t = map byte s \<longleftrightarrow> t = s"
proof
  assume a: "ascii s" and e: "runes t = map byte s"
  then have "prefix s t" using prefix_runes [OF a, of t] by simp
  then obtain u where t: "t = s @ u" by (auto simp: prefix_def)
  have "runes t = map byte s @ runes u"
    using a utf8_runes_ascii_append [of "map byte s" "map byte u"] by (simp add: t runes_def ascii_def)
  with e t show "t = s" by simp
qed (simp add: runes_ascii)

lemma globs_plain_eq: "plain s \<Longrightarrow> globs (runes s) (runes t) \<longleftrightarrow> t = s"
  using globs_plain [of s "[]" "runes t"] runes_ascii [of s] runes_eq_ascii [of s t]
  by (auto simp: plain_def prefix_def globs.simps [of "[]"])

lemma globs_plain_star: "plain s \<Longrightarrow> globs (runes (s @ ''*'')) (runes t) \<longleftrightarrow> prefix s t"
  using globs_plain [of s "[rune_star]" "runes t"] runes_ascii [of "s @ ''*''"] prefix_runes [of s t]
    globs_all
  by (simp add: plain_def ascii_def)

lemma everywhere_covers: "resource_covers vals res (IAM_NewResource ''*'' '''')"
proof -
  have "expand vals ''*'' = ''*''" by (rule expand_absent) simp
  then show ?thesis
    using globs_all [of "runes res"] runes_star
    by (simp add: resource_covers_def IAM_NewResource_def)
qed

definition grants_everywhere :: "iam_statement \<Rightarrow> bool" where
  "grants_everywhere st \<longleftrightarrow> IAM_Effect st = Allow \<and> IAM_Conditions st = [] \<and>
     (IAM_Resources st = [IAM_NewResource ''*'' ''''] \<or> IAM_Statement_isAdmin st)"

lemma grants_everywhere_applies:
  "grants_everywhere st \<Longrightarrow>
     iam_statement_applies L st args \<longleftrightarrow>
       (\<exists>a \<in> set (IAM_Actions st). globs (runes a) (runes (Action args)))"
  using everywhere_covers
  by (auto simp: grants_everywhere_def iam_statement_applies_def IAM_Statement_isAdmin_def
      AdminAction_IsValid_def list_ex_iff)

lemma grants_everywhere_decision:
  assumes "\<forall>st \<in> set (IAM_Statements p). grants_everywhere st" "no_empty_values (ConditionValues args)"
    and "\<not> DenyOnly args" "\<not> IsOwner args"
  shows "IAM_Policy_IsAllowed L p args =
    Some (\<exists>st \<in> set (IAM_Statements p). \<exists>a \<in> set (IAM_Actions st). globs (runes a) (runes (Action args)))"
proof -
  have "\<forall>st \<in> set (IAM_Statements p). iam_well_behaved L st args"
    using assms(1,2) by (auto simp: iam_well_behaved_def grants_everywhere_def)
  moreover have "\<forall>st \<in> set (IAM_Statements p). IAM_Effect st = Allow"
    using assms(1) by (simp add: grants_everywhere_def)
  ultimately show ?thesis
    using assms grants_everywhere_applies
    by (subst IAM_Policy_IsAllowed_sem) auto
qed

lemma canned_statements:
  "\<forall>st \<in> set (IAM_Statements ReadWrite). grants_everywhere st"
  "\<forall>st \<in> set (IAM_Statements ReadOnly). grants_everywhere st"
  "\<forall>st \<in> set (IAM_Statements WriteOnly). grants_everywhere st"
  "\<forall>st \<in> set (IAM_Statements AdminDiagnostics). grants_everywhere st"
  "\<forall>st \<in> set (IAM_Statements Admin). grants_everywhere st"
  by (simp_all add: ReadWrite_def ReadOnly_def WriteOnly_def AdminDiagnostics_def Admin_def canned_def
      IAM_NewStatement_def IAM_NewResourceSet_def IAM_NewActionSet_def grants_everywhere_def
      IAM_Statement_isAdmin_def AdminAction_IsValid_def supportedAdminActions_def set_add_def)

section \<open>Buckets and objects\<close>

lemma path_Clean_bucket:
  assumes "clean_name b"
  shows "path_Clean (b @ ''/'') = b"
proof -
  have "split_byte CHR ''/'' (b @ ''/'') = [b, '''']"
    using assms split_byte_append [of "CHR ''/''" b "''''"] by (simp add: clean_name_def)
  then have "clean_components False (b @ ''/'') = [b]"
    by (simp add: clean_components_def clean_step_name [OF assms]) (simp add: clean_step_def)
  moreover have "\<not> HasPrefix (b @ ''/'') ''/''"
    using assms by (cases b) (auto simp: clean_name_def)
  ultimately show ?thesis by (simp add: path_Clean_def)
qed

lemma path_Clean_object:
  assumes "clean_name b" "clean_name k"
  shows "path_Clean (b @ ''/'' @ k) = b @ ''/'' @ k"
proof -
  have "split_byte CHR ''/'' (b @ ''/'' @ k) = [b, k]"
    using assms split_byte_append [of "CHR ''/''" b k]
    by (simp add: clean_name_def split_byte_id)
  then have "clean_components False (b @ ''/'' @ k) = [b, k]"
    using assms by (simp add: clean_components_def clean_step_name)
  moreover have "\<not> HasPrefix (b @ ''/'' @ k) ''/''"
    using assms by (cases b) (auto simp: clean_name_def)
  ultimately show ?thesis by (simp add: path_Clean_def)
qed

lemma IAM_Resource_Match_plain:
  assumes "no_empty_values vals" "plain b"
  shows "IAM_Resource_Match (IAM_NewResource b '''') res vals =
    Some ((path_Clean res \<noteq> ''.'' \<and> path_Clean res = b) \<or> res = b)"
proof -
  have "CHR ''$'' \<notin> set b" using assms(2) by (auto simp: plain_def list_all_iff)
  then have "subst_keys vals CommonKeys b = Some b"
    using substFuncFromValues_total [OF assms(1), of b]
    by (simp add: substFuncFromValues_def expand_absent)
  then show ?thesis
    by (auto simp: IAM_Resource_Match_def IAM_NewResource_def Match_globs globs_plain_eq [OF assms(2)])
qed

section \<open>The strings of a claim\<close>

definition claim_strings :: "claim \<Rightarrow> string list" where
  "claim_strings c =
     (case c of
        ClaimString s \<Rightarrow> [s]
      | ClaimList cs \<Rightarrow> concat (map (\<lambda>d. case d of ClaimString s \<Rightarrow> [s] | _ \<Rightarrow> []) cs)
      | ClaimOther \<Rightarrow> [])"

lemma claim_strings_simps [simp]:
  "claim_strings (ClaimString s) = [s]" "claim_strings ClaimOther = []"
  "set (claim_strings (ClaimList cs)) = {s. ClaimString s \<in> set cs}"
  by (force simp: claim_strings_def split: claim.splits)+

lemma set_add_claims:
  assumes "string_set_laws L"
  shows "set (add_claims L s cs) =
    set s \<union> {TrimSpace n | n p. ClaimString p \<in> set cs \<and> n \<in> set (split_byte CHR '','' p) \<and>
               TrimSpace n \<noteq> ''''}"
proof (induction cs arbitrary: s)
  case (Cons c cs)
  then show ?case by (cases c) (auto simp: set_add_names [OF assms])
qed simp

section \<open>Properties\<close>

definition iam_request :: "action \<Rightarrow> iam_args" where
  "iam_request a =
     \<lparr>AccountName = ''bob'', Groups = [], Action = a, ArgsBucketName = ''photos'',
      ConditionValues = (\<lambda>k. None), IsOwner = False, ObjectName = ''cat'',
      Claims = (\<lambda>k. None), DenyOnly = False\<rparr>"

lemma iam_request_simps [simp]:
  "Action (iam_request a) = a" "\<not> IsOwner (iam_request a)" "\<not> DenyOnly (iam_request a)"
  "no_empty_values (ConditionValues (iam_request a))"
  by (simp_all add: iam_request_def no_empty_values_def list_all_iff)

text \<open>
  C6: The decision of an IAM policy. For a request on which no condition panics, the request is
  refused when a \<^verbatim>\<open>Deny\<close> statement applies; otherwise it is allowed when only \<^verbatim>\<open>Deny\<close> statements
  were asked for, when the caller is the owner, or when an \<^verbatim>\<open>Allow\<close> statement applies. A statement
  applies when an action pattern matches, a resource covers the request or the statement is an
  administrative one, and every condition holds.
\<close>
theorem IAM_Policy_IsAllowed_decision:
  assumes "\<forall>st \<in> set (IAM_Statements p). iam_well_behaved L st args"
  shows "IAM_Policy_IsAllowed L p args =
    Some ((\<forall>st \<in> set (IAM_Statements p). IAM_Effect st = Deny \<longrightarrow> \<not> iam_statement_applies L st args) \<and>
          (DenyOnly args \<or> IsOwner args \<or>
           (\<exists>st \<in> set (IAM_Statements p). IAM_Effect st = Allow \<and> iam_statement_applies L st args)))"
  using assms by (rule IAM_Policy_IsAllowed_sem)

theorem IAM_Policy_IsAllowed_decision_witness:
  "IAM_Policy_IsAllowed list_libs WriteOnly (iam_request ''s3:GetObject'') = Some False"
proof -
  have w: "\<forall>st \<in> set (IAM_Statements WriteOnly).
      iam_well_behaved list_libs st (iam_request ''s3:GetObject'')"
    by (simp add: WriteOnly_def canned_def IAM_NewStatement_def iam_well_behaved_def)
  have "\<forall>st \<in> set (IAM_Statements WriteOnly).
      \<not> iam_statement_applies list_libs st (iam_request ''s3:GetObject'')"
    using canned_statements(3) globs_plain_eq [of "''s3:PutObject''" "''s3:GetObject''"]
    by (auto simp: WriteOnly_def canned_def IAM_NewStatement_def IAM_NewActionSet_def set_add_def
        grants_everywhere_applies plain_def ascii_def)
  with IAM_Policy_IsAllowed_decision [OF w] show ?thesis by simp
qed

text \<open>
  The canned policies grant what their names say, for a caller who is not the owner:
  \<^verbatim>\<open>ReadWrite\<close> every \<^verbatim>\<open>s3:\<close> action, \<^verbatim>\<open>ReadOnly\<close> only \<^verbatim>\<open>GetBucketLocation\<close> and \<^verbatim>\<open>GetObject\<close>, \<^verbatim>\<open>WriteOnly\<close>
  only \<^verbatim>\<open>PutObject\<close>, and \<^verbatim>\<open>consoleAdmin\<close> every \<^verbatim>\<open>s3:\<close> and every \<^verbatim>\<open>admin:\<close> action, on every resource.
\<close>
theorem canned_policies_grant:
  assumes "no_empty_values (ConditionValues args)" "\<not> DenyOnly args" "\<not> IsOwner args"
  shows "IAM_Policy_IsAllowed L ReadWrite args = Some (HasPrefix (Action args) ''s3:'') \<and>
    IAM_Policy_IsAllowed L ReadOnly args =
      Some (Action args \<in> {''s3:GetBucketLocation'', ''s3:GetObject''}) \<and>
    IAM_Policy_IsAllowed L WriteOnly args = Some (Action args = ''s3:PutObject'') \<and>
    IAM_Policy_IsAllowed L Admin args =
      Some (HasPrefix (Action args) ''s3:'' \<or> HasPrefix (Action args) ''admin:'')"
proof -
  have s3: "globs (runes ''s3:*'') (runes (Action args)) = HasPrefix (Action args) ''s3:''"
    using globs_plain_star [of "''s3:''" "Action args"] by (simp add: plain_def ascii_def)
  have admin: "globs (runes ''admin:*'') (runes (Action args)) = HasPrefix (Action args) ''admin:''"
    using globs_plain_star [of "''admin:''" "Action args"] by (simp add: plain_def ascii_def)
  have lit: "globs (runes ''s3:GetBucketLocation'') (runes a) = (a = ''s3:GetBucketLocation'')"
    "globs (runes ''s3:GetObject'') (runes a) = (a = ''s3:GetObject'')"
    "globs (runes ''s3:PutObject'') (runes a) = (a = ''s3:PutObject'')" for a
    by (simp_all add: globs_plain_eq plain_def ascii_def)
  note decide = grants_everywhere_decision [OF _ assms, of _ L]
  note sets = canned_def IAM_NewStatement_def IAM_NewActionSet_def set_add_def
  show ?thesis
    using decide [OF canned_statements(1)] decide [OF canned_statements(2)]
      decide [OF canned_statements(3)] decide [OF canned_statements(5)]
    by (auto simp: ReadWrite_def ReadOnly_def WriteOnly_def Admin_def sets s3 admin lit)
qed

theorem canned_policies_grant_witness:
  "IAM_Policy_IsAllowed list_libs ReadOnly (iam_request ''s3:GetObject'') = Some True \<and>
   IAM_Policy_IsAllowed list_libs ReadOnly (iam_request ''s3:PutObject'') = Some False"
  using canned_policies_grant [of "iam_request ''s3:GetObject''" list_libs]
    canned_policies_grant [of "iam_request ''s3:PutObject''" list_libs]
  by simp


lemma canned_merge:
  "IAM_Policy_Merge list_libs ReadOnly WriteOnly =
     Some (canned (IAM_Statements ReadOnly @ IAM_Statements WriteOnly))"
proof -
  have "drop_duplicates (IAM_Statement_Equals list_libs) (IAM_Statements ReadOnly @ IAM_Statements WriteOnly)
      = IAM_Statements ReadOnly @ IAM_Statements WriteOnly"
    by (rule drop_duplicates_id) code_simp
  then show ?thesis
    by (simp add: IAM_Policy_Merge_def IAM_Statement_Clone_def IAM_Policy_dropDuplicateStatements_def
        ReadOnly_def WriteOnly_def canned_def IAM_NewStatement_def Functions_Clone_def
        IAM_ActionSet_Clone_def IAM_ResourceSet_Clone_def IAM_NewActionSet_def IAM_NewResourceSet_def
        set_add_def DefaultVersion_def)
qed


text \<open>
  The policy names of a token. The names that \<^verbatim>\<open>GetPoliciesFromClaims\<close> finds are the trimmed,
  non-empty parts of the comma-separated strings of the claim, whether it is one string or a list
  with strings in it; none of them is empty or holds a comma; any other claim gives no names and
  reports that there are none.
\<close>
theorem GetPoliciesFromClaims_names:
  assumes "string_set_laws L" "claims name = Some c"
  shows "set (fst (GetPoliciesFromClaims L claims name)) =
      {TrimSpace n | n p. p \<in> set (claim_strings c) \<and> n \<in> set (split_byte CHR '','' p) \<and>
         TrimSpace n \<noteq> ''''} \<and>
    (snd (GetPoliciesFromClaims L claims name) \<longleftrightarrow> c \<noteq> ClaimOther) \<and>
    (\<forall>n \<in> set (fst (GetPoliciesFromClaims L claims name)). n \<noteq> '''' \<and> CHR '','' \<notin> set n)"
proof -
  have s: "set (fst (GetPoliciesFromClaims L claims name)) =
      {TrimSpace n | n p. p \<in> set (claim_strings c) \<and> n \<in> set (split_byte CHR '','' p) \<and>
         TrimSpace n \<noteq> ''''}"
    using assms(2)
    by (cases c) (auto simp: GetPoliciesFromClaims_def set_add_names [OF assms(1)]
        set_add_claims [OF assms(1)] string_set_lawsD [OF assms(1)])
  have "CHR '','' \<notin> set (TrimSpace n)" if "n \<in> set (split_byte CHR '','' p)" for n p
    using split_byte_no_sep [OF that] set_TrimSpace [of n] by auto
  then show ?thesis
    unfolding s using assms(2)
    by (cases c) (auto simp: GetPoliciesFromClaims_def)
qed

theorem GetPoliciesFromClaims_names_witness:
  "set (fst (GetPoliciesFromClaims list_libs [''policy'' \<mapsto> ClaimString ''a, b,,''] ''policy'')) =
     {TrimSpace n | n p. p \<in> set (claim_strings (ClaimString ''a, b,,'')) \<and>
        n \<in> set (split_byte CHR '','' p) \<and> TrimSpace n \<noteq> ''''}"
proof -
  have "[''policy'' \<mapsto> ClaimString ''a, b,,''] ''policy'' = Some (ClaimString ''a, b,,'')" by simp
  from GetPoliciesFromClaims_names [OF list_libs_laws, of "[''policy'' \<mapsto> ClaimString ''a, b,,'']",
      OF this] show ?thesis by (rule conjunct1)
qed

text \<open>
  A bucket resource covers the bucket and not its objects. For a bucket whose name is clean
  and has no wildcard, the resource without a key matches the request on the bucket itself, whose
  resource string ends in a slash, and no request on an object of the bucket.
\<close>
theorem IAM_bucket_resource:
  assumes "no_empty_values vals" "plain b" "clean_name b" "clean_name k"
  shows "IAM_Resource_Match (IAM_NewResource b '''') (b @ ''/'') vals = Some True \<and>
    IAM_Resource_Match (IAM_NewResource b '''') (b @ ''/'' @ k) vals = Some False"
  using assms path_Clean_bucket [OF assms(3)] path_Clean_object [OF assms(3,4)]
  by (auto simp: IAM_Resource_Match_plain clean_name_def)

theorem IAM_bucket_resource_witness:
  "IAM_Resource_Match (IAM_NewResource ''photos'' '''') ''photos/'' (\<lambda>k. None) = Some True \<and>
   IAM_Resource_Match (IAM_NewResource ''photos'' '''') ''photos/cat'' (\<lambda>k. None) = Some False"
  using IAM_bucket_resource [of "\<lambda>k. None" "''photos''" "''cat''"]
  by (simp add: no_empty_values_def list_all_iff plain_def ascii_def clean_name_def)

end
