(* ===== verification/Local_Locker.thy ===== *)
theory Local_Locker
  imports Go_Prelude
begin

text \<open>
  \<^verbatim>\<open>cmd/local-locker.go\<close>: the lock table of one server. Every operation holds the mutex of the
  table, so it is one function of the table. \<open>now\<close> is the reading of the clock during the
  operation; where the Go code returns an error, the result is \<^const>\<open>Inl\<close>; \<open>IndexOutOfRange\<close> is the
  panic of \<^verbatim>\<open>args.Resources[0]\<close> on an empty list, before the table is touched.
\<close>

section \<open>The lock table\<close>

record lockRequesterInfo =
  Name :: string
  Writer :: bool
  UID :: string
  Timestamp :: int
  TimeLastRefresh :: int
  Source :: string
  Group :: bool
  Owner :: string
  Quorum :: int

record lock_args =
  ArgsUID :: string
  LockResources :: "string list"
  ArgsSource :: string
  ArgsOwner :: string
  ArgsQuorum :: int

datatype lock_error =
  UnlockReadLocked | RUnlockWriteLocked | ForceUnlockUID | ContextDone | IndexOutOfRange

type_synonym lock_map = "string \<rightharpoonup> lockRequesterInfo list"
type_synonym lock_reply = "lock_error + bool"

text \<open>\<^verbatim>\<open>l.lockMap[resource]\<close>, the nil slice when the key is missing.\<close>

definition entries :: "lock_map \<Rightarrow> string \<Rightarrow> lockRequesterInfo list" where
  "entries m r = (case m r of None \<Rightarrow> [] | Some lri \<Rightarrow> lri)"

definition isWriteLock :: "lockRequesterInfo list \<Rightarrow> bool" where
  "isWriteLock lri \<longleftrightarrow> length lri = 1 \<and> Writer (lri ! 0)"

definition canTakeUnlock :: "lock_map \<Rightarrow> string list \<Rightarrow> bool" where
  "canTakeUnlock m resources \<longleftrightarrow>
     length (filter (\<lambda>r. isWriteLock (entries m r)) resources) = length resources"

definition canTakeLock :: "lock_map \<Rightarrow> string list \<Rightarrow> bool" where
  "canTakeLock m resources \<longleftrightarrow>
     length (filter (\<lambda>r. m r = None) resources) = length resources"

definition write_entry :: "int \<Rightarrow> lock_args \<Rightarrow> string \<Rightarrow> lockRequesterInfo" where
  "write_entry now args resource =
     \<lparr>Name = resource, Writer = True, UID = ArgsUID args, Timestamp = now, TimeLastRefresh = now,
      Source = ArgsSource args, Group = length (LockResources args) > 1, Owner = ArgsOwner args,
      Quorum = ArgsQuorum args\<rparr>"

definition read_entry :: "int \<Rightarrow> lock_args \<Rightarrow> string \<Rightarrow> lockRequesterInfo" where
  "read_entry now args resource =
     \<lparr>Name = resource, Writer = False, UID = ArgsUID args, Timestamp = now, TimeLastRefresh = now,
      Source = ArgsSource args, Group = False, Owner = ArgsOwner args, Quorum = ArgsQuorum args\<rparr>"

section \<open>Operations\<close>

definition Lock :: "int \<Rightarrow> lock_args \<Rightarrow> lock_map \<Rightarrow> lock_map \<times> lock_reply" where
  "Lock now args m =
     (if \<not> canTakeLock m (LockResources args) then (m, Inr False)
      else (foldl (\<lambda>m r. m(r \<mapsto> [write_entry now args r])) m (LockResources args), Inr True))"

definition owned_by :: "string \<Rightarrow> string \<Rightarrow> lockRequesterInfo \<Rightarrow> bool" where
  "owned_by uid owner entry \<longleftrightarrow> UID entry = uid \<and> Owner entry = owner"

definition removeEntry ::
  "string \<Rightarrow> string \<Rightarrow> string \<Rightarrow> lockRequesterInfo list \<Rightarrow> lock_map \<Rightarrow>
     lock_map \<times> lockRequesterInfo list \<times> bool" where
  "removeEntry name uid owner lri m =
     (case find_index (owned_by uid owner) lri of
        None \<Rightarrow> (m, lri, False)
      | Some index \<Rightarrow>
          if length lri = 1 then (m(name := None), lri, True)
          else (m(name \<mapsto> remove_at index lri), remove_at index lri, True))"

definition Unlock :: "lock_args \<Rightarrow> lock_map \<Rightarrow> lock_map \<times> lock_reply" where
  "Unlock args m =
     (if \<not> canTakeUnlock m (LockResources args) then (m, Inl UnlockReadLocked)
      else
        (foldl (\<lambda>m r. case m r of
                        None \<Rightarrow> m
                      | Some lri \<Rightarrow> fst (removeEntry r (ArgsUID args) (ArgsOwner args) lri m))
           m (LockResources args), Inr True))"

definition RLock :: "int \<Rightarrow> lock_args \<Rightarrow> lock_map \<Rightarrow> lock_map \<times> lock_reply" where
  "RLock now args m =
     (case LockResources args of
        [] \<Rightarrow> (m, Inl IndexOutOfRange)
      | resource # _ \<Rightarrow>
          (case m resource of
             Some lri \<Rightarrow>
               if \<not> isWriteLock lri
               then (m(resource \<mapsto> lri @ [read_entry now args resource]), Inr True)
               else (m, Inr False)
           | None \<Rightarrow> (m(resource \<mapsto> [read_entry now args resource]), Inr True)))"

definition RUnlock :: "lock_args \<Rightarrow> lock_map \<Rightarrow> lock_map \<times> lock_reply" where
  "RUnlock args m =
     (case LockResources args of
        [] \<Rightarrow> (m, Inl IndexOutOfRange)
      | resource # _ \<Rightarrow>
          (case m resource of
             None \<Rightarrow> (m, Inr True)
           | Some lri \<Rightarrow>
               if isWriteLock lri then (m, Inl RUnlockWriteLocked)
               else (fst (removeEntry resource (ArgsUID args) (ArgsOwner args) lri m), Inr True)))"

text \<open>\<open>done\<close> says whether the context is cancelled when the operation starts.\<close>

definition ForceUnlock :: "bool \<Rightarrow> lock_args \<Rightarrow> lock_map \<Rightarrow> lock_map \<times> lock_reply" where
  "ForceUnlock ctx_done args m =
     (if ctx_done then (m, Inl ContextDone)
      else if length (ArgsUID args) \<noteq> 0 then (m, Inl ForceUnlockUID)
      else (foldl (\<lambda>m r. m(r := None)) m (LockResources args), Inr True))"

definition Refresh :: "bool \<Rightarrow> int \<Rightarrow> lock_args \<Rightarrow> lock_map \<Rightarrow> lock_map \<times> lock_reply" where
  "Refresh ctx_done now args m =
     (if ctx_done then (m, Inl ContextDone)
      else
        (case LockResources args of
           [] \<Rightarrow> (m, Inl IndexOutOfRange)
         | resource # _ \<Rightarrow>
             (case m resource of
                None \<Rightarrow> (m, Inr False)
              | Some lri \<Rightarrow>
                  (case find_index (owned_by (ArgsUID args) (ArgsOwner args)) lri of
                     None \<Rightarrow> (m, Inr False)
                   | Some i \<Rightarrow>
                       (m(resource \<mapsto> lri[i := (lri ! i)\<lparr>TimeLastRefresh := now\<rparr>]), Inr True)))))"

text \<open>
  \<^verbatim>\<open>expireOldLocks\<close> ranges over the slice \<^verbatim>\<open>lris\<close> while \<^verbatim>\<open>removeEntry\<close> shortens it in place. The range
  keeps the array and the length the slice had at the start, so the state of the loop is the array,
  the shortened slice, which is a front part of the array, and the table.
\<close>

definition expire_entry ::
  "int \<Rightarrow> int \<Rightarrow> lockRequesterInfo list \<times> lockRequesterInfo list \<times> lock_map \<Rightarrow> nat \<Rightarrow>
     lockRequesterInfo list \<times> lockRequesterInfo list \<times> lock_map" where
  "expire_entry now interval st i =
     (let (arr, lris, m) = st; lri = arr ! i in
      if now - TimeLastRefresh lri > interval then
        (let (m', lris', _) = removeEntry (Name lri) (UID lri) (Owner lri) lris m
         in (lris' @ drop (length lris') arr, lris', m'))
      else st)"

definition expire_resource :: "int \<Rightarrow> int \<Rightarrow> lock_map \<Rightarrow> string \<Rightarrow> lock_map" where
  "expire_resource now interval m name =
     (case m name of
        None \<Rightarrow> m
      | Some lris \<Rightarrow>
          snd (snd (foldl (expire_entry now interval) (lris, lris, m) [0..<length lris])))"

text \<open>\<open>ks\<close> lists the keys of the table in the order in which the iteration visits them.\<close>

definition expireOldLocks :: "int \<Rightarrow> int \<Rightarrow> string list \<Rightarrow> lock_map \<Rightarrow> lock_map" where
  "expireOldLocks now interval ks m = foldl (expire_resource now interval) m ks"

definition DupLockMap :: "lock_map \<Rightarrow> lock_map" where
  "DupLockMap m = (\<lambda>k. map_option (\<lambda>v. [] @ v) (m k))"

definition newLocker :: lock_map where
  "newLocker = Map.empty"

section \<open>The steps of the lock table\<close>

inductive locker_step :: "lock_map \<Rightarrow> lock_map \<Rightarrow> bool" where
  step_Lock: "locker_step m (fst (Lock now args m))"
| step_Unlock: "locker_step m (fst (Unlock args m))"
| step_RLock: "locker_step m (fst (RLock now args m))"
| step_RUnlock: "locker_step m (fst (RUnlock args m))"
| step_ForceUnlock: "locker_step m (fst (ForceUnlock ctx_done args m))"
| step_Refresh: "locker_step m (fst (Refresh ctx_done now args m))"
| step_expire: "locker_step m (expireOldLocks now interval ks m)"

end
