(* ===== verification/Local_Locker_Facts.thy ===== *)
theory Local_Locker_Facts
  imports Local_Locker
begin

text \<open>
  What the lock table of one server guarantees: the mutual exclusion invariant and its preservation
  by every operation, the effect of locking and unlocking, and what expiry keeps and passes over.
\<close>

section \<open>The invariant\<close>

text \<open>A resource in the table has one write lock or one or more read locks.\<close>

definition entries_ok :: "string \<Rightarrow> lockRequesterInfo list \<Rightarrow> bool" where
  "entries_ok r lri \<longleftrightarrow> lri \<noteq> [] \<and> (\<forall>e \<in> set lri. Name e = r) \<and>
     (length lri = 1 \<or> (\<forall>e \<in> set lri. \<not> Writer e))"

definition locker_inv :: "lock_map \<Rightarrow> bool" where
  "locker_inv m \<longleftrightarrow> (\<forall>r lri. m r = Some lri \<longrightarrow> entries_ok r lri)"

lemma locker_invD: "locker_inv m \<Longrightarrow> m r = Some lri \<Longrightarrow> entries_ok r lri"
  by (simp add: locker_inv_def)

lemma locker_inv_upd: "locker_inv m \<Longrightarrow> entries_ok r lri \<Longrightarrow> locker_inv (m(r \<mapsto> lri))"
  by (simp add: locker_inv_def)

lemma locker_inv_del: "locker_inv m \<Longrightarrow> locker_inv (m(r := None))"
  by (simp add: locker_inv_def)

lemma entries_ok_remove:
  "entries_ok r lri \<Longrightarrow> length lri \<noteq> 1 \<Longrightarrow> i < length lri \<Longrightarrow> entries_ok r (remove_at i lri)"
proof -
  assume a: "entries_ok r lri" "length lri \<noteq> 1" "i < length lri"
  then have "length lri \<noteq> 0" by (simp add: entries_ok_def)
  with a(2) have "length (remove_at i lri) \<noteq> 0" using length_remove_at [OF a(3)] by linarith
  then have "remove_at i lri \<noteq> []" by simp
  with a set_remove_at [of i lri] show ?thesis by (auto simp: entries_ok_def)
qed

lemma entries_ok_write: "entries_ok r [write_entry now args r]"
  by (simp add: entries_ok_def write_entry_def)

lemma entries_ok_read: "entries_ok r [read_entry now args r]"
  by (simp add: entries_ok_def read_entry_def)

lemma isWriteLock_iff: "entries_ok r lri \<Longrightarrow> isWriteLock lri \<longleftrightarrow> (\<exists>e \<in> set lri. Writer e)"
proof -
  assume a: "entries_ok r lri"
  show ?thesis
  proof (cases "length lri = 1")
    case True
    then obtain e where "lri = [e]" by (cases lri) auto
    then show ?thesis by (simp add: isWriteLock_def)
  qed (use a in \<open>auto simp: entries_ok_def isWriteLock_def\<close>)
qed

lemma removeEntry_inv:
  "locker_inv m \<Longrightarrow> entries_ok name lri \<Longrightarrow> locker_inv (fst (removeEntry name uid owner lri m))"
  by (auto simp: removeEntry_def locker_inv_upd locker_inv_del entries_ok_remove find_index_SomeD
      split: option.splits)

lemma foldl_inv: "P s \<Longrightarrow> (\<And>s x. x \<in> set xs \<Longrightarrow> P s \<Longrightarrow> P (f s x)) \<Longrightarrow> P (foldl f s xs)"
  by (induction xs arbitrary: s) auto

lemma Lock_inv: "locker_inv m \<Longrightarrow> locker_inv (fst (Lock now args m))"
  by (auto simp: Lock_def intro!: foldl_inv [where P = locker_inv] locker_inv_upd entries_ok_write)

lemma Unlock_inv: "locker_inv m \<Longrightarrow> locker_inv (fst (Unlock args m))"
  by (auto simp: Unlock_def intro!: foldl_inv [where P = locker_inv] removeEntry_inv
      split: option.splits dest: locker_invD)

lemma RLock_inv: "locker_inv m \<Longrightarrow> locker_inv (fst (RLock now args m))"
proof -
  assume i: "locker_inv m"
  have "entries_ok r (lri @ [read_entry now args r])" if "m r = Some lri" "\<not> isWriteLock lri" for r lri
    using locker_invD [OF i that(1)] that(2) isWriteLock_iff [of r lri]
    by (auto simp: entries_ok_def read_entry_def)
  with i show ?thesis
    by (auto simp: RLock_def locker_inv_upd entries_ok_read split: list.splits option.splits)
qed

lemma RUnlock_inv: "locker_inv m \<Longrightarrow> locker_inv (fst (RUnlock args m))"
  by (auto simp: RUnlock_def removeEntry_inv locker_invD split: list.splits option.splits)

lemma ForceUnlock_inv: "locker_inv m \<Longrightarrow> locker_inv (fst (ForceUnlock d args m))"
  by (auto simp: ForceUnlock_def intro!: foldl_inv [where P = locker_inv] locker_inv_del)

lemma entries_ok_refresh:
  assumes "entries_ok r lri" "i < length lri"
  shows "entries_ok r (lri[i := (lri ! i)\<lparr>TimeLastRefresh := now\<rparr>])"
proof -
  have "lri ! i \<in> set lri" using assms(2) by simp
  then show ?thesis
    using assms set_update_subset_insert [of lri i "(lri ! i)\<lparr>TimeLastRefresh := now\<rparr>"]
    by (auto simp: entries_ok_def)
qed

lemma Refresh_inv: "locker_inv m \<Longrightarrow> locker_inv (fst (Refresh d now args m))"
  by (auto simp: Refresh_def locker_inv_upd entries_ok_refresh locker_invD
      split: list.splits option.splits dest: find_index_SomeD)

section \<open>Expiry\<close>

text \<open>
  What holds at every iteration over the entries \<open>orig\<close> of a resource: the array holds entries of the
  resource only, the slice is a well-formed front part of it, and the table has the slice or, once
  the last entry is gone, nothing.
\<close>

definition expire_inv ::
  "string \<Rightarrow> lock_map \<Rightarrow> lockRequesterInfo list \<Rightarrow>
     lockRequesterInfo list \<times> lockRequesterInfo list \<times> lock_map \<Rightarrow> bool" where
  "expire_inv k m0 orig st \<longleftrightarrow>
     (case st of (arr, lris, m) \<Rightarrow>
        length arr = length orig \<and> set arr \<subseteq> set orig \<and> set lris \<subseteq> set orig \<and>
        length lris \<le> length arr \<and> entries_ok k lris \<and>
        (m = m0(k \<mapsto> lris) \<or> length lris = 1 \<and> m = m0(k := None)))"

lemma expire_entry_inv:
  assumes st: "expire_inv k m0 orig (arr, lris, m)" and i: "i < length orig"
    and names: "\<forall>e \<in> set orig. Name e = k"
  shows "expire_inv k m0 orig (expire_entry now interval (arr, lris, m) i)"
proof (cases "now - TimeLastRefresh (arr ! i) > interval")
  case True
  define e where "e = arr ! i"
  have "e \<in> set arr" using st i by (simp add: expire_inv_def e_def)
  then have n: "Name e = k" using st names by (auto simp: expire_inv_def)
  show ?thesis
  proof (cases "find_index (owned_by (UID e) (Owner e)) lris")
    case None
    then have "expire_entry now interval (arr, lris, m) i = (lris @ drop (length lris) arr, lris, m)"
      using True by (simp add: expire_entry_def Let_def e_def [symmetric] removeEntry_def)
    with st show ?thesis by (auto simp: expire_inv_def dest: in_set_dropD)
  next
    case (Some j)
    note j = find_index_SomeD [OF Some]
    show ?thesis
    proof (cases "length lris = 1")
      case True1: True
      then have "expire_entry now interval (arr, lris, m) i =
          (lris @ drop (length lris) arr, lris, m(k := None))"
        using True Some n by (simp add: expire_entry_def Let_def e_def [symmetric] removeEntry_def)
      with st True1 show ?thesis by (auto simp: expire_inv_def dest: in_set_dropD)
    next
      case False
      then have "expire_entry now interval (arr, lris, m) i =
          (remove_at j lris @ drop (length (remove_at j lris)) arr, remove_at j lris,
           m(k \<mapsto> remove_at j lris))"
        using True Some n by (simp add: expire_entry_def Let_def e_def [symmetric] removeEntry_def)
      moreover have "length (remove_at j lris) \<le> length arr"
        using st j length_remove_at [of j lris] by (auto simp: expire_inv_def)
      moreover have "m = m0(k \<mapsto> lris)" using st False by (auto simp: expire_inv_def)
      ultimately show ?thesis
        using st False j entries_ok_remove [of k lris j] set_remove_at [of j lris]
        by (auto simp: expire_inv_def dest: in_set_dropD)
    qed
  qed
next
  case False
  with st show ?thesis by (simp add: expire_entry_def)
qed

lemma expire_loop_inv:
  assumes "m k = Some lris" "entries_ok k lris"
  shows "expire_inv k m lris (foldl (expire_entry now interval) (lris, lris, m) [0..<length lris])"
proof (rule foldl_inv [where P = "expire_inv k m lris"])
  show "expire_inv k m lris (lris, lris, m)"
    using assms by (auto simp: expire_inv_def)
  show "expire_inv k m lris (expire_entry now interval s i)"
    if "i \<in> set [0..<length lris]" "expire_inv k m lris s" for s i
  proof (cases s)
    case (fields arr ls m')
    with that assms(2) show ?thesis
      using expire_entry_inv [of k m lris arr ls m' i now interval] by (simp add: entries_ok_def)
  qed
qed

lemma expire_resource_inv: "locker_inv m \<Longrightarrow> locker_inv (expire_resource now interval m k)"
proof (cases "m k")
  case (Some lris)
  assume i: "locker_inv m"
  define st where "st = foldl (expire_entry now interval) (lris, lris, m) [0..<length lris]"
  have "expire_inv k m lris st"
    unfolding st_def by (rule expire_loop_inv) (use i Some in \<open>auto intro: locker_invD\<close>)
  then have "locker_inv (snd (snd st))"
    using i by (auto simp: expire_inv_def locker_inv_upd locker_inv_del split: prod.splits)
  then show ?thesis by (simp add: expire_resource_def Some st_def)
qed (simp add: expire_resource_def)

lemma expireOldLocks_inv: "locker_inv m \<Longrightarrow> locker_inv (expireOldLocks now interval ks m)"
  unfolding expireOldLocks_def
  by (rule foldl_inv [where P = locker_inv]) (auto intro: expire_resource_inv)

lemmas locker_inv_intros =
  Lock_inv Unlock_inv RLock_inv RUnlock_inv ForceUnlock_inv Refresh_inv expireOldLocks_inv

lemma locker_step_inv: "locker_step m m' \<Longrightarrow> locker_inv m \<Longrightarrow> locker_inv m'"
  by (induction rule: locker_step.induct) (auto intro: locker_inv_intros)

lemma locker_reachable_inv: "locker_step\<^sup>*\<^sup>* newLocker m \<Longrightarrow> locker_inv m"
  by (induction rule: rtranclp_induct) (auto simp: newLocker_def locker_inv_def [of Map.empty] intro: locker_step_inv)

section \<open>What the operations do\<close>

lemma filter_length_iff: "length (filter p xs) = length xs \<longleftrightarrow> (\<forall>x \<in> set xs. p x)"
  by (metis filter_True length_filter_less less_irrefl)

lemma canTakeLock_iff: "canTakeLock m rs \<longleftrightarrow> (\<forall>r \<in> set rs. m r = None)"
  by (simp add: canTakeLock_def filter_length_iff)

lemma canTakeUnlock_iff: "canTakeUnlock m rs \<longleftrightarrow> (\<forall>r \<in> set rs. isWriteLock (entries m r))"
  by (simp add: canTakeUnlock_def filter_length_iff)

lemma foldl_upd: "foldl (\<lambda>m r. m(r \<mapsto> f r)) m rs = (\<lambda>r. if r \<in> set rs then Some (f r) else m r)"
  by (induction rs arbitrary: m) (auto simp: fun_eq_iff)

lemma foldl_del: "foldl (\<lambda>m r. m(r := None)) m rs = (\<lambda>r. if r \<in> set rs then None else m r)"
  by (induction rs arbitrary: m) (auto simp: fun_eq_iff)

lemma Lock_sem:
  "Lock now args m =
     (if \<forall>r \<in> set (LockResources args). m r = None
      then (\<lambda>r. if r \<in> set (LockResources args) then Some [write_entry now args r] else m r, Inr True)
      else (m, Inr False))"
  by (simp add: Lock_def canTakeLock_iff foldl_upd)

lemma removeEntry_single:
  "fst (removeEntry r uid owner [e] m) = (if owned_by uid owner e then m(r := None) else m)"
  by (simp add: removeEntry_def)

lemma isWriteLock_single: "isWriteLock lri \<longleftrightarrow> (\<exists>e. lri = [e] \<and> Writer e)"
  by (cases lri) (auto simp: isWriteLock_def)

text \<open>Releasing write locks: each resource loses its entry when the caller owns it.\<close>

lemma foldl_release:
  assumes "\<forall>r \<in> set rs. \<exists>e. m r = Some [e] \<or> m r = None"
  shows "foldl (\<lambda>m r. case m r of None \<Rightarrow> m | Some lri \<Rightarrow> fst (removeEntry r uid owner lri m)) m rs =
    (\<lambda>r. if r \<in> set rs \<and> (\<exists>e. m r = Some [e] \<and> owned_by uid owner e) then None else m r)"
  using assms
proof (induction rs arbitrary: m)
  case (Cons r rs)
  define m' where "m' = (case m r of None \<Rightarrow> m | Some lri \<Rightarrow> fst (removeEntry r uid owner lri m))"
  have m': "m' = (if \<exists>e. m r = Some [e] \<and> owned_by uid owner e then m(r := None) else m)"
    using Cons.prems by (auto simp: m'_def removeEntry_single split: option.splits)
  then have "\<forall>r \<in> set rs. \<exists>e. m' r = Some [e] \<or> m' r = None"
    using Cons.prems by auto
  from Cons.IH [OF this] show ?case
    by (auto simp: m'_def [symmetric] m' fun_eq_iff)
qed auto

lemma Unlock_sem:
  assumes "\<forall>r \<in> set (LockResources args). \<exists>e. m r = Some [e] \<and> Writer e"
  shows "Unlock args m =
    (\<lambda>r. if r \<in> set (LockResources args) \<and>
            (\<exists>e. m r = Some [e] \<and> owned_by (ArgsUID args) (ArgsOwner args) e) then None else m r,
     Inr True)"
proof -
  have "canTakeUnlock m (LockResources args)"
    using assms by (fastforce simp: canTakeUnlock_iff isWriteLock_single entries_def)
  moreover have "\<forall>r \<in> set (LockResources args). \<exists>e. m r = Some [e] \<or> m r = None"
    using assms by blast
  ultimately show ?thesis by (simp add: Unlock_def foldl_release)
qed

lemma Unlock_rejected:
  "\<exists>r \<in> set (LockResources args). \<not> isWriteLock (entries m r) \<Longrightarrow>
     Unlock args m = (m, Inl UnlockReadLocked)"
  by (auto simp: Unlock_def canTakeUnlock_iff)

text \<open>Fresh entries and distinct requests survive an expiry.\<close>

definition requester :: "lockRequesterInfo \<Rightarrow> string \<times> string" where
  "requester e = (UID e, Owner e)"

definition stale :: "int \<Rightarrow> int \<Rightarrow> lockRequesterInfo \<Rightarrow> bool" where
  "stale now interval e \<longleftrightarrow> now - TimeLastRefresh e > interval"

definition fresh_kept ::
  "int \<Rightarrow> int \<Rightarrow> lockRequesterInfo list \<Rightarrow>
     lockRequesterInfo list \<times> lockRequesterInfo list \<times> lock_map \<Rightarrow> string \<Rightarrow> bool" where
  "fresh_kept now interval orig st k \<longleftrightarrow>
     (case st of (arr, lris, m) \<Rightarrow>
        (\<forall>e \<in> set orig. \<not> stale now interval e \<longrightarrow> e \<in> set lris) \<and>
        (m k = None \<longrightarrow> (\<forall>e \<in> set orig. stale now interval e)))"

lemma owned_by_requester: "owned_by (UID e) (Owner e) d \<longleftrightarrow> requester d = requester e"
  by (auto simp: owned_by_def requester_def)

lemma expire_entry_fresh:
  assumes st: "expire_inv k m0 orig (arr, lris, m)" and i: "i < length orig"
    and names: "\<forall>e \<in> set orig. Name e = k" and inj: "inj_on requester (set orig)"
    and keep: "fresh_kept now interval orig (arr, lris, m) k"
  shows "fresh_kept now interval orig (expire_entry now interval (arr, lris, m) i) k"
proof (cases "stale now interval (arr ! i)")
  case True
  define e where "e = arr ! i"
  have "e \<in> set arr" using st i by (simp add: expire_inv_def e_def)
  then have e: "e \<in> set orig" using st by (auto simp: expire_inv_def)
  then have n: "Name e = k" using names by simp
  show ?thesis
  proof (cases "find_index (owned_by (UID e) (Owner e)) lris")
    case None
    with True keep show ?thesis
      by (simp add: expire_entry_def Let_def e_def [symmetric] removeEntry_def stale_def fresh_kept_def)
  next
    case (Some j)
    note j = find_index_SomeD [OF Some]
    have "lris ! j \<in> set lris" using j by simp
    then have "lris ! j \<in> set orig" using st by (auto simp: expire_inv_def)
    then have je: "lris ! j = e"
      using j inj e by (auto simp: owned_by_requester dest: inj_onD)
    have s: "stale now interval e" using True by (simp add: e_def)
    have others: "\<forall>d \<in> set orig. \<not> stale now interval d \<longrightarrow> d \<in> set (remove_at j lris)"
      using keep s j je in_set_remove_at [of _ lris j] by (auto simp: fresh_kept_def)
    show ?thesis
    proof (cases "length lris = 1")
      case True1: True
      then have "lris = [e]" using j je by (cases lris) auto
      then have "\<forall>d \<in> set orig. stale now interval d"
        using keep s by (auto simp: fresh_kept_def)
      with True1 True Some n show ?thesis
        by (simp add: expire_entry_def Let_def e_def [symmetric] removeEntry_def stale_def fresh_kept_def)
    next
      case False
      with True Some n others show ?thesis
        by (simp add: expire_entry_def Let_def e_def [symmetric] removeEntry_def stale_def fresh_kept_def)
    qed
  qed
next
  case False
  with keep show ?thesis by (simp add: expire_entry_def stale_def)
qed

lemma expire_resource_fresh:
  assumes "m k = Some lris" "entries_ok k lris" "inj_on requester (set lris)"
    and "e \<in> set lris" "\<not> stale now interval e"
  shows "\<exists>lris'. expire_resource now interval m k k = Some lris' \<and> e \<in> set lris' \<and> set lris' \<subseteq> set lris"
proof -
  define st where "st = foldl (expire_entry now interval) (lris, lris, m) [0..<length lris]"
  have names: "\<forall>d \<in> set lris. Name d = k" using assms(2) by (simp add: entries_ok_def)
  have "expire_inv k m lris st \<and> fresh_kept now interval lris st k"
    unfolding st_def
  proof (rule foldl_inv)
    show "expire_inv k m lris (lris, lris, m) \<and> fresh_kept now interval lris (lris, lris, m) k"
      using assms(1,2) by (auto simp: expire_inv_def fresh_kept_def)
    show "expire_inv k m lris (expire_entry now interval s i) \<and>
        fresh_kept now interval lris (expire_entry now interval s i) k"
      if "i \<in> set [0..<length lris]" "expire_inv k m lris s \<and> fresh_kept now interval lris s k" for s i
      using that names assms(3) by (cases s) (auto intro: expire_entry_inv expire_entry_fresh)
  qed
  then obtain arr ls m' where st: "st = (arr, ls, m')" and "expire_inv k m lris (arr, ls, m')"
    and "fresh_kept now interval lris (arr, ls, m') k"
    by (cases st) auto
  then have "m' k = Some ls" "e \<in> set ls" "set ls \<subseteq> set lris"
    using assms(4,5) by (auto simp: expire_inv_def fresh_kept_def)
  moreover have "expire_resource now interval m k = m'"
    using st by (simp add: expire_resource_def assms(1) st_def)
  ultimately show ?thesis by simp
qed

lemma expire_resource_other:
  assumes "locker_inv m" "k \<noteq> r"
  shows "expire_resource now interval m k r = m r"
proof (cases "m k")
  case (Some lris)
  define st where "st = foldl (expire_entry now interval) (lris, lris, m) [0..<length lris]"
  have "expire_inv k m lris st"
    unfolding st_def by (rule expire_loop_inv) (use assms Some in \<open>auto intro: locker_invD\<close>)
  with assms(2) show ?thesis
    by (auto simp: expire_resource_def Some st_def [symmetric] expire_inv_def split: prod.splits)
qed (simp add: expire_resource_def)

lemma expireOldLocks_fresh:
  assumes "locker_inv m" "m r = Some lris" "inj_on requester (set lris)" "distinct ks"
    and "e \<in> set lris" "\<not> stale now interval e"
  shows "\<exists>lris'. expireOldLocks now interval ks m r = Some lris' \<and> e \<in> set lris' \<and> set lris' \<subseteq> set lris"
  using assms
proof (induction ks arbitrary: m)
  case Nil
  then show ?case by (simp add: expireOldLocks_def)
next
  case (Cons k ks)
  have i: "locker_inv (expire_resource now interval m k)" using Cons.prems(1) by (rule expire_resource_inv)
  show ?case
  proof (cases "k = r")
    case True
    have "expireOldLocks now interval ks m' r = m' r" if "locker_inv m'" for m'
      using Cons.prems(4) that unfolding expireOldLocks_def True
      by (induction ks arbitrary: m') (auto simp: expire_resource_other expire_resource_inv)
    with i have "expireOldLocks now interval (k # ks) m r = expire_resource now interval m k r"
      by (simp add: expireOldLocks_def)
    moreover have "\<exists>lris'. expire_resource now interval m r r = Some lris' \<and> e \<in> set lris' \<and>
        set lris' \<subseteq> set lris"
      using Cons.prems by (intro expire_resource_fresh) (auto intro: locker_invD)
    ultimately show ?thesis using True by auto
  next
    case False
    then have "expire_resource now interval m k r = Some lris"
      using expire_resource_other [OF Cons.prems(1) False] Cons.prems(2) by simp
    with Cons.IH [OF i] Cons.prems show ?thesis by (simp add: expireOldLocks_def)
  qed
qed

section \<open>Properties\<close>

text \<open>
  C8: Mutual exclusion. In every state that the lock table reaches from the empty one, by any
  sequence of lock, unlock, refresh and expiry operations, a resource that is in the table has
  either exactly one entry, which is a write lock, or one or more entries, all of which are read
  locks.
\<close>
theorem locker_mutual_exclusion:
  assumes "locker_step\<^sup>*\<^sup>* newLocker m" "m r = Some lri"
  shows "(\<exists>e. lri = [e] \<and> Writer e \<and> Name e = r) \<or>
    (lri \<noteq> [] \<and> (\<forall>e \<in> set lri. \<not> Writer e \<and> Name e = r))"
proof -
  have ok: "entries_ok r lri" using locker_invD [OF locker_reachable_inv] assms by blast
  show ?thesis
  proof (cases "isWriteLock lri")
    case True
    with ok show ?thesis by (auto simp: isWriteLock_single entries_ok_def)
  next
    case False
    with ok isWriteLock_iff [OF ok] show ?thesis by (auto simp: entries_ok_def)
  qed
qed

definition sample_lock_args :: "string \<Rightarrow> lock_args" where
  "sample_lock_args uid = \<lparr>ArgsUID = uid, LockResources = [''a'', ''b''], ArgsSource = '''',
     ArgsOwner = ''srv'', ArgsQuorum = 1\<rparr>"

theorem locker_mutual_exclusion_witness:
  "fst (Lock 0 (sample_lock_args ''u'') newLocker) ''a'' =
     Some [write_entry 0 (sample_lock_args ''u'') ''a''] \<and>
   Writer (write_entry 0 (sample_lock_args ''u'') ''a'')"
proof -
  have e: "fst (Lock 0 (sample_lock_args ''u'') newLocker) ''a'' =
      Some [write_entry 0 (sample_lock_args ''u'') ''a'']"
    by (simp add: Lock_sem newLocker_def sample_lock_args_def)
  have "locker_step\<^sup>*\<^sup>* newLocker (fst (Lock 0 (sample_lock_args ''u'') newLocker))"
    by (rule r_into_rtranclp) (rule step_Lock)
  from locker_mutual_exclusion [OF this e] e show ?thesis
    by (simp add: write_entry_def)
qed

text \<open>
  C18: A write lock is taken on all resources of a request or on none. \<^verbatim>\<open>Lock\<close> succeeds exactly when
  no resource of the request is in the table; then each of them has the one entry of the request
  and nothing else changes. \<^verbatim>\<open>Unlock\<close> with the same request restores the table, and with another
  requester it changes nothing, although it reports success. A request that fails changes nothing.
\<close>
theorem Lock_all_or_nothing:
  "(snd (Lock now args m) = Inr True \<longleftrightarrow> (\<forall>r \<in> set (LockResources args). m r = None)) \<and>
   (snd (Lock now args m) \<noteq> Inr True \<longrightarrow> Lock now args m = (m, Inr False)) \<and>
   (snd (Lock now args m) = Inr True \<longrightarrow>
      (\<forall>r. fst (Lock now args m) r =
         (if r \<in> set (LockResources args) then Some [write_entry now args r] else m r)) \<and>
      Unlock args (fst (Lock now args m)) = (m, Inr True) \<and>
      ((uid, owner) \<noteq> (ArgsUID args, ArgsOwner args) \<longrightarrow>
         Unlock (args\<lparr>ArgsUID := uid, ArgsOwner := owner\<rparr>) (fst (Lock now args m)) =
           (fst (Lock now args m), Inr True)))"
proof (cases "\<forall>r \<in> set (LockResources args). m r = None")
  case True
  define m' where "m' = fst (Lock now args m)"
  have m': "m' = (\<lambda>r. if r \<in> set (LockResources args) then Some [write_entry now args r] else m r)"
    using True by (simp add: m'_def Lock_sem)
  have w: "\<forall>r \<in> set (LockResources args). \<exists>e. m' r = Some [e] \<and> Writer e"
    by (simp add: m' write_entry_def)
  have "Unlock args m' = (m, Inr True)"
    unfolding Unlock_sem [OF w] using True
    by (auto simp: fun_eq_iff m' owned_by_def write_entry_def)
  moreover have "Unlock (args\<lparr>ArgsUID := uid, ArgsOwner := owner\<rparr>) m' = (m', Inr True)"
    if "(uid, owner) \<noteq> (ArgsUID args, ArgsOwner args)"
  proof -
    have w': "\<forall>r \<in> set (LockResources (args\<lparr>ArgsUID := uid, ArgsOwner := owner\<rparr>)).
        \<exists>e. m' r = Some [e] \<and> Writer e"
      using w by simp
    show ?thesis unfolding Unlock_sem [OF w'] using that
      by (auto simp: fun_eq_iff m' owned_by_def write_entry_def)
  qed
  moreover have "snd (Lock now args m) = Inr True" using True by (simp add: Lock_sem)
  ultimately show ?thesis using True by (simp add: m'_def [symmetric]) (simp add: m')
qed (auto simp: Lock_sem)

theorem Lock_all_or_nothing_witness:
  "Unlock (sample_lock_args ''u'') (fst (Lock 0 (sample_lock_args ''u'') newLocker)) =
     (newLocker, Inr True)"
  using Lock_all_or_nothing [of 0 "sample_lock_args ''u''" newLocker]
  by (simp add: newLocker_def)

text \<open>
  Expiry never takes a fresh lock. When the requests on a resource are pairwise different, an
  entry that was refreshed within the interval is still in the table after \<^verbatim>\<open>expireOldLocks\<close>,
  in whatever order the keys are visited, and no entry is invented.
\<close>
theorem expireOldLocks_keeps_fresh:
  assumes "locker_step\<^sup>*\<^sup>* newLocker m" "m r = Some lris" "inj_on requester (set lris)" "distinct ks"
    and "e \<in> set lris" "now - TimeLastRefresh e \<le> interval"
  shows "\<exists>lris'. expireOldLocks now interval ks m r = Some lris' \<and> e \<in> set lris' \<and> set lris' \<subseteq> set lris"
  using assms locker_reachable_inv [OF assms(1)]
  by (intro expireOldLocks_fresh) (auto simp: stale_def)

theorem expireOldLocks_keeps_fresh_witness:
  "\<exists>lris'. expireOldLocks 5 10 [''a'', ''b''] (fst (Lock 0 (sample_lock_args ''u'') newLocker)) ''a'' =
     Some lris' \<and> write_entry 0 (sample_lock_args ''u'') ''a'' \<in> set lris' \<and>
     set lris' \<subseteq> {write_entry 0 (sample_lock_args ''u'') ''a''}"
proof -
  have r: "locker_step\<^sup>*\<^sup>* newLocker (fst (Lock 0 (sample_lock_args ''u'') newLocker))"
    by (rule r_into_rtranclp) (rule step_Lock)
  have e: "fst (Lock 0 (sample_lock_args ''u'') newLocker) ''a'' =
      Some [write_entry 0 (sample_lock_args ''u'') ''a'']"
    by (simp add: Lock_sem newLocker_def sample_lock_args_def)
  from expireOldLocks_keeps_fresh [OF r e, of "[''a'', ''b'']" "write_entry 0 (sample_lock_args ''u'') ''a''" 5 10]
  show ?thesis by (simp add: write_entry_def)
qed

text \<open>
  The range of \<^verbatim>\<open>expireOldLocks\<close> runs over an array that \<^verbatim>\<open>removeEntry\<close> shifts: of three stale read
  locks of different requesters the middle one is passed over.
\<close>

lemma expireOldLocks_skips_stale:
  assumes "stale now interval a" "stale now interval b" "stale now interval c"
    and "Name a = k" "Name b = k" "Name c = k" "distinct [requester a, requester b, requester c]"
  shows "expireOldLocks now interval [k] [k \<mapsto> [a, b, c]] k = Some [b]"
  using assms
  by (auto simp: expireOldLocks_def expire_resource_def upt_rec expire_entry_def stale_def removeEntry_def
      owned_by_requester remove_at_def)

end
