(* ===== verification/Dsync.thy ===== *)
theory Dsync
  imports Local_Locker Go_Strings
begin

text \<open>
  \<^verbatim>\<open>pkg/dsync\<close>: the distributed lock over the lock tables of several servers. A server is reached
  through the interface \<^verbatim>\<open>NetLocker\<close>, here the record \<open>netlocker\<close> of its operations on the state of
  one table. What the network does is an argument: for each server whether a call is delivered, and
  the order in which the answers arrive before the timeout.
\<close>

section \<open>The interface of a locker\<close>

record 'st netlocker =
  nl_Lock :: "int \<Rightarrow> lock_args \<Rightarrow> 'st \<Rightarrow> 'st \<times> lock_reply"
  nl_RLock :: "int \<Rightarrow> lock_args \<Rightarrow> 'st \<Rightarrow> 'st \<times> lock_reply"
  nl_Unlock :: "lock_args \<Rightarrow> 'st \<Rightarrow> 'st \<times> lock_reply"
  nl_RUnlock :: "lock_args \<Rightarrow> 'st \<Rightarrow> 'st \<times> lock_reply"
  nl_Refresh :: "bool \<Rightarrow> int \<Rightarrow> lock_args \<Rightarrow> 'st \<Rightarrow> 'st \<times> lock_reply"

text \<open>The lock table of a server behind the interface.\<close>

definition local_netlocker :: "lock_map netlocker" where
  "local_netlocker = \<lparr>nl_Lock = Lock, nl_RLock = RLock, nl_Unlock = Unlock, nl_RUnlock = RUnlock,
     nl_Refresh = Refresh\<rparr>"

text \<open>
  A remote call: carried out and answered, lost on the way there, or carried out with the answer
  lost. An unanswered call ends with an error. \<^const>\<open>None\<close> stands for an error of the call.
\<close>

datatype delivery = Delivered | RequestLost | ReplyLost

definition call ::
  "delivery \<Rightarrow> ('st \<Rightarrow> 'st \<times> lock_reply) \<Rightarrow> 'st \<Rightarrow> 'st \<times> lock_reply option" where
  "call d op s =
     (case d of
        Delivered \<Rightarrow> (fst (op s), Some (snd (op s)))
      | RequestLost \<Rightarrow> (s, None)
      | ReplyLost \<Rightarrow> (fst (op s), None))"

section \<open>Quorums\<close>

definition isLocked :: "string \<Rightarrow> bool" where
  "isLocked uid \<longleftrightarrow> length uid > 0"

definition lock_quorum :: "nat \<Rightarrow> bool \<Rightarrow> nat" where
  "lock_quorum n isReadLock =
     (let tolerance = n div 2; quorum = n - tolerance
      in if \<not> isReadLock \<and> quorum = tolerance then quorum + 1 else quorum)"

definition lock_tolerance :: "nat \<Rightarrow> bool \<Rightarrow> int" where
  "lock_tolerance n isReadLock = int n - int (lock_quorum n isReadLock)"

definition checkQuorumLocked :: "string list \<Rightarrow> nat \<Rightarrow> bool" where
  "checkQuorumLocked locks quorum \<longleftrightarrow> length (filter isLocked locks) \<ge> quorum"

definition checkFailedUnlocks :: "string list \<Rightarrow> int \<Rightarrow> bool" where
  "checkFailedUnlocks locks tolerance \<longleftrightarrow>
     (let unlocksFailed = int (length (filter isLocked locks))
      in if int (length locks) - tolerance = tolerance then unlocksFailed \<ge> tolerance
         else unlocksFailed > tolerance)"

section \<open>Releasing\<close>

definition release_args :: "string \<Rightarrow> string \<Rightarrow> string list \<Rightarrow> lock_args" where
  "release_args owner uid names =
     \<lparr>ArgsUID = uid, LockResources = names, ArgsSource = '''', ArgsOwner = owner, ArgsQuorum = 0\<rparr>"

text \<open>A nil client is \<^const>\<open>None\<close>. The result is the new state and whether the call succeeded.\<close>

definition sendRelease ::
  "'st netlocker \<Rightarrow> delivery \<Rightarrow> 'st option \<Rightarrow> string \<Rightarrow> string \<Rightarrow> bool \<Rightarrow> string list \<Rightarrow>
     'st option \<times> bool" where
  "sendRelease N d c owner uid isReadLock names =
     (case c of
        None \<Rightarrow> (None, False)
      | Some s \<Rightarrow>
          (let (s', reply) = call d ((if isReadLock then nl_RUnlock N else nl_Unlock N)
                                      (release_args owner uid names)) s
           in (Some s', (case reply of Some (Inr _) \<Rightarrow> True | _ \<Rightarrow> False))))"

definition release_one ::
  "'st netlocker \<Rightarrow> string \<Rightarrow> bool \<Rightarrow> string list \<Rightarrow> delivery \<times> 'st option \<times> string \<Rightarrow>
     'st option \<times> string" where
  "release_one N owner isReadLock names x =
     (case x of (d, c, uid) \<Rightarrow>
        if isLocked uid then
          (let (c', ok) = sendRelease N d c owner uid isReadLock names
           in (c', if ok then '''' else uid))
        else (c, uid))"

definition releaseAll ::
  "'st netlocker \<Rightarrow> delivery list \<Rightarrow> int \<Rightarrow> string \<Rightarrow> string list \<Rightarrow> bool \<Rightarrow> 'st option list \<Rightarrow>
     string list \<Rightarrow> 'st option list \<times> string list \<times> bool" where
  "releaseAll N net tolerance owner locks isReadLock restClnts names =
     (let rs = map (release_one N owner isReadLock names) (zip net (zip restClnts locks))
      in (map fst rs, map snd rs, \<not> checkFailedUnlocks (map snd rs) tolerance))"

section \<open>Acquiring\<close>

definition request_args :: "string \<Rightarrow> string \<Rightarrow> string \<Rightarrow> nat \<Rightarrow> string list \<Rightarrow> lock_args" where
  "request_args owner lockid source quorum names =
     \<lparr>ArgsUID = lockid, LockResources = names, ArgsSource = source, ArgsOwner = owner,
      ArgsQuorum = int quorum\<rparr>"

text \<open>The request to one locker and the UID of the grant it answers with, empty if it has none.\<close>

definition request_one ::
  "'st netlocker \<Rightarrow> bool \<Rightarrow> int \<Rightarrow> lock_args \<Rightarrow> delivery \<times> 'st option \<Rightarrow> 'st option \<times> string" where
  "request_one N isReadLock now args x =
     (case x of (d, c) \<Rightarrow>
        (case c of
           None \<Rightarrow> (None, '''')
         | Some s \<Rightarrow>
             (let (s', reply) = call d ((if isReadLock then nl_RLock N else nl_Lock N) now args) s
              in (Some s', if reply = Some (Inr True) then ArgsUID args else ''''))))"

text \<open>
  The loop that waits for answers: an event is the grant of a locker or, when the context is done,
  \<^const>\<open>None\<close>. It stops when too many requests have failed. The result has the events left over.
\<close>

fun collect ::
  "int \<Rightarrow> string list \<Rightarrow> nat option list \<Rightarrow> string list \<Rightarrow> int \<Rightarrow>
     string list \<times> int \<times> nat option list" where
  "collect tolerance grants [] locks locksFailed = (locks, locksFailed, [])"
| "collect tolerance grants (ev # evs) locks locksFailed =
     (case ev of
        Some index \<Rightarrow>
          if isLocked (grants ! index)
          then collect tolerance grants evs (locks[index := grants ! index]) locksFailed
          else if locksFailed + 1 > tolerance then (locks, locksFailed + 1, evs)
          else collect tolerance grants evs locks (locksFailed + 1)
      | None \<Rightarrow>
          if locksFailed + 1 > tolerance then (locks, locksFailed + 1, evs)
          else collect tolerance grants evs locks (locksFailed + 1))"

text \<open>
  What the environment does during one attempt: the deliveries of the requests, the events of the
  waiting loop, the deliveries of the releases after a failure and of the late releases.
\<close>

record attempt =
  at_now :: int
  at_net :: "delivery list"
  at_events :: "nat option list"
  at_release :: "delivery list"
  at_late :: "delivery list"

text \<open>Grants that no event of the loop has delivered are released afterwards.\<close>

definition consumed :: "nat option list \<Rightarrow> nat option list \<Rightarrow> nat set" where
  "consumed events rest = {i. Some i \<in> set (take (length events - length rest) events)}"

definition late_grants :: "string list \<Rightarrow> nat option list \<Rightarrow> nat option list \<Rightarrow> string list" where
  "late_grants grants events rest =
     map (\<lambda>i. if i \<in> consumed events rest then '''' else grants ! i) [0..<length grants]"

definition lock ::
  "'st netlocker \<Rightarrow> attempt \<Rightarrow> 'st option list \<Rightarrow> string \<Rightarrow> string \<Rightarrow> string \<Rightarrow> bool \<Rightarrow> int \<Rightarrow> nat \<Rightarrow>
     string list \<Rightarrow> 'st option list \<times> string list \<times> bool" where
  "lock N at restClnts owner lockid source isReadLock tolerance quorum names =
     (let rs = map (request_one N isReadLock (at_now at) (request_args owner lockid source quorum names))
                 (zip (at_net at) restClnts);
          clnts1 = map fst rs;
          grants = map snd rs;
          events = take (length restClnts) (at_events at);
          (locks, locksFailed, rest) =
            collect tolerance grants events (replicate (length restClnts) '''') 0;
          quorumLocked = (checkQuorumLocked locks quorum \<and> locksFailed \<le> tolerance);
          (clnts2, locks2) =
            (if quorumLocked then (clnts1, locks)
             else (let (c, l, _) = releaseAll N (at_release at) tolerance owner locks isReadLock clnts1
                                     names in (c, l)));
          (clnts3, _, _) =
            releaseAll N (at_late at) tolerance owner (late_grants grants events rest) isReadLock
              clnts2 names
      in (clnts3, locks2, quorumLocked))"

section \<open>The mutex\<close>

record drwmutex =
  Names :: "string list"
  writeLocks :: "string list"
  readersLocks :: "string list list"

definition NewDRWMutex :: "nat \<Rightarrow> string list \<Rightarrow> drwmutex" where
  "NewDRWMutex n names = \<lparr>Names = names, writeLocks = replicate n '''', readersLocks = []\<rparr>"

text \<open>\<^verbatim>\<open>copy(dst, src)\<close>.\<close>

definition copy_slice :: "'a list \<Rightarrow> 'a list \<Rightarrow> 'a list" where
  "copy_slice dst src = take (length dst) src @ drop (length src) dst"

definition record_locks :: "bool \<Rightarrow> nat \<Rightarrow> string list \<Rightarrow> drwmutex \<Rightarrow> drwmutex" where
  "record_locks isReadLock n locks dm =
     (if isReadLock
      then dm\<lparr>readersLocks := readersLocks dm @ [copy_slice (replicate n '''') locks]\<rparr>
      else dm\<lparr>writeLocks := copy_slice (writeLocks dm) locks\<rparr>)"

text \<open>
  \<^verbatim>\<open>lockBlocking\<close> makes attempts until one succeeds or the context is done: \<open>ats\<close> lists the attempts
  that start before that.
\<close>

fun lockBlocking ::
  "'st netlocker \<Rightarrow> attempt list \<Rightarrow> string \<Rightarrow> string \<Rightarrow> string \<Rightarrow> bool \<Rightarrow> 'st option list \<Rightarrow> drwmutex \<Rightarrow>
     'st option list \<times> drwmutex \<times> bool" where
  "lockBlocking N [] owner lockid source isReadLock restClnts dm = (restClnts, dm, False)"
| "lockBlocking N (at # ats) owner lockid source isReadLock restClnts dm =
     (let n = length restClnts;
          (clnts, locks, locked) =
            lock N at restClnts owner lockid source isReadLock (lock_tolerance n isReadLock)
              (lock_quorum n isReadLock) (Names dm)
      in if locked then (clnts, record_locks isReadLock n locks dm, True)
         else lockBlocking N ats owner lockid source isReadLock clnts dm)"

text \<open>The loop \<^verbatim>\<open>for !releaseAll(...)\<close>: \<open>nets\<close> are the rounds; \<^const>\<open>None\<close> when none of them is enough.\<close>

fun release_loop ::
  "'st netlocker \<Rightarrow> delivery list list \<Rightarrow> int \<Rightarrow> string \<Rightarrow> string list \<Rightarrow> bool \<Rightarrow> 'st option list \<Rightarrow>
     string list \<Rightarrow> ('st option list \<times> string list) option" where
  "release_loop N [] tolerance owner locks isReadLock restClnts names = None"
| "release_loop N (net # nets) tolerance owner locks isReadLock restClnts names =
     (let (clnts, locks', ok) = releaseAll N net tolerance owner locks isReadLock restClnts names
      in if ok then Some (clnts, locks')
         else release_loop N nets tolerance owner locks' isReadLock clnts names)"

datatype mutex_error = NoLockActive | StillHeld

definition DRW_Unlock ::
  "'st netlocker \<Rightarrow> delivery list list \<Rightarrow> string \<Rightarrow> 'st option list \<Rightarrow> drwmutex \<Rightarrow>
     mutex_error + 'st option list \<times> drwmutex" where
  "DRW_Unlock N nets owner restClnts dm =
     (if \<not> list_ex isLocked (writeLocks dm) then Inl NoLockActive
      else
        (let n = length restClnts; locks = copy_slice (replicate n '''') (writeLocks dm)
         in case release_loop N nets (int (n div 2)) owner locks False restClnts (Names dm) of
              None \<Rightarrow> Inl StillHeld
            | Some (clnts, _) \<Rightarrow> Inr (clnts, dm)))"

definition DRW_RUnlock ::
  "'st netlocker \<Rightarrow> delivery list list \<Rightarrow> string \<Rightarrow> 'st option list \<Rightarrow> drwmutex \<Rightarrow>
     mutex_error + 'st option list \<times> drwmutex" where
  "DRW_RUnlock N nets owner restClnts dm =
     (case readersLocks dm of
        [] \<Rightarrow> Inl NoLockActive
      | first # rest \<Rightarrow>
          (let n = length restClnts; locks = copy_slice (replicate n '''') first
           in case release_loop N nets (int (n div 2)) owner locks True restClnts (Names dm) of
                None \<Rightarrow> Inl StillHeld
              | Some (clnts, _) \<Rightarrow> Inr (clnts, dm\<lparr>readersLocks := rest\<rparr>)))"

section \<open>Refreshing\<close>

datatype refresh_event = RefreshOffline | RefreshSucceeded | RefreshFailed | RefreshCancelled

fun refresh_collect :: "nat \<Rightarrow> refresh_event list \<Rightarrow> nat \<Rightarrow> nat \<Rightarrow> (nat \<times> nat) option" where
  "refresh_collect quorum [] refreshFailed refreshSucceeded = Some (refreshFailed, refreshSucceeded)"
| "refresh_collect quorum (ev # evs) refreshFailed refreshSucceeded =
     (case ev of
        RefreshOffline \<Rightarrow> refresh_collect quorum evs refreshFailed refreshSucceeded
      | RefreshSucceeded \<Rightarrow>
          if refreshFailed > quorum then Some (refreshFailed, refreshSucceeded + 1)
          else refresh_collect quorum evs refreshFailed (refreshSucceeded + 1)
      | RefreshFailed \<Rightarrow>
          if refreshFailed + 1 > quorum then Some (refreshFailed + 1, refreshSucceeded)
          else refresh_collect quorum evs (refreshFailed + 1) refreshSucceeded
      | RefreshCancelled \<Rightarrow> None)"

definition refresh_one ::
  "'st netlocker \<Rightarrow> int \<Rightarrow> lock_args \<Rightarrow> delivery \<times> 'st option \<Rightarrow> 'st option \<times> refresh_event" where
  "refresh_one N now args x =
     (case x of (d, c) \<Rightarrow>
        (case c of
           None \<Rightarrow> (None, RefreshOffline)
         | Some s \<Rightarrow>
             (let (s', reply) = call d (nl_Refresh N False now args) s
              in (Some s', case reply of
                             Some (Inr True) \<Rightarrow> RefreshSucceeded
                           | Some (Inr False) \<Rightarrow> RefreshFailed
                           | _ \<Rightarrow> RefreshOffline))))"

text \<open>
  \<open>order\<close> is the order in which the answers arrive, \<^const>\<open>None\<close> the cancellation of the context.
  The result is \<^const>\<open>None\<close> for the error of a cancelled refresh.
\<close>

definition refresh ::
  "'st netlocker \<Rightarrow> int \<Rightarrow> delivery list \<Rightarrow> nat option list \<Rightarrow> 'st option list \<Rightarrow> string \<Rightarrow> string \<Rightarrow>
     string \<Rightarrow> nat \<Rightarrow> string list \<Rightarrow> 'st option list \<times> bool option" where
  "refresh N now net order restClnts owner lockid source quorum names =
     (let rs = map (refresh_one N now (request_args owner lockid source quorum names)) (zip net restClnts);
          evs = map (\<lambda>ev. case ev of None \<Rightarrow> RefreshCancelled | Some i \<Rightarrow> snd (rs ! i))
                  (take (length restClnts) order)
      in (map fst rs,
          case refresh_collect quorum evs 0 0 of
            None \<Rightarrow> None
          | Some (refreshFailed, refreshSucceeded) \<Rightarrow>
              Some (refreshSucceeded \<ge> quorum \<or> refreshFailed < quorum)))"

end
