(* ===== verification/Dsync_Facts.thy ===== *)
theory Dsync_Facts
  imports Dsync Local_Locker_Facts
begin

text \<open>
  What the distributed lock guarantees: the contract of a locker as a locale, the lock table as its
  instance, mutual exclusion of the clients over all interleavings of their calls, and what one
  attempt does to the tables.
\<close>

section \<open>The contract of a locker\<close>

text \<open>A requester is its UID and its owner.\<close>

definition who :: "lock_args \<Rightarrow> string \<times> string" where
  "who a = (ArgsUID a, ArgsOwner a)"

text \<open>
  What the distributed lock relies on: \<open>writer s r x\<close> and \<open>reader s r x\<close> say that requester \<open>x\<close> has the
  write lock or a read lock on \<open>r\<close> in the state \<open>s\<close> of one locker.
\<close>

locale net_locker =
  fixes N :: "'st netlocker"
    and inv :: "'st \<Rightarrow> bool"
    and writer :: "'st \<Rightarrow> string \<Rightarrow> string \<times> string \<Rightarrow> bool"
    and reader :: "'st \<Rightarrow> string \<Rightarrow> string \<times> string \<Rightarrow> bool"
  assumes inv_Lock: "inv s \<Longrightarrow> inv (fst (nl_Lock N now a s))"
    and inv_RLock: "inv s \<Longrightarrow> inv (fst (nl_RLock N now a s))"
    and inv_Unlock: "inv s \<Longrightarrow> inv (fst (nl_Unlock N a s))"
    and inv_RUnlock: "inv s \<Longrightarrow> inv (fst (nl_RUnlock N a s))"
    and inv_Refresh: "inv s \<Longrightarrow> inv (fst (nl_Refresh N d now a s))"
    and Lock_grants: "inv s \<Longrightarrow> snd (nl_Lock N now a s) = Inr True \<Longrightarrow> r \<in> set (LockResources a) \<Longrightarrow>
      writer (fst (nl_Lock N now a s)) r (who a)"
    and RLock_grants: "inv s \<Longrightarrow> snd (nl_RLock N now a s) = Inr True \<Longrightarrow>
      reader (fst (nl_RLock N now a s)) (hd (LockResources a)) (who a)"
    and writer_unique: "inv s \<Longrightarrow> writer s r x \<Longrightarrow> writer s r y \<Longrightarrow> x = y"
    and writer_excludes: "inv s \<Longrightarrow> writer s r x \<Longrightarrow> \<not> reader s r y"
    and writer_Lock: "inv s \<Longrightarrow> writer s r x \<Longrightarrow> writer (fst (nl_Lock N now a s)) r x"
    and writer_RLock: "inv s \<Longrightarrow> writer s r x \<Longrightarrow> writer (fst (nl_RLock N now a s)) r x"
    and writer_Unlock: "inv s \<Longrightarrow> writer s r x \<Longrightarrow> who a \<noteq> x \<Longrightarrow> writer (fst (nl_Unlock N a s)) r x"
    and writer_RUnlock: "inv s \<Longrightarrow> writer s r x \<Longrightarrow> writer (fst (nl_RUnlock N a s)) r x"
    and writer_Refresh: "inv s \<Longrightarrow> writer s r x \<Longrightarrow> writer (fst (nl_Refresh N d now a s)) r x"
    and reader_Lock: "inv s \<Longrightarrow> reader s r x \<Longrightarrow> reader (fst (nl_Lock N now a s)) r x"
    and reader_RLock: "inv s \<Longrightarrow> reader s r x \<Longrightarrow> reader (fst (nl_RLock N now a s)) r x"
    and reader_Unlock: "inv s \<Longrightarrow> reader s r x \<Longrightarrow> reader (fst (nl_Unlock N a s)) r x"
    and reader_RUnlock: "inv s \<Longrightarrow> reader s r x \<Longrightarrow> who a \<noteq> x \<Longrightarrow> reader (fst (nl_RUnlock N a s)) r x"
    and reader_Refresh: "inv s \<Longrightarrow> reader s r x \<Longrightarrow> reader (fst (nl_Refresh N d now a s)) r x"
    and Lock_refused: "inv s \<Longrightarrow> snd (nl_Lock N now a s) \<noteq> Inr True \<Longrightarrow> fst (nl_Lock N now a s) = s"
    and Unlock_Lock: "inv s \<Longrightarrow> snd (nl_Lock N now a s) = Inr True \<Longrightarrow> who b = who a \<Longrightarrow>
      LockResources b = LockResources a \<Longrightarrow> nl_Unlock N b (fst (nl_Lock N now a s)) = (s, Inr True)"

section \<open>The lock table meets the contract\<close>

definition table_writer :: "lock_map \<Rightarrow> string \<Rightarrow> string \<times> string \<Rightarrow> bool" where
  "table_writer m r x \<longleftrightarrow> (\<exists>e. m r = Some [e] \<and> Writer e \<and> requester e = x)"

definition table_reader :: "lock_map \<Rightarrow> string \<Rightarrow> string \<times> string \<Rightarrow> bool" where
  "table_reader m r x \<longleftrightarrow> (\<exists>lri. m r = Some lri \<and> (\<exists>e \<in> set lri. \<not> Writer e \<and> requester e = x))"

lemma Unlock_other:
  "locker_inv m \<Longrightarrow> r \<notin> set (LockResources a) \<or> \<not> (\<exists>e. m r = Some [e] \<and> requester e = who a) \<Longrightarrow>
     fst (Unlock a m) r = m r"
proof -
  assume a: "locker_inv m" "r \<notin> set (LockResources a) \<or> \<not> (\<exists>e. m r = Some [e] \<and> requester e = who a)"
  show ?thesis
  proof (cases "canTakeUnlock m (LockResources a)")
    case True
    then have "\<forall>r \<in> set (LockResources a). \<exists>e. m r = Some [e] \<and> Writer e"
      by (auto simp: canTakeUnlock_iff isWriteLock_single entries_def split: option.splits)
    from Unlock_sem [OF this] a(2) show ?thesis
      by (auto simp: owned_by_def requester_def who_def)
  qed (simp add: Unlock_def)
qed

lemma Unlock_reader:
  assumes "locker_inv m" "table_reader m r x"
  shows "fst (Unlock a m) r = m r"
proof (cases "r \<in> set (LockResources a)")
  case True
  obtain lri where l: "m r = Some lri" "\<exists>e \<in> set lri. \<not> Writer e"
    using assms(2) by (auto simp: table_reader_def)
  then have "\<not> isWriteLock lri" by (auto simp: isWriteLock_single)
  then have "Unlock a m = (m, Inl UnlockReadLocked)"
    using True l(1) by (intro Unlock_rejected bexI [of _ r]) (simp_all add: entries_def)
  then show ?thesis by simp
next
  case False
  then show ?thesis using assms(1) by (simp add: Unlock_other)
qed

lemma RUnlock_other: "r \<noteq> hd (LockResources a) \<Longrightarrow> fst (RUnlock a m) r = m r"
  by (auto simp: RUnlock_def removeEntry_def split: list.splits option.splits)

lemma table_reader_RUnlock:
  assumes "locker_inv m" "table_reader m r x" "who a \<noteq> x"
  shows "table_reader (fst (RUnlock a m)) r x"
proof (cases "LockResources a")
  case (Cons res rs)
  obtain lri e where l: "m r = Some lri" "e \<in> set lri" "\<not> Writer e" "requester e = x"
    using assms(2) by (auto simp: table_reader_def)
  show ?thesis
  proof (cases "res = r")
    case True
    have w: "\<not> isWriteLock lri" using l by (auto simp: isWriteLock_single)
    show ?thesis
    proof (cases "find_index (owned_by (ArgsUID a) (ArgsOwner a)) lri")
      case None
      with Cons True l w show ?thesis by (auto simp: RUnlock_def removeEntry_def table_reader_def)
    next
      case (Some i)
      note i = find_index_SomeD [OF Some]
      have ne: "e \<noteq> lri ! i"
        using i l assms(3) by (auto simp: owned_by_def requester_def who_def)
      then have "e \<in> set (remove_at i lri)" using in_set_remove_at [OF l(2)] i by simp
      moreover have "length lri \<noteq> 1" using i ne l(2) by (cases lri) auto
      ultimately show ?thesis
        using Cons True l w Some by (auto simp: RUnlock_def removeEntry_def table_reader_def)
    qed
  next
    case False
    with RUnlock_other [of r a m] Cons assms(2) show ?thesis by (simp add: table_reader_def)
  qed
qed (use assms in \<open>simp add: RUnlock_def\<close>)

lemma Refresh_entries:
  "fst (Refresh d now a m) r = m r \<or>
   (\<exists>lri i. m r = Some lri \<and> i < length lri \<and>
      fst (Refresh d now a m) r = Some (lri[i := (lri ! i)\<lparr>TimeLastRefresh := now\<rparr>]))"
  by (auto simp: Refresh_def split: list.splits option.splits dest: find_index_SomeD)

lemma table_writer_Refresh: "table_writer m r x \<Longrightarrow> table_writer (fst (Refresh d now a m)) r x"
  using Refresh_entries [of d now a m r] by (auto simp: table_writer_def requester_def)

lemma table_reader_Refresh:
  assumes "table_reader m r x"
  shows "table_reader (fst (Refresh d now a m)) r x"
proof -
  obtain lri e where l: "m r = Some lri" "e \<in> set lri" "\<not> Writer e" "requester e = x"
    using assms by (auto simp: table_reader_def)
  from l(2) obtain j where j: "j < length lri" "lri ! j = e" by (auto simp: in_set_conv_nth)
  show ?thesis
  proof (cases "fst (Refresh d now a m) r = m r")
    case True
    with assms show ?thesis by (simp add: table_reader_def)
  next
    case False
    then obtain i where i: "i < length lri"
      and f: "fst (Refresh d now a m) r = Some (lri[i := (lri ! i)\<lparr>TimeLastRefresh := now\<rparr>])"
      using Refresh_entries [of d now a m r] l(1) by auto
    define lri' where "lri' = lri[i := (lri ! i)\<lparr>TimeLastRefresh := now\<rparr>]"
    have "lri' ! j \<in> set lri'" using j by (simp add: lri'_def)
    moreover have "\<not> Writer (lri' ! j) \<and> requester (lri' ! j) = x"
      using i j l by (cases "i = j") (auto simp: lri'_def requester_def)
    ultimately show ?thesis using f by (auto simp: table_reader_def lri'_def)
  qed
qed

lemma table_writer_RLock: "table_writer m r x \<Longrightarrow> table_writer (fst (RLock now a m)) r x"
  by (auto simp: RLock_def table_writer_def isWriteLock_single split: list.splits option.splits)

lemma table_writer_RUnlock: "table_writer m r x \<Longrightarrow> table_writer (fst (RUnlock a m)) r x"
  by (auto simp: RUnlock_def table_writer_def isWriteLock_single removeEntry_def
      split: list.splits option.splits)

lemma table_reader_RLock: "table_reader m r x \<Longrightarrow> table_reader (fst (RLock now a m)) r x"
  by (auto simp: RLock_def table_reader_def split: list.splits option.splits)

lemma Unlock_cong:
  assumes "who b = who a" "LockResources b = LockResources a"
  shows "Unlock b m = Unlock a m"
proof -
  have e: "ArgsUID b = ArgsUID a" "ArgsOwner b = ArgsOwner a" using assms(1) by (simp_all add: who_def)
  show ?thesis unfolding Unlock_def e assms(2) ..
qed

lemma Unlock_after_Lock:
  assumes "snd (Lock now a m) = Inr True"
  shows "Unlock a (fst (Lock now a m)) = (m, Inr True)"
proof -
  have free: "\<forall>r \<in> set (LockResources a). m r = None"
    using assms by (simp add: Lock_sem split: if_splits)
  define m' where "m' = fst (Lock now a m)"
  have m': "m' = (\<lambda>r. if r \<in> set (LockResources a) then Some [write_entry now a r] else m r)"
    using free by (simp add: m'_def Lock_sem)
  have w: "\<forall>r \<in> set (LockResources a). \<exists>e. m' r = Some [e] \<and> Writer e"
    by (simp add: m' write_entry_def)
  show ?thesis
    unfolding m'_def [symmetric] Unlock_sem [OF w] using free
    by (auto simp: fun_eq_iff m' owned_by_def write_entry_def)
qed

interpretation table: net_locker local_netlocker locker_inv table_writer table_reader
proof
  fix s :: lock_map and now a b r x y d
  show "locker_inv s \<Longrightarrow> locker_inv (fst (nl_Lock local_netlocker now a s))"
    "locker_inv s \<Longrightarrow> locker_inv (fst (nl_RLock local_netlocker now a s))"
    "locker_inv s \<Longrightarrow> locker_inv (fst (nl_Unlock local_netlocker a s))"
    "locker_inv s \<Longrightarrow> locker_inv (fst (nl_RUnlock local_netlocker a s))"
    "locker_inv s \<Longrightarrow> locker_inv (fst (nl_Refresh local_netlocker d now a s))"
    by (simp_all add: local_netlocker_def locker_inv_intros)
  show "snd (nl_Lock local_netlocker now a s) = Inr True \<Longrightarrow> r \<in> set (LockResources a) \<Longrightarrow>
      table_writer (fst (nl_Lock local_netlocker now a s)) r (who a)"
    by (auto simp: local_netlocker_def Lock_sem table_writer_def write_entry_def requester_def who_def
        split: if_splits)
  show "snd (nl_RLock local_netlocker now a s) = Inr True \<Longrightarrow>
      table_reader (fst (nl_RLock local_netlocker now a s)) (hd (LockResources a)) (who a)"
    by (auto simp: local_netlocker_def RLock_def table_reader_def read_entry_def requester_def who_def
        split: list.splits option.splits if_splits)
  show "table_writer s r x \<Longrightarrow> table_writer s r y \<Longrightarrow> x = y"
    "table_writer s r x \<Longrightarrow> \<not> table_reader s r y"
    by (auto simp: table_writer_def table_reader_def)
  show "table_writer s r x \<Longrightarrow> table_writer (fst (nl_Lock local_netlocker now a s)) r x"
    "table_reader s r x \<Longrightarrow> table_reader (fst (nl_Lock local_netlocker now a s)) r x"
    by (auto simp: local_netlocker_def Lock_sem table_writer_def table_reader_def)
  show "table_writer s r x \<Longrightarrow> table_writer (fst (nl_RLock local_netlocker now a s)) r x"
    "table_writer s r x \<Longrightarrow> table_writer (fst (nl_RUnlock local_netlocker a s)) r x"
    "table_writer s r x \<Longrightarrow> table_writer (fst (nl_Refresh local_netlocker d now a s)) r x"
    "table_reader s r x \<Longrightarrow> table_reader (fst (nl_RLock local_netlocker now a s)) r x"
    "table_reader s r x \<Longrightarrow> table_reader (fst (nl_Refresh local_netlocker d now a s)) r x"
    by (simp_all add: local_netlocker_def table_writer_RLock table_writer_RUnlock table_writer_Refresh
        table_reader_RLock table_reader_Refresh)
  show "locker_inv s \<Longrightarrow> table_writer s r x \<Longrightarrow> who a \<noteq> x \<Longrightarrow>
      table_writer (fst (nl_Unlock local_netlocker a s)) r x"
    using Unlock_other [of s r a] by (auto simp: local_netlocker_def table_writer_def)
  show "locker_inv s \<Longrightarrow> table_reader s r x \<Longrightarrow> table_reader (fst (nl_Unlock local_netlocker a s)) r x"
    using Unlock_reader [of s r x a] by (auto simp: local_netlocker_def table_reader_def)
  show "locker_inv s \<Longrightarrow> table_reader s r x \<Longrightarrow> who a \<noteq> x \<Longrightarrow>
      table_reader (fst (nl_RUnlock local_netlocker a s)) r x"
    by (simp add: local_netlocker_def table_reader_RUnlock)
  show "snd (nl_Lock local_netlocker now a s) \<noteq> Inr True \<Longrightarrow> fst (nl_Lock local_netlocker now a s) = s"
    by (auto simp: local_netlocker_def Lock_sem)
  show "snd (nl_Lock local_netlocker now a s) = Inr True \<Longrightarrow> who b = who a \<Longrightarrow>
      LockResources b = LockResources a \<Longrightarrow>
      nl_Unlock local_netlocker b (fst (nl_Lock local_netlocker now a s)) = (s, Inr True)"
    using Unlock_after_Lock [of now a s] Unlock_cong [of b a] by (simp add: local_netlocker_def)
qed

section \<open>Quorums intersect\<close>

lemma lock_quorum_value:
  "lock_quorum n False = n div 2 + 1" if "0 < n"
  using that by (auto simp: lock_quorum_def Let_def)

lemma lock_quorum_read: "lock_quorum n True = n - n div 2"
  by (simp add: lock_quorum_def)

lemma lock_quorums_overlap:
  "0 < n \<Longrightarrow> n < lock_quorum n False + lock_quorum n rd"
  by (cases rd) (auto simp: lock_quorum_value lock_quorum_read)

lemma quorum_sets_intersect:
  assumes "A \<subseteq> {..<n}" "B \<subseteq> {..<n}" "n < card A + card B"
  shows "A \<inter> B \<noteq> {}"
proof
  assume e: "A \<inter> B = {}"
  have f: "finite A" "finite B" using assms(1,2) finite_subset by auto
  have "card (A \<union> B) \<le> n" using card_mono [of "{..<n}" "A \<union> B"] assms(1,2) by simp
  with e f assms(3) show False by (simp add: card_Un_disjoint)
qed

lemma checkQuorumLocked_card:
  "checkQuorumLocked locks q \<longleftrightarrow> q \<le> card {i. i < length locks \<and> isLocked (locks ! i)}"
  by (simp add: checkQuorumLocked_def length_filter_conv_card)

section \<open>Clients and lockers, step by step\<close>

text \<open>
  The calls of the clients interleave: one step carries out one call at one locker, or lets a client
  decide from the grants it has received that it holds the lock. A client is identified by the UID
  and the owner it sends. \<open>granted c\<close> are the lockers that have granted the lock to \<open>c\<close> and to which
  \<open>c\<close> has not sent a release.
\<close>

record 'st world =
  lockers :: "'st list"
  granted :: "string \<times> string \<Rightarrow> nat set"
  holds :: "string \<times> string \<Rightarrow> bool"

inductive dsync_step ::
  "'st netlocker \<Rightarrow> (string \<times> string \<Rightarrow> string list) \<Rightarrow> (string \<times> string \<Rightarrow> bool) \<Rightarrow>
     'st world \<Rightarrow> 'st world \<Rightarrow> bool"
  for N :: "'st netlocker" and names rd where
  request: "i < length (lockers w) \<Longrightarrow>
     a = request_args (snd c) (fst c) source (lock_quorum (length (lockers w)) (rd c)) (names c) \<Longrightarrow>
     (s, reply) = (if rd c then nl_RLock N now a (lockers w ! i) else nl_Lock N now a (lockers w ! i)) \<Longrightarrow>
     dsync_step N names rd w
       (w\<lparr>lockers := (lockers w)[i := s],
          granted := (if reply = Inr True then (granted w)(c := insert i (granted w c)) else granted w)\<rparr>)"
| acquire: "length locks = length (lockers w) \<Longrightarrow>
     \<forall>i < length locks. isLocked (locks ! i) \<longrightarrow> i \<in> granted w c \<Longrightarrow>
     checkQuorumLocked locks (lock_quorum (length (lockers w)) (rd c)) \<Longrightarrow>
     dsync_step N names rd w (w\<lparr>holds := (holds w)(c := True)\<rparr>)"
| release: "i < length (lockers w) \<Longrightarrow> a = release_args (snd c) (fst c) (names c) \<Longrightarrow>
     s = fst (if rd c then nl_RUnlock N a (lockers w ! i) else nl_Unlock N a (lockers w ! i)) \<Longrightarrow>
     dsync_step N names rd w
       (w\<lparr>lockers := (lockers w)[i := s], granted := (granted w)(c := granted w c - {i}),
          holds := (holds w)(c := False)\<rparr>)"
| refreshed: "i < length (lockers w) \<Longrightarrow>
     a = request_args (snd c) (fst c) source (lock_quorum (length (lockers w)) (rd c)) (names c) \<Longrightarrow>
     s = fst (nl_Refresh N d now a (lockers w ! i)) \<Longrightarrow>
     dsync_step N names rd w (w\<lparr>lockers := (lockers w)[i := s]\<rparr>)"

lemma who_request: "who (request_args (snd c) (fst c) src q ns) = c"
  by (simp add: who_def request_args_def)

lemma who_release: "who (release_args (snd c) (fst c) ns) = c"
  by (simp add: who_def release_args_def)

context net_locker
begin

definition has_lock :: "bool \<Rightarrow> string list \<Rightarrow> 'st \<Rightarrow> string \<times> string \<Rightarrow> bool" where
  "has_lock isRead ns s c \<longleftrightarrow>
     (if isRead then reader s (hd ns) c else (\<forall>r \<in> set ns. writer s r c))"

definition world_inv ::
  "(string \<times> string \<Rightarrow> string list) \<Rightarrow> (string \<times> string \<Rightarrow> bool) \<Rightarrow> 'st world \<Rightarrow> bool" where
  "world_inv names rd w \<longleftrightarrow>
     (\<forall>i < length (lockers w). inv (lockers w ! i)) \<and>
     (\<forall>c. \<forall>i \<in> granted w c. i < length (lockers w) \<and> has_lock (rd c) (names c) (lockers w ! i) c) \<and>
     (\<forall>c. holds w c \<longrightarrow> lock_quorum (length (lockers w)) (rd c) \<le> card (granted w c))"

lemma world_inv_locker: "world_inv names rd w \<Longrightarrow> i < length (lockers w) \<Longrightarrow> inv (lockers w ! i)"
  unfolding world_inv_def by blast

lemma world_inv_granted:
  "world_inv names rd w \<Longrightarrow> i \<in> granted w c \<Longrightarrow>
     i < length (lockers w) \<and> has_lock (rd c) (names c) (lockers w ! i) c"
  unfolding world_inv_def by blast

lemma world_inv_holds:
  "world_inv names rd w \<Longrightarrow> holds w c \<Longrightarrow> lock_quorum (length (lockers w)) (rd c) \<le> card (granted w c)"
  unfolding world_inv_def by blast

lemma world_invI:
  assumes "\<And>i. i < length (lockers w) \<Longrightarrow> inv (lockers w ! i)"
    and "\<And>c i. i \<in> granted w c \<Longrightarrow> i < length (lockers w) \<and> has_lock (rd c) (names c) (lockers w ! i) c"
    and "\<And>c. holds w c \<Longrightarrow> lock_quorum (length (lockers w)) (rd c) \<le> card (granted w c)"
  shows "world_inv names rd w"
  using assms unfolding world_inv_def by blast

lemma has_lock_request:
  assumes "inv s" "has_lock isRead ns s c"
    and "(s', reply) = (if rd' then nl_RLock N now a s else nl_Lock N now a s)"
  shows "has_lock isRead ns s' c"
proof -
  have "s' = fst (if rd' then nl_RLock N now a s else nl_Lock N now a s)"
    using assms(3) by (metis fst_conv)
  with assms(1,2) show ?thesis
    by (auto simp: has_lock_def writer_Lock writer_RLock reader_Lock reader_RLock split: if_splits)
qed

lemma has_lock_granted:
  assumes "inv s" "who a = c" "LockResources a = ns"
    and "snd (if isRead then nl_RLock N now a s else nl_Lock N now a s) = Inr True"
  shows "has_lock isRead ns (fst (if isRead then nl_RLock N now a s else nl_Lock N now a s)) c"
  using RLock_grants [OF assms(1), of now a] Lock_grants [OF assms(1), of now a] assms(2-4)
  by (auto simp: has_lock_def split: if_splits)

lemma has_lock_release:
  assumes "inv s" "has_lock isRead ns s c" "who a \<noteq> c"
  shows "has_lock isRead ns (fst (if rd' then nl_RUnlock N a s else nl_Unlock N a s)) c"
  using assms by (auto simp: has_lock_def writer_Unlock writer_RUnlock reader_Unlock reader_RUnlock)

lemma has_lock_refresh:
  "inv s \<Longrightarrow> has_lock isRead ns s c \<Longrightarrow> has_lock isRead ns (fst (nl_Refresh N d now a s)) c"
  by (auto simp: has_lock_def writer_Refresh reader_Refresh)

lemma world_inv_step:
  "dsync_step N names rd w w' \<Longrightarrow> world_inv names rd w \<Longrightarrow> world_inv names rd w'"
proof (induction rule: dsync_step.induct)
  case (request i w a c source s reply now)
  have i: "inv (lockers w ! i)" using request by (simp add: world_inv_def)
  have s: "inv s"
    using request(3) inv_Lock [OF i] inv_RLock [OF i] by (metis fst_conv)
  have keep: "has_lock (rd d) (names d) s d"
    if "has_lock (rd d) (names d) (lockers w ! i) d" for d
    using has_lock_request [OF i that request(3)] .
  have new: "has_lock (rd c) (names c) s c" if "reply = Inr True"
  proof -
    have "who a = c" "LockResources a = names c"
      using request(2) by (simp add: who_request) (simp add: request(2) request_args_def)
    moreover have "snd (if rd c then nl_RLock N now a (lockers w ! i) else nl_Lock N now a (lockers w ! i)) = Inr True"
      "s = fst (if rd c then nl_RLock N now a (lockers w ! i) else nl_Lock N now a (lockers w ! i))"
      using request(3) that by (metis snd_conv, metis fst_conv)
    ultimately show ?thesis using has_lock_granted [OF i] by simp
  qed
  have grow: "lock_quorum (length (lockers w)) (rd d) \<le> card (insert i (granted w d))" if "holds w d" for d
    using world_inv_holds [OF request(4) that] card_insert_le by (rule le_trans)
  show ?case
    using request(1) s keep new grow world_inv_locker [OF request(4)]
      world_inv_granted [OF request(4)] world_inv_holds [OF request(4)]
    by (intro world_invI) (auto simp: nth_list_update split: if_splits)
next
  case (acquire locks w c)
  have "{i. i < length locks \<and> isLocked (locks ! i)} \<subseteq> granted w c" using acquire(2) by blast
  moreover have "granted w c \<subseteq> {..<length (lockers w)}" using world_inv_granted [OF acquire(4)] by blast
  then have "finite (granted w c)" by (rule finite_subset) simp
  ultimately have "card {i. i < length locks \<and> isLocked (locks ! i)} \<le> card (granted w c)"
    by (intro card_mono)
  then have "lock_quorum (length (lockers w)) (rd c) \<le> card (granted w c)"
    using acquire(3) by (simp add: checkQuorumLocked_card)
  then show ?case
    using world_inv_locker [OF acquire(4)] world_inv_granted [OF acquire(4)] world_inv_holds [OF acquire(4)]
    by (intro world_invI) (auto split: if_splits)
next
  case (release i w a c s)
  have i: "inv (lockers w ! i)" using release by (simp add: world_inv_def)
  have s: "inv s" using release(3) inv_Unlock [OF i] inv_RUnlock [OF i] by auto
  have "who a = c" using release(2) by (simp add: who_release)
  then have keep: "has_lock (rd d) (names d) s d"
    if "has_lock (rd d) (names d) (lockers w ! i) d" "d \<noteq> c" for d
    using has_lock_release [OF i that(1), of a "rd c"] release(3) that(2) by auto
  show ?case
    using release(1) s keep world_inv_locker [OF release(4)] world_inv_granted [OF release(4)]
      world_inv_holds [OF release(4)]
    by (intro world_invI) (auto simp: nth_list_update split: if_splits)
next
  case (refreshed i w a c source s d now)
  have i: "inv (lockers w ! i)" using refreshed by (simp add: world_inv_def)
  then have "inv s" using refreshed(3) inv_Refresh by simp
  moreover have "has_lock (rd e) (names e) s e" if "has_lock (rd e) (names e) (lockers w ! i) e" for e
    using has_lock_refresh [OF i that] refreshed(3) by simp
  ultimately show ?case
    using refreshed(1) world_inv_locker [OF refreshed(4)] world_inv_granted [OF refreshed(4)]
      world_inv_holds [OF refreshed(4)]
    by (intro world_invI) (auto simp: nth_list_update)
qed

definition world_init :: "'st world \<Rightarrow> bool" where
  "world_init w \<longleftrightarrow> lockers w \<noteq> [] \<and> (\<forall>i < length (lockers w). inv (lockers w ! i)) \<and>
     (\<forall>c. granted w c = {} \<and> \<not> holds w c)"

lemma world_reachable:
  assumes "(dsync_step N names rd)\<^sup>*\<^sup>* w0 w" "world_init w0"
  shows "world_inv names rd w \<and> lockers w \<noteq> []"
  using assms
proof (induction rule: rtranclp_induct)
  case base
  then show ?case by (auto simp: world_init_def intro!: world_invI)
next
  case (step w w')
  then have "lockers w' \<noteq> []" by (auto elim: dsync_step.cases)
  with step show ?case using world_inv_step by blast
qed

lemma mutual_exclusion:
  assumes "world_inv names rd w" "lockers w \<noteq> []" "holds w c" "holds w d"
    and "\<not> rd c" "r \<in> set (names c)" "if rd d then r = hd (names d) else r \<in> set (names d)"
  shows "c = d"
proof -
  let ?n = "length (lockers w)"
  have "granted w c \<subseteq> {..<?n}" "granted w d \<subseteq> {..<?n}"
    using world_inv_granted [OF assms(1)] by blast+
  moreover have "?n < card (granted w c) + card (granted w d)"
  proof -
    have "lock_quorum ?n False \<le> card (granted w c)" "lock_quorum ?n (rd d) \<le> card (granted w d)"
      using world_inv_holds [OF assms(1,3)] world_inv_holds [OF assms(1,4)] assms(5) by simp_all
    with lock_quorums_overlap [of ?n "rd d"] assms(2) show ?thesis by simp
  qed
  ultimately obtain i where i: "i \<in> granted w c" "i \<in> granted w d"
    using quorum_sets_intersect by blast
  have inv: "inv (lockers w ! i)" "has_lock (rd c) (names c) (lockers w ! i) c"
    "has_lock (rd d) (names d) (lockers w ! i) d"
    using world_inv_granted [OF assms(1)] world_inv_locker [OF assms(1)] i by blast+
  then have wc: "writer (lockers w ! i) r c" using assms(5,6) by (simp add: has_lock_def)
  have "\<not> rd d"
  proof
    assume "rd d"
    then have "reader (lockers w ! i) r d" using inv(3) assms(7) by (simp add: has_lock_def)
    with writer_excludes [OF inv(1) wc] show False by blast
  qed
  then have "writer (lockers w ! i) r d" using inv(3) assms(7) by (simp add: has_lock_def)
  with writer_unique [OF inv(1) wc] show ?thesis by blast
qed

end

section \<open>One attempt\<close>

lemma isLocked_Nil [simp]: "\<not> isLocked ''''"
  by (simp add: isLocked_def)

text \<open>The loop that collects the answers stores exactly the grants of the events it has taken.\<close>

lemma collect_sem:
  "collect tol grants evs locks f = (locks', f', rest) \<Longrightarrow>
     \<exists>pre. evs = pre @ rest \<and> length locks' = length locks \<and>
       (\<forall>i < length locks. locks' ! i =
          (if Some i \<in> set pre \<and> isLocked (grants ! i) then grants ! i else locks ! i))"
proof (induction evs arbitrary: locks f)
  case (Cons ev evs)
  let ?P = "\<lambda>pre. ev # evs = pre @ rest \<and> length locks' = length locks \<and>
       (\<forall>i < length locks. locks' ! i =
          (if Some i \<in> set pre \<and> isLocked (grants ! i) then grants ! i else locks ! i))"
  show ?case
  proof (cases "\<exists>i. ev = Some i \<and> isLocked (grants ! i)")
    case True
    then obtain i where i: "ev = Some i" "isLocked (grants ! i)" by blast
    then have "collect tol grants evs (locks[i := grants ! i]) f = (locks', f', rest)"
      using Cons.prems by simp
    from Cons.IH [OF this] obtain pre where "evs = pre @ rest" "length locks' = length locks"
      and "\<forall>j < length locks. locks' ! j =
        (if Some j \<in> set pre \<and> isLocked (grants ! j) then grants ! j else locks[i := grants ! i] ! j)"
      by auto
    moreover have "\<forall>j < length locks. locks[i := grants ! i] ! j = (if j = i then grants ! i else locks ! j)"
      by (auto simp: nth_list_update)
    ultimately have "?P (ev # pre)" using i by auto
    then show ?thesis by blast
  next
    case False
    then have step: "collect tol grants (ev # evs) locks f =
        (if f + 1 > tol then (locks, f + 1, evs) else collect tol grants evs locks (f + 1))"
      by (cases ev) auto
    show ?thesis
    proof (cases "f + 1 > tol")
      case True
      then have "?P [ev]" using step Cons.prems False by auto
      then show ?thesis by blast
    next
      case False1: False
      with step Cons.prems have "collect tol grants evs locks (f + 1) = (locks', f', rest)" by simp
      from Cons.IH [OF this] obtain pre where "evs = pre @ rest" "length locks' = length locks"
        and "\<forall>j < length locks. locks' ! j =
          (if Some j \<in> set pre \<and> isLocked (grants ! j) then grants ! j else locks ! j)"
        by auto
      with False have "?P (ev # pre)" by auto
      then show ?thesis by blast
    qed
  qed
qed simp

lemma consumed_append: "consumed (pre @ rest) rest = {i. Some i \<in> set pre}"
  by (simp add: consumed_def)

text \<open>The parts of an attempt, by the index of the locker.\<close>

lemma lock_parts:
  assumes "lock N at clnts owner uid source isRead tol q names = (clnts', locks, ok)"
    and "length (at_net at) = length clnts" "length (at_release at) = length clnts"
    and "length (at_late at) = length clnts"
  obtains grants c1 c2 locks0 pre where
    "length locks0 = length clnts" "length grants = length clnts"
    "\<And>i. i < length clnts \<Longrightarrow> (c1 i, grants ! i) =
       request_one N isRead (at_now at) (request_args owner uid source q names)
         (at_net at ! i, clnts ! i)"
    "\<And>i. i < length clnts \<Longrightarrow>
       locks0 ! i = (if Some i \<in> set pre \<and> isLocked (grants ! i) then grants ! i else '''')"
    "ok \<Longrightarrow> checkQuorumLocked locks q \<and> locks = locks0"
    "\<And>i. i < length clnts \<Longrightarrow> c2 i =
       (if ok then c1 i else fst (release_one N owner isRead names (at_release at ! i, c1 i, locks0 ! i)))"
    "length clnts' = length clnts"
    "\<And>i. i < length clnts \<Longrightarrow> clnts' ! i =
       fst (release_one N owner isRead names
              (at_late at ! i, c2 i, if Some i \<in> set pre then '''' else grants ! i))"
proof -
  let ?n = "length clnts"
  define rs where "rs = map (request_one N isRead (at_now at) (request_args owner uid source q names))
    (zip (at_net at) clnts)"
  define grants where "grants = map snd rs"
  define events where "events = take ?n (at_events at)"
  obtain locks0 failed rest where c: "collect tol grants events (replicate ?n '''') 0 = (locks0, failed, rest)"
    by (cases "collect tol grants events (replicate ?n '''') 0")
  from collect_sem [OF c] obtain pre where pre: "events = pre @ rest" "length locks0 = ?n"
    "\<forall>i < ?n. locks0 ! i = (if Some i \<in> set pre \<and> isLocked (grants ! i) then grants ! i else '''')"
    by auto
  define good where "good = (checkQuorumLocked locks0 q \<and> failed \<le> tol)"
  define rel where "rel = map (release_one N owner isRead names)
    (zip (at_release at) (zip (map fst rs) locks0))"
  define cs2 where "cs2 = (if good then map fst rs else map fst rel)"
  define late where "late = late_grants grants events rest"
  have lens: "length rs = ?n" "length grants = ?n" "length rel = ?n" "length cs2 = ?n" "length late = ?n"
    using assms(2,3) pre(2) by (auto simp: rs_def grants_def rel_def cs2_def late_def late_grants_def)
  have out: "clnts' = map fst (map (release_one N owner isRead names) (zip (at_late at) (zip cs2 late)))"
    "ok = good" "good \<Longrightarrow> locks = locks0"
    using assms(1) c
    by (auto simp: lock_def Let_def rs_def [symmetric] grants_def [symmetric] events_def [symmetric]
        good_def [symmetric] releaseAll_def rel_def [symmetric] cs2_def late_def split: if_splits)
  show ?thesis
  proof (rule that [where grants = grants and ?c1.0 = "\<lambda>i. fst (rs ! i)" and ?c2.0 = "\<lambda>i. cs2 ! i"
        and ?locks0.0 = locks0 and pre = pre])
    show "length locks0 = ?n" "length grants = ?n" using pre(2) lens by auto
    show "(fst (rs ! i), grants ! i) =
        request_one N isRead (at_now at) (request_args owner uid source q names) (at_net at ! i, clnts ! i)"
      if "i < ?n" for i
      using that lens assms(2) by (simp add: grants_def rs_def)
    show "locks0 ! i = (if Some i \<in> set pre \<and> isLocked (grants ! i) then grants ! i else '''')"
      if "i < ?n" for i
      using that pre(3) by blast
    show "checkQuorumLocked locks q \<and> locks = locks0" if ok using that out by (simp add: good_def)
    show "cs2 ! i = (if ok then fst (rs ! i)
        else fst (release_one N owner isRead names (at_release at ! i, fst (rs ! i), locks0 ! i)))"
      if "i < ?n" for i
      using that lens assms(3) pre(2) out(2) by (simp add: cs2_def rel_def)
    show "length clnts' = ?n" using out(1) lens assms(4) by simp
    show "clnts' ! i = fst (release_one N owner isRead names
        (at_late at ! i, cs2 ! i, if Some i \<in> set pre then '''' else grants ! i))" if "i < ?n" for i
      using that out(1) lens assms(4) pre(1)
      by (simp add: late_def late_grants_def consumed_append)
  qed
qed

lemma release_one_unlocked: "fst (release_one N owner isRead names (d, c, '''')) = c"
  by (simp add: release_one_def)

lemma request_one_grant:
  assumes "(c1, g) = request_one N isRead now a (d, c)" "isLocked g"
  shows "\<exists>s. c = Some s \<and> g = ArgsUID a \<and>
    c1 = Some (fst (if isRead then nl_RLock N now a s else nl_Lock N now a s)) \<and>
    snd (if isRead then nl_RLock N now a s else nl_Lock N now a s) = Inr True"
  using assms
  by (auto simp: request_one_def call_def split: option.splits delivery.splits prod.splits if_splits)

context net_locker
begin

lemma lock_acquired:
  assumes "lock N at clnts owner uid source isRead tol q names = (clnts', locks, True)"
    and "length (at_net at) = length clnts" "length (at_release at) = length clnts"
    and "length (at_late at) = length clnts" "\<forall>s. Some s \<in> set clnts \<longrightarrow> inv s"
  shows "checkQuorumLocked locks q \<and>
    (\<forall>i < length clnts. isLocked (locks ! i) \<longrightarrow>
       (\<exists>s. clnts' ! i = Some s \<and> has_lock isRead names s (uid, owner)))"
  using assms(1-4)
proof (rule lock_parts)
  fix grants c1 c2 locks0 pre
  assume req: "\<And>i. i < length clnts \<Longrightarrow> (c1 i, grants ! i) =
      request_one N isRead (at_now at) (request_args owner uid source q names) (at_net at ! i, clnts ! i)"
    and l0: "\<And>i. i < length clnts \<Longrightarrow>
      locks0 ! i = (if Some i \<in> set pre \<and> isLocked (grants ! i) then grants ! i else '''')"
    and ok: "True \<Longrightarrow> checkQuorumLocked locks q \<and> locks = locks0"
    and c2: "\<And>i. i < length clnts \<Longrightarrow> c2 i =
      (if True then c1 i else fst (release_one N owner isRead names (at_release at ! i, c1 i, locks0 ! i)))"
    and out: "\<And>i. i < length clnts \<Longrightarrow> clnts' ! i =
      fst (release_one N owner isRead names (at_late at ! i, c2 i, if Some i \<in> set pre then '''' else grants ! i))"
  have "\<exists>s. clnts' ! i = Some s \<and> has_lock isRead names s (uid, owner)"
    if i: "i < length clnts" "isLocked (locks ! i)" for i
  proof -
    have g: "Some i \<in> set pre" "isLocked (grants ! i)"
      using i ok l0 [OF i(1)] by (auto split: if_splits)
    let ?a = "request_args owner uid source q names"
    obtain s where s: "clnts ! i = Some s"
      "c1 i = Some (fst (if isRead then nl_RLock N (at_now at) ?a s else nl_Lock N (at_now at) ?a s))"
      "snd (if isRead then nl_RLock N (at_now at) ?a s else nl_Lock N (at_now at) ?a s) = Inr True"
      using request_one_grant [OF req [OF i(1)] g(2)] by blast
    have "inv s" using assms(5) s(1) i(1) by (metis nth_mem)
    from has_lock_granted [OF this _ _ s(3), of "(uid, owner)" names]
    have "has_lock isRead names
        (fst (if isRead then nl_RLock N (at_now at) ?a s else nl_Lock N (at_now at) ?a s)) (uid, owner)"
      by (simp add: who_def request_args_def)
    moreover have "clnts' ! i = c1 i"
      using out [OF i(1)] c2 [OF i(1)] g(1) by (simp add: release_one_unlocked)
    moreover note s(2)
    ultimately show ?thesis by simp
  qed
  with ok show ?thesis by blast
qed

lemma lock_refused_restores:
  assumes "lock N at clnts owner uid source False tol q names = (clnts', locks, False)"
    and "at_net at = replicate (length clnts) Delivered" "at_release at = replicate (length clnts) Delivered"
    and "at_late at = replicate (length clnts) Delivered" "\<forall>s. Some s \<in> set clnts \<longrightarrow> inv s"
    and "isLocked uid"
  shows "clnts' = clnts"
proof -
  have lens: "length (at_net at) = length clnts" "length (at_release at) = length clnts"
    "length (at_late at) = length clnts"
    using assms(2-4) by simp_all
  show ?thesis
    using assms(1) lens
  proof (rule lock_parts)
    fix grants c1 c2 locks0 pre
    assume req: "\<And>i. i < length clnts \<Longrightarrow> (c1 i, grants ! i) =
        request_one N False (at_now at) (request_args owner uid source q names) (at_net at ! i, clnts ! i)"
      and l0: "\<And>i. i < length clnts \<Longrightarrow>
        locks0 ! i = (if Some i \<in> set pre \<and> isLocked (grants ! i) then grants ! i else '''')"
      and c2: "\<And>i. i < length clnts \<Longrightarrow> c2 i =
        (if False then c1 i else fst (release_one N owner False names (at_release at ! i, c1 i, locks0 ! i)))"
      and len: "length clnts' = length clnts"
      and out: "\<And>i. i < length clnts \<Longrightarrow> clnts' ! i =
        fst (release_one N owner False names (at_late at ! i, c2 i, if Some i \<in> set pre then '''' else grants ! i))"
    have "clnts' ! i = clnts ! i" if i: "i < length clnts" for i
    proof -
      have c: "clnts' ! i = fst (release_one N owner False names (Delivered,
          fst (release_one N owner False names (Delivered, c1 i, locks0 ! i)),
          if Some i \<in> set pre then '''' else grants ! i))"
        using out [OF i] c2 [OF i] assms(3,4) i by simp
      show ?thesis
      proof (cases "isLocked (grants ! i)")
        case True
        let ?a = "request_args owner uid source q names"
        define s' where "s' = fst (nl_Lock N (at_now at) ?a (the (clnts ! i)))"
        obtain s where s: "clnts ! i = Some s" "c1 i = Some s'" "grants ! i = uid"
          "snd (nl_Lock N (at_now at) ?a s) = Inr True"
          using request_one_grant [OF req [OF i] True] by (auto simp: request_args_def s'_def)
        have "inv s" using assms(5) s(1) i by (metis nth_mem)
        from Unlock_Lock [OF this s(4), of "release_args owner uid names"] s(1)
        have "nl_Unlock N (release_args owner uid names) s' = (s, Inr True)"
          by (simp add: s'_def who_def request_args_def release_args_def)
        then have "fst (release_one N owner False names (Delivered, Some s', uid)) = Some s"
          using True s(3) by (simp add: release_one_def sendRelease_def call_def)
        with c l0 [OF i] True s show ?thesis by (auto simp: release_one_unlocked)
      next
        case False
        have "c1 i = clnts ! i"
        proof (cases "clnts ! i")
          case (Some s)
          have "inv s" using assms(5) Some i by (metis nth_mem)
          with req [OF i] Some assms(2,6) i False show ?thesis
            by (auto simp: request_one_def call_def Lock_refused request_args_def split: if_splits)
        qed (use req [OF i] in \<open>auto simp: request_one_def\<close>)
        moreover have "fst (release_one N owner False names (d, c, g)) = c" if "\<not> isLocked g" for d c g
          using that by (simp add: release_one_def)
        ultimately show ?thesis using c l0 [OF i] False by auto
      qed
    qed
    with len show ?thesis by (simp add: nth_equalityI)
  qed
qed

end

section \<open>Properties\<close>

text \<open>
  C2: Distributed mutual exclusion. The clients send their requests to \<open>n\<close> lock tables in any
  interleaving; a client holds the lock when \<^verbatim>\<open>checkQuorumLocked\<close> accepts the grants it has received.
  As long as no lock is expired or released by force, a client that holds a write lock on a
  resource is the only client that holds a read or a write lock on it.
\<close>
theorem dsync_mutual_exclusion:
  assumes "(dsync_step local_netlocker names rd)\<^sup>*\<^sup>*
      \<lparr>lockers = replicate n newLocker, granted = \<lambda>c. {}, holds = \<lambda>c. False\<rparr> w"
    and "0 < n" "holds w c" "holds w d" "\<not> rd c" "r \<in> set (names c)"
    and "if rd d then r = hd (names d) else r \<in> set (names d)"
  shows "c = d"
proof -
  have "table.world_init \<lparr>lockers = replicate n newLocker, granted = \<lambda>c. {}, holds = \<lambda>c. False\<rparr>"
    using assms(2) by (auto simp: table.world_init_def newLocker_def locker_inv_def)
  from table.world_reachable [OF assms(1) this] table.mutual_exclusion [OF _ _ assms(3-7)]
  show ?thesis by blast
qed

definition one_locker :: "lock_map world" where
  "one_locker = \<lparr>lockers = [newLocker], granted = \<lambda>c. {}, holds = \<lambda>c. False\<rparr>"

lemma one_locker_acquires:
  "\<exists>w. (dsync_step local_netlocker (\<lambda>c. [''a'']) (\<lambda>c. False))\<^sup>*\<^sup>* one_locker w \<and> holds w (''u'', ''o'')"
proof -
  let ?a = "request_args ''o'' ''u'' '''' (lock_quorum 1 False) [''a'']"
  let ?s = "fst (Lock 0 ?a newLocker)"
  let ?w1 = "one_locker\<lparr>lockers := [?s], granted := (\<lambda>c. {})((''u'', ''o'') := {0})\<rparr>"
  have g: "Lock 0 ?a newLocker = (?s, Inr True)"
    by (simp add: Lock_sem newLocker_def)
  have "dsync_step local_netlocker (\<lambda>c. [''a'']) (\<lambda>c. False) one_locker ?w1"
    using dsync_step.request [of 0 one_locker ?a "(''u'', ''o'')" "''''" "\<lambda>c. False" "\<lambda>c. [''a'']" ?s "Inr True"
        local_netlocker 0] g
    by (simp add: one_locker_def local_netlocker_def)
  moreover have "dsync_step local_netlocker (\<lambda>c. [''a'']) (\<lambda>c. False) ?w1
      (?w1\<lparr>holds := (holds ?w1)((''u'', ''o'') := True)\<rparr>)"
    by (rule dsync_step.acquire [where locks = "[''u'']"])
      (simp_all add: one_locker_def checkQuorumLocked_def isLocked_def lock_quorum_value)
  ultimately have "(dsync_step local_netlocker (\<lambda>c. [''a'']) (\<lambda>c. False))\<^sup>*\<^sup>* one_locker
      (?w1\<lparr>holds := (holds ?w1)((''u'', ''o'') := True)\<rparr>)"
    by (meson converse_rtranclp_into_rtranclp r_into_rtranclp)
  moreover have "holds (?w1\<lparr>holds := (holds ?w1)((''u'', ''o'') := True)\<rparr>) (''u'', ''o'')" by simp
  ultimately show ?thesis by blast
qed

theorem dsync_mutual_exclusion_witness:
  "\<exists>w. (dsync_step local_netlocker (\<lambda>c. [''a'']) (\<lambda>c. False))\<^sup>*\<^sup>* one_locker w \<and>
     holds w (''u'', ''o'') \<and> \<not> holds w (''v'', ''o'')"
proof -
  obtain w where w: "(dsync_step local_netlocker (\<lambda>c. [''a'']) (\<lambda>c. False))\<^sup>*\<^sup>* one_locker w"
    "holds w (''u'', ''o'')"
    using one_locker_acquires by blast
  have "\<not> holds w (''v'', ''o'')"
  proof
    assume "holds w (''v'', ''o'')"
    with dsync_mutual_exclusion [of "\<lambda>c. [''a'']" "\<lambda>c. False" 1 w "(''u'', ''o'')" "(''v'', ''o'')" "''a''"] w
    show False by (simp add: one_locker_def)
  qed
  with w show ?thesis by blast
qed


definition two_tables :: "lock_map option list" where
  "two_tables = [Some newLocker, Some (fst (Lock 0 (sample_lock_args ''w'') newLocker))]"

definition reliable :: "nat option list \<Rightarrow> attempt" where
  "reliable evs = \<lparr>at_now = 1, at_net = [Delivered, Delivered], at_events = evs,
     at_release = [Delivered, Delivered], at_late = [Delivered, Delivered]\<rparr>"


text \<open>
  \<^verbatim>\<open>Unlock\<close> does not clear \<^verbatim>\<open>writeLocks\<close>, so a second \<^verbatim>\<open>Unlock\<close> is not recognised as an error.
\<close>

lemma DRW_Unlock_twice:
  assumes "DRW_Unlock N nets owner clnts dm = Inr (clnts', dm')"
  shows "dm' = dm" "DRW_Unlock N nets' owner clnts' dm' \<noteq> Inl NoLockActive"
  using assms by (auto simp: DRW_Unlock_def Let_def split: if_splits option.splits)

end
