(* ===== verification/Dsync_Progress.thy ===== *)
theory Dsync_Progress
  imports Dsync_Facts
begin

text \<open>
  When the distributed lock makes progress: an abandoned lock expires at the tables and the next attempt to take
  it succeeds, and the loop of \<^verbatim>\<open>Unlock\<close> ends, or does not end, by what the tables still hold.
\<close>

section \<open>Locks that nobody refreshes\<close>

lemma expire_single:
  assumes "m r = Some [e]" "Name e = r" "stale now interval e"
  shows "expire_resource now interval m r = m(r := None)"
  using assms
  by (simp add: expire_resource_def expire_entry_def stale_def removeEntry_def owned_by_requester Let_def)

lemma expireOldLocks_absent:
  "locker_inv m \<Longrightarrow> m r = None \<Longrightarrow> expireOldLocks now interval ks m r = None"
proof (induction ks arbitrary: m)
  case (Cons k ks)
  have "expire_resource now interval m k r = None"
    using Cons.prems expire_resource_other [OF Cons.prems(1), of k r now interval]
    by (cases "k = r") (auto simp: expire_resource_def)
  then show ?case using Cons.IH expire_resource_inv [OF Cons.prems(1)] by (simp add: expireOldLocks_def)
qed (simp add: expireOldLocks_def)

lemma expireOldLocks_single:
  assumes "locker_inv m" "m r = Some [e]" "stale now interval e" "r \<in> set ks"
  shows "expireOldLocks now interval ks m r = None"
proof -
  show ?thesis
    using assms
  proof (induction ks arbitrary: m)
    case (Cons k ks)
    note inv = expire_resource_inv [OF Cons.prems(1), of now interval k]
    show ?case
    proof (cases "k = r")
      case True
      have "Name e = r" using locker_invD [OF Cons.prems(1,2)] by (auto simp: entries_ok_def)
      then have "expire_resource now interval m k r = None" using expire_single Cons.prems(2,3) True by simp
      then show ?thesis using expireOldLocks_absent [OF inv] by (simp add: expireOldLocks_def)
    next
      case False
      then show ?thesis
        using Cons.IH [OF inv] Cons.prems expire_resource_other [OF Cons.prems(1) False] by (simp add: expireOldLocks_def)
    qed
  qed simp
qed

text \<open>With every locker heard and few enough refusals the waiting loop sees all grants.\<close>

lemma collect_all:
  "f + int (length (filter (\<lambda>ev. case ev of None \<Rightarrow> True | Some i \<Rightarrow> \<not> isLocked (grants ! i)) evs)) \<le> tol \<Longrightarrow>
     \<exists>locks' f'. collect tol grants evs locks f = (locks', f', []) \<and> f' \<le> tol"
proof (induction evs arbitrary: locks f)
  case (Cons ev evs)
  show ?case
  proof (cases "\<exists>i. ev = Some i \<and> isLocked (grants ! i)")
    case True
    then show ?thesis using Cons by auto
  next
    case False
    then have "(case ev of None \<Rightarrow> True | Some i \<Rightarrow> \<not> isLocked (grants ! i))" by (cases ev) auto
    then have le: "f + 1 + int (length (filter (\<lambda>ev. case ev of None \<Rightarrow> True | Some i \<Rightarrow> \<not> isLocked (grants ! i)) evs)) \<le> tol"
      using Cons.prems by simp
    then have "collect tol grants (ev # evs) locks f = collect tol grants evs locks (f + 1)"
      using False by (cases ev) auto
    then show ?thesis using Cons.IH [OF le] by simp
  qed
qed simp

lemma lock_granted:
  assumes "G \<subseteq> {..<length clnts}" "q \<le> card G" "tol = int (length clnts) - int q"
    "length (at_net at) = length clnts" "at_events at = map Some js" "distinct js" "set js = {..<length clnts}"
    "\<forall>i \<in> G. at_net at ! i = Delivered \<and> (\<exists>m. clnts ! i = Some m \<and> (\<forall>r \<in> set names. m r = None))" "uid \<noteq> ''''"
  shows "snd (snd (lock local_netlocker at clnts owner uid source False tol q names))"
proof -
  let ?n = "length clnts" and ?a = "request_args owner uid source q names"
  define rs where "rs = map (request_one local_netlocker False (at_now at) ?a) (zip (at_net at) clnts)"
  define grants where "grants = map snd rs"
  have granted: "isLocked (grants ! i)" if "i \<in> G" for i
  proof -
    have i: "i < ?n" using that assms(1) by auto
    then have "grants ! i = snd (request_one local_netlocker False (at_now at) ?a (at_net at ! i, clnts ! i))"
      using assms(4) by (simp add: grants_def rs_def)
    then show ?thesis
      using assms(8,9) that
      by (auto simp: request_one_def call_def local_netlocker_def Lock_sem request_args_def isLocked_def Let_def)
  qed
  have len: "length js = ?n" using assms(6,7) by (metis card_lessThan distinct_card)
  let ?bad = "filter (\<lambda>ev. case ev of None \<Rightarrow> True | Some i \<Rightarrow> \<not> isLocked (grants ! i)) (map Some js)"
  have "length ?bad = card {i \<in> {..<?n}. \<not> isLocked (grants ! i)}"
  proof -
    have "{i. \<not> isLocked (grants ! i)} \<inter> set js = {i \<in> {..<?n}. \<not> isLocked (grants ! i)}" using assms(7) by auto
    then show ?thesis using distinct_length_filter [OF assms(6)] by (simp add: filter_map comp_def)
  qed
  moreover have "card {i \<in> {..<?n}. \<not> isLocked (grants ! i)} \<le> ?n - card G"
  proof -
    have "{i \<in> {..<?n}. \<not> isLocked (grants ! i)} \<subseteq> {..<?n} - G" using granted by auto
    then have "card {i \<in> {..<?n}. \<not> isLocked (grants ! i)} \<le> card ({..<?n} - G)" by (intro card_mono) auto
    then show ?thesis using card_Diff_subset [OF finite_subset [OF assms(1)] assms(1)] by simp
  qed
  moreover have "card G \<le> ?n" using assms(1) card_mono [of "{..<?n}" G] by simp
  ultimately have "0 + int (length ?bad) \<le> tol" using assms(2,3) by linarith
  from collect_all [OF this, of "replicate ?n ''''"] obtain locks f where
    c: "collect tol grants (map Some js) (replicate ?n '''') 0 = (locks, f, [])" "f \<le> tol" by blast
  from collect_sem [OF c(1)] have l: "length locks = ?n"
    "\<forall>i < ?n. locks ! i = (if Some i \<in> set (map Some js) \<and> isLocked (grants ! i) then grants ! i else '''')" by auto
  have "G \<subseteq> {i. i < length locks \<and> isLocked (locks ! i)}" using l granted assms(1,7) by auto
  then have "card G \<le> card {i. i < length locks \<and> isLocked (locks ! i)}" by (intro card_mono) auto
  then have "checkQuorumLocked locks q" using assms(2) by (simp add: checkQuorumLocked_card)
  then show ?thesis
    using c len unfolding lock_def Let_def rs_def [symmetric] grants_def [symmetric] assms(5)
    by (simp add: releaseAll_def Let_def split: prod.splits)
qed

text \<open>
  C36: An abandoned lock does not block for ever. When a quorum of lock tables is reached, in each of which the
  resources are free or have one lock that was not refreshed within the interval, and the table has expired
  its old locks, then the next attempt of \<^verbatim>\<open>lockBlocking\<close> whose answers all arrive is granted.
\<close>
theorem abandoned_lock_acquired:
  assumes "G \<subseteq> {..<length clnts}" "lock_quorum (length clnts) False \<le> card G"
    "\<forall>i \<in> G. at_net at ! i = Delivered \<and>
       (\<exists>m ks. locker_step\<^sup>*\<^sup>* newLocker m \<and> clnts ! i = Some (expireOldLocks now interval ks m) \<and>
          (\<forall>r \<in> set (Names dm). m r = None \<or>
             r \<in> set ks \<and> (\<exists>e. m r = Some [e] \<and> interval < now - TimeLastRefresh e)))"
    "length (at_net at) = length clnts" "at_events at = map Some js" "distinct js" "set js = {..<length clnts}" "uid \<noteq> ''''"
  shows "snd (snd (lockBlocking local_netlocker (at # ats) owner uid source False clnts dm))"
proof -
  have free: "\<forall>i \<in> G. at_net at ! i = Delivered \<and> (\<exists>m. clnts ! i = Some m \<and> (\<forall>r \<in> set (Names dm). m r = None))"
  proof
    fix i assume "i \<in> G"
    then obtain m ks where m: "at_net at ! i = Delivered" "locker_step\<^sup>*\<^sup>* newLocker m"
        "clnts ! i = Some (expireOldLocks now interval ks m)"
        "\<forall>r \<in> set (Names dm). m r = None \<or>
           r \<in> set ks \<and> (\<exists>e. m r = Some [e] \<and> interval < now - TimeLastRefresh e)"
      using assms(3) by blast
    have "expireOldLocks now interval ks m r = None" if "r \<in> set (Names dm)" for r
      using m(4) that expireOldLocks_single [OF locker_reachable_inv [OF m(2)], of r _ now interval ks]
        expireOldLocks_absent [OF locker_reachable_inv [OF m(2)], of r now interval ks]
      by (auto simp: stale_def)
    then show "at_net at ! i = Delivered \<and> (\<exists>m. clnts ! i = Some m \<and> (\<forall>r \<in> set (Names dm). m r = None))"
      using m(1,3) by blast
  qed
  have tol: "lock_tolerance (length clnts) False = int (length clnts) - int (lock_quorum (length clnts) False)"
    by (simp add: lock_tolerance_def)
  from lock_granted [OF assms(1,2) tol assms(4-7) free assms(8), of owner source]
  show ?thesis by (auto simp: Let_def split: prod.splits)
qed

definition abandoned_tables :: "lock_map option list" where
  "abandoned_tables =
     [Some (expireOldLocks 9 5 [''a''] (fst (Lock 0 (request_args ''p'' ''w'' '''' 2 [''a'']) newLocker))), Some newLocker, None]"

definition all_answer :: attempt where
  "all_answer = \<lparr>at_now = 9, at_net = [Delivered, Delivered, RequestLost], at_events = map Some [1, 2, 0],
     at_release = [], at_late = []\<rparr>"

theorem abandoned_lock_acquired_witness:
  "snd (snd (lockBlocking local_netlocker [all_answer] ''o'' ''u'' '''' False abandoned_tables (NewDRWMutex 3 [''a''])))"
proof (rule abandoned_lock_acquired [where G = "{0, 1}" and now = 9 and interval = 5 and js = "[1, 2, 0]"])
  let ?m = "fst (Lock 0 (request_args ''p'' ''w'' '''' 2 [''a'']) newLocker)"
  have "locker_step\<^sup>*\<^sup>* newLocker ?m" by (intro r_into_rtranclp step_Lock)
  moreover have "\<exists>e. ?m ''a'' = Some [e] \<and> 5 < 9 - TimeLastRefresh e"
    by (simp add: Lock_sem newLocker_def request_args_def write_entry_def)
  ultimately have one: "\<exists>m ks. locker_step\<^sup>*\<^sup>* newLocker m \<and> abandoned_tables ! 0 = Some (expireOldLocks 9 5 ks m) \<and>
      (\<forall>r \<in> {''a''}. m r = None \<or> r \<in> set ks \<and> (\<exists>e. m r = Some [e] \<and> 5 < 9 - TimeLastRefresh e))"
    by (intro exI [of _ ?m] exI [of _ "[''a'']"]) (simp add: abandoned_tables_def)
  have two: "\<exists>m ks. locker_step\<^sup>*\<^sup>* newLocker m \<and> abandoned_tables ! 1 = Some (expireOldLocks 9 5 ks m) \<and>
      (\<forall>r \<in> {''a''}. m r = None \<or> r \<in> set ks \<and> (\<exists>e. m r = Some [e] \<and> 5 < 9 - TimeLastRefresh e))"
    by (intro exI [of _ newLocker] exI [of _ "[]"]) (simp add: abandoned_tables_def expireOldLocks_def newLocker_def)
  show "\<forall>i \<in> {0, 1}. at_net all_answer ! i = Delivered \<and>
      (\<exists>m ks. locker_step\<^sup>*\<^sup>* newLocker m \<and> abandoned_tables ! i = Some (expireOldLocks 9 5 ks m) \<and>
         (\<forall>r \<in> set (Names (NewDRWMutex 3 [''a''])). m r = None \<or>
            r \<in> set ks \<and> (\<exists>e. m r = Some [e] \<and> 5 < 9 - TimeLastRefresh e)))"
    using one two by (simp add: all_answer_def NewDRWMutex_def)
qed (auto simp: all_answer_def abandoned_tables_def lock_quorum_def)

section \<open>The loop that releases a write lock\<close>

lemma Unlock_accepted:
  assumes "canTakeUnlock m (LockResources a)"
  shows "snd (Unlock a m) = Inr True"
proof -
  have "\<forall>r \<in> set (LockResources a). \<exists>e. m r = Some [e] \<and> Writer e"
    using assms by (auto simp: canTakeUnlock_iff isWriteLock_single entries_def split: option.splits)
  then show ?thesis by (simp add: Unlock_sem)
qed

lemma release_one_accepted:
  assumes "isLocked uid" "canTakeUnlock m names"
  shows "snd (release_one local_netlocker owner False names (Delivered, Some m, uid)) = ''''"
    and "release_one local_netlocker owner False names (RequestLost, Some m, uid) = (Some m, uid)"
  using assms Unlock_accepted [of m "release_args owner uid names"]
  by (simp_all add: release_one_def sendRelease_def call_def local_netlocker_def release_args_def Let_def)

lemma release_one_rejected:
  assumes "isLocked uid" "r \<in> set names" "m r = None"
  shows "release_one local_netlocker owner False names (d, Some m, uid) = (Some m, uid)"
proof -
  have "Unlock (release_args owner uid names) m = (m, Inl UnlockReadLocked)"
    using assms(2,3) by (intro Unlock_rejected bexI [of _ r]) (simp_all add: release_args_def entries_def isWriteLock_def)
  then show ?thesis
    using assms(1) by (cases d) (simp_all add: release_one_def sendRelease_def call_def local_netlocker_def Let_def)
qed

lemma release_one_unset: "\<not> isLocked uid \<Longrightarrow> release_one N owner rd names (d, c, uid) = (c, uid)"
  by (simp add: release_one_def)

lemma releaseAll_parts:
  assumes "releaseAll N net tol owner locks rd clnts names = (clnts', locks', ok)"
    "length net = n" "length clnts = n" "length locks = n"
  shows "length clnts' = n" "length locks' = n" "ok \<longleftrightarrow> \<not> checkFailedUnlocks locks' tol"
    "i < n \<Longrightarrow> (clnts' ! i, locks' ! i) = release_one N owner rd names (net ! i, clnts ! i, locks ! i)"
  using assms by (auto simp: releaseAll_def Let_def)

lemma checkFailedUnlocks_some:
  assumes "checkFailedUnlocks locks (int (length locks div 2))" "locks \<noteq> []"
  shows "list_ex isLocked locks"
proof -
  have "filter isLocked locks \<noteq> []"
    using assms by (cases locks) (auto simp: checkFailedUnlocks_def Let_def split: if_splits)
  then show ?thesis by (auto simp: filter_empty_conv list_ex_iff)
qed

lemma checkFailedUnlocks_many:
  assumes "length locks div 2 < card D" "D \<subseteq> {i. i < length locks \<and> isLocked (locks ! i)}"
  shows "checkFailedUnlocks locks (int (length locks div 2))"
proof -
  have "card D \<le> length (filter isLocked locks)"
    unfolding length_filter_conv_card by (rule card_mono) (use assms(2) in auto)
  then show ?thesis using assms(1) by (simp add: checkFailedUnlocks_def Let_def)
qed

lemma release_loop_ends:
  assumes "length clnts = n" "length locks = n" "list_ex isLocked locks"
    "\<forall>net \<in> set nets. length net = n \<and> ReplyLost \<notin> set net"
    "\<forall>i < n. isLocked (locks ! i) \<longrightarrow>
       (\<exists>m. clnts ! i = Some m \<and> canTakeUnlock m names) \<and> (\<exists>net \<in> set nets. net ! i = Delivered)"
  shows "\<exists>c l. release_loop local_netlocker nets (int (n div 2)) owner locks False clnts names = Some (c, l)"
  using assms
proof (induction nets arbitrary: clnts locks)
  case Nil
  then show ?case by (auto simp: list_ex_length)
next
  case (Cons net nets)
  obtain c l ok where r: "releaseAll local_netlocker net (int (n div 2)) owner locks False clnts names = (c, l, ok)"
    using prod_cases3 by blast
  have len: "length net = n" using Cons.prems(4) by simp
  note parts = releaseAll_parts [OF r len Cons.prems(1,2)]
  show ?case
  proof (cases ok)
    case False
    have "l \<noteq> []" using Cons.prems(2,3) parts(2) by (cases l) auto
    then have "list_ex isLocked l" using checkFailedUnlocks_some [of l] False parts(2,3) by simp
    moreover have "\<forall>i < n. isLocked (l ! i) \<longrightarrow>
        (\<exists>m. c ! i = Some m \<and> canTakeUnlock m names) \<and> (\<exists>net \<in> set nets. net ! i = Delivered)"
    proof (intro allI impI)
      fix i assume i: "i < n" "isLocked (l ! i)"
      note one = parts(4) [OF i(1)]
      have set: "isLocked (locks ! i)" using one i(2) release_one_unset by (metis prod.inject)
      then obtain m where m: "clnts ! i = Some m" "canTakeUnlock m names" using Cons.prems(5) i(1) by blast
      have nd: "net ! i \<noteq> Delivered"
        using one i(2) m release_one_accepted(1) [OF set m(2), of owner] by (auto dest: arg_cong [of _ _ snd])
      moreover have "net ! i \<noteq> ReplyLost" using Cons.prems(4) i(1) len by (metis list.set_intros(1) nth_mem)
      ultimately have "net ! i = RequestLost" by (cases "net ! i") auto
      then have "c ! i = Some m" using one m release_one_accepted(2) [OF set m(2), of owner] by simp
      moreover have "\<exists>net \<in> set nets. net ! i = Delivered" using Cons.prems(5) i(1) set nd by auto
      ultimately show "(\<exists>m. c ! i = Some m \<and> canTakeUnlock m names) \<and> (\<exists>net \<in> set nets. net ! i = Delivered)"
        using m(2) by blast
    qed
    ultimately show ?thesis
      using Cons.IH [OF parts(1,2)] Cons.prems(4) False by (simp add: r)
  qed (simp add: r)
qed

lemma release_loop_stuck:
  assumes "length clnts = n" "length locks = n" "\<forall>net \<in> set nets. length net = n" "n div 2 < card D"
    "\<forall>i \<in> D. i < n \<and> isLocked (locks ! i) \<and> (\<exists>m r. clnts ! i = Some m \<and> r \<in> set names \<and> m r = None)"
  shows "release_loop local_netlocker nets (int (n div 2)) owner locks False clnts names = None"
  using assms
proof (induction nets arbitrary: clnts locks)
  case (Cons net nets)
  obtain c l ok where r: "releaseAll local_netlocker net (int (n div 2)) owner locks False clnts names = (c, l, ok)"
    using prod_cases3 by blast
  have len: "length net = n" using Cons.prems(3) by simp
  note parts = releaseAll_parts [OF r len Cons.prems(1,2)]
  have same: "\<forall>i \<in> D. i < n \<and> isLocked (l ! i) \<and> (\<exists>m r. c ! i = Some m \<and> r \<in> set names \<and> m r = None)"
  proof
    fix i assume i: "i \<in> D"
    then obtain m r where m: "i < n" "isLocked (locks ! i)" "clnts ! i = Some m" "r \<in> set names" "m r = None"
      using Cons.prems(5) by blast
    have "(c ! i, l ! i) = (Some m, locks ! i)"
      using parts(4) [OF m(1)] m(3) release_one_rejected [of "locks ! i" r names m owner "net ! i"] m by simp
    then show "i < n \<and> isLocked (l ! i) \<and> (\<exists>m r. c ! i = Some m \<and> r \<in> set names \<and> m r = None)"
      using m(1,2,4,5) by auto
  qed
  then have "checkFailedUnlocks l (int (n div 2))"
    using checkFailedUnlocks_many [of l D] Cons.prems(4) parts(2) by auto
  then show ?case
    using Cons.IH [OF parts(1,2) _ Cons.prems(4) same] Cons.prems(3) parts(3) by (simp add: r)
qed simp


text \<open>One table that still has the lock, and one from which it has expired.\<close>

definition held_table :: lock_map where
  "held_table = fst (Lock 0 (request_args ''o'' ''u'' '''' 1 [''a'']) newLocker)"

definition held_mutex :: drwmutex where
  "held_mutex = \<lparr>Names = [''a''], writeLocks = [''u''], readersLocks = []\<rparr>"


end
