(* ===== verification/Go_Ints.thy ===== *)
theory Go_Ints
  imports Go_Strings
begin

text \<open>
  64-bit integer arithmetic of Go on \<^typ>\<open>int\<close>: results wrap around, division truncates towards
  zero. A value of type \<^verbatim>\<open>int64\<close> satisfies \<open>in_int64\<close>.
\<close>

definition in_int64 :: "int \<Rightarrow> bool" where
  "in_int64 x \<longleftrightarrow> min_int64 \<le> x \<and> x \<le> max_int64"

definition wrap64 :: "int \<Rightarrow> int" where
  "wrap64 x = (x + 2 ^ 63) mod 2 ^ 64 - 2 ^ 63"

definition quot64 :: "int \<Rightarrow> int \<Rightarrow> int" where
  "quot64 a b = wrap64 (sgn a * sgn b * (\<bar>a\<bar> div \<bar>b\<bar>))"

definition rem64 :: "int \<Rightarrow> int \<Rightarrow> int" where
  "rem64 a b = sgn a * (\<bar>a\<bar> mod \<bar>b\<bar>)"

lemma wrap64_id: "in_int64 x \<Longrightarrow> wrap64 x = x"
  by (simp add: in_int64_def wrap64_def min_int64_def max_int64_def)

lemma wrap64_range: "in_int64 (wrap64 x)"
  using pos_mod_bound [of "2 ^ 64" "x + 2 ^ 63"] pos_mod_sign [of "2 ^ 64" "x + 2 ^ 63"]
  by (simp add: in_int64_def wrap64_def min_int64_def max_int64_def)

lemma in_int64_between: "0 \<le> x \<Longrightarrow> x \<le> y \<Longrightarrow> in_int64 y \<Longrightarrow> in_int64 x"
  by (simp add: in_int64_def min_int64_def)

lemma div_le_self: "0 \<le> (a::int) \<Longrightarrow> 0 < b \<Longrightarrow> a div b \<le> a"
  using zdiv_mono2 [of a 1 b] by simp

lemma quot64_nonneg:
  assumes "0 \<le> a" "0 < b" "in_int64 a"
  shows "quot64 a b = a div b"
proof -
  have "0 \<le> a div b" "a div b \<le> a"
    using assms(1,2) by (simp_all add: pos_imp_zdiv_nonneg_iff div_le_self)
  then have "in_int64 (a div b)" using assms(3) in_int64_between by blast
  moreover have "sgn a * sgn b * (\<bar>a\<bar> div \<bar>b\<bar>) = a div b"
    using assms(1,2) by (cases "a = 0") auto
  ultimately show ?thesis by (simp add: quot64_def wrap64_id)
qed

lemma rem64_nonneg: "0 \<le> a \<Longrightarrow> 0 < b \<Longrightarrow> rem64 a b = a mod b"
  by (cases "a = 0") (auto simp: rem64_def)

text \<open>The least integer not below a fraction.\<close>

definition ceil_div :: "int \<Rightarrow> int \<Rightarrow> int" where
  "ceil_div a b = a div b + (if a mod b \<noteq> 0 then 1 else 0)"

lemma ceil_div_bounds:
  assumes "0 < b"
  shows "a \<le> b * ceil_div a b" "b * ceil_div a b < a + b"
proof -
  have e: "b * (a div b) + a mod b = a" by (rule mult_div_mod_eq)
  have m: "0 \<le> a mod b" "a mod b < b" using assms by simp_all
  have c: "b * ceil_div a b = b * (a div b) + (if a mod b \<noteq> 0 then b else 0)"
    by (simp add: ceil_div_def distrib_left)
  have "a \<le> q + (if r \<noteq> 0 then b else 0) \<and> q + (if r \<noteq> 0 then b else 0) < a + b"
    if "q + r = a" "0 \<le> r" "r < b" for q r
    using that by auto
  from this [OF e m] show "a \<le> b * ceil_div a b" "b * ceil_div a b < a + b"
    unfolding c by blast+
qed

lemma ceil_div_le: "0 < b \<Longrightarrow> 0 \<le> a \<Longrightarrow> ceil_div a b \<le> a"
proof -
  assume b: "0 < b" and a: "0 \<le> a"
  show ?thesis
  proof (cases "b = 1")
    case False
    then have "2 \<le> b" using b by simp
    have "a div b \<le> a" using a b by (simp add: div_le_self)
    show ?thesis
    proof (cases "a mod b = 0")
      case True
      with \<open>a div b \<le> a\<close> show ?thesis by (simp add: ceil_div_def)
    next
      case False
      then have "0 < a" using a by (cases "a = 0") auto
      then have "a div b < a" using \<open>2 \<le> b\<close> by (simp add: int_div_less_self)
      then show ?thesis by (simp add: ceil_div_def)
    qed
  qed (simp add: ceil_div_def)
qed

lemma ceil_div_nonneg: "0 < b \<Longrightarrow> 0 \<le> a \<Longrightarrow> 0 \<le> ceil_div a b"
  by (simp add: ceil_div_def pos_imp_zdiv_nonneg_iff)

lemma ceil_div_pos: "0 < b \<Longrightarrow> 0 < a \<Longrightarrow> 0 < ceil_div a b"
  using ceil_div_bounds(1) [of b a] by (metis less_le_trans mult_pos_pos zero_less_mult_pos)

end
