(* ===== verification/Erasure_Coding.thy ===== *)
theory Erasure_Coding
  imports Go_Ints
begin

text \<open>
  \<^verbatim>\<open>cmd/erasure-coding.go\<close> and \<^verbatim>\<open>cmd/erasure-utils.go\<close>: the geometry of shards, splitting, encoding and
  decoding of blocks, and the writing of decoded data. The Reed-Solomon package is the record
  \<open>rs_encoder\<close> of the operations that the code calls.
\<close>

type_synonym bytes = "8 word list"

section \<open>Geometry\<close>

definition ceilFrac :: "int \<Rightarrow> int \<Rightarrow> int" where
  "ceilFrac numerator denominator =
     (if denominator = 0 then 0
      else
        (let (num, den) = (if denominator < 0 then (wrap64 (- numerator), wrap64 (- denominator))
                           else (numerator, denominator));
             ceil = quot64 num den
         in if num > 0 \<and> rem64 num den \<noteq> 0 then wrap64 (ceil + 1) else ceil))"

record erasure =
  dataBlocks :: int
  parityBlocks :: int
  blockSize :: int

datatype erasure_error =
  InvalidArgument | ErrInvShardNum | ErrMaxShardNum | ErrTooFewShards | ErrShortData | Unexpected
  | IOError

definition blockSizeV1 :: int where
  "blockSizeV1 = 10 * 1048576"

definition NewErasure :: "int \<Rightarrow> int \<Rightarrow> int \<Rightarrow> erasure_error + erasure" where
  "NewErasure data parity bsize =
     (if bsize \<le> 0 \<or> bsize > blockSizeV1 then Inl InvalidArgument
      else if data \<le> 0 \<or> parity \<le> 0 then Inl ErrInvShardNum
      else if data > 256 \<or> parity > 256 - data then Inl ErrMaxShardNum
      else Inr \<lparr>dataBlocks = data, parityBlocks = parity, blockSize = bsize\<rparr>)"

definition ShardSize :: "erasure \<Rightarrow> int" where
  "ShardSize e = ceilFrac (blockSize e) (dataBlocks e)"

definition ShardFileSize :: "erasure \<Rightarrow> int \<Rightarrow> int" where
  "ShardFileSize e totalLength =
     (if totalLength = 0 then 0
      else if totalLength = -1 then -1
      else
        (let numShards = quot64 totalLength (blockSize e);
             lastBlockSize = rem64 totalLength (blockSize e);
             lastShardSize = ceilFrac lastBlockSize (dataBlocks e)
         in wrap64 (wrap64 (numShards * ShardSize e) + lastShardSize)))"

definition ShardFileOffset :: "erasure \<Rightarrow> int \<Rightarrow> int \<Rightarrow> int \<Rightarrow> int" where
  "ShardFileOffset e startOffset len totalLength =
     (let shardSize = ShardSize e;
          shardFileSize = ShardFileSize e totalLength;
          endShard = quot64 (wrap64 (startOffset + len)) (blockSize e);
          tillOffset = wrap64 (wrap64 (endShard * shardSize) + shardSize)
      in if tillOffset > shardFileSize then shardFileSize else tillOffset)"

section \<open>Encoding and decoding\<close>

text \<open>The encoder works on the slice of shards in place; here it returns the new shards.\<close>

record rs_encoder =
  rs_Split :: "bytes \<Rightarrow> erasure_error + bytes list"
  rs_Encode :: "bytes list \<Rightarrow> erasure_error + bytes list"
  rs_ReconstructData :: "bytes list \<Rightarrow> erasure_error + bytes list"
  rs_Reconstruct :: "bytes list \<Rightarrow> erasure_error + bytes list"

definition EncodeData :: "rs_encoder \<Rightarrow> erasure \<Rightarrow> bytes \<Rightarrow> erasure_error + bytes list" where
  "EncodeData R e data =
     (if length data = 0 then Inr (replicate (nat (dataBlocks e + parityBlocks e)) [])
      else
        (case rs_Split R data of
           Inl err \<Rightarrow> Inl err
         | Inr encoded \<Rightarrow> rs_Encode R encoded))"

text \<open>The loop that counts empty shards stops at the first one.\<close>

definition DecodeDataBlocks :: "rs_encoder \<Rightarrow> bytes list \<Rightarrow> erasure_error + bytes list" where
  "DecodeDataBlocks R data =
     (let isZero = (if list_ex (\<lambda>b. length b = 0) data then 1 else 0)
      in if isZero = 0 \<or> isZero = length data then Inr data
         else rs_ReconstructData R data)"

definition DecodeDataAndParityBlocks :: "rs_encoder \<Rightarrow> bytes list \<Rightarrow> erasure_error + bytes list" where
  "DecodeDataAndParityBlocks R data = rs_Reconstruct R data"

section \<open>Writing the data blocks\<close>

definition getDataBlockLen :: "bytes list \<Rightarrow> int \<Rightarrow> int" where
  "getDataBlockLen enBlocks n = (\<Sum>block \<leftarrow> take (nat n) enBlocks. int (length block))"

text \<open>\<open>copy\<close> is \<^verbatim>\<open>io.Copy\<close> into the destination: the new state of it, and the bytes written or an error.\<close>

fun write_blocks ::
  "(bytes \<Rightarrow> 'w \<Rightarrow> 'w \<times> (erasure_error + int)) \<Rightarrow> bytes list \<Rightarrow> int \<Rightarrow> int \<Rightarrow> int \<Rightarrow> 'w \<Rightarrow>
     'w \<times> (erasure_error + int)" where
  "write_blocks copy [] offset write totalWritten w = (w, Inr totalWritten)"
| "write_blocks copy (block # blocks) offset write totalWritten w =
     (if offset \<ge> int (length block)
      then write_blocks copy blocks (offset - int (length block)) write totalWritten w
      else
        (let block' = drop (nat offset) block in
         if write < int (length block') then
           (case copy (take (nat write) block') w of
              (w', Inl err) \<Rightarrow> (w', Inl err)
            | (w', Inr n) \<Rightarrow> (w', Inr (totalWritten + n)))
         else
           (case copy block' w of
              (w', Inl err) \<Rightarrow> (w', Inl err)
            | (w', Inr n) \<Rightarrow> write_blocks copy blocks 0 (write - n) (totalWritten + n) w')))"

definition writeDataBlocks ::
  "(bytes \<Rightarrow> 'w \<Rightarrow> 'w \<times> (erasure_error + int)) \<Rightarrow> bytes list \<Rightarrow> int \<Rightarrow> int \<Rightarrow> int \<Rightarrow> 'w \<Rightarrow>
     'w \<times> (erasure_error + int)" where
  "writeDataBlocks copy enBlocks n offset len w =
     (if offset < 0 \<or> len < 0 then (w, Inl Unexpected)
      else if int (length enBlocks) < n then (w, Inl ErrTooFewShards)
      else if getDataBlockLen enBlocks n < len then (w, Inl ErrShortData)
      else write_blocks copy (take (nat n) enBlocks) offset len 0 w)"

section \<open>Sizes kept in the metadata\<close>

text \<open>\<^verbatim>\<open>ErasureInfo\<close> of \<^verbatim>\<open>cmd/xl-storage-format-v1.go\<close>, with the checked versions of the size functions.\<close>

record checksum_info =
  ck_PartNumber :: int
  ck_Algorithm :: nat
  ck_Hash :: bytes

record erasure_info =
  ei_Algorithm :: string
  ei_DataBlocks :: int
  ei_ParityBlocks :: int
  ei_BlockSize :: int
  ei_Index :: int
  ei_Distribution :: "int list"
  ei_Checksums :: "checksum_info list"

definition ErasureInfo_ShardSize :: "erasure_info \<Rightarrow> int" where
  "ErasureInfo_ShardSize e =
     (if ei_BlockSize e \<le> 0 \<or> ei_DataBlocks e \<le> 0 then -1
      else
        (let n = quot64 (ei_BlockSize e) (ei_DataBlocks e)
         in if rem64 (ei_BlockSize e) (ei_DataBlocks e) \<noteq> 0 then wrap64 (n + 1) else n))"

definition ErasureInfo_ShardFileSize :: "erasure_info \<Rightarrow> int \<Rightarrow> int" where
  "ErasureInfo_ShardFileSize e totalLength =
     (if totalLength < 0 \<or> ei_BlockSize e \<le> 0 \<or> ei_DataBlocks e \<le> 0 then -1
      else if ErasureInfo_ShardSize e < 0 then -1
      else
        (let shardSize = ErasureInfo_ShardSize e;
             numShards = quot64 totalLength (ei_BlockSize e);
             lastBlockSize = rem64 totalLength (ei_BlockSize e);
             lastShardSize =
               (if rem64 lastBlockSize (ei_DataBlocks e) \<noteq> 0
                then wrap64 (quot64 lastBlockSize (ei_DataBlocks e) + 1)
                else quot64 lastBlockSize (ei_DataBlocks e))
         in if numShards > quot64 (wrap64 (max_int64 - lastShardSize)) shardSize then -1
            else wrap64 (wrap64 (numShards * shardSize) + lastShardSize)))"

definition AddChecksumInfo :: "checksum_info \<Rightarrow> erasure_info \<Rightarrow> erasure_info" where
  "AddChecksumInfo ckSumInfo e =
     (case find_index (\<lambda>ck. ck_PartNumber ck = ck_PartNumber ckSumInfo) (ei_Checksums e) of
        Some i \<Rightarrow> e\<lparr>ei_Checksums := (ei_Checksums e)[i := ckSumInfo]\<rparr>
      | None \<Rightarrow> e\<lparr>ei_Checksums := ei_Checksums e @ [ckSumInfo]\<rparr>)"

definition GetChecksumInfo :: "erasure_info \<Rightarrow> int \<Rightarrow> checksum_info" where
  "GetChecksumInfo e partNumber =
     (case find (\<lambda>ck. ck_PartNumber ck = partNumber) (ei_Checksums e) of
        Some ck \<Rightarrow> ck
      | None \<Rightarrow> \<lparr>ck_PartNumber = 0, ck_Algorithm = 0, ck_Hash = []\<rparr>)"

end
