(* ===== verification/Erasure_Coding_Facts.thy ===== *)
theory Erasure_Coding_Facts
  imports Erasure_Coding
begin

text \<open>
  What the erasure layer guarantees: the arithmetic of shard sizes and offsets, the writing of
  decoded ranges, and the survival of data under the documented behaviour of the coder.
\<close>

section \<open>Geometry\<close>

lemma ceilFrac_ceil:
  assumes "0 \<le> a" "0 < b" "in_int64 a"
  shows "ceilFrac a b = ceil_div a b"
proof -
  have "in_int64 (ceil_div a b)"
    using ceil_div_nonneg [OF assms(2,1)] ceil_div_le [OF assms(2,1)] assms(3) in_int64_between by blast
  then have "wrap64 (ceil_div a b) = ceil_div a b" by (rule wrap64_id)
  with assms show ?thesis
    by (cases "a = 0")
      (auto simp: ceilFrac_def quot64_nonneg rem64_nonneg ceil_div_def Let_def)
qed

definition geometry :: "erasure \<Rightarrow> bool" where
  "geometry e \<longleftrightarrow> 0 < dataBlocks e \<and> 0 < blockSize e \<and> in_int64 (blockSize e)"

lemma NewErasure_geometry: "NewErasure d p b = Inr e \<Longrightarrow> geometry e \<and> dataBlocks e = d \<and>
    parityBlocks e = p \<and> blockSize e = b \<and> 0 < p \<and> d + p \<le> 256"
  by (auto simp: NewErasure_def geometry_def blockSizeV1_def in_int64_def min_int64_def max_int64_def
      split: if_splits)

lemma ShardSize_ceil: "geometry e \<Longrightarrow> ShardSize e = ceil_div (blockSize e) (dataBlocks e)"
  by (simp add: ShardSize_def geometry_def ceilFrac_ceil)

text \<open>The size of a shard file: a shard of every full block, and one of the rest.\<close>

definition shard_file_size :: "int \<Rightarrow> int \<Rightarrow> int \<Rightarrow> int" where
  "shard_file_size d b t = t div b * ceil_div b d + ceil_div (t mod b) d"

lemma shard_file_size_bound:
  assumes "0 < d" "0 < b" "0 \<le> t"
  shows "0 \<le> t div b * ceil_div b d" "0 \<le> ceil_div (t mod b) d" "shard_file_size d b t \<le> t"
proof -
  have q: "0 \<le> t div b" and m: "0 \<le> t mod b" using assms by (simp_all add: pos_imp_zdiv_nonneg_iff)
  show "0 \<le> t div b * ceil_div b d" "0 \<le> ceil_div (t mod b) d"
    using q m assms ceil_div_nonneg [of d b] ceil_div_nonneg [of d "t mod b"] by simp_all
  have "t div b * ceil_div b d \<le> t div b * b"
    using q assms ceil_div_le [of d b] by (simp add: mult_left_mono)
  moreover have "ceil_div (t mod b) d \<le> t mod b" using m assms by (simp add: ceil_div_le)
  moreover have "t div b * b + t mod b = t" by simp
  ultimately show "shard_file_size d b t \<le> t" unfolding shard_file_size_def by linarith
qed

lemma ShardFileSize_value:
  assumes "geometry e" "0 \<le> t" "in_int64 t"
  shows "ShardFileSize e t = shard_file_size (dataBlocks e) (blockSize e) t"
proof (cases "t = 0")
  case True
  then show ?thesis by (simp add: ShardFileSize_def shard_file_size_def ceil_div_def)
next
  case False
  let ?d = "dataBlocks e" and ?b = "blockSize e"
  have g: "0 < ?d" "0 < ?b" using assms(1) by (simp_all add: geometry_def)
  note bound = shard_file_size_bound [OF g assms(2)]
  have sz: "in_int64 (shard_file_size ?d ?b t)" "in_int64 (t div ?b * ceil_div ?b ?d)"
    using bound assms(3) in_int64_between [of _ t] by (auto simp: shard_file_size_def)
  have "0 \<le> t mod ?b" "t mod ?b \<le> t" using g assms(2) by (simp_all add: zmod_le_nonneg_dividend)
  then have "in_int64 (t mod ?b)" using assms(3) in_int64_between by blast
  with \<open>0 \<le> t mod ?b\<close> have "ceilFrac (t mod ?b) ?d = ceil_div (t mod ?b) ?d"
    using g by (simp add: ceilFrac_ceil)
  with False assms g sz show ?thesis
    by (simp add: ShardFileSize_def quot64_nonneg rem64_nonneg ShardSize_ceil wrap64_id Let_def)
      (simp add: shard_file_size_def [symmetric] wrap64_id)
qed

text \<open>A shard file has room for its share of the data, and little more.\<close>

lemma shard_file_size_room:
  assumes "0 < d" "0 < b" "0 \<le> t"
  shows "t \<le> d * shard_file_size d b t" "d * shard_file_size d b t < t + d * (t div b + 1)"
proof -
  have q: "0 \<le> t div b" using assms by (simp add: pos_imp_zdiv_nonneg_iff)
  have lower: "t div b * b \<le> t div b * (d * ceil_div b d)"
    using q ceil_div_bounds(1) [OF assms(1), of b] by (rule mult_left_mono [rotated])
  have "d * ceil_div b d \<le> b + d" using ceil_div_bounds(2) [OF assms(1), of b] by simp
  then have upper: "t div b * (d * ceil_div b d) \<le> t div b * (b + d)"
    using q by (rule mult_left_mono)
  note last = ceil_div_bounds [OF assms(1), of "t mod b"]
  have split: "d * shard_file_size d b t = t div b * (d * ceil_div b d) + d * ceil_div (t mod b) d"
    by (simp add: shard_file_size_def algebra_simps)
  have whole: "t div b * b + t mod b = t" by simp
  show "t \<le> d * shard_file_size d b t" unfolding split using lower last(1) whole by linarith
  have "t div b * (b + d) + t mod b + d = t + d * (t div b + 1)"
    using whole by (simp add: algebra_simps)
  with upper last(2) show "d * shard_file_size d b t < t + d * (t div b + 1)"
    unfolding split by linarith
qed

section \<open>The checked sizes of the metadata\<close>

definition same_geometry :: "erasure_info \<Rightarrow> erasure \<Rightarrow> bool" where
  "same_geometry ei e \<longleftrightarrow> ei_DataBlocks ei = dataBlocks e \<and> ei_BlockSize ei = blockSize e"

lemma ErasureInfo_ShardSize_ceil:
  assumes "geometry e" "same_geometry ei e"
  shows "ErasureInfo_ShardSize ei = ceil_div (blockSize e) (dataBlocks e)"
proof -
  let ?d = "dataBlocks e" and ?b = "blockSize e"
  have g: "0 < ?d" "0 < ?b" "in_int64 ?b" using assms(1) by (simp_all add: geometry_def)
  have "in_int64 (ceil_div ?b ?d)"
    using g ceil_div_nonneg [of ?d ?b] ceil_div_le [of ?d ?b] in_int64_between by fastforce
  then have "wrap64 (ceil_div ?b ?d) = ceil_div ?b ?d" by (rule wrap64_id)
  with g assms(2) show ?thesis
    by (auto simp: ErasureInfo_ShardSize_def same_geometry_def quot64_nonneg rem64_nonneg Let_def
        ceil_div_def)
qed

lemma ErasureInfo_ShardFileSize_value:
  assumes "geometry e" "same_geometry ei e" "0 \<le> t" "in_int64 t"
  shows "ErasureInfo_ShardFileSize ei t = shard_file_size (dataBlocks e) (blockSize e) t"
proof -
  let ?d = "dataBlocks e" and ?b = "blockSize e"
  have g: "0 < ?d" "0 < ?b" using assms(1) by (simp_all add: geometry_def)
  let ?ss = "ceil_div ?b ?d" and ?ls = "ceil_div (t mod ?b) ?d" and ?n = "t div ?b"
  note bound = shard_file_size_bound [OF g assms(3)]
  have ss: "0 < ?ss" using g by (simp add: ceil_div_pos)
  have tm: "0 \<le> t mod ?b" "t mod ?b \<le> t" using g assms(3) by (simp_all add: zmod_le_nonneg_dividend)
  then have tmi: "in_int64 (t mod ?b)" using assms(4) in_int64_between by blast
  have ls: "0 \<le> ?ls" "?ls \<le> t" "in_int64 ?ls"
    using bound(2) ceil_div_le [OF g(1) tm(1)] tm(2) assms(4) in_int64_between [of ?ls t] by auto
  have last: "(if rem64 (t mod ?b) ?d \<noteq> 0 then wrap64 (quot64 (t mod ?b) ?d + 1) else quot64 (t mod ?b) ?d) = ?ls"
    using g tm tmi wrap64_id [OF ls(3)] by (auto simp: rem64_nonneg quot64_nonneg ceil_div_def)
  have "?n * ?ss + ?ls \<le> max_int64"
    using bound(3) assms(4) by (simp add: shard_file_size_def in_int64_def)
  then have "?n * ?ss \<le> max_int64 - ?ls" by simp
  then have "?n \<le> (max_int64 - ?ls) div ?ss"
    using ss zdiv_mono1 [of "?n * ?ss" "max_int64 - ?ls" ?ss] by simp
  moreover have "in_int64 (max_int64 - ?ls)" "0 \<le> max_int64 - ?ls"
    using ls(1,2) assms(4) by (auto simp: in_int64_def min_int64_def max_int64_def)
  then have "quot64 (wrap64 (max_int64 - ?ls)) ?ss = (max_int64 - ?ls) div ?ss"
    using ss by (simp add: wrap64_id quot64_nonneg)
  moreover have "in_int64 (shard_file_size ?d ?b t)" "in_int64 (?n * ?ss)"
    using bound assms(4) in_int64_between [of _ t] by (auto simp: shard_file_size_def)
  moreover have "ErasureInfo_ShardFileSize ei t =
      (if ?n > quot64 (wrap64 (max_int64 - ?ls)) ?ss then -1 else wrap64 (wrap64 (?n * ?ss) + ?ls))"
  proof -
    have e: "ei_DataBlocks ei = ?d" "ei_BlockSize ei = ?b"
      using assms(2) by (simp_all add: same_geometry_def)
    have q: "quot64 t ?b = ?n" "rem64 t ?b = t mod ?b"
      using g assms(3,4) by (simp_all add: quot64_nonneg rem64_nonneg)
    show ?thesis
      unfolding ErasureInfo_ShardFileSize_def Let_def e q last ErasureInfo_ShardSize_ceil [OF assms(1,2)]
      using g assms(3) ss by simp
  qed
  ultimately show ?thesis by (simp add: wrap64_id) (simp add: shard_file_size_def wrap64_id)
qed

section \<open>Writing\<close>

text \<open>A destination that takes everything, such as \<^verbatim>\<open>bytes.Buffer\<close>.\<close>

definition buffer_copy :: "bytes \<Rightarrow> bytes \<Rightarrow> bytes \<times> (erasure_error + int)" where
  "buffer_copy b w = (w @ b, Inr (int (length b)))"

lemma write_blocks_buffer:
  "0 \<le> offset \<Longrightarrow> 0 \<le> left \<Longrightarrow>
     write_blocks buffer_copy blocks offset left tot w =
       (w @ take (nat left) (drop (nat offset) (concat blocks)),
        Inr (tot + int (length (take (nat left) (drop (nat offset) (concat blocks))))))"
proof (induction blocks arbitrary: offset left tot w)
  case (Cons b blocks)
  show ?case
  proof (cases "offset \<ge> int (length b)")
    case True
    have "nat (offset - int (length b)) = nat offset - length b" by (simp add: nat_diff_distrib')
    moreover have "length b \<le> nat offset" using True by simp
    ultimately show ?thesis using True Cons by simp
  next
    case False
    let ?b = "drop (nat offset) b"
    have o: "nat offset < length b" using False Cons.prems(1) by linarith
    have lb: "int (length ?b) = int (length b) - offset" using o Cons.prems(1) by (simp add: of_nat_diff)
    show ?thesis
    proof (cases "left < int (length ?b)")
      case True
      then have "nat left < length ?b" using Cons.prems(2) by linarith
      with False True o show ?thesis by (simp add: buffer_copy_def)
    next
      case False1: False
      let ?w = "left - int (length ?b)"
      have w: "0 \<le> ?w" "nat left = length ?b + nat ?w" using False1 by linarith+
      have "write_blocks buffer_copy (b # blocks) offset left tot w =
          write_blocks buffer_copy blocks 0 ?w (tot + int (length ?b)) (w @ ?b)"
        using False False1 by (simp add: buffer_copy_def)
      also have "\<dots> = ((w @ ?b) @ take (nat ?w) (concat blocks),
          Inr (tot + int (length ?b) + int (length (take (nat ?w) (concat blocks)))))"
        using Cons.IH [of 0 ?w] w(1) by simp
      finally have step: "write_blocks buffer_copy (b # blocks) offset left tot w =
          ((w @ ?b) @ take (nat ?w) (concat blocks),
           Inr (tot + int (length ?b) + int (length (take (nat ?w) (concat blocks)))))" .
      have "drop (nat offset) (concat (b # blocks)) = ?b @ concat blocks" using o by simp
      then have out: "take (nat left) (drop (nat offset) (concat (b # blocks))) =
          ?b @ take (nat ?w) (concat blocks)"
        unfolding w(2) by (simp del: length_drop)
      show ?thesis unfolding step out by (simp del: length_drop)
    qed
  qed
qed simp

lemma getDataBlockLen_concat: "getDataBlockLen blocks n = int (length (concat (take (nat n) blocks)))"
proof -
  have "(\<Sum>block \<leftarrow> bs. int (length block)) = int (length (concat bs))" for bs :: "bytes list"
    by (induction bs) auto
  then show ?thesis by (simp add: getDataBlockLen_def)
qed

section \<open>Reed-Solomon coding\<close>

text \<open>
  What the package documents of an encoder with \<open>d\<close> data and \<open>p\<close> parity shards: \<^verbatim>\<open>Split\<close> cuts non-empty
  data into \<open>d\<close> equal shards, padded with zeros, and adds room for the parity; \<^verbatim>\<open>Encode\<close> keeps the data
  shards; \<^verbatim>\<open>ReconstructData\<close> restores the data shards when at most \<open>p\<close> shards of an encoding are missing,
  which is to say empty.
\<close>

definition shards_ok :: "nat \<Rightarrow> nat \<Rightarrow> bytes list \<Rightarrow> bool" where
  "shards_ok d p sh \<longleftrightarrow> length sh = d + p \<and> (\<exists>n > 0. \<forall>b \<in> set sh. length b = n)"

definition missing_of :: "bytes list \<Rightarrow> bytes list \<Rightarrow> bool" where
  "missing_of xs sh \<longleftrightarrow> list_all2 (\<lambda>x y. x = y \<or> x = []) xs sh"

definition rs_laws :: "nat \<Rightarrow> nat \<Rightarrow> rs_encoder \<Rightarrow> bool" where
  "rs_laws d p R \<longleftrightarrow>
     (\<forall>data. data \<noteq> [] \<longrightarrow> (\<exists>sh. rs_Split R data = Inr sh \<and> shards_ok d p sh \<and>
        take (length data) (concat (take d sh)) = data)) \<and>
     (\<forall>sh. shards_ok d p sh \<longrightarrow> (\<exists>sh'. rs_Encode R sh = Inr sh' \<and> shards_ok d p sh' \<and>
        take d sh' = take d sh)) \<and>
     (\<forall>sh sh' xs. shards_ok d p sh \<longrightarrow> rs_Encode R sh = Inr sh' \<longrightarrow> missing_of xs sh' \<longrightarrow>
        length (filter (\<lambda>x. x = []) xs) \<le> p \<longrightarrow>
        (\<exists>ys. rs_ReconstructData R xs = Inr ys \<and> length ys = d + p \<and> take d ys = take d sh'))"

lemma rs_lawsD:
  assumes "rs_laws d p R"
  shows "data \<noteq> [] \<Longrightarrow> \<exists>sh. rs_Split R data = Inr sh \<and> shards_ok d p sh \<and>
      take (length data) (concat (take d sh)) = data"
    and "shards_ok d p sh \<Longrightarrow> \<exists>sh'. rs_Encode R sh = Inr sh' \<and> shards_ok d p sh' \<and> take d sh' = take d sh"
    and "shards_ok d p sh \<Longrightarrow> rs_Encode R sh = Inr sh' \<Longrightarrow> missing_of xs sh' \<Longrightarrow>
      length (filter (\<lambda>x. x = []) xs) \<le> p \<Longrightarrow>
      \<exists>ys. rs_ReconstructData R xs = Inr ys \<and> length ys = d + p \<and> take d ys = take d sh'"
  using assms unfolding rs_laws_def by blast+

lemma missing_of_complete:
  assumes "missing_of xs sh" "\<not> list_ex (\<lambda>b. length b = 0) xs"
  shows "xs = sh"
proof -
  have "list_all2 (=) xs sh"
    using assms unfolding missing_of_def list_ex_iff
    by (elim list.rel_mono_strong) auto
  then show ?thesis by (simp add: list.rel_eq)
qed

lemma decode_missing:
  assumes laws: "rs_laws d p R" and dp: "0 < d" "0 < p" and sh: "shards_ok d p sh" "rs_Encode R sh = Inr sh'"
    and miss: "missing_of xs sh'" "length (filter (\<lambda>x. x = []) xs) \<le> p"
  shows "\<exists>ys. DecodeDataBlocks R xs = Inr ys \<and> length ys = d + p \<and> take d ys = take d sh'"
proof -
  have sh': "length sh' = d + p"
    using rs_lawsD(2) [OF laws sh(1)] sh(2) by (auto simp: shards_ok_def)
  then have len: "length xs = d + p" using miss(1) by (auto simp: missing_of_def dest: list_all2_lengthD)
  show ?thesis
  proof (cases "list_ex (\<lambda>b. length b = 0) xs")
    case True
    then have "DecodeDataBlocks R xs = rs_ReconstructData R xs"
      using len dp by (simp add: DecodeDataBlocks_def)
    with rs_lawsD(3) [OF laws sh miss] show ?thesis by simp
  next
    case False
    then have "DecodeDataBlocks R xs = Inr xs" by (simp add: DecodeDataBlocks_def)
    with missing_of_complete [OF miss(1) False] len show ?thesis by simp
  qed
qed

section \<open>Properties\<close>

text \<open>
  C4: Data survives the loss of as many shards as there are parity shards. What \<^verbatim>\<open>EncodeData\<close> makes of
  non-empty data, with at most \<open>p\<close> of its shards missing, is decoded by \<^verbatim>\<open>DecodeDataBlocks\<close>, and
  \<^verbatim>\<open>writeDataBlocks\<close> then writes any requested range of the data, byte for byte, under the documented
  behaviour of the Reed-Solomon package.
\<close>
theorem erasure_round_trip:
  assumes "NewErasure (int d) (int p) b = Inr e" "rs_laws d p R" "data \<noteq> []"
    and "EncodeData R e data = Inr sh" "missing_of xs sh" "length (filter (\<lambda>x. x = []) xs) \<le> p"
    and "0 \<le> offset" "0 \<le> len" "offset + len \<le> int (length data)"
  shows "\<exists>ys. DecodeDataBlocks R xs = Inr ys \<and>
    writeDataBlocks buffer_copy ys (int d) offset len w =
      (w @ take (nat len) (drop (nat offset) data), Inr len)"
proof -
  have dp: "0 < d" "0 < p" using assms(1) by (auto simp: NewErasure_def split: if_splits)
  obtain sh0 where sh0: "rs_Split R data = Inr sh0" "shards_ok d p sh0"
    "take (length data) (concat (take d sh0)) = data"
    using rs_lawsD(1) [OF assms(2,3)] by blast
  have enc: "rs_Encode R sh0 = Inr sh" using assms(3,4) sh0(1) by (simp add: EncodeData_def)
  then have keep: "take d sh = take d sh0" using rs_lawsD(2) [OF assms(2) sh0(2)] by auto
  obtain ys where ys: "DecodeDataBlocks R xs = Inr ys" "length ys = d + p" "take d ys = take d sh0"
    using decode_missing [OF assms(2) dp sh0(2) enc assms(5,6)] keep by auto
  define all where "all = concat (take d sh0)"
  have "length data \<le> length all"
    using arg_cong [OF sh0(3), of length] by (simp add: all_def)
  have range: "take (nat len) (drop (nat offset) all) = take (nat len) (drop (nat offset) data)"
  proof -
    have "nat offset + nat len \<le> length data" using assms(7-9) by linarith
    then have "take (nat len) (drop (nat offset) (take (length data) all)) = take (nat len) (drop (nat offset) all)"
      by (simp add: drop_take min_def)
    with sh0(3) show ?thesis by (simp add: all_def)
  qed
  have n: "length (take (nat len) (drop (nat offset) data)) = nat len"
    using assms(7-9) by simp
  have "\<not> getDataBlockLen ys (int d) < len"
    using \<open>length data \<le> length all\<close> assms(7,9) ys(3) by (simp add: getDataBlockLen_concat all_def)
  then have "writeDataBlocks buffer_copy ys (int d) offset len w =
      (w @ take (nat len) (drop (nat offset) data), Inr len)"
    using assms(7,8) ys n range
    by (simp add: writeDataBlocks_def write_blocks_buffer all_def)
  with ys(1) show ?thesis by blast
qed

text \<open>A code with one data and one parity shard, for the witness: the parity is a copy.\<close>

definition mirror_code :: rs_encoder where
  "mirror_code =
     \<lparr>rs_Split = (\<lambda>data. Inr [data, replicate (length data) 0]),
      rs_Encode = (\<lambda>sh. Inr [sh ! 0, sh ! 0]),
      rs_ReconstructData = (\<lambda>sh. Inr [if sh ! 0 = [] then sh ! 1 else sh ! 0, sh ! 1]),
      rs_Reconstruct = (\<lambda>sh. Inr [if sh ! 0 = [] then sh ! 1 else sh ! 0, if sh ! 1 = [] then sh ! 0 else sh ! 1])\<rparr>"

lemma mirror_code_laws: "rs_laws 1 1 mirror_code"
proof -
  have split: "\<exists>sh. rs_Split mirror_code data = Inr sh \<and> shards_ok 1 1 sh \<and>
      take (length data) (concat (take 1 sh)) = data" if "data \<noteq> []" for data
    using that by (auto simp: mirror_code_def shards_ok_def)
  have enc: "\<exists>sh'. rs_Encode mirror_code sh = Inr sh' \<and> shards_ok 1 1 sh' \<and> take 1 sh' = take 1 sh"
    if "shards_ok 1 1 sh" for sh
  proof -
    have "length sh = 2" using that by (simp add: shards_ok_def)
    then obtain x y where "sh = [x, y]"
      by (cases sh; cases "tl sh") auto
    with that show ?thesis by (auto simp: mirror_code_def shards_ok_def)
  qed
  have rec: "\<exists>ys. rs_ReconstructData mirror_code xs = Inr ys \<and> length ys = 1 + 1 \<and> take 1 ys = take 1 sh'"
    if h: "shards_ok 1 1 sh" "rs_Encode mirror_code sh = Inr sh'" "missing_of xs sh'"
      "length (filter (\<lambda>x. x = []) xs) \<le> 1" for sh sh' xs
  proof -
    have sh': "sh' = [sh ! 0, sh ! 0]" using h(2) by (simp add: mirror_code_def)
    then obtain x y where "xs = [x, y]" "x = sh ! 0 \<or> x = []" "y = sh ! 0 \<or> y = []"
      using h(3) by (auto simp: missing_of_def list_all2_Cons2)
    with h(4) sh' show ?thesis by (auto simp: mirror_code_def)
  qed
  show ?thesis unfolding rs_laws_def using split enc rec by blast
qed

theorem erasure_round_trip_witness:
  "\<exists>ys. DecodeDataBlocks mirror_code [[], [1, 2, 3]] = Inr ys \<and>
     writeDataBlocks buffer_copy ys 1 1 2 [] = ([2, 3], Inr 2)"
proof -
  have "NewErasure 1 1 1024 = Inr \<lparr>dataBlocks = 1, parityBlocks = 1, blockSize = 1024\<rparr>"
    by (simp add: NewErasure_def blockSizeV1_def)
  from erasure_round_trip [of 1 1 1024 _ mirror_code "[1, 2, 3]" "[[1, 2, 3], [1, 2, 3]]"
      "[[], [1, 2, 3]]" 1 2 "[]"] this mirror_code_laws
  show ?thesis by (simp add: EncodeData_def mirror_code_def missing_of_def)
qed

text \<open>
  The size of a shard file. For a geometry that \<^verbatim>\<open>NewErasure\<close> accepts and any length of an object,
  the size function of the coder and the checked one of the metadata agree and never wrap around;
  the data shards together have room for the object, with less than one byte of padding per data
  shard and block; no shard file is longer than the object. The checked function rejects negative
  lengths.
\<close>
theorem shard_file_sizes:
  assumes "NewErasure d p b = Inr e" "ei_DataBlocks ei = d" "ei_BlockSize ei = b" "in_int64 t"
  shows "(0 \<le> t \<longrightarrow> ErasureInfo_ShardFileSize ei t = ShardFileSize e t \<and>
      0 \<le> ShardFileSize e t \<and> ShardFileSize e t \<le> t \<and>
      t \<le> d * ShardFileSize e t \<and> d * ShardFileSize e t < t + d * (t div b + 1)) \<and>
    (t < 0 \<longrightarrow> ErasureInfo_ShardFileSize ei t = -1)"
proof (intro conjI impI)
  note g = NewErasure_geometry [OF assms(1)]
  have pos: "0 < d" "0 < b" using g by (auto simp: geometry_def)
  have same: "same_geometry ei e" using g assms(2,3) by (simp add: same_geometry_def)
  {
    assume t: "0 \<le> t"
    have v: "ShardFileSize e t = shard_file_size d b t"
      using ShardFileSize_value [of e t] g t assms(4) by simp
    show "ErasureInfo_ShardFileSize ei t = ShardFileSize e t"
      using ErasureInfo_ShardFileSize_value [of e ei t] g same t assms(4) v by simp
    show "0 \<le> ShardFileSize e t" "ShardFileSize e t \<le> t"
      using shard_file_size_bound [OF pos t] v by (simp_all add: shard_file_size_def)
    show "t \<le> d * ShardFileSize e t" "d * ShardFileSize e t < t + d * (t div b + 1)"
      using shard_file_size_room [OF pos t] v by simp_all
  }
  show "t < 0 \<Longrightarrow> ErasureInfo_ShardFileSize ei t = -1" by (simp add: ErasureInfo_ShardFileSize_def)
qed

theorem shard_file_sizes_witness:
  "\<exists>e. NewErasure 4 2 1048576 = Inr e \<and> ShardFileSize e 2500000 \<le> 2500000 \<and>
     2500000 \<le> 4 * ShardFileSize e 2500000"
proof -
  define ei where "ei = \<lparr>ei_Algorithm = '''', ei_DataBlocks = 4, ei_ParityBlocks = 2,
    ei_BlockSize = 1048576, ei_Index = 1, ei_Distribution = [], ei_Checksums = []\<rparr>"
  have n: "NewErasure 4 2 1048576 = Inr \<lparr>dataBlocks = 4, parityBlocks = 2, blockSize = 1048576\<rparr>"
    by (simp add: NewErasure_def blockSizeV1_def)
  from shard_file_sizes [OF n, of ei 2500000] n show ?thesis
    by (simp add: ei_def in_int64_def min_int64_def max_int64_def)
qed

text \<open>
  How far a range read goes into a shard file. \<^verbatim>\<open>ShardFileOffset\<close> never passes the end of the shard
  file, and it reaches the end of the shard of the last block that the range touches, or the end of
  the file.
\<close>
theorem ShardFileOffset_covers:
  assumes "NewErasure d p b = Inr e" "0 \<le> start" "0 < len" "start + len \<le> t" "in_int64 t"
    and "in_int64 (t + b)"
  shows "ShardFileOffset e start len t \<le> ShardFileSize e t \<and>
    min (((start + len - 1) div b + 1) * ShardSize e) (ShardFileSize e t) \<le> ShardFileOffset e start len t"
proof -
  note g = NewErasure_geometry [OF assms(1)]
  have pos: "0 < d" "0 < b" "in_int64 b" using g by (auto simp: geometry_def)
  have ss: "ShardSize e = ceil_div b d" using ShardSize_ceil [of e] g by simp
  have ssb: "0 \<le> ceil_div b d" "ceil_div b d \<le> b" using pos by (simp_all add: ceil_div_nonneg ceil_div_le)
  have end64: "in_int64 (start + len)" using assms(2-5) in_int64_between [of "start + len" t] by simp
  let ?n = "(start + len) div b"
  have n0: "0 \<le> ?n" using assms(2,3) pos by (simp add: pos_imp_zdiv_nonneg_iff)
  have "?n * ceil_div b d \<le> ?n * b" using ssb n0 by (simp add: mult_left_mono)
  moreover have "?n * b \<le> start + len"
    using mult_div_mod_eq [of b "start + len"] pos by (metis add_increasing2 div_mult_mod_eq le_add_same_cancel1 mod_int_pos_iff)
  ultimately have le: "?n * ceil_div b d \<le> t" using assms(4) by simp
  have p0: "0 \<le> ?n * ceil_div b d" using n0 ssb by simp
  have w: "in_int64 (?n * ceil_div b d)" "in_int64 (?n * ceil_div b d + ceil_div b d)"
    using in_int64_between [OF p0 le assms(5)] in_int64_between [of "?n * ceil_div b d + ceil_div b d" "t + b"]
      p0 le ssb assms(6) by auto
  have "ShardFileOffset e start len t = min (?n * ceil_div b d + ceil_div b d) (ShardFileSize e t)"
    using g assms(2,3) pos end64 w
    by (simp add: ShardFileOffset_def ss wrap64_id quot64_nonneg Let_def min_def)
  moreover have "(start + len - 1) div b \<le> ?n" using pos by (simp add: zdiv_mono1)
  then have "((start + len - 1) div b + 1) * ceil_div b d \<le> ?n * ceil_div b d + ceil_div b d"
    using ssb by (metis mult_right_mono add_le_cancel_right mult.commute distrib_right mult_1 add.commute)
  ultimately show ?thesis by (simp add: ss min_le_iff_disj)
qed

theorem ShardFileOffset_covers_witness:
  "\<exists>e. NewErasure 4 2 1048576 = Inr e \<and> ShardFileOffset e 10 100 2500000 \<le> ShardFileSize e 2500000"
proof -
  have n: "NewErasure 4 2 1048576 = Inr \<lparr>dataBlocks = 4, parityBlocks = 2, blockSize = 1048576\<rparr>"
    by (simp add: NewErasure_def blockSizeV1_def)
  from ShardFileOffset_covers [OF n, of 10 100 2500000] n show ?thesis
    by (simp add: in_int64_def min_int64_def max_int64_def)
qed

text \<open>
  The count of empty shards in \<^verbatim>\<open>DecodeDataBlocks\<close> stops at one, so the case of an empty payload, in
  which all shards are empty, is not recognised when there are two shards or more.
\<close>

lemma DecodeDataBlocks_all_empty:
  "2 \<le> n \<Longrightarrow> DecodeDataBlocks R (replicate n []) = rs_ReconstructData R (replicate n [])"
  by (simp add: DecodeDataBlocks_def list_ex_iff)

end
