(* ===== verification/Go_Time.thy ===== *)
theory Go_Time
  imports Go_Ints
begin

text \<open>
  The parts of the Go package \<^verbatim>\<open>time\<close> that the retention and lifecycle code uses. An instant is a number of
  nanoseconds since the Unix epoch, in UTC; a duration is an \<^verbatim>\<open>int64\<close> of nanoseconds.
\<close>

definition day_ns :: int where
  "day_ns = 86400 * 1000000000"

text \<open>The zero value of \<^verbatim>\<open>time.Time\<close>, the first of January of the year one.\<close>

definition zero_time :: int where
  "zero_time = - 62135596800 * 1000000000"

text \<open>The civil date of a day counted from the epoch, and back; the years begin in March.\<close>

definition civil_of_day :: "int \<Rightarrow> int \<times> int \<times> int" where
  "civil_of_day z =
     (let z' = z + 719468; era = z' div 146097; doe = z' mod 146097;
          yoe = (doe - doe div 1460 + doe div 36524 - doe div 146096) div 365;
          doy = doe - (365 * yoe + yoe div 4 - yoe div 100);
          mp = (5 * doy + 2) div 153;
          d = doy - (153 * mp + 2) div 5 + 1;
          m = (if mp < 10 then mp + 3 else mp - 9);
          y = yoe + era * 400
      in (if m \<le> 2 then y + 1 else y, m, d))"

definition day_of_civil :: "int \<Rightarrow> int \<Rightarrow> int \<Rightarrow> int" where
  "day_of_civil y m d =
     (let y' = (if m \<le> 2 then y - 1 else y); era = y' div 400; yoe = y' mod 400;
          mp = (if m > 2 then m - 3 else m + 9);
          doy = (153 * mp + 2) div 5 + d - 1;
          doe = yoe * 365 + yoe div 4 - yoe div 100 + doy
      in era * 146097 + doe - 719468)"

text \<open>\<^verbatim>\<open>t.AddDate(years, 0, 0)\<close> and \<^verbatim>\<open>t.AddDate(0, 0, days)\<close>.\<close>

definition AddDate_years :: "int \<Rightarrow> int \<Rightarrow> int" where
  "AddDate_years n t =
     (let (y, m, d) = civil_of_day (t div day_ns) in day_of_civil (y + n) m d * day_ns + t mod day_ns)"

definition AddDate_days :: "int \<Rightarrow> int \<Rightarrow> int" where
  "AddDate_days n t = t + n * day_ns"

text \<open>\<^verbatim>\<open>t.Sub(u)\<close> stops at the largest and the least duration.\<close>

definition time_Sub :: "int \<Rightarrow> int \<Rightarrow> int" where
  "time_Sub t u = max min_int64 (min max_int64 (t - u))"

text \<open>\<^verbatim>\<open>t.Truncate(d)\<close> counts from the zero time.\<close>

definition time_Truncate :: "int \<Rightarrow> int \<Rightarrow> int" where
  "time_Truncate t d = (if d \<le> 0 then t else t - (t - zero_time) mod d)"

lemma zero_time_day: "zero_time mod day_ns = 0"
  by (simp add: zero_time_def day_ns_def)

lemma time_Truncate_day: "time_Truncate t day_ns = (t div day_ns) * day_ns"
proof -
  have "day_ns dvd zero_time" using zero_time_day by (simp add: dvd_eq_mod_eq_0)
  then have "(t - zero_time) mod day_ns = t mod day_ns"
    by (metis diff_zero mod_0 mod_diff_right_eq zero_time_day)
  then show ?thesis
    by (simp add: time_Truncate_def day_ns_def minus_mod_eq_div_mult)
qed

end
