(* ===== verification/File_Info.thy ===== *)
theory File_Info
  imports Erasure_Coding Go_Path Go_Time
begin

text \<open>
  The metadata of one version of an object as a drive returns it (\<^verbatim>\<open>FileInfo\<close> of
  \<^verbatim>\<open>cmd/storage-datatypes.go\<close>), the checks of \<^verbatim>\<open>cmd/storage-validation.go\<close> and the operations on the parts
  of an object in \<^verbatim>\<open>cmd/erasure-metadata.go\<close> and \<^verbatim>\<open>cmd/transition-restore-parts.go\<close>. A time is a number of
  nanoseconds since the Unix epoch.
\<close>

section \<open>File information\<close>

record object_part =
  op_ETag :: string
  op_Number :: int
  op_Size :: int
  op_ActualSize :: int

record file_info =
  fi_Volume :: string
  fi_Name :: string
  fi_VersionID :: string
  fi_IsLatest :: bool
  fi_Deleted :: bool
  fi_TransitionStatus :: string
  fi_DataDir :: string
  fi_XLV1 :: bool
  fi_ModTime :: int
  fi_Size :: int
  fi_Mode :: nat
  fi_Metadata :: "string \<rightharpoonup> string"
  fi_Parts :: "object_part list"
  fi_Erasure :: erasure_info
  fi_MarkDeleted :: bool
  fi_DeleteMarkerReplicationStatus :: string
  fi_VersionPurgeStatus :: string
  fi_Data :: bytes
  fi_NumVersions :: int
  fi_SuccessorModTime :: int

definition zero_erasure_info :: erasure_info where
  "zero_erasure_info = \<lparr>ei_Algorithm = '''', ei_DataBlocks = 0, ei_ParityBlocks = 0, ei_BlockSize = 0,
     ei_Index = 0, ei_Distribution = [], ei_Checksums = []\<rparr>"

definition zero_file_info :: file_info where
  "zero_file_info =
     \<lparr>fi_Volume = '''', fi_Name = '''', fi_VersionID = '''', fi_IsLatest = False, fi_Deleted = False,
      fi_TransitionStatus = '''', fi_DataDir = '''', fi_XLV1 = False, fi_ModTime = zero_time, fi_Size = 0,
      fi_Mode = 0, fi_Metadata = Map.empty, fi_Parts = [], fi_Erasure = zero_erasure_info,
      fi_MarkDeleted = False, fi_DeleteMarkerReplicationStatus = '''', fi_VersionPurgeStatus = '''',
      fi_Data = [], fi_NumVersions = 0, fi_SuccessorModTime = zero_time\<rparr>"

section \<open>Validation\<close>

definition globalMaxPartID :: int where
  "globalMaxPartID = 10000"

definition is_letter :: "char \<Rightarrow> bool" where
  "is_letter c \<longleftrightarrow> (97 \<le> byte c \<and> byte c \<le> (122::nat)) \<or> (65 \<le> byte c \<and> byte c \<le> (90::nat))"

definition valid_path_part :: "string \<Rightarrow> bool" where
  "valid_path_part part \<longleftrightarrow>
     \<not> (part = ''.'' \<or> part = ''..'') \<and>
     \<not> (length part \<ge> 2 \<and> part ! 1 = CHR '':'' \<and> is_letter (part ! 0))"

definition validStoragePath :: "string \<Rightarrow> bool" where
  "validStoragePath name =
     (if HasPrefix name ''/'' \<or> list_ex (\<lambda>c. c = CHR 0x5C \<or> c = CHR 0x00) name then False
      else list_all valid_path_part (split_byte CHR ''/'' name))"

text \<open>
  \<^verbatim>\<open>filepath.Rel\<close> on Unix: the elements of the two cleaned paths without their common start, with one
  \<^verbatim>\<open>..\<close> for every element that is left of the base. It fails when only one of the paths is absolute or when
  the base leaves the common start through \<^verbatim>\<open>..\<close>.
\<close>

fun strip_common :: "string list \<Rightarrow> string list \<Rightarrow> string list \<times> string list" where
  "strip_common (b # bs) (t # ts) = (if b = t then strip_common bs ts else (b # bs, t # ts))"
| "strip_common bs ts = (bs, ts)"

definition filepath_Rel :: "string \<Rightarrow> string \<Rightarrow> string option" where
  "filepath_Rel base target =
     (let rb = HasPrefix base ''/''; rt = HasPrefix target ''/'';
          bs = clean_components rb base; ts = clean_components rt target
      in if path_Clean base = path_Clean target then Some ''.''
         else if rb \<noteq> rt then None
         else
           (let (bs', ts') = strip_common bs (if ts = [] \<and> \<not> rt then [''.''] else ts)
            in if bs' \<noteq> [] \<and> hd bs' = ''..'' \<and> ts' \<noteq> [] then None
               else Some (join_byte CHR ''/'' (map (\<lambda>b. ''..'') bs' @ ts'))))"

definition storagePathWithin :: "string \<Rightarrow> string \<Rightarrow> bool" where
  "storagePathWithin base target =
     (case filepath_Rel base target of
        None \<Rightarrow> False
      | Some rel \<Rightarrow> \<not> HasPrefix rel ''/'' \<and> rel \<noteq> ''..'' \<and> \<not> HasPrefix rel ''../'')"

definition validStorageFileInfoPaths :: "file_info \<Rightarrow> bool" where
  "validStorageFileInfoPaths fi \<longleftrightarrow>
     validStoragePath (fi_Name fi) \<and> validStoragePath (fi_Volume fi) \<and> validStoragePath (fi_DataDir fi)"

definition isXLMetaErasureInfoValid :: "int \<Rightarrow> int \<Rightarrow> bool" where
  "isXLMetaErasureInfoValid data parity \<longleftrightarrow>
     data > 0 \<and> parity > 0 \<and> data \<ge> parity \<and> data \<le> 256 \<and> parity \<le> 256 - data"

definition validStorageErasureInfo :: "erasure_info \<Rightarrow> bool" where
  "validStorageErasureInfo e \<longleftrightarrow>
     isXLMetaErasureInfoValid (ei_DataBlocks e) (ei_ParityBlocks e) \<and>
     ei_BlockSize e > 0 \<and> ei_BlockSize e \<le> blockSizeV1"

definition validStorageFileInfoData :: "file_info \<Rightarrow> bool" where
  "validStorageFileInfoData fi =
     (if fi_Deleted fi then True
      else if fi_Size fi < 0 \<or> \<not> validStorageErasureInfo (fi_Erasure fi) \<or>
              int (length (fi_Parts fi)) > globalMaxPartID then False
      else list_all (\<lambda>part. \<not> (op_Number part \<le> 0 \<or> op_Number part > globalMaxPartID \<or> op_Size part < 0))
             (fi_Parts fi))"

datatype storage_error = FileAccessDenied | FileCorrupt

definition validateStorageFileInfo :: "file_info \<Rightarrow> bool \<Rightarrow> storage_error option" where
  "validateStorageFileInfo fi requireData =
     (if \<not> validStorageFileInfoPaths fi then Some FileAccessDenied
      else if requireData \<and> \<not> validStorageFileInfoData fi then Some FileCorrupt
      else None)"

text \<open>\<open>available\<close> says whether a bitrot algorithm is linked into the program.\<close>

definition validateStorageVerifyInfo :: "(nat \<Rightarrow> bool) \<Rightarrow> file_info \<Rightarrow> storage_error option" where
  "validateStorageVerifyInfo available fi =
     (case validateStorageFileInfo fi True of
        Some err \<Rightarrow> Some err
      | None \<Rightarrow>
          if fi_Deleted fi then Some FileCorrupt
          else if list_ex (\<lambda>part. \<not> available (ck_Algorithm (GetChecksumInfo (fi_Erasure fi) (op_Number part))))
                    (fi_Parts fi)
          then Some FileCorrupt
          else None)"

fun validateStorageVersions :: "file_info list \<Rightarrow> storage_error option" where
  "validateStorageVersions [] = None"
| "validateStorageVersions (fi # versions) =
     (case validateStorageFileInfo fi False of
        Some err \<Rightarrow> Some err
      | None \<Rightarrow> validateStorageVersions versions)"

text \<open>
  The parts of a data usage cache that carry paths: the name in \<^verbatim>\<open>Info\<close>, and for every entry its name and its
  children.
\<close>

definition validStorageScannerCache :: "string \<Rightarrow> (string \<times> string list) list \<Rightarrow> bool" where
  "validStorageScannerCache info_name cache =
     (if info_name = '''' \<or> \<not> validStoragePath info_name then False
      else list_all (\<lambda>(name, children). validStoragePath name \<and> list_all validStoragePath children) cache)"

definition FileInfo_IsValid :: "file_info \<Rightarrow> bool" where
  "FileInfo_IsValid fi =
     (if \<not> validStorageFileInfoPaths fi \<or> \<not> validStorageFileInfoData fi then False
      else if fi_Deleted fi then True
      else
        (let data = ei_DataBlocks (fi_Erasure fi);
             parity = ei_ParityBlocks (fi_Erasure fi);
             correctIndexes = (ei_Index (fi_Erasure fi) > 0 \<and> ei_Index (fi_Erasure fi) \<le> data + parity \<and>
                               int (length (ei_Distribution (fi_Erasure fi))) = data + parity)
         in data \<ge> parity \<and> data \<noteq> 0 \<and> parity \<noteq> 0 \<and> correctIndexes))"

section \<open>Parts\<close>

definition objectPartIndex :: "object_part list \<Rightarrow> int \<Rightarrow> int" where
  "objectPartIndex parts partNumber =
     (case find_index (\<lambda>part. partNumber = op_Number part) parts of Some i \<Rightarrow> int i | None \<Rightarrow> -1)"

definition AddObjectPart :: "int \<Rightarrow> string \<Rightarrow> int \<Rightarrow> int \<Rightarrow> file_info \<Rightarrow> file_info" where
  "AddObjectPart partNumber partETag partSize actualSize fi =
     (let partInfo = \<lparr>op_ETag = partETag, op_Number = partNumber, op_Size = partSize,
                      op_ActualSize = actualSize\<rparr>
      in case find_index (\<lambda>part. partNumber = op_Number part) (fi_Parts fi) of
           Some i \<Rightarrow> fi\<lparr>fi_Parts := (fi_Parts fi)[i := partInfo]\<rparr>
         | None \<Rightarrow> fi\<lparr>fi_Parts := sort_key op_Number (fi_Parts fi @ [partInfo])\<rparr>)"

fun seek_part :: "object_part list \<Rightarrow> int \<Rightarrow> int \<Rightarrow> (int \<times> int) option" where
  "seek_part [] i partOffset = None"
| "seek_part (part # parts) i partOffset =
     (if partOffset < op_Size part then Some (i, partOffset)
      else seek_part parts (i + 1) (wrap64 (partOffset - op_Size part)))"

text \<open>\<^const>\<open>None\<close> is the error \<^verbatim>\<open>InvalidRange\<close>.\<close>

definition ObjectToPartOffset :: "file_info \<Rightarrow> int \<Rightarrow> (int \<times> int) option" where
  "ObjectToPartOffset fi offset =
     (if offset = 0 then Some (0, 0) else seek_part (fi_Parts fi) 0 offset)"

fun restore_parts_size :: "object_part list \<Rightarrow> int \<Rightarrow> int \<Rightarrow> int option" where
  "restore_parts_size [] len previous = Some len"
| "restore_parts_size (part # parts) len previous =
     (if op_Number part \<le> previous \<or> op_Number part > globalMaxPartID \<or> op_Size part < 0 \<or>
         op_ActualSize part < 0 \<or> op_Size part > max_int64 - len
      then None
      else restore_parts_size parts (len + op_Size part) (op_Number part))"

definition validTransitionRestoreParts :: "object_part list \<Rightarrow> int \<Rightarrow> bool" where
  "validTransitionRestoreParts parts expectedSize =
     (if length parts = 0 \<or> int (length parts) > globalMaxPartID then False
      else (case restore_parts_size parts 0 0 of
              None \<Rightarrow> False
            | Some len \<Rightarrow> expectedSize < 0 \<or> len = expectedSize))"

section \<open>Restored copies\<close>

datatype restore_error = RestoreHDRMissing | RestoreHDRMalformed | RestoreTime

text \<open>\<open>parse_time\<close> is \<^verbatim>\<open>time.Parse\<close> with the layout of HTTP dates.\<close>

definition parseRestoreHeaderFromMeta ::
  "(string \<Rightarrow> int option) \<Rightarrow> (string \<rightharpoonup> string) \<Rightarrow> restore_error + bool \<times> int" where
  "parseRestoreHeaderFromMeta parse_time meta =
     (case meta ''x-amz-restore'' of
        None \<Rightarrow> Inl RestoreHDRMissing
      | Some restoreHdr \<Rightarrow>
          (case SplitN2 restoreHdr CHR '','' of
             [r0, r1] \<Rightarrow>
               (case (SplitN2 r0 CHR ''='', SplitN2 r1 CHR ''='') of
                  ([_, status], [_, expiry]) \<Rightarrow>
                    (case parse_time expiry of
                       None \<Rightarrow> Inl RestoreTime
                     | Some t \<Rightarrow> Inr (status = ''true'', t))
                | _ \<Rightarrow> Inl RestoreHDRMalformed)
           | r \<Rightarrow>
               if length r = 1 \<and> TrimSpace (r ! 0) = ''ongoing-request=true'' then Inr (True, zero_time)
               else Inl RestoreHDRMalformed))"

definition TransitionComplete :: string where
  "TransitionComplete = ''complete''"

definition transitionHasLocalData :: "(string \<Rightarrow> int option) \<Rightarrow> int \<Rightarrow> file_info \<Rightarrow> bool" where
  "transitionHasLocalData parse_time now fi =
     (if fi_TransitionStatus fi \<noteq> TransitionComplete then True
      else
        (case parseRestoreHeaderFromMeta parse_time (fi_Metadata fi) of
           Inl err \<Rightarrow> False
         | Inr (ongoing, expiry) \<Rightarrow> \<not> ongoing \<and> expiry \<noteq> zero_time \<and> now < expiry))"

end
