(* ===== verification/File_Info_Facts.thy ===== *)
theory File_Info_Facts
  imports File_Info
begin

text \<open>
  What the checks of the metadata guarantee: a valid path cannot leave the directory of its drive, the
  parts of an object are a sorted map, and an offset of the object is found in its parts.
\<close>

section \<open>Paths stay below the drive\<close>

lemma split_byte_append_sep: "split_byte c (a @ c # b) = split_byte c a @ split_byte c b"
proof (induction a)
  case Nil
  then show ?case by simp
next
  case (Cons x a)
  then show ?case using split_byte_ne [of c a] by (auto split: list.splits)
qed

lemma clean_step_rooted:
  "list_all clean_name stack \<Longrightarrow> CHR ''/'' \<notin> set c \<Longrightarrow> list_all clean_name (clean_step True stack c)"
  by (auto simp: clean_step_def clean_name_def split: list.splits)

lemma foldl_clean_step_rooted:
  "list_all clean_name stack \<Longrightarrow> \<forall>c \<in> set cs. CHR ''/'' \<notin> set c \<Longrightarrow>
     list_all clean_name (foldl (clean_step True) stack cs)"
  by (induction cs arbitrary: stack) (simp_all add: clean_step_rooted)

lemma clean_components_rooted: "list_all clean_name (clean_components True p)"
  unfolding clean_components_def list_all_rev
  by (rule foldl_clean_step_rooted) (auto dest: split_byte_no_sep)

text \<open>The elements of a valid path that cleaning keeps.\<close>

definition path_parts :: "string \<Rightarrow> string list" where
  "path_parts name = filter (\<lambda>c. c \<noteq> '''') (split_byte CHR ''/'' name)"

lemma foldl_clean_step_valid:
  "list_all valid_path_part cs \<Longrightarrow>
     foldl (clean_step rooted) stack cs = rev (filter (\<lambda>c. c \<noteq> '''') cs) @ stack"
  by (induction cs arbitrary: stack) (auto simp: clean_step_def valid_path_part_def)

lemma validStoragePath_parts: "validStoragePath name \<Longrightarrow> list_all valid_path_part (split_byte CHR ''/'' name)"
  by (simp add: validStoragePath_def split: if_splits)

lemma clean_components_append:
  "validStoragePath name \<Longrightarrow>
     clean_components rooted (base @ CHR ''/'' # name) = clean_components rooted base @ path_parts name"
  by (simp add: clean_components_def split_byte_append_sep path_parts_def foldl_clean_step_valid
      validStoragePath_parts)

lemma clean_components_join:
  assumes "list_all clean_name cs"
  shows "clean_components True (CHR ''/'' # join_byte CHR ''/'' cs) = cs"
proof (cases "cs = []")
  case True
  then show ?thesis by (simp add: clean_components_def clean_step_def)
next
  case False
  have "\<forall>c \<in> set cs. CHR ''/'' \<notin> set c" using assms by (auto simp: list_all_iff clean_name_def)
  with False have "split_byte CHR ''/'' (join_byte CHR ''/'' cs) = cs" by (rule split_join_byte)
  then show ?thesis
    using assms by (simp add: clean_components_def clean_step_def foldl_clean_step_names)
qed

lemma clean_components_Clean:
  "HasPrefix p ''/'' \<Longrightarrow> clean_components True (path_Clean p) = clean_components True p"
  by (simp add: path_Clean_def Let_def clean_components_join clean_components_rooted)

lemma path_Clean_rooted: "HasPrefix p ''/'' \<Longrightarrow> HasPrefix (path_Clean p) ''/''"
  by (simp add: path_Clean_def Let_def)

lemma strip_common_append: "strip_common bs (bs @ ts) = ([], ts)"
  by (induction bs) simp_all

lemma strip_common_spec:
  "strip_common bs ts = (bs', ts') \<Longrightarrow> \<exists>cs. bs = cs @ bs' \<and> ts = cs @ ts'"
proof (induction bs ts arbitrary: bs' ts' rule: strip_common.induct)
  case (1 b bs t ts)
  show ?case
  proof (cases "b = t")
    case True
    with 1 obtain cs where "bs = cs @ bs' \<and> ts = cs @ ts'" by fastforce
    with True have "b # bs = (b # cs) @ bs' \<and> t # ts = (b # cs) @ ts'" by simp
    then show ?thesis by blast
  next
    case False
    with 1(2) have "b # bs = [] @ bs' \<and> t # ts = [] @ ts'" by simp
    then show ?thesis by blast
  qed
qed (rule exI [of _ "[]"], simp)+

lemma path_Clean_eq_rooted:
  assumes "HasPrefix p ''/''" "HasPrefix q ''/''"
  shows "path_Clean p = path_Clean q \<longleftrightarrow> clean_components True p = clean_components True q"
proof
  assume "path_Clean p = path_Clean q"
  then show "clean_components True p = clean_components True q"
    using clean_components_Clean assms by metis
next
  assume "clean_components True p = clean_components True q"
  then show "path_Clean p = path_Clean q" using assms by (simp add: path_Clean_def Let_def)
qed

text \<open>The fence is the prefix order on the elements of the two paths.\<close>

lemma storagePathWithin_rooted:
  assumes "HasPrefix base ''/''" "HasPrefix target ''/''"
  shows "storagePathWithin base target \<longleftrightarrow>
    prefix (clean_components True base) (clean_components True target)"
proof -
  define bs where "bs = clean_components True base"
  define ts where "ts = clean_components True target"
  have bn: "list_all clean_name bs" and tn: "list_all clean_name ts"
    by (simp_all add: bs_def ts_def clean_components_rooted)
  obtain bs' ts' where s: "strip_common bs ts = (bs', ts')" by (cases "strip_common bs ts")
  then obtain cs where c: "bs = cs @ bs'" "ts = cs @ ts'" using strip_common_spec by blast
  have h: "bs' = [] \<or> hd bs' \<noteq> ''..''"
    using bn c by (cases bs') (auto simp: clean_name_def)
  have rel: "filepath_Rel base target =
      (if bs = ts then Some ''.'' else Some (join_byte CHR ''/'' (map (\<lambda>b. ''..'') bs' @ ts')))"
    using assms s h path_Clean_eq_rooted [OF assms]
    by (auto simp: filepath_Rel_def Let_def bs_def ts_def)
  show ?thesis
  proof (cases "bs' = []")
    case True
    with c have p: "prefix bs ts" by simp
    have "storagePathWithin base target"
    proof (cases ts')
      case Nil
      with c True have "bs = ts" by simp
      then show ?thesis by (simp add: storagePathWithin_def rel)
    next
      case (Cons t us)
      then have t: "clean_name t" using tn c by simp
      have "bs \<noteq> ts" using c True Cons by simp
      moreover have "\<not> HasPrefix (join_byte CHR ''/'' (t # us)) ''/''"
        "join_byte CHR ''/'' (t # us) \<noteq> ''..''" "\<not> HasPrefix (join_byte CHR ''/'' (t # us)) ''../''"
        using t by (cases us; auto simp: clean_name_def prefix_def append_eq_Cons_conv Cons_eq_append_conv)+
      ultimately show ?thesis using True Cons by (simp add: storagePathWithin_def rel)
    qed
    with p show ?thesis by (simp add: bs_def ts_def)
  next
    case False
    then obtain b bs2 where b: "bs' = b # bs2" by (cases bs') auto
    have np: "\<not> prefix bs ts"
    proof
      assume "prefix bs ts"
      then obtain us where "ts = bs @ us" by (auto simp: prefix_def)
      then have "strip_common bs ts = ([], us)" by (simp add: strip_common_append)
      with s b show False by simp
    qed
    then have "bs \<noteq> ts" by auto
    then have "\<not> storagePathWithin base target"
      by (cases "map (\<lambda>b. ''..'') bs2 @ ts'") (auto simp: storagePathWithin_def rel b)
    with np show ?thesis by (simp add: bs_def ts_def)
  qed
qed

text \<open>
  C7: No request can leave the directory of a drive. For the root directory of a drive, and a volume and a
  name that \<^verbatim>\<open>validStoragePath\<close> accepts, the joined path has the elements of the root, then those of the
  volume, then those of the name, in this order and with none taken away, and \<^verbatim>\<open>storagePathWithin\<close> accepts
  it; for two absolute paths \<^verbatim>\<open>storagePathWithin\<close> is the prefix order on their elements.
\<close>
theorem storage_path_contained:
  assumes "HasPrefix disk ''/''" "validStoragePath volume" "validStoragePath name" "volume \<noteq> ''''" "name \<noteq> ''''"
  shows "clean_components True (path_Join [disk, volume, name]) =
      clean_components True disk @ path_parts volume @ path_parts name \<and>
    storagePathWithin disk (path_Join [disk, volume, name]) \<and>
    storagePathWithin (path_Join [disk, volume]) (path_Join [disk, volume, name]) \<and>
    (\<forall>target. HasPrefix target ''/'' \<longrightarrow> storagePathWithin disk target =
       prefix (clean_components True disk) (clean_components True target))"
proof -
  have ne: "disk \<noteq> ''''" using assms(1) by auto
  define p where "p = disk @ CHR ''/'' # volume"
  define q where "q = p @ CHR ''/'' # name"
  have r: "HasPrefix p ''/''" "HasPrefix q ''/''"
    using assms(1) by (auto simp: p_def q_def prefix_def)
  have j: "path_Join [disk, volume] = path_Clean p" "path_Join [disk, volume, name] = path_Clean q"
    using assms(4,5) ne by (simp_all add: path_Join_def p_def q_def)
  have cp: "clean_components True p = clean_components True disk @ path_parts volume"
    unfolding p_def by (rule clean_components_append [OF assms(2)])
  have cq: "clean_components True q = clean_components True p @ path_parts name"
    unfolding q_def by (rule clean_components_append [OF assms(3)])
  have c: "clean_components True (path_Clean p) = clean_components True disk @ path_parts volume"
    "clean_components True (path_Clean q) = clean_components True disk @ path_parts volume @ path_parts name"
    using cp cq by (simp_all add: clean_components_Clean r)
  show ?thesis
    unfolding j
    using c storagePathWithin_rooted assms(1) path_Clean_rooted [OF r(1)] path_Clean_rooted [OF r(2)]
    by simp
qed

theorem storage_path_contained_witness:
  "clean_components True (path_Join [''/mnt/disk1'', ''photos'', ''2021//a.jpg'']) =
     [''mnt'', ''disk1'', ''photos'', ''2021'', ''a.jpg''] \<and>
   storagePathWithin ''/mnt/disk1'' (path_Join [''/mnt/disk1'', ''photos'', ''2021//a.jpg'']) \<and>
   \<not> storagePathWithin ''/mnt/disk1'' ''/mnt/disk10'' \<and> \<not> validStoragePath ''a/../../b''"
proof -
  have v: "HasPrefix ''/mnt/disk1'' ''/''" "validStoragePath ''photos''" "validStoragePath ''2021//a.jpg''"
    "\<not> validStoragePath ''a/../../b''" by code_simp+
  have d: "clean_components True ''/mnt/disk1'' = [''mnt'', ''disk1'']"
    "clean_components True ''/mnt/disk10'' = [''mnt'', ''disk10'']"
    "path_parts ''photos'' = [''photos'']" "path_parts ''2021//a.jpg'' = [''2021'', ''a.jpg'']"
    by code_simp+
  show ?thesis
    using storage_path_contained [OF v(1-3)] v(4) d by simp
qed

section \<open>The parts of an object\<close>

text \<open>The parts as a map from part numbers, and the order that \<^verbatim>\<open>AddObjectPart\<close> keeps them in.\<close>

definition part_map :: "object_part list \<Rightarrow> int \<rightharpoonup> object_part" where
  "part_map parts n = find (\<lambda>part. op_Number part = n) parts"

definition parts_sorted :: "object_part list \<Rightarrow> bool" where
  "parts_sorted parts \<longleftrightarrow> sorted_wrt (<) (map op_Number parts)"

lemma parts_sorted_iff:
  "parts_sorted parts \<longleftrightarrow> sorted (map op_Number parts) \<and> distinct (map op_Number parts)"
  by (simp add: parts_sorted_def strict_sorted_iff)

lemma part_map_Some_iff:
  "distinct (map op_Number parts) \<Longrightarrow> part_map parts n = Some p \<longleftrightarrow> p \<in> set parts \<and> op_Number p = n"
  by (induction parts) (auto simp: part_map_def)

lemma part_map_None_iff: "part_map parts n = None \<longleftrightarrow> n \<notin> op_Number ` set parts"
  by (auto simp: part_map_def find_None_iff)

lemma part_map_cong:
  assumes "set ps = set qs" "distinct (map op_Number ps)" "distinct (map op_Number qs)"
  shows "part_map ps = part_map qs"
proof
  fix n
  have "part_map ps n = Some p \<longleftrightarrow> part_map qs n = Some p" for p
    using assms by (simp add: part_map_Some_iff)
  then show "part_map ps n = part_map qs n" by (metis option.exhaust)
qed

lemma part_map_append_new:
  "op_Number p \<notin> op_Number ` set parts \<Longrightarrow> part_map (parts @ [p]) = (part_map parts)(op_Number p \<mapsto> p)"
  by (induction parts) (auto simp: part_map_def fun_eq_iff)

lemma part_map_update:
  "i < length parts \<Longrightarrow> op_Number p = op_Number (parts ! i) \<Longrightarrow> distinct (map op_Number parts) \<Longrightarrow>
     part_map (parts[i := p]) = (part_map parts)(op_Number p \<mapsto> p)"
proof (induction parts arbitrary: i)
  case Nil
  then show ?case by simp
next
  case (Cons q parts)
  show ?case
  proof (cases i)
    case 0
    then show ?thesis using Cons.prems by (auto simp: part_map_def fun_eq_iff)
  next
    case (Suc j)
    with Cons.prems have "op_Number q \<noteq> op_Number p" by (auto simp: image_iff)
    with Suc Cons show ?thesis by (auto simp: part_map_def fun_eq_iff)
  qed
qed

lemma map_op_Number_update:
  "i < length parts \<Longrightarrow> op_Number p = op_Number (parts ! i) \<Longrightarrow>
     map op_Number (parts[i := p]) = map op_Number parts"
  by (metis length_map list_update_id map_update nth_map)

text \<open>
  C23: Parts are a sorted map. With the parts in strictly increasing order of their numbers,
  \<^verbatim>\<open>AddObjectPart\<close> keeps this order, makes the one update of the map from part numbers to parts and changes
  nothing else of the version, and \<^verbatim>\<open>objectPartIndex\<close> is the position of a part in it, or minus one.
\<close>
theorem AddObjectPart_refines_map:
  assumes "parts_sorted (fi_Parts fi)"
  shows "parts_sorted (fi_Parts (AddObjectPart n etag len actual fi)) \<and>
    part_map (fi_Parts (AddObjectPart n etag len actual fi)) =
      (part_map (fi_Parts fi))(n \<mapsto> \<lparr>op_ETag = etag, op_Number = n, op_Size = len, op_ActualSize = actual\<rparr>) \<and>
    (AddObjectPart n etag len actual fi)\<lparr>fi_Parts := fi_Parts fi\<rparr> = fi \<and>
    part_map (fi_Parts fi) k =
      (if objectPartIndex (fi_Parts fi) k = -1 then None
       else Some (fi_Parts fi ! nat (objectPartIndex (fi_Parts fi) k)))"
proof -
  define p where "p = \<lparr>op_ETag = etag, op_Number = n, op_Size = len, op_ActualSize = actual\<rparr>"
  define parts where "parts = fi_Parts fi"
  have n: "op_Number p = n" by (simp add: p_def)
  have d: "distinct (map op_Number parts)" using assms by (simp add: parts_sorted_iff parts_def)
  have idx: "part_map parts k = (if objectPartIndex parts k = -1 then None
       else Some (parts ! nat (objectPartIndex parts k)))"
  proof (cases "find_index (\<lambda>part. k = op_Number part) parts")
    case None
    then have "objectPartIndex parts k = -1" by (simp add: objectPartIndex_def)
    moreover have "part_map parts k = None"
      using None by (auto simp: part_map_None_iff find_index_None_iff)
    ultimately show ?thesis by simp
  next
    case (Some i)
    then show ?thesis using find_index_SomeD [OF Some] d
      by (auto simp: objectPartIndex_def part_map_Some_iff)
  qed
  have "parts_sorted (fi_Parts (AddObjectPart n etag len actual fi)) \<and>
    part_map (fi_Parts (AddObjectPart n etag len actual fi)) = (part_map parts)(n \<mapsto> p) \<and>
    (AddObjectPart n etag len actual fi)\<lparr>fi_Parts := fi_Parts fi\<rparr> = fi"
  proof (cases "find_index (\<lambda>part. n = op_Number part) parts")
    case (Some i)
    then have i: "i < length parts" "op_Number p = op_Number (parts ! i)"
      using find_index_SomeD [OF Some] n by auto
    have eq: "AddObjectPart n etag len actual fi = fi\<lparr>fi_Parts := parts[i := p]\<rparr>"
      using Some by (simp add: AddObjectPart_def parts_def p_def)
    show ?thesis
      unfolding eq using assms part_map_update [OF i d] map_op_Number_update [OF i] n
      by (simp add: parts_sorted_def parts_def)
  next
    case None
    then have new: "n \<notin> op_Number ` set parts" by (auto simp: find_index_None_iff)
    define qs where "qs = sort_key op_Number (parts @ [p])"
    have dn: "distinct (map op_Number (parts @ [p]))" using d new n by auto
    then have dq: "distinct (map op_Number qs)" by (auto simp: distinct_map qs_def)
    have "part_map qs = part_map (parts @ [p])" by (rule part_map_cong) (use dq dn in \<open>simp_all add: qs_def\<close>)
    moreover have "parts_sorted qs" using dq by (simp add: parts_sorted_iff qs_def)
    moreover have "AddObjectPart n etag len actual fi = fi\<lparr>fi_Parts := qs\<rparr>"
      using None by (simp add: AddObjectPart_def parts_def p_def qs_def)
    ultimately show ?thesis using new n part_map_append_new [of p parts] by simp
  qed
  with idx show ?thesis by (simp add: parts_def p_def)
qed

theorem AddObjectPart_refines_map_witness:
  "fi_Parts (AddObjectPart 1 ''e'' 5 5 (AddObjectPart 3 ''f'' 7 7 zero_file_info)) =
     [\<lparr>op_ETag = ''e'', op_Number = 1, op_Size = 5, op_ActualSize = 5\<rparr>,
      \<lparr>op_ETag = ''f'', op_Number = 3, op_Size = 7, op_ActualSize = 7\<rparr>] \<and>
   part_map (fi_Parts (AddObjectPart 1 ''e'' 5 5 (AddObjectPart 3 ''f'' 7 7 zero_file_info))) 1 =
     Some \<lparr>op_ETag = ''e'', op_Number = 1, op_Size = 5, op_ActualSize = 5\<rparr>"
proof -
  have a: "fi_Parts (AddObjectPart 3 ''f'' 7 7 zero_file_info) =
      [\<lparr>op_ETag = ''f'', op_Number = 3, op_Size = 7, op_ActualSize = 7\<rparr>]"
    by (simp add: AddObjectPart_def zero_file_info_def)
  then have s: "parts_sorted (fi_Parts (AddObjectPart 3 ''f'' 7 7 zero_file_info))"
    by (simp add: parts_sorted_def)
  have b: "fi_Parts (AddObjectPart 1 ''e'' 5 5 (AddObjectPart 3 ''f'' 7 7 zero_file_info)) =
     [\<lparr>op_ETag = ''e'', op_Number = 1, op_Size = 5, op_ActualSize = 5\<rparr>,
      \<lparr>op_ETag = ''f'', op_Number = 3, op_Size = 7, op_ActualSize = 7\<rparr>]"
    unfolding AddObjectPart_def [of 1] a Let_def by simp
  from AddObjectPart_refines_map [OF s, of 1 "''e''" 5 5 1] b show ?thesis by simp
qed

lemma seek_part_spec:
  assumes "\<forall>part \<in> set parts. 0 \<le> op_Size part" "0 \<le> off" "in_int64 off"
  shows "(off < sum_list (map op_Size parts) \<longrightarrow>
      (\<exists>j r. seek_part parts i off = Some (i + int j, r) \<and> j < length parts \<and> 0 \<le> r \<and>
         r < op_Size (parts ! j) \<and> sum_list (map op_Size (take j parts)) + r = off)) \<and>
    (sum_list (map op_Size parts) \<le> off \<longrightarrow> seek_part parts i off = None)"
  using assms
proof (induction parts arbitrary: i off)
  case Nil
  then show ?case by simp
next
  case (Cons p parts)
  show ?case
  proof (cases "off < op_Size p")
    case True
    have "0 \<le> sum_list (map op_Size parts)" using Cons.prems(1) by (intro sum_list_nonneg) auto
    with True Cons.prems show ?thesis by (auto intro!: exI [of _ "0::nat"])
  next
    case False
    define off' where "off' = off - op_Size p"
    have b: "0 \<le> off'" "off' \<le> off" using False Cons.prems(1) by (simp_all add: off'_def)
    then have i64: "in_int64 off'" using Cons.prems(3) in_int64_between by blast
    have step: "seek_part (p # parts) i off = seek_part parts (i + 1) off'"
      using False i64 by (simp add: off'_def wrap64_id)
    note IH = Cons.IH [of off' "i + 1", OF _ b(1) i64]
    have ps: "\<forall>part \<in> set parts. 0 \<le> op_Size part" using Cons.prems(1) by simp
    show ?thesis
    proof (intro conjI impI)
      assume "off < sum_list (map op_Size (p # parts))"
      then have "off' < sum_list (map op_Size parts)" by (simp add: off'_def)
      with IH [OF ps] obtain j r where h: "seek_part parts (i + 1) off' = Some (i + 1 + int j, r)"
        "j < length parts" "0 \<le> r" "r < op_Size (parts ! j)"
        "sum_list (map op_Size (take j parts)) + r = off'" by blast
      show "\<exists>j r. seek_part (p # parts) i off = Some (i + int j, r) \<and> j < length (p # parts) \<and>
          0 \<le> r \<and> r < op_Size ((p # parts) ! j) \<and> sum_list (map op_Size (take j (p # parts))) + r = off"
        by (rule exI [of _ "Suc j"], rule exI [of _ r]) (use h step in \<open>simp add: off'_def\<close>)
    next
      assume "sum_list (map op_Size (p # parts)) \<le> off"
      then show "seek_part (p # parts) i off = None" using IH [OF ps] step by (simp add: off'_def)
    qed
  qed
qed

text \<open>
  Offsets of an object and of its parts. For parts of sizes that are not negative,
  \<^verbatim>\<open>ObjectToPartOffset\<close> of an offset inside the object is the index of a part and an offset inside this part,
  and the parts before it and this offset add up to the given one; an offset behind the end is the error
  \<^verbatim>\<open>InvalidRange\<close>, and offset zero is the start of the first part whatever the sizes are.
\<close>
theorem ObjectToPartOffset_locates:
  assumes "list_all (\<lambda>part. 0 \<le> op_Size part) (fi_Parts fi)" "0 < offset" "in_int64 offset"
  shows "(case ObjectToPartOffset fi offset of
       Some (i, r) \<Rightarrow> 0 \<le> i \<and> i < int (length (fi_Parts fi)) \<and> 0 \<le> r \<and> r < op_Size (fi_Parts fi ! nat i) \<and>
         sum_list (map op_Size (take (nat i) (fi_Parts fi))) + r = offset
     | None \<Rightarrow> sum_list (map op_Size (fi_Parts fi)) \<le> offset) \<and>
    (ObjectToPartOffset fi offset = None) = (sum_list (map op_Size (fi_Parts fi)) \<le> offset) \<and>
    ObjectToPartOffset fi 0 = Some (0, 0)"
proof -
  have a: "\<forall>part \<in> set (fi_Parts fi). 0 \<le> op_Size part" using assms(1) by (simp add: list_all_iff)
  have "0 \<le> offset" using assms(2) by simp
  from seek_part_spec [OF a this assms(3), of 0] show ?thesis
    using assms(2)
    by (cases "offset < sum_list (map op_Size (fi_Parts fi))") (auto simp: ObjectToPartOffset_def)
qed

theorem ObjectToPartOffset_locates_witness:
  "ObjectToPartOffset (AddObjectPart 2 ''f'' 7 7 (AddObjectPart 1 ''e'' 5 5 zero_file_info)) 8 = Some (1, 3) \<and>
   ObjectToPartOffset (AddObjectPart 2 ''f'' 7 7 (AddObjectPart 1 ''e'' 5 5 zero_file_info)) 12 = None"
proof -
  define fi where "fi = AddObjectPart 2 ''f'' 7 7 (AddObjectPart 1 ''e'' 5 5 zero_file_info)"
  have p: "fi_Parts fi = [\<lparr>op_ETag = ''e'', op_Number = 1, op_Size = 5, op_ActualSize = 5\<rparr>,
      \<lparr>op_ETag = ''f'', op_Number = 2, op_Size = 7, op_ActualSize = 7\<rparr>]"
    by (simp add: fi_def AddObjectPart_def zero_file_info_def)
  then have a: "list_all (\<lambda>part. 0 \<le> op_Size part) (fi_Parts fi)" by simp
  have i: "in_int64 8" "in_int64 12" by (simp_all add: in_int64_def min_int64_def max_int64_def)
  have "ObjectToPartOffset fi 12 = None" using ObjectToPartOffset_locates [OF a _ i(2)] p by simp
  moreover have "ObjectToPartOffset fi 8 = Some (1, 3)"
    using p by (simp add: ObjectToPartOffset_def wrap64_id in_int64_def min_int64_def max_int64_def)
  ultimately show ?thesis by (simp add: fi_def)
qed

end
