(* ===== verification/Go_Hash.thy ===== *)
theory Go_Hash
  imports Go_Strings
begin

unbundle bit_operations_syntax

text \<open>
  The functions of the Go library that the metadata code hashes and encodes with: \<^verbatim>\<open>hash/crc32\<close> with the IEEE
  polynomial, \<^verbatim>\<open>crypto/sha256\<close>, \<^verbatim>\<open>encoding/hex\<close> and \<^verbatim>\<open>encoding/json\<close> on a map of strings.
\<close>

section \<open>CRC-32\<close>

definition crc32_bit :: "32 word \<Rightarrow> 32 word" where
  "crc32_bit crc = (if bit crc 0 then drop_bit 1 crc XOR 0xEDB88320 else drop_bit 1 crc)"

definition crc32_byte :: "32 word \<Rightarrow> char \<Rightarrow> 32 word" where
  "crc32_byte crc c = (crc32_bit ^^ 8) (crc XOR word_of_nat (byte c))"

definition crc32_Checksum :: "string \<Rightarrow> 32 word" where
  "crc32_Checksum s = NOT (foldl crc32_byte (NOT 0) s)"

section \<open>SHA-256\<close>

text \<open>
  The constants are the first 32 bits of the fractional parts of the square roots of the first eight primes
  and of the cube roots of the first 64 primes. \<open>int_root k n b\<close> is the largest number below \<open>2 ^ b\<close> whose
  power \<open>k\<close> is at most \<open>n\<close>, found from the highest bit down.
\<close>

definition root_bit :: "nat \<Rightarrow> nat \<Rightarrow> nat \<Rightarrow> nat \<Rightarrow> nat" where
  "root_bit k n r i = (if (r + 2 ^ i) ^ k \<le> n then r + 2 ^ i else r)"

definition int_root :: "nat \<Rightarrow> nat \<Rightarrow> nat \<Rightarrow> nat" where
  "int_root k n b = foldl (root_bit k n) 0 (rev [0..<b])"

definition small_primes :: "nat \<Rightarrow> nat list" where
  "small_primes m = filter (\<lambda>n. list_all (\<lambda>q. n mod q \<noteq> 0) [2..<n]) [2..<m]"

definition sha256_K :: "32 word list" where
  "sha256_K = map (\<lambda>q. word_of_nat (int_root 3 (q * 2 ^ 96) 36)) (small_primes 312)"

definition sha256_init :: "32 word list" where
  "sha256_init = map (\<lambda>q. word_of_nat (int_root 2 (q * 2 ^ 64) 36)) (take 8 (small_primes 20))"

definition ror32 :: "nat \<Rightarrow> 32 word \<Rightarrow> 32 word" where
  "ror32 n w = drop_bit n w OR push_bit (32 - n) w"

text \<open>A one bit, zero bits up to the last eight bytes of a block, and the length in bits.\<close>

definition sha256_pad :: "string \<Rightarrow> string" where
  "sha256_pad s =
     s @ CHR 0x80 # replicate ((119 - length s mod 64) mod 64) CHR 0x00 @
     map (\<lambda>i. char_of (8 * length s div 256 ^ i)) (rev [0..<8])"

fun be_words :: "string \<Rightarrow> 32 word list" where
  "be_words (a # b # c # d # s) =
     word_of_nat (((byte a * 256 + byte b) * 256 + byte c) * 256 + byte d) # be_words s"
| "be_words _ = []"

text \<open>One word of the message schedule, from the last sixteen, the most recent first.\<close>

definition sha256_extend :: "32 word list \<Rightarrow> 32 word list" where
  "sha256_extend ws =
     (let a = ws ! 14; b = ws ! 1;
          s0 = ror32 7 a XOR ror32 18 a XOR drop_bit 3 a;
          s1 = ror32 17 b XOR ror32 19 b XOR drop_bit 10 b
      in (ws ! 15 + s0 + ws ! 6 + s1) # ws)"

definition sha256_schedule :: "32 word list \<Rightarrow> 32 word list" where
  "sha256_schedule block = rev ((sha256_extend ^^ 48) (rev block))"

definition sha256_round :: "32 word list \<Rightarrow> 32 word \<times> 32 word \<Rightarrow> 32 word list" where
  "sha256_round st kw =
     (case st of
        [a, b, c, d, e, f, g, h] \<Rightarrow>
          (let s1 = ror32 6 e XOR ror32 11 e XOR ror32 25 e;
               ch = (e AND f) XOR (NOT e AND g);
               t1 = h + s1 + ch + fst kw + snd kw;
               s0 = ror32 2 a XOR ror32 13 a XOR ror32 22 a;
               maj = (a AND b) XOR (a AND c) XOR (b AND c)
           in [t1 + s0 + maj, a, b, c, d + t1, e, f, g])
      | _ \<Rightarrow> st)"

definition sha256_block :: "32 word list \<Rightarrow> 32 word list \<Rightarrow> 32 word list" where
  "sha256_block st block =
     map (\<lambda>(x, y). x + y) (zip st (foldl sha256_round st (zip sha256_K (sha256_schedule block))))"

fun chunks16 :: "nat \<Rightarrow> 'a list \<Rightarrow> 'a list list" where
  "chunks16 0 xs = []"
| "chunks16 (Suc n) xs = take 16 xs # chunks16 n (drop 16 xs)"

definition sha256_words :: "string \<Rightarrow> 32 word list" where
  "sha256_words s =
     (let ws = be_words (sha256_pad s)
      in foldl sha256_block sha256_init (chunks16 (length ws div 16) ws))"

definition hex_digit :: "nat \<Rightarrow> char" where
  "hex_digit d = (if d < 10 then char_of (48 + d) else char_of (87 + d))"

text \<open>The hexadecimal digits of the sum, eight for every word.\<close>

definition hex_word :: "32 word \<Rightarrow> string" where
  "hex_word w = map (\<lambda>i. hex_digit (unat w div 16 ^ i mod 16)) (rev [0..<8])"

definition sha256_hex :: "string \<Rightarrow> string" where
  "sha256_hex s = concat (map hex_word (sha256_words s))"

lemma length_sha256_round: "length (sha256_round st kw) = length st"
  by (auto simp: sha256_round_def Let_def split: list.splits)

lemma length_sha256_rounds: "length (foldl sha256_round st kws) = length st"
  by (induction kws arbitrary: st) (simp_all add: length_sha256_round)

lemma length_sha256_blocks: "length (foldl sha256_block st bs) = length st"
  by (induction bs arbitrary: st) (simp_all add: sha256_block_def length_sha256_rounds)

lemma length_sha256_words: "length (sha256_words s) = 8"
proof -
  have "length (small_primes 20) = 8" by code_simp
  then show ?thesis by (simp add: sha256_words_def Let_def length_sha256_blocks sha256_init_def)
qed

lemma length_hex_words: "length (concat (map hex_word ws)) = 8 * length ws"
  by (induction ws) (simp_all add: hex_word_def)

lemma length_sha256_hex: "length (sha256_hex s) = 64"
  by (simp add: sha256_hex_def length_hex_words length_sha256_words)

lemma sha256_hex_ne [simp]: "sha256_hex s \<noteq> ''''"
  using length_sha256_hex [of s] by auto

section \<open>JSON\<close>

text \<open>A string as \<^verbatim>\<open>json.Marshal\<close> writes it, with the characters of HTML escaped.\<close>

definition json_escape :: "nat \<Rightarrow> string" where
  "json_escape r = CHR 0x5C # ''u'' @ map (\<lambda>i. hex_digit (r div 16 ^ i mod 16)) (rev [0..<4])"

definition json_ascii :: "nat \<Rightarrow> string" where
  "json_ascii b =
     (if b = 0x22 \<or> b = 0x5C then [CHR 0x5C, char_of b]
      else if b = 8 then [CHR 0x5C, CHR ''b'']
      else if b = 12 then [CHR 0x5C, CHR ''f'']
      else if b = 10 then [CHR 0x5C, CHR ''n'']
      else if b = 13 then [CHR 0x5C, CHR ''r'']
      else if b = 9 then [CHR 0x5C, CHR ''t'']
      else if b < 0x20 \<or> b = 0x3C \<or> b = 0x3E \<or> b = 0x26 then json_escape b
      else [char_of b])"

fun json_chars :: "nat list \<Rightarrow> string" where
  "json_chars [] = ''''"
| "json_chars (b # bs) =
     (if b < 0x80 then json_ascii b @ json_chars bs
      else
        (let (r, w) = utf8_head (b # bs) in
         (if w = 1 then json_escape rune_error
          else if r = 0x2028 \<or> r = 0x2029 then json_escape r
          else map char_of (take w (b # bs))) @ json_chars (drop (w - 1) bs)))"

definition json_string :: "string \<Rightarrow> string" where
  "json_string s = CHR 0x22 # json_chars (map byte s) @ [CHR 0x22]"

definition json_entry :: "(string \<rightharpoonup> string) \<Rightarrow> string \<Rightarrow> string" where
  "json_entry m k = json_string k @ '':'' @ json_string (case m k of None \<Rightarrow> '''' | Some v \<Rightarrow> v)"

text \<open>
  \<^verbatim>\<open>json.Marshal\<close> of a map of strings that is not nil, its keys sorted; it does not fail.
\<close>

definition json_Marshal_map :: "(string \<rightharpoonup> string) \<Rightarrow> string" where
  "json_Marshal_map m =
     ''{'' @ join_byte CHR '','' (map (json_entry m) (sorted_list_of_set (dom m))) @ ''}''"

end
