(* ===== verification/Storage_Class.thy ===== *)
theory Storage_Class
  imports Go_Ints Go_Path
begin

text \<open>
  The parity configuration of \<^verbatim>\<open>cmd/config/storageclass/storage-class.go\<close>: parsing and printing of a storage
  class, the checks on the parities, the lookup of the configuration and the parity of a request. The lock
  around the configuration is left out: every function reads or replaces the whole of it.
\<close>

section \<open>Storage classes\<close>

record storage_class_config =
  Standard :: int
  RRS :: int
  DMA :: string

datatype sc_error =
  TooManySections | TooFewSections | UnsupportedScheme string | NotAnInteger |
  StandardTooSmall int | RRSTooSmall int | StandardTooLarge int | RRSTooLarge int |
  StandardBelowRRS int int | InvalidDMA

definition minParityDisks :: int where
  "minParityDisks = 2"

definition defaultRRSParity :: int where
  "defaultRRSParity = minParityDisks"

definition StorageClass_IsValid :: "string \<Rightarrow> bool" where
  "StorageClass_IsValid sc \<longleftrightarrow> sc = ''REDUCED_REDUNDANCY'' \<or> sc = ''STANDARD''"

definition StorageClass_String :: "int \<Rightarrow> string" where
  "StorageClass_String parity = (if parity \<noteq> 0 then ''EC'' @ '':'' @ Itoa parity else '''')"

definition parseStorageClass :: "string \<Rightarrow> sc_error + int" where
  "parseStorageClass storageClassEnv =
     (let s = split_byte CHR '':'' storageClassEnv in
      if length s > 2 then Inl TooManySections
      else if length s < 2 then Inl TooFewSections
      else if s ! 0 \<noteq> ''EC'' then Inl (UnsupportedScheme (s ! 0))
      else (case Atoi (s ! 1) of None \<Rightarrow> Inl NotAnInteger | Some parityDisks \<Rightarrow> Inr parityDisks))"

text \<open>\<open>parity\<close> is the value that \<^verbatim>\<open>UnmarshalText\<close> overwrites.\<close>

definition StorageClass_UnmarshalText :: "int \<Rightarrow> string \<Rightarrow> sc_error + int" where
  "StorageClass_UnmarshalText parity b = (if b = '''' then Inr parity else parseStorageClass b)"

definition StorageClass_MarshalText :: "int \<Rightarrow> string" where
  "StorageClass_MarshalText parity = (if parity \<noteq> 0 then ''EC'' @ '':'' @ Itoa parity else '''')"

text \<open>\<^const>\<open>None\<close> is \<^verbatim>\<open>nil\<close>.\<close>

definition ValidateParity :: "int \<Rightarrow> int \<Rightarrow> sc_error option" where
  "ValidateParity ssParity setDriveCount =
     (if ssParity > 0 \<and> ssParity < minParityDisks then Some (StandardTooSmall ssParity)
      else if ssParity > quot64 setDriveCount 2 then Some (StandardTooLarge ssParity)
      else None)"

definition validateParity :: "int \<Rightarrow> int \<Rightarrow> int \<Rightarrow> sc_error option" where
  "validateParity ssParity rrsParity setDriveCount =
     (if ssParity > 0 \<and> ssParity < minParityDisks then Some (StandardTooSmall ssParity)
      else if rrsParity > 0 \<and> rrsParity < minParityDisks then Some (RRSTooSmall rrsParity)
      else if ssParity > quot64 setDriveCount 2 then Some (StandardTooLarge ssParity)
      else if rrsParity > quot64 setDriveCount 2 then Some (RRSTooLarge rrsParity)
      else if ssParity > 0 \<and> rrsParity > 0 \<and> ssParity > 0 \<and> ssParity < rrsParity
      then Some (StandardBelowRRS ssParity rrsParity)
      else None)"

definition GetParityForSC :: "storage_class_config \<Rightarrow> string \<Rightarrow> int" where
  "GetParityForSC sCfg sc =
     (if TrimSpace sc = ''REDUCED_REDUNDANCY'' then (if RRS sCfg = 0 then defaultRRSParity else RRS sCfg)
      else Standard sCfg)"

definition StorageClass_Update :: "storage_class_config \<Rightarrow> storage_class_config \<Rightarrow> storage_class_config" where
  "StorageClass_Update newCfg sCfg = sCfg\<lparr>RRS := RRS newCfg, DMA := DMA newCfg, Standard := Standard newCfg\<rparr>"

text \<open>
  The key-value settings: \<^verbatim>\<open>kvs.Get\<close> is \<open>kvs\<close>, \<^verbatim>\<open>env.Get\<close> is \<open>env\<close> with its default value, and \<open>keys_ok\<close>
  is the outcome of \<^verbatim>\<open>config.CheckValidKeys\<close>, whose error is \<open>e\<close>.
\<close>

definition StorageClass_Enabled :: "(string \<Rightarrow> string) \<Rightarrow> bool" where
  "StorageClass_Enabled kvs \<longleftrightarrow> kvs ''standard'' \<noteq> '''' \<or> kvs ''rrs'' \<noteq> ''''"

definition parse_or_zero :: "string \<Rightarrow> sc_error + int" where
  "parse_or_zero s = (if s \<noteq> '''' then parseStorageClass s else Inr 0)"

definition LookupConfig ::
  "'e option \<Rightarrow> (string \<Rightarrow> string \<Rightarrow> string) \<Rightarrow> (string \<Rightarrow> string) \<Rightarrow> int \<Rightarrow>
     ('e + sc_error) + storage_class_config" where
  "LookupConfig keys_ok env kvs setDriveCount =
     (case keys_ok of
        Some e \<Rightarrow> Inl (Inl e)
      | None \<Rightarrow>
          (let ssc = env ''OTTERIO_STORAGE_CLASS_STANDARD'' (kvs ''standard'');
               rrsc = env ''OTTERIO_STORAGE_CLASS_RRS'' (kvs ''rrs'');
               dma = env ''OTTERIO_STORAGE_CLASS_DMA'' (kvs ''dma'')
           in case parse_or_zero ssc of
                Inl err \<Rightarrow> Inl (Inr err)
              | Inr standard \<Rightarrow>
                  (case parse_or_zero rrsc of
                     Inl err \<Rightarrow> Inl (Inr err)
                   | Inr rrs0 \<Rightarrow>
                       (let rrs = (if rrs0 = 0 then defaultRRSParity else rrs0);
                            dma' = (if dma = '''' then ''read+write'' else dma)
                        in if dma' \<noteq> ''read+write'' \<and> dma' \<noteq> ''write'' then Inl (Inr InvalidDMA)
                           else (case validateParity standard rrs setDriveCount of
                                   Some err \<Rightarrow> Inl (Inr err)
                                 | None \<Rightarrow> Inr \<lparr>Standard = standard, RRS = rrs, DMA = dma'\<rparr>)))))"

section \<open>Facts\<close>

lemma dec_digits_no_colon: "CHR '':'' \<notin> set (dec_digits n)"
  using dec_digits_spec [of n] by (auto simp: list_all_iff is_digit_def)

lemma Itoa_no_colon: "CHR '':'' \<notin> set (Itoa i)"
  by (simp add: Itoa_def dec_digits_no_colon)

lemma parse_StorageClass_String:
  assumes "in_int64 parity" "parity \<noteq> 0"
  shows "parseStorageClass (StorageClass_String parity) = Inr parity"
proof -
  have s: "StorageClass_String parity = ''EC'' @ CHR '':'' # Itoa parity"
    using assms(2) by (simp add: StorageClass_String_def)
  have "split_byte CHR '':'' (StorageClass_String parity) = [''EC'', Itoa parity]"
    unfolding s by (subst split_byte_append) (simp_all add: split_byte_id Itoa_no_colon)
  then show ?thesis
    using assms(1) by (simp add: parseStorageClass_def Let_def Atoi_Itoa in_int64_def)
qed

lemma parseStorageClass_range: "parseStorageClass s = Inr parity \<Longrightarrow> in_int64 parity"
  using Atoi_range by (auto simp: parseStorageClass_def Let_def in_int64_def split: if_splits option.splits)

lemma parse_or_zero_range: "parse_or_zero s = Inr parity \<Longrightarrow> in_int64 parity"
  by (auto simp: parse_or_zero_def in_int64_def min_int64_def max_int64_def
      dest: parseStorageClass_range split: if_splits)

lemma LookupConfig_cases:
  assumes "LookupConfig keys_ok env kvs n = Inr cfg"
  obtains ssc rrsc rrs where "parse_or_zero ssc = Inr (Standard cfg)" "parse_or_zero rrsc = Inr rrs"
    "RRS cfg = (if rrs = 0 then defaultRRSParity else rrs)"
    "DMA cfg = ''read+write'' \<or> DMA cfg = ''write''"
    "validateParity (Standard cfg) (RRS cfg) n = None"
proof -
  define ssc where "ssc = env ''OTTERIO_STORAGE_CLASS_STANDARD'' (kvs ''standard'')"
  define rrsc where "rrsc = env ''OTTERIO_STORAGE_CLASS_RRS'' (kvs ''rrs'')"
  obtain s where s: "parse_or_zero ssc = Inr s"
    using assms by (auto simp: LookupConfig_def Let_def ssc_def split: option.splits sum.splits)
  obtain r where r: "parse_or_zero rrsc = Inr r"
    using assms
    by (auto simp: LookupConfig_def Let_def rrsc_def split: option.splits sum.splits)
  have c: "s = Standard cfg" "RRS cfg = (if r = 0 then defaultRRSParity else r)"
    "DMA cfg = ''read+write'' \<or> DMA cfg = ''write''"
    "validateParity (Standard cfg) (RRS cfg) n = None"
    using assms s r unfolding LookupConfig_def Let_def ssc_def [symmetric] rrsc_def [symmetric]
    by (auto split: option.splits if_splits)
  then show thesis using that [of ssc rrsc r] s r by simp
qed



end
