(* ===== verification/Erasure_Metadata.thy ===== *)
theory Erasure_Metadata
  imports File_Info Go_Hash Storage_Class
begin

text \<open>
  How the erasure layer combines what the drives answer: \<^verbatim>\<open>cmd/erasure-metadata-utils.go\<close>,
  \<^verbatim>\<open>cmd/erasure-healing-common.go\<close> and the quorum functions of \<^verbatim>\<open>cmd/erasure-metadata.go\<close>. Where the code
  ranges over a map, the order of the keys is an argument. A drive is an option, \<^const>\<open>None\<close> for \<^verbatim>\<open>nil\<close>; what
  a drive answers is a function of the drive. A result of \<^const>\<open>None\<close> is an index out of range, which panics.
\<close>

section \<open>Errors\<close>

text \<open>
  The errors of the drives are values of \<^verbatim>\<open>StorageErr\<close>, equal when their texts are; a variable made by
  \<^verbatim>\<open>errors.New\<close> is equal to itself only and is named; an error may wrap another one.
\<close>

datatype go_error = StorageErr string | ErrorVar string | Wrapped string go_error

fun errors_Is :: "go_error \<Rightarrow> go_error \<Rightarrow> bool" where
  "errors_Is (Wrapped n e) target = (Wrapped n e = target \<or> errors_Is e target)"
| "errors_Is e target = (e = target)"

definition errDiskNotFound :: go_error where
  "errDiskNotFound = StorageErr ''disk not found''"

definition errFaultyDisk :: go_error where
  "errFaultyDisk = StorageErr ''disk is faulty''"

definition errFaultyRemoteDisk :: go_error where
  "errFaultyRemoteDisk = StorageErr ''remote disk is faulty''"

definition errDiskAccessDenied :: go_error where
  "errDiskAccessDenied = StorageErr ''disk access denied''"

definition errUnformattedDisk :: go_error where
  "errUnformattedDisk = StorageErr ''unformatted disk found''"

definition errCorruptedFormat :: go_error where
  "errCorruptedFormat =
     StorageErr ''corrupted backend format, specified disk mount has unexpected previous content''"

definition errErasureReadQuorum :: go_error where
  "errErasureReadQuorum = ErrorVar ''errErasureReadQuorum''"

definition errErasureWriteQuorum :: go_error where
  "errErasureWriteQuorum = ErrorVar ''errErasureWriteQuorum''"

definition baseErrs :: "go_error list" where
  "baseErrs = [errDiskNotFound, errFaultyDisk, errFaultyRemoteDisk]"

definition objectOpIgnoredErrs :: "go_error list" where
  "objectOpIgnoredErrs = baseErrs @ [errDiskAccessDenied, errUnformattedDisk]"

definition IsErr :: "go_error option \<Rightarrow> go_error list \<Rightarrow> bool" where
  "IsErr err errs =
     (case err of None \<Rightarrow> False | Some e \<Rightarrow> list_ex (\<lambda>exactErr. errors_Is e exactErr) errs)"

definition IsErrIgnored :: "go_error option \<Rightarrow> go_error list \<Rightarrow> bool" where
  "IsErrIgnored err ignoredErrs = IsErr err ignoredErrs"

text \<open>The entry \<^verbatim>\<open>errorCounts[err]\<close> and the keys of the map.\<close>

definition error_count :: "go_error option list \<Rightarrow> go_error list \<Rightarrow> go_error option \<Rightarrow> nat" where
  "error_count errs ignoredErrs err = count_list (filter (\<lambda>e. \<not> IsErrIgnored e ignoredErrs) errs) err"

definition error_keys :: "go_error option list \<Rightarrow> go_error list \<Rightarrow> go_error option set" where
  "error_keys errs ignoredErrs = set (filter (\<lambda>e. \<not> IsErrIgnored e ignoredErrs) errs)"

definition reduce_step ::
  "(go_error option \<Rightarrow> nat) \<Rightarrow> nat \<times> go_error option \<Rightarrow> go_error option \<Rightarrow> nat \<times> go_error option" where
  "reduce_step count acc err =
     (let (mx, maxErr) = acc in
      if mx < count err then (count err, err)
      else if mx = count err \<and> err = None then (mx, err)
      else acc)"

text \<open>\<open>ks\<close> lists the keys of \<^verbatim>\<open>errorCounts\<close> in the order of the iteration.\<close>

definition reduceErrs ::
  "go_error option list \<Rightarrow> go_error option list \<Rightarrow> go_error list \<Rightarrow> nat \<times> go_error option" where
  "reduceErrs ks errs ignoredErrs = foldl (reduce_step (error_count errs ignoredErrs)) (0, None) ks"

definition reduceQuorumErrs ::
  "go_error option list \<Rightarrow> go_error option list \<Rightarrow> go_error list \<Rightarrow> int \<Rightarrow> go_error \<Rightarrow> go_error option" where
  "reduceQuorumErrs ks errs ignoredErrs quorum quorumErr =
     (let (maxCount, maxErr) = reduceErrs ks errs ignoredErrs
      in if int maxCount \<ge> quorum then maxErr else Some quorumErr)"

definition reduceReadQuorumErrs ::
  "go_error option list \<Rightarrow> go_error option list \<Rightarrow> go_error list \<Rightarrow> int \<Rightarrow> go_error option" where
  "reduceReadQuorumErrs ks errs ignoredErrs readQuorum =
     reduceQuorumErrs ks errs ignoredErrs readQuorum errErasureReadQuorum"

definition reduceWriteQuorumErrs ::
  "go_error option list \<Rightarrow> go_error option list \<Rightarrow> go_error list \<Rightarrow> int \<Rightarrow> go_error option" where
  "reduceWriteQuorumErrs ks errs ignoredErrs writeQuorum =
     reduceQuorumErrs ks errs ignoredErrs writeQuorum errErasureWriteQuorum"

section \<open>The distribution of shards\<close>

text \<open>
  The distribution for a key: the inner \<^const>\<open>None\<close> is the nil slice, the outer one the division by zero when the
  cardinality is a multiple of \<open>2 ^ 32\<close>.
\<close>

definition hashOrder :: "string \<Rightarrow> int \<Rightarrow> int list option option" where
  "hashOrder key cardinality =
     (if cardinality \<le> 0 then Some None
      else if (word_of_int cardinality :: 32 word) = 0 then None
      else
        (let start = uint (crc32_Checksum key mod word_of_int cardinality)
         in Some (Some (map (\<lambda>i. 1 + (start + i) mod cardinality) [1..cardinality]))))"

text \<open>The assignment \<^verbatim>\<open>shuffled[blockIndex-1] = x\<close>, and one for every element of a slice.\<close>

definition place :: "int \<Rightarrow> 'a \<Rightarrow> 'a list \<Rightarrow> 'a list option" where
  "place blockIndex x shuffled =
     (if 1 \<le> blockIndex \<and> blockIndex \<le> int (length shuffled) then Some (shuffled[nat (blockIndex - 1) := x])
      else None)"

fun place_all :: "'a list \<Rightarrow> int list \<Rightarrow> 'a list \<Rightarrow> 'a list option" where
  "place_all [] distribution shuffled = Some shuffled"
| "place_all (x # xs) [] shuffled = None"
| "place_all (x # xs) (d # ds) shuffled =
     (case place d x shuffled of None \<Rightarrow> None | Some sh \<Rightarrow> place_all xs ds sh)"

text \<open>The inner \<^const>\<open>None\<close> as distribution is the nil slice.\<close>

definition shuffleDisks :: "'d option list \<Rightarrow> int list option \<Rightarrow> 'd option list option" where
  "shuffleDisks disks distribution =
     (case distribution of
        None \<Rightarrow> Some disks
      | Some ds \<Rightarrow> place_all disks ds (replicate (length disks) None))"

definition shufflePartsMetadata :: "file_info list \<Rightarrow> int list option \<Rightarrow> file_info list option" where
  "shufflePartsMetadata partsMetadata distribution =
     (case distribution of
        None \<Rightarrow> Some partsMetadata
      | Some ds \<Rightarrow> place_all partsMetadata ds (replicate (length partsMetadata) zero_file_info))"

text \<open>
  One round of \<^verbatim>\<open>shuffleDisksAndPartsMetadata\<close> at an index; the state holds the two shuffled slices.
\<close>

definition shuffle_round ::
  "file_info \<Rightarrow> 'd option list \<Rightarrow> nat \<times> file_info \<Rightarrow> 'd option list \<times> file_info list \<Rightarrow>
     ('d option list \<times> file_info list) option" where
  "shuffle_round fi disks im st =
     (let (index, meta) = im; (shuffledDisks, shuffledParts) = st;
          init = (fi_ModTime fi = zero_time); distribution = ei_Distribution (fi_Erasure fi)
      in if index \<ge> length disks then None
         else if disks ! index = None then Some st
         else if \<not> init \<and> \<not> FileInfo_IsValid meta then Some st
         else if \<not> init \<and> length (fi_Data fi) \<noteq> length (fi_Data meta) then Some st
         else if index \<ge> length distribution then None
         else
           (case place (distribution ! index) meta shuffledParts of
              None \<Rightarrow> None
            | Some parts \<Rightarrow>
                (case place (distribution ! index) (disks ! index) shuffledDisks of
                   None \<Rightarrow> None
                 | Some ds \<Rightarrow> Some (ds, parts))))"

fun shuffle_loop ::
  "file_info \<Rightarrow> 'd option list \<Rightarrow> (nat \<times> file_info) list \<Rightarrow> 'd option list \<times> file_info list \<Rightarrow>
     ('d option list \<times> file_info list) option" where
  "shuffle_loop fi disks [] st = Some st"
| "shuffle_loop fi disks (im # ims) st =
     (case shuffle_round fi disks im st of None \<Rightarrow> None | Some st' \<Rightarrow> shuffle_loop fi disks ims st')"

definition shuffleDisksAndPartsMetadata ::
  "'d option list \<Rightarrow> file_info list \<Rightarrow> file_info \<Rightarrow> ('d option list \<times> file_info list) option" where
  "shuffleDisksAndPartsMetadata disks partsMetadata fi =
     shuffle_loop fi disks (List.enumerate 0 partsMetadata)
       (replicate (length disks) None, replicate (length partsMetadata) zero_file_info)"

text \<open>The same by the index that the metadata carries, with the count of inconsistent entries.\<close>

definition index_round ::
  "file_info \<Rightarrow> 'd option list \<Rightarrow> nat \<times> file_info \<Rightarrow> int \<times> 'd option list \<times> file_info list \<Rightarrow>
     (int \<times> 'd option list \<times> file_info list) option" where
  "index_round fi disks im st =
     (let (i, meta) = im; (inconsistent, shuffledDisks, shuffledParts) = st;
          distribution = ei_Distribution (fi_Erasure fi); skip = (inconsistent + 1, shuffledDisks, shuffledParts)
      in if i \<ge> length disks then None
         else if disks ! i = None then Some skip
         else if \<not> FileInfo_IsValid meta then Some skip
         else if length (fi_Data fi) \<noteq> length (fi_Data meta) then Some skip
         else if i \<ge> length distribution then None
         else if distribution ! i \<noteq> ei_Index (fi_Erasure meta) then Some skip
         else
           (case place (ei_Index (fi_Erasure meta)) (disks ! i) shuffledDisks of
              None \<Rightarrow> None
            | Some ds \<Rightarrow>
                (case place (ei_Index (fi_Erasure meta)) meta shuffledParts of
                   None \<Rightarrow> None
                 | Some parts \<Rightarrow> Some (inconsistent, ds, parts))))"

fun index_loop ::
  "file_info \<Rightarrow> 'd option list \<Rightarrow> (nat \<times> file_info) list \<Rightarrow> int \<times> 'd option list \<times> file_info list \<Rightarrow>
     (int \<times> 'd option list \<times> file_info list) option" where
  "index_loop fi disks [] st = Some st"
| "index_loop fi disks (im # ims) st =
     (case index_round fi disks im st of None \<Rightarrow> None | Some st' \<Rightarrow> index_loop fi disks ims st')"

definition shuffleDisksAndPartsMetadataByIndex ::
  "'d option list \<Rightarrow> file_info list \<Rightarrow> file_info \<Rightarrow> ('d option list \<times> file_info list) option" where
  "shuffleDisksAndPartsMetadataByIndex disks metaArr fi =
     (case index_loop fi disks (List.enumerate 0 metaArr)
             (0, replicate (length disks) None, replicate (length disks) zero_file_info) of
        None \<Rightarrow> None
      | Some (inconsistent, shuffledDisks, shuffledParts) \<Rightarrow>
          if inconsistent < ei_ParityBlocks (fi_Erasure fi) then Some (shuffledDisks, shuffledParts)
          else shuffleDisksAndPartsMetadata disks metaArr fi)"

definition diskCount :: "'d option list \<Rightarrow> nat" where
  "diskCount disks = length (filter (\<lambda>disk. disk \<noteq> None) disks)"

text \<open>The nil slice is the empty list.\<close>

definition evalDisks :: "'d option list \<Rightarrow> go_error option list \<Rightarrow> 'd option list" where
  "evalDisks disks errs =
     (if length errs \<noteq> length disks then []
      else map (\<lambda>(disk, err). if err = None then disk else None) (zip disks errs))"

section \<open>Reading and writing at all drives\<close>

definition readAllFileInfo ::
  "('d \<Rightarrow> file_info \<times> go_error option) \<Rightarrow> 'd option list \<Rightarrow> file_info list \<times> go_error option list" where
  "readAllFileInfo ReadVersion disks =
     (let answers = map (\<lambda>disk. case disk of None \<Rightarrow> (zero_file_info, Some errDiskNotFound)
                                          | Some d \<Rightarrow> ReadVersion d) disks
      in (map fst answers, map snd answers))"

definition unique_file_info :: "nat \<Rightarrow> file_info \<Rightarrow> file_info" where
  "unique_file_info index fi = fi\<lparr>fi_Erasure := (fi_Erasure fi)\<lparr>ei_Index := int index + 1\<rparr>\<rparr>"

text \<open>The drive, the metadata written there if any, and the error at one index.\<close>

definition write_one ::
  "('d \<Rightarrow> file_info \<Rightarrow> go_error option) \<Rightarrow> nat \<Rightarrow> 'd option \<Rightarrow> file_info \<Rightarrow>
     ('d \<times> file_info) option \<times> go_error option" where
  "write_one WriteMetadata index disk file =
     (case disk of
        None \<Rightarrow> (None, Some errDiskNotFound)
      | Some d \<Rightarrow>
          (let fi = unique_file_info index file
           in if FileInfo_IsValid fi then (Some (d, fi), WriteMetadata d fi)
              else (None, Some errCorruptedFormat)))"

text \<open>
  The result are the writes in the order of the drives, the drives that are left and the error. The file of
  an index is read only for a drive that is there.
\<close>

definition writeUniqueFileInfo ::
  "go_error option list \<Rightarrow> ('d \<Rightarrow> file_info \<Rightarrow> go_error option) \<Rightarrow> 'd option list \<Rightarrow> file_info list \<Rightarrow> int \<Rightarrow>
     (('d \<times> file_info) list \<times> 'd option list \<times> go_error option) option" where
  "writeUniqueFileInfo ks WriteMetadata disks files quorum =
     (if list_ex (\<lambda>(index, disk). disk \<noteq> None \<and> index \<ge> length files) (List.enumerate 0 disks) then None
      else
        (let outcomes = map (\<lambda>(index, disk).
               write_one WriteMetadata index disk
                 (if index < length files then files ! index else zero_file_info)) (List.enumerate 0 disks);
             mErrs = map snd outcomes
         in Some (List.map_filter fst outcomes, evalDisks disks mErrs,
                  reduceWriteQuorumErrs ks mErrs objectOpIgnoredErrs quorum)))"

section \<open>Agreement on time and data directory\<close>

definition timeSentinel :: int where
  "timeSentinel = 0"

definition bootModtimes :: "nat \<Rightarrow> int list" where
  "bootModtimes n = replicate n timeSentinel"

text \<open>\<^verbatim>\<open>timeOccurrenceMap\<close> and \<^verbatim>\<open>dataDirOccurrenceMap\<close>: their keys and their entries.\<close>

definition common_nanos :: "int list \<Rightarrow> int list" where
  "common_nanos modTimes = map wrap64 (filter (\<lambda>t. t \<noteq> timeSentinel) modTimes)"

definition common_dirs :: "string list \<Rightarrow> string list" where
  "common_dirs dataDirs = filter (\<lambda>dir. dir \<noteq> '''') dataDirs"

definition common_time_step :: "(int \<Rightarrow> nat) \<Rightarrow> nat \<times> int \<Rightarrow> int \<Rightarrow> nat \<times> int" where
  "common_time_step count acc t =
     (let (maxima, modTime) = acc in
      if count t > maxima \<or> (count t = maxima \<and> t > modTime) then (count t, t) else acc)"

definition common_dir_step :: "(string \<Rightarrow> nat) \<Rightarrow> nat \<times> string \<Rightarrow> string \<Rightarrow> nat \<times> string" where
  "common_dir_step count acc dir =
     (let (dmaxima, dataDir) = acc in if count dir > dmaxima then (count dir, dir) else acc)"

text \<open>\<open>ts\<close> and \<open>ds\<close> are the orders in which the two maps are traversed.\<close>

definition commonTime :: "int list \<Rightarrow> string list \<Rightarrow> int list \<Rightarrow> string list \<Rightarrow> int \<times> string" where
  "commonTime ts ds modTimes dataDirs =
     (snd (foldl (common_time_step (count_list (common_nanos modTimes))) (0, zero_time) ts),
      snd (foldl (common_dir_step (count_list (common_dirs dataDirs))) (0, '''') ds))"

definition listObjectModtimes :: "file_info list \<Rightarrow> go_error option list \<Rightarrow> int list option" where
  "listObjectModtimes partsMetadata errs =
     (if length errs < length partsMetadata then None
      else Some (map (\<lambda>(metadata, err). if err \<noteq> None then timeSentinel else fi_ModTime metadata)
             (zip partsMetadata errs)))"

definition list_data_dirs :: "file_info list \<Rightarrow> go_error option list \<Rightarrow> string list" where
  "list_data_dirs partsMetadata errs =
     map (\<lambda>(fi, err). if err \<noteq> None then '''' else fi_DataDir fi) (zip partsMetadata errs)"

definition is_latest :: "int \<Rightarrow> string \<Rightarrow> int \<times> file_info \<Rightarrow> bool" where
  "is_latest modTime dataDir tm \<longleftrightarrow>
     FileInfo_IsValid (snd tm) \<and> fst tm = modTime \<and> fi_DataDir (snd tm) = dataDir"

definition listOnlineDisks ::
  "int list \<Rightarrow> string list \<Rightarrow> 'd option list \<Rightarrow> file_info list \<Rightarrow> go_error option list \<Rightarrow>
     ('d option list \<times> int \<times> string) option" where
  "listOnlineDisks ts ds disks partsMetadata errs =
     (case listObjectModtimes partsMetadata errs of
        None \<Rightarrow> None
      | Some modTimes \<Rightarrow>
          (let (modTime, dataDir) = commonTime ts ds modTimes (list_data_dirs partsMetadata errs)
           in if length disks < length partsMetadata then None
              else Some (map (\<lambda>(disk, tm). if is_latest modTime dataDir tm then disk else None)
                          (zip disks (zip modTimes partsMetadata)) @
                         replicate (length disks - length partsMetadata) None,
                         modTime, dataDir)))"

definition getLatestFileInfo ::
  "go_error option list \<Rightarrow> int list \<Rightarrow> string list \<Rightarrow> file_info list \<Rightarrow> go_error option list \<Rightarrow>
     (go_error + file_info) option" where
  "getLatestFileInfo ks ts ds partsMetadata errs =
     (case reduceReadQuorumErrs ks errs objectOpIgnoredErrs (int (length partsMetadata div 2)) of
        Some reducedErr \<Rightarrow> Some (Inl reducedErr)
      | None \<Rightarrow>
          (case listObjectModtimes partsMetadata errs of
             None \<Rightarrow> None
           | Some modTimes \<Rightarrow>
               (let (modTime, dataDir) = commonTime ts ds modTimes (list_data_dirs partsMetadata errs);
                    latest = map snd (filter (is_latest modTime dataDir) (zip modTimes partsMetadata))
                in Some (if length latest < length partsMetadata div 2 then Inl errErasureReadQuorum
                         else Inr (if latest = [] then zero_file_info else last latest)))))"

section \<open>Agreement on the metadata\<close>

text \<open>
  What is hashed of a version; \<open>now\<close> is the clock when the version is looked at and \<open>parse_time\<close> is
  \<^verbatim>\<open>time.Parse\<close> with the layout of HTTP dates. The metadata is a map that is not nil.
\<close>

definition meta_preimage :: "(string \<Rightarrow> int option) \<Rightarrow> int \<Rightarrow> file_info \<Rightarrow> string" where
  "meta_preimage parse_time now meta =
     concat (map (\<lambda>part. ''part.'' @ Itoa (op_Number part)) (fi_Parts meta)) @
     show_slice (map Itoa (ei_Distribution (fi_Erasure meta))) @
     (if transitionHasLocalData parse_time now meta then Itoa (int (length (fi_Data meta))) else '''') @
     fi_TransitionStatus meta @ [CHR 0x00] @ json_Marshal_map (fi_Metadata meta)"

definition meta_hash :: "(string \<Rightarrow> int option) \<Rightarrow> int \<Rightarrow> int \<Rightarrow> string \<Rightarrow> file_info \<Rightarrow> string" where
  "meta_hash parse_time now modTime dataDir meta =
     (if FileInfo_IsValid meta \<and> fi_ModTime meta = modTime \<and> fi_DataDir meta = dataDir
      then sha256_hex (meta_preimage parse_time now meta) else '''')"

definition meta_hashes ::
  "(string \<Rightarrow> int option) \<Rightarrow> (nat \<Rightarrow> int) \<Rightarrow> int \<Rightarrow> string \<Rightarrow> file_info list \<Rightarrow> string list" where
  "meta_hashes parse_time now modTime dataDir metaArr =
     map (\<lambda>(i, meta). meta_hash parse_time (now i) modTime dataDir meta) (List.enumerate 0 metaArr)"

definition max_hash_step :: "(string \<Rightarrow> nat) \<Rightarrow> nat \<times> string \<Rightarrow> string \<Rightarrow> nat \<times> string" where
  "max_hash_step count acc hash =
     (let (maxCount, maxHash) = acc in if count hash > maxCount then (count hash, hash) else acc)"

text \<open>\<open>hs\<close> is the order in which \<^verbatim>\<open>metaHashCountMap\<close> is traversed.\<close>

definition findFileInfoInQuorum ::
  "string list \<Rightarrow> (string \<Rightarrow> int option) \<Rightarrow> (nat \<Rightarrow> int) \<Rightarrow> file_info list \<Rightarrow> int \<Rightarrow> string \<Rightarrow> int \<Rightarrow>
     go_error + file_info" where
  "findFileInfoInQuorum hs parse_time now metaArr modTime dataDir quorum =
     (let metaHashes = meta_hashes parse_time now modTime dataDir metaArr;
          (maxCount, maxHash) =
            foldl (max_hash_step (count_list (filter (\<lambda>h. h \<noteq> '''') metaHashes))) (0, '''') hs
      in if int maxCount < quorum then Inl errErasureReadQuorum
         else (case find (\<lambda>(h, meta). h = maxHash) (zip metaHashes metaArr) of
                 Some (h, meta) \<Rightarrow> Inr meta
               | None \<Rightarrow> Inl errErasureReadQuorum))"

definition pickValidFileInfo ::
  "string list \<Rightarrow> (string \<Rightarrow> int option) \<Rightarrow> (nat \<Rightarrow> int) \<Rightarrow> file_info list \<Rightarrow> int \<Rightarrow> string \<Rightarrow> int \<Rightarrow>
     go_error + file_info" where
  "pickValidFileInfo hs parse_time now metaArr modTime dataDir quorum =
     findFileInfoInQuorum hs parse_time now metaArr modTime dataDir quorum"

text \<open>The read and the write quorum of the version that the latest metadata describes.\<close>

definition quorums_of :: "storage_class_config \<Rightarrow> int \<Rightarrow> file_info \<Rightarrow> int \<times> int" where
  "quorums_of sCfg defaultParityCount fi =
     (let data = ei_DataBlocks (fi_Erasure fi);
          sc = (case fi_Metadata fi ''x-amz-storage-class'' of None \<Rightarrow> '''' | Some s \<Rightarrow> s);
          parity0 = GetParityForSC sCfg sc;
          parity = (if parity0 \<le> 0 then defaultParityCount else parity0)
      in (data, if data = parity then data + 1 else data))"

definition objectQuorumFromMeta ::
  "go_error option list \<Rightarrow> int list \<Rightarrow> string list \<Rightarrow> storage_class_config \<Rightarrow> file_info list \<Rightarrow>
     go_error option list \<Rightarrow> int \<Rightarrow> (go_error + int \<times> int) option" where
  "objectQuorumFromMeta ks ts ds sCfg partsMetaData errs defaultParityCount =
     map_option (\<lambda>latest. case latest of
         Inl err \<Rightarrow> Inl err
       | Inr latestFileInfo \<Rightarrow> Inr (quorums_of sCfg defaultParityCount latestFileInfo))
       (getLatestFileInfo ks ts ds partsMetaData errs)"

section \<open>Sizes of parts\<close>

datatype part_size_error = PartInvalidArgument | PartSizeZero | PartSizeIndex

definition calculatePartSizeFromIdx :: "int \<Rightarrow> int \<Rightarrow> int \<Rightarrow> part_size_error + int" where
  "calculatePartSizeFromIdx totalSize partSize partIndex =
     (if totalSize < -1 then Inl PartInvalidArgument
      else if partSize = 0 then Inl PartSizeZero
      else if partIndex < 1 then Inl PartSizeIndex
      else if totalSize = -1 then Inr (-1)
      else if totalSize > 0 then
        (let partsCount = wrap64 (quot64 totalSize partSize + 1)
         in if partIndex < partsCount then Inr partSize
            else if partIndex = partsCount then Inr (rem64 totalSize partSize)
            else Inr 0)
      else Inr 0)"

end
