(* ===== verification/Erasure_Metadata_Facts.thy ===== *)
theory Erasure_Metadata_Facts
  imports Erasure_Metadata
begin

text \<open>
  What the erasure layer can conclude from the drives' answers: the reduction of errors, the permutation of
  the drives, the agreement on a version and on its metadata, and the intersection of quorums.
\<close>

section \<open>The most frequent key of a map\<close>

text \<open>
  Four functions range over a map from keys to counts and keep the key of the largest count. They differ in
  what they do with a tie.
\<close>

locale max_loop =
  fixes count :: "'k \<Rightarrow> nat"
    and step :: "nat \<times> 'k \<Rightarrow> 'k \<Rightarrow> nat \<times> 'k"
    and tie :: "'k \<Rightarrow> 'k \<Rightarrow> bool"
  assumes step: "step (m, x) k = (if m < count k \<or> (m = count k \<and> tie k x) then (count k, k) else (m, x))"
begin

lemma loop_from:
  assumes "count x = m"
  shows "\<exists>y. foldl step (m, x) ks = (count y, y) \<and> (y = x \<or> y \<in> set ks) \<and> m \<le> count y \<and>
    (\<forall>k \<in> set ks. count k \<le> count y)"
  using assms
proof (induction ks arbitrary: m x)
  case Nil
  then show ?case by simp
next
  case (Cons k ks)
  define z where "z = (if m < count k \<or> (m = count k \<and> tie k x) then k else x)"
  have z: "step (m, x) k = (count z, z)" "m \<le> count z" "count k \<le> count z" "z = k \<or> z = x"
    using Cons.prems by (auto simp: step z_def)
  from Cons.IH [of z "count z"] obtain y where y: "foldl step (count z, z) ks = (count y, y)"
    "y = z \<or> y \<in> set ks" "count z \<le> count y" "\<forall>k \<in> set ks. count k \<le> count y" by blast
  then have "foldl step (m, x) (k # ks) = (count y, y)" "y = x \<or> y \<in> set (k # ks)" "m \<le> count y"
    "\<forall>k \<in> set (k # ks). count k \<le> count y"
    using z by auto
  then show ?case by blast
qed

lemma loop_max:
  assumes "ks \<noteq> []" "\<forall>k \<in> set ks. 0 < count k"
  shows "\<exists>y. foldl step (0, d) ks = (count y, y) \<and> y \<in> set ks \<and> (\<forall>k \<in> set ks. count k \<le> count y)"
proof (cases ks)
  case Nil
  with assms show ?thesis by simp
next
  case (Cons k ks')
  with assms(2) have "step (0, d) k = (count k, k)" by (simp add: step)
  with loop_from [of k "count k" ks'] Cons show ?thesis by auto
qed

text \<open>A key that is more frequent than every other one is found, whatever the order of the keys is.\<close>

lemma loop_unique:
  assumes "y \<in> set ks" "0 < count y" "\<forall>k \<in> set ks. 0 < count k" "\<forall>k \<in> set ks. k \<noteq> y \<longrightarrow> count k < count y"
  shows "foldl step (0, d) ks = (count y, y)"
proof -
  have "ks \<noteq> []" using assms(1) by auto
  from loop_max [OF this assms(3), of d] obtain z where z: "foldl step (0, d) ks = (count z, z)"
    "z \<in> set ks" "count y \<le> count z" using assms(1) by blast
  with assms(4) have "z = y" by (meson leD)
  with z show ?thesis by simp
qed

end

interpretation errors: max_loop "error_count errs ignoredErrs" "reduce_step (error_count errs ignoredErrs)"
    "\<lambda>k x. k = None"
  for errs ignoredErrs
  by unfold_locales (auto simp: reduce_step_def)

interpretation times: max_loop count "common_time_step count" "\<lambda>k x. k > x" for count
  by unfold_locales (auto simp: common_time_step_def)

interpretation dirs: max_loop count "common_dir_step count" "\<lambda>k x. False" for count
  by unfold_locales (auto simp: common_dir_step_def)

interpretation hashes: max_loop count "max_hash_step count" "\<lambda>k x. False" for count
  by unfold_locales (auto simp: max_hash_step_def)

text \<open>Two different keys together are at most as frequent as all keys.\<close>

lemma count_list_two: "x \<noteq> y \<Longrightarrow> count_list xs x + count_list xs y \<le> length xs"
  by (induction xs) auto

lemma count_list_pos_iff: "0 < count_list xs x \<longleftrightarrow> x \<in> set xs"
  using count_list_0_iff [of xs x] by auto

section \<open>Errors of the drives\<close>

lemma error_count_pos: "e \<in> error_keys errs ignoredErrs \<Longrightarrow> 0 < error_count errs ignoredErrs e"
  by (simp add: error_count_def error_keys_def count_list_pos_iff)

lemma error_count_two: "d \<noteq> e \<Longrightarrow> error_count errs ign d + error_count errs ign e \<le> length errs"
  unfolding error_count_def by (rule order_trans [OF count_list_two length_filter_le])

lemma error_count_notin: "e \<notin> error_keys errs ign \<Longrightarrow> error_count errs ign e = 0"
  by (simp add: error_count_def error_keys_def)

lemma reduceErrs_keys:
  assumes "set ks = error_keys errs ign"
  shows "if ks = [] then reduceErrs ks errs ign = (0, None)
    else \<exists>e \<in> error_keys errs ign. reduceErrs ks errs ign = (error_count errs ign e, e) \<and>
      (\<forall>k. error_count errs ign k \<le> error_count errs ign e)"
proof (cases "ks = []")
  case True
  then show ?thesis by (simp add: reduceErrs_def)
next
  case False
  have pos: "\<forall>k \<in> set ks. 0 < error_count errs ign k" using assms error_count_pos by auto
  from errors.loop_max [OF False pos, of None] assms error_count_notin
  show ?thesis using False by (auto simp: reduceErrs_def) (metis le0)
qed

text \<open>
  C20: The reduction of the drives' answers to one. With a quorum of more than half of the answers,
  \<^verbatim>\<open>reduceQuorumErrs\<close> gives the answer, nil or an error that is not ignored, that at least a quorum of drives
  gave, and the error for the missing quorum when there is no such answer; so it does not depend on the order
  in which the map of counts is traversed, as the comment of \<^verbatim>\<open>reduceErrs\<close> claims.
\<close>
theorem reduceQuorumErrs_majority:
  assumes "set ks = error_keys errs ign" "int (length errs) < 2 * quorum" "0 < quorum"
  shows "(reduceQuorumErrs ks errs ign quorum quorumErr = r) =
      ((r \<in> error_keys errs ign \<and> quorum \<le> int (error_count errs ign r)) \<or>
       ((\<forall>e. int (error_count errs ign e) < quorum) \<and> r = Some quorumErr))"
proof (cases "ks = []")
  case True
  then have "error_keys errs ign = {}" using assms(1) by simp
  then have "error_count errs ign e = 0" for e by (simp add: error_count_notin)
  then show ?thesis
    using reduceErrs_keys [OF assms(1)] True assms(3)
    by (auto simp: reduceQuorumErrs_def)
next
  case False
  with reduceErrs_keys [OF assms(1)] obtain e where e: "e \<in> error_keys errs ign"
    "reduceErrs ks errs ign = (error_count errs ign e, e)"
    "\<And>k. error_count errs ign k \<le> error_count errs ign e" by auto
  have u: "k = e" if "quorum \<le> int (error_count errs ign k)" for k
  proof (rule ccontr)
    assume "k \<noteq> e"
    from error_count_two [OF this, of errs ign] that e(3) [of k] assms(2) show False by linarith
  qed
  show ?thesis
  proof (cases "quorum \<le> int (error_count errs ign e)")
    case True
    then have "reduceQuorumErrs ks errs ign quorum quorumErr = e" by (simp add: reduceQuorumErrs_def e(2))
    moreover have "\<not> (\<forall>e. int (error_count errs ign e) < quorum)" using True by (meson not_less)
    ultimately show ?thesis using True e(1) u by metis
  next
    case False
    then have "int (error_count errs ign k) < quorum" for k
      using e(3) [of k] by linarith
    moreover have "reduceQuorumErrs ks errs ign quorum quorumErr = Some quorumErr"
      using False by (simp add: reduceQuorumErrs_def e(2))
    ultimately show ?thesis by (metis not_less)
  qed
qed

theorem reduceQuorumErrs_majority_witness:
  "reduceQuorumErrs [None, Some errFaultyDisk] [None, Some errDiskNotFound, None, None, Some errFaultyDisk]
     [errDiskNotFound] 3 errErasureReadQuorum = None \<and>
   reduceQuorumErrs [Some errFaultyDisk, None] [None, Some errDiskNotFound, None, None, Some errFaultyDisk]
     [errDiskNotFound] 3 errErasureReadQuorum = None"
proof -
  define errs where "errs = [None, Some errDiskNotFound, None, None, Some errFaultyDisk]"
  have k: "set [None, Some errFaultyDisk] = error_keys errs [errDiskNotFound]"
    "set [Some errFaultyDisk, None] = error_keys errs [errDiskNotFound]"
    "error_count errs [errDiskNotFound] None = 3"
    by (auto simp: errs_def error_keys_def error_count_def IsErrIgnored_def IsErr_def errDiskNotFound_def
        errFaultyDisk_def)
  have l: "int (length errs) < 2 * 3" by (simp add: errs_def)
  have "None \<in> error_keys errs [errDiskNotFound]" using k(1) by auto
  with reduceQuorumErrs_majority [OF k(1) l, of errErasureReadQuorum None]
    reduceQuorumErrs_majority [OF k(2) l, of errErasureReadQuorum None] k(3)
  show ?thesis by (simp add: errs_def)
qed

text \<open>
  With half of the answers as quorum, as \<^verbatim>\<open>getLatestFileInfo\<close> has it, two errors that each half of the drives
  gives are both possible results.
\<close>

lemma reduceErrs_half_depends_on_order:
  "reduceReadQuorumErrs [Some a, Some b] [Some a, Some b] [] 1 \<noteq>
     reduceReadQuorumErrs [Some b, Some a] [Some a, Some b] [] 1" if "a \<noteq> b"
  using that
  by (simp add: reduceReadQuorumErrs_def reduceQuorumErrs_def reduceErrs_def reduce_step_def error_count_def
      IsErrIgnored_def IsErr_def Let_def)

section \<open>The distribution of shards\<close>

lemma mod_shift_inj:
  assumes "0 < (n::int)" "i \<in> {1..n}" "j \<in> {1..n}" "(s + i) mod n = (s + j) mod n"
  shows "i = j"
proof -
  have "n dvd i - j" using assms(4) by (metis add_diff_cancel_left mod_eq_dvd_iff)
  moreover have "\<bar>i - j\<bar> < n" using assms(2,3) by auto
  ultimately have "i - j = 0" using dvd_imp_le_int [of "i - j" n] assms(1) by auto
  then show ?thesis by simp
qed

lemma rotation_permutes:
  assumes "0 < (n::int)" "ds = map (\<lambda>i. 1 + (s + i) mod n) [1..n]"
  shows "distinct ds \<and> set ds = {1..n} \<and> int (length ds) = n"
proof -
  have inj: "inj_on (\<lambda>i. 1 + (s + i) mod n) {1..n}"
    using mod_shift_inj [OF assms(1)] by (intro inj_onI) simp
  then have d: "distinct ds" by (simp add: assms(2) distinct_map)
  have l: "int (length ds) = n" using assms by simp
  have "1 + (s + i) mod n \<le> n" for i using pos_mod_bound [OF assms(1), of "s + i"] by linarith
  then have "set ds \<subseteq> {1..n}" using assms by auto
  moreover have "card (set ds) = card {1..n}" using d l by (simp add: distinct_card)
  ultimately have "set ds = {1..n}" by (intro card_subset_eq) simp_all
  with d l show ?thesis by simp
qed

lemma place_all_spec:
  assumes "distinct ds" "\<forall>d \<in> set ds. 1 \<le> d \<and> d \<le> int (length sh)" "length xs = length ds"
  shows "\<exists>out. place_all xs ds sh = Some out \<and> length out = length sh \<and>
    map (\<lambda>d. out ! nat (d - 1)) ds = xs \<and>
    (\<forall>i < length sh. int i + 1 \<notin> set ds \<longrightarrow> out ! i = sh ! i)"
  using assms
proof (induction xs ds sh rule: place_all.induct)
  case (3 x xs d ds sh)
  define sh' where "sh' = sh[nat (d - 1) := x]"
  have p: "place d x sh = Some sh'" using 3(3) by (simp add: place_def sh'_def)
  have "\<forall>d \<in> set ds. 1 \<le> d \<and> d \<le> int (length sh')" using 3(3) by (simp add: sh'_def)
  with 3(1) [OF p] 3(2,4) obtain out where out: "place_all xs ds sh' = Some out"
    "length out = length sh'" "map (\<lambda>d. out ! nat (d - 1)) ds = xs"
    "\<forall>i < length sh'. int i + 1 \<notin> set ds \<longrightarrow> out ! i = sh' ! i" by auto
  have b: "nat (d - 1) < length sh" "int (nat (d - 1)) + 1 \<notin> set ds" using 3(2,3) by auto
  then have "out ! nat (d - 1) = x" using out(4) by (simp add: sh'_def)
  moreover have "\<forall>i < length sh. int i + 1 \<notin> set (d # ds) \<longrightarrow> out ! i = sh ! i"
    using out(4) 3(3) by (auto simp: sh'_def nth_list_update)
  ultimately show ?case using out p by (auto simp: sh'_def)
qed simp_all

lemma place_all_permutation:
  assumes "distinct ds" "set ds = {1..n}" "int (length ds) = n" "int (length xs) = n"
  shows "\<exists>out. place_all xs ds (replicate (length xs) z) = Some out \<and> length out = length xs \<and>
    map (\<lambda>d. out ! nat (d - 1)) ds = xs"
proof -
  have "\<forall>d \<in> set ds. 1 \<le> d \<and> d \<le> int (length (replicate (length xs) z))" using assms(2,4) by simp
  from place_all_spec [OF assms(1) this, of xs] assms(3,4) show ?thesis by auto
qed

lemma word_of_int_zero: "(word_of_int n :: 32 word) = 0 \<longleftrightarrow> n mod 2 ^ 32 = 0"
  by (simp add: word_of_int_eq_0_iff dvd_eq_mod_eq_0)

text \<open>
  C22: The order in which the shards of an object lie on the drives. For a positive number of drives that is
  no multiple of \<open>2 ^ 32\<close>, \<^verbatim>\<open>hashOrder\<close> is a permutation of the indices from one, although its comment says
  that collisions are fine; so \<^verbatim>\<open>shuffleDisks\<close> and \<^verbatim>\<open>shufflePartsMetadata\<close> with it do not panic and lose
  nothing: reading the shuffled slices in the order of the distribution gives back the slices.
\<close>
theorem hashOrder_shuffle_round_trip:
  assumes "0 < n" "n mod 2 ^ 32 \<noteq> 0"
  shows "\<exists>ds. hashOrder key n = Some (Some ds) \<and> distinct ds \<and> set ds = {1..n} \<and> int (length ds) = n \<and>
    (int (length disks) = n \<longrightarrow> (\<exists>out. shuffleDisks disks (Some ds) = Some out \<and>
       length out = length disks \<and> map (\<lambda>d. out ! nat (d - 1)) ds = disks)) \<and>
    (int (length metas) = n \<longrightarrow> (\<exists>out. shufflePartsMetadata metas (Some ds) = Some out \<and>
       length out = length metas \<and> map (\<lambda>d. out ! nat (d - 1)) ds = metas))"
proof -
  define s where "s = uint (crc32_Checksum key mod word_of_int n)"
  define ds where "ds = map (\<lambda>i. 1 + (s + i) mod n) [1..n]"
  have h: "hashOrder key n = Some (Some ds)"
    using assms by (simp add: hashOrder_def word_of_int_zero ds_def s_def Let_def)
  have r: "distinct ds" "set ds = {1..n}" "int (length ds) = n"
    using rotation_permutes [OF assms(1) ds_def] by simp_all
  show ?thesis
    using h r place_all_permutation [OF r, of disks None] place_all_permutation [OF r, of metas zero_file_info]
    by (auto simp: shuffleDisks_def shufflePartsMetadata_def)
qed

theorem hashOrder_shuffle_round_trip_witness:
  "\<exists>ds out. hashOrder ''photos/a.jpg'' 4 = Some (Some ds) \<and> set ds = {1..4} \<and>
     shuffleDisks [Some ''d1'', None, Some ''d3'', Some ''d4''] (Some ds) = Some out \<and>
     map (\<lambda>d. out ! nat (d - 1)) ds = [Some ''d1'', None, Some ''d3'', Some ''d4'']"
  using hashOrder_shuffle_round_trip [of 4 "''photos/a.jpg''" "[Some ''d1'', None, Some ''d3'', Some ''d4'']" "[]"]
  by auto

section \<open>Agreement on the time\<close>

text \<open>The order by count and then by time.\<close>

definition less_common :: "(int \<Rightarrow> nat) \<Rightarrow> int \<Rightarrow> int \<Rightarrow> bool" where
  "less_common count k y \<longleftrightarrow> count k < count y \<or> (count k = count y \<and> k \<le> y)"

lemma common_time_loop:
  "\<exists>y. foldl (common_time_step count) (count x, x) ts = (count y, y) \<and> (y = x \<or> y \<in> set ts) \<and>
     less_common count x y \<and> (\<forall>k \<in> set ts. less_common count k y)"
proof (induction ts arbitrary: x)
  case Nil
  then show ?case by (simp add: less_common_def)
next
  case (Cons t ts)
  define z where "z = (if less_common count t x then x else t)"
  have z: "common_time_step count (count x, x) t = (count z, z)" "less_common count x z"
    "less_common count t z" "z = x \<or> z = t"
    by (auto simp: common_time_step_def z_def less_common_def)
  from Cons [of z] obtain y where y: "foldl (common_time_step count) (count z, z) ts = (count y, y)"
    "y = z \<or> y \<in> set ts" "less_common count z y" "\<forall>k \<in> set ts. less_common count k y" by blast
  have "less_common count x y" "less_common count t y"
    using z(2,3) y(3) by (auto simp: less_common_def)
  with y z have "foldl (common_time_step count) (count x, x) (t # ts) = (count y, y)"
    "y = x \<or> y \<in> set (t # ts)" "less_common count x y" "\<forall>k \<in> set (t # ts). less_common count k y" by auto
  then show ?case by blast
qed

text \<open>The common time is the latest one of the most frequent ones, in whatever order they are looked at.\<close>

lemma commonTime_latest:
  assumes "set ts = set (common_nanos modTimes)" "ts \<noteq> []"
  shows "fst (commonTime ts ds modTimes dataDirs) \<in> set (common_nanos modTimes) \<and>
    (\<forall>k \<in> set (common_nanos modTimes).
       less_common (count_list (common_nanos modTimes)) k (fst (commonTime ts ds modTimes dataDirs)))"
proof -
  let ?c = "count_list (common_nanos modTimes)"
  obtain t ts' where ts: "ts = t # ts'" using assms(2) by (cases ts) auto
  then have "0 < ?c t" using assms(1) by (auto simp: count_list_pos_iff)
  then have s: "common_time_step ?c (0, zero_time) t = (?c t, t)" by (simp add: common_time_step_def)
  obtain y where y: "foldl (common_time_step ?c) (?c t, t) ts' = (?c y, y)" "y = t \<or> y \<in> set ts'"
    "less_common ?c t y" "\<forall>k \<in> set ts'. less_common ?c k y"
    using common_time_loop [of ?c t ts'] by blast
  have "fst (commonTime ts ds modTimes dataDirs) = y" using y(1) s by (simp add: commonTime_def ts)
  moreover have "set (common_nanos modTimes) = insert t (set ts')" using assms(1) ts by simp
  ultimately show ?thesis using y(2-4) by auto
qed

lemma common_nanos_in_int64:
  "list_all in_int64 modTimes \<Longrightarrow> common_nanos modTimes = filter (\<lambda>t. t \<noteq> timeSentinel) modTimes"
  by (induction modTimes) (auto simp: common_nanos_def wrap64_id)

lemma listObjectModtimes_nth:
  assumes "listObjectModtimes parts errs = Some mts" "(t, m) \<in> set (zip mts parts)"
  shows "\<exists>e. (m, e) \<in> set (zip parts errs) \<and> t = (if e \<noteq> None then timeSentinel else fi_ModTime m)"
proof -
  obtain i where i: "i < length mts" "i < length parts" "t = mts ! i" "m = parts ! i"
    using assms(2) by (auto simp: in_set_zip)
  have m: "mts = map (\<lambda>(metadata, err). if err \<noteq> None then timeSentinel else fi_ModTime metadata) (zip parts errs)"
    and l: "length parts \<le> length errs"
    using assms(1) by (auto simp: listObjectModtimes_def split: if_splits)
  have "(m, errs ! i) \<in> set (zip parts errs)" using i l by (auto simp: in_set_zip intro!: exI [of _ i])
  moreover have "t = (if errs ! i \<noteq> None then timeSentinel else fi_ModTime m)" using i l m by simp
  ultimately show ?thesis by blast
qed

text \<open>The entries of the answers that agree with a version.\<close>

definition agreeing :: "file_info \<Rightarrow> file_info list \<Rightarrow> go_error option list \<Rightarrow> (file_info \<times> go_error option) list" where
  "agreeing fi parts errs =
     filter (\<lambda>(m, e). e = None \<and> FileInfo_IsValid m \<and> fi_ModTime m = fi_ModTime fi \<and> fi_DataDir m = fi_DataDir fi)
       (zip parts errs)"

lemma length_filter_zip_modtimes:
  assumes "listObjectModtimes parts errs = Some mts" "modTime \<noteq> timeSentinel"
  shows "length (filter (is_latest modTime dataDir) (zip mts parts)) =
    length (filter (\<lambda>(m, e). e = None \<and> FileInfo_IsValid m \<and> fi_ModTime m = modTime \<and> fi_DataDir m = dataDir)
      (zip parts errs))"
proof -
  have l: "length parts \<le> length errs"
    and m: "mts = map (\<lambda>(metadata, err). if err \<noteq> None then timeSentinel else fi_ModTime metadata) (zip parts errs)"
    using assms(1) by (auto simp: listObjectModtimes_def split: if_splits)
  have "zip mts parts = map (\<lambda>(m, e). (if e \<noteq> None then timeSentinel else fi_ModTime m, m)) (zip parts errs)"
    using l unfolding m by (auto intro!: nth_equalityI)
  then show ?thesis
    using assms(2)
    by (auto simp: filter_map is_latest_def comp_def case_prod_beta intro!: arg_cong [where f = length] filter_cong)
qed


text \<open>A version with two data and two parity blocks, as the drive of an index holds it.\<close>

definition sample_version :: "int \<Rightarrow> int \<Rightarrow> file_info" where
  "sample_version time index =
     zero_file_info\<lparr>fi_Volume := ''photos'', fi_Name := ''a.jpg'', fi_DataDir := ''d1'', fi_ModTime := time,
       fi_Erasure := zero_erasure_info\<lparr>ei_DataBlocks := 2, ei_ParityBlocks := 2, ei_BlockSize := 1024,
         ei_Index := index, ei_Distribution := [1, 2, 3, 4]\<rparr>\<rparr>"

lemma sample_version_fields [simp]:
  "fi_ModTime (sample_version time index) = time" "fi_DataDir (sample_version time index) = ''d1''"
  "fi_Deleted (sample_version time index) = False"
  "ei_DataBlocks (fi_Erasure (sample_version time index)) = 2"
  "ei_ParityBlocks (fi_Erasure (sample_version time index)) = 2"
  "fi_Metadata (sample_version time index) = Map.empty"
  by (simp_all add: sample_version_def zero_file_info_def)

lemma sample_paths: "validStoragePath ''photos''" "validStoragePath ''a.jpg''" "validStoragePath ''d1''"
  by code_simp+

lemma sample_version_valid: "0 < index \<Longrightarrow> index \<le> 4 \<Longrightarrow> FileInfo_IsValid (sample_version time index)"
  by (simp add: FileInfo_IsValid_def validStorageFileInfoPaths_def validStorageFileInfoData_def
      sample_version_def zero_file_info_def zero_erasure_info_def sample_paths validStorageErasureInfo_def
      isXLMetaErasureInfoValid_def blockSizeV1_def globalMaxPartID_def Let_def)


section \<open>Agreement on the metadata\<close>

lemma meta_hash_ne: "meta_hash parse_time now modTime dataDir m \<noteq> '''' \<longleftrightarrow>
    FileInfo_IsValid m \<and> fi_ModTime m = modTime \<and> fi_DataDir m = dataDir"
  by (simp add: meta_hash_def)

lemma count_list_filter_ne: "h \<noteq> '''' \<Longrightarrow> count_list (filter (\<lambda>h. h \<noteq> '''') hs) h = count_list hs h"
  by (induction hs) auto

lemma length_meta_hashes [simp]: "length (meta_hashes parse_time now modTime dataDir ms) = length ms"
  by (simp add: meta_hashes_def)

lemma meta_hashes_nth:
  "i < length ms \<Longrightarrow>
     meta_hashes parse_time now modTime dataDir ms ! i = meta_hash parse_time (now i) modTime dataDir (ms ! i)"
  by (simp add: meta_hashes_def nth_enumerate_eq)

text \<open>
  C5: Metadata is served only with a quorum. For a positive quorum, \<^verbatim>\<open>findFileInfoInQuorum\<close> returns metadata
  exactly when some digest is shared by at least a quorum of the entries that are valid and have the wanted
  time and data directory; the returned metadata is such an entry, and at least a quorum of entries have its
  digest, of the parts, the distribution, the inline data, the transition and the user's metadata.
\<close>
theorem findFileInfoInQuorum_agreement:
  assumes "set hs = set (filter (\<lambda>h. h \<noteq> '''') (meta_hashes parse_time now modTime dataDir metaArr))"
    "0 < quorum"
  shows "(case findFileInfoInQuorum hs parse_time now metaArr modTime dataDir quorum of
      Inr fi \<Rightarrow> FileInfo_IsValid fi \<and> fi_ModTime fi = modTime \<and> fi_DataDir fi = dataDir \<and>
        (\<exists>i < length metaArr. metaArr ! i = fi \<and>
           quorum \<le> int (count_list (meta_hashes parse_time now modTime dataDir metaArr)
                          (sha256_hex (meta_preimage parse_time (now i) fi))))
    | Inl err \<Rightarrow> err = errErasureReadQuorum \<and>
        (\<forall>h. h \<noteq> '''' \<longrightarrow> int (count_list (meta_hashes parse_time now modTime dataDir metaArr) h) < quorum))"
proof -
  define all where "all = meta_hashes parse_time now modTime dataDir metaArr"
  define c where "c = count_list (filter (\<lambda>h. h \<noteq> '''') all)"
  have cl: "c h = count_list all h" if "h \<noteq> ''''" for h using that by (simp add: c_def count_list_filter_ne)
  have c0: "c h = 0" if "h \<notin> set hs" for h using that assms(1) by (simp add: c_def all_def)
  show ?thesis
  proof (cases "hs = []")
    case True
    then have "findFileInfoInQuorum hs parse_time now metaArr modTime dataDir quorum = Inl errErasureReadQuorum"
      using assms(2) by (simp add: findFileInfoInQuorum_def Let_def)
    moreover have "int (count_list all h) < quorum" if "h \<noteq> ''''" for h
      using c0 [of h] cl [OF that] True assms(2) by simp
    ultimately show ?thesis by (simp add: all_def)
  next
    case False
    have pos: "\<forall>k \<in> set hs. 0 < c k" using assms(1) by (simp add: c_def all_def count_list_pos_iff)
    from hashes.loop_max [OF False pos, of "''''"] obtain h where
      h: "foldl (max_hash_step c) (0, '''') hs = (c h, h)" "h \<in> set hs" "\<forall>k \<in> set hs. c k \<le> c h" by blast
    then have hin: "h \<in> set all" "h \<noteq> ''''" using assms(1) by (auto simp: all_def)
    have f: "findFileInfoInQuorum hs parse_time now metaArr modTime dataDir quorum =
        (if int (c h) < quorum then Inl errErasureReadQuorum
         else (case find (\<lambda>(x, meta). x = h) (zip all metaArr) of
                 Some (x, meta) \<Rightarrow> Inr meta | None \<Rightarrow> Inl errErasureReadQuorum))"
      using h(1) by (simp add: findFileInfoInQuorum_def Let_def all_def c_def)
    show ?thesis
    proof (cases "int (c h) < quorum")
      case True
      have "int (count_list all k) < quorum" if "k \<noteq> ''''" for k
      proof (cases "k \<in> set hs")
        case True
        then have "c k \<le> c h" using h(3) by blast
        then show ?thesis using cl [OF that] \<open>int (c h) < quorum\<close> by simp
      next
        case False
        then show ?thesis using c0 [OF False] cl [OF that] assms(2) by simp
      qed
      with f True show ?thesis by (simp add: all_def)
    next
      case q: False
      obtain i where i: "i < length metaArr" "all ! i = h"
        using hin(1) by (auto simp: in_set_conv_nth all_def)
      have "find (\<lambda>(x, meta). x = h) (zip all metaArr) \<noteq> None"
        using i by (auto simp: find_None_iff in_set_zip all_def)
      then obtain x m where xm: "find (\<lambda>(x, meta). x = h) (zip all metaArr) = Some (x, m)" by auto
      then obtain j where j: "j < length metaArr" "all ! j = h" "metaArr ! j = m"
        by (auto simp: find_Some_iff all_def)
      have mh: "meta_hash parse_time (now j) modTime dataDir m = h"
        using j by (simp add: all_def meta_hashes_nth)
      with hin(2) meta_hash_ne have v: "FileInfo_IsValid m \<and> fi_ModTime m = modTime \<and> fi_DataDir m = dataDir"
        by metis
      then have "sha256_hex (meta_preimage parse_time (now j) m) = h" using mh by (simp add: meta_hash_def)
      with f q xm v j(1,3) cl [OF hin(2)] show ?thesis by (auto simp: all_def)
    qed
  qed
qed

theorem findFileInfoInQuorum_agreement_witness:
  "\<exists>fi. findFileInfoInQuorum [sha256_hex (meta_preimage (\<lambda>s. None) 0 (sample_version 7 1))] (\<lambda>s. None) (\<lambda>i. 0)
       [sample_version 7 1, sample_version 7 2, sample_version 5 3, zero_file_info] 7 ''d1'' 2 = Inr fi \<and>
     FileInfo_IsValid fi \<and> fi_ModTime fi = 7"
proof -
  let ?ms = "[sample_version 7 1, sample_version 7 2, sample_version 5 3, zero_file_info]"
  let ?h = "sha256_hex (meta_preimage (\<lambda>s. None) 0 (sample_version 7 1))"
  have p: "meta_preimage (\<lambda>s. None) 0 (sample_version 7 2) = meta_preimage (\<lambda>s. None) 0 (sample_version 7 1)"
    by (simp add: meta_preimage_def sample_version_def transitionHasLocalData_def)
  have z: "fi_ModTime zero_file_info \<noteq> 7" by (simp add: zero_file_info_def zero_time_def)
  have hs: "meta_hashes (\<lambda>s. None) (\<lambda>i. 0) 7 ''d1'' ?ms = [?h, ?h, '''', '''']"
    using z by (simp add: meta_hashes_def meta_hash_def sample_version_valid p)
  then have "set [?h] = set (filter (\<lambda>h. h \<noteq> '''') (meta_hashes (\<lambda>s. None) (\<lambda>i. 0) 7 ''d1'' ?ms))" by simp
  from findFileInfoInQuorum_agreement [OF this, of 2] have
    "\<not> isl (findFileInfoInQuorum [?h] (\<lambda>s. None) (\<lambda>i. 0) ?ms 7 ''d1'' 2) \<and>
     FileInfo_IsValid (projr (findFileInfoInQuorum [?h] (\<lambda>s. None) (\<lambda>i. 0) ?ms 7 ''d1'' 2)) \<and>
     fi_ModTime (projr (findFileInfoInQuorum [?h] (\<lambda>s. None) (\<lambda>i. 0) ?ms 7 ''d1'' 2)) = 7"
    unfolding hs by (auto split: sum.splits dest: spec [of _ ?h])
  then show ?thesis by (metis sum.collapse(2))
qed

section \<open>Quorums\<close>

text \<open>The parity that \<^verbatim>\<open>objectQuorumFromMeta\<close> compares with, from the present configuration.\<close>

definition configured_parity :: "storage_class_config \<Rightarrow> int \<Rightarrow> file_info \<Rightarrow> int" where
  "configured_parity sCfg defaultParityCount fi =
     (let parity = GetParityForSC sCfg (case fi_Metadata fi ''x-amz-storage-class'' of None \<Rightarrow> '''' | Some s \<Rightarrow> s)
      in if parity \<le> 0 then defaultParityCount else parity)"

text \<open>
  C19: Whether quorums intersect. For valid metadata of an object with \<open>d\<close> data and \<open>p\<close> parity blocks the read
  quorum is \<open>d\<close> and the write quorum \<open>d\<close> or \<open>d + 1\<close>, at most the number of drives; a read and a write quorum,
  and two write quorums, have a drive in common exactly when \<open>d\<close> is more than \<open>p\<close> or the parity that is
  configured now is \<open>d\<close>. So an object that was written with \<open>d = p\<close> loses this when the configuration changes.
\<close>
theorem objectQuorum_intersection:
  assumes "FileInfo_IsValid fi" "\<not> fi_Deleted fi"
    "d = ei_DataBlocks (fi_Erasure fi)" "p = ei_ParityBlocks (fi_Erasure fi)" "quorums_of sCfg dflt fi = (r, w)"
  shows "r = d \<and> 1 \<le> r \<and> r \<le> w \<and> w \<le> d + p \<and>
    (d + p < r + w) = (p < d \<or> configured_parity sCfg dflt fi = d) \<and>
    (d + p < 2 * w) = (p < d \<or> configured_parity sCfg dflt fi = d)"
proof -
  have v: "0 < d" "0 < p" "p \<le> d"
    using assms(1-4)
    by (auto simp: FileInfo_IsValid_def validStorageFileInfoData_def validStorageErasureInfo_def
        isXLMetaErasureInfoValid_def Let_def split: if_splits)
  have "r = d" "w = (if d = configured_parity sCfg dflt fi then d + 1 else d)"
    using assms(3,5) by (auto simp: quorums_of_def configured_parity_def Let_def split: if_splits)
  with v show ?thesis by auto
qed

theorem objectQuorum_intersection_witness:
  "quorums_of \<lparr>Standard = 3, RRS = 2, DMA = ''write''\<rparr> 2 (sample_version 7 1) = (2, 2) \<and>
   configured_parity \<lparr>Standard = 3, RRS = 2, DMA = ''write''\<rparr> 2 (sample_version 7 1) \<noteq> 2 \<and>
   quorums_of \<lparr>Standard = 0, RRS = 2, DMA = ''write''\<rparr> 2 (sample_version 7 1) = (2, 3) \<and>
   configured_parity \<lparr>Standard = 0, RRS = 2, DMA = ''write''\<rparr> 2 (sample_version 7 1) = 2"
proof -
  have t: "TrimSpace '''' \<noteq> ''REDUCED_REDUNDANCY''" using set_TrimSpace [of "''''"] by auto
  have q: "quorums_of \<lparr>Standard = 3, RRS = 2, DMA = ''write''\<rparr> 2 (sample_version 7 1) = (2, 2)"
    "quorums_of \<lparr>Standard = 0, RRS = 2, DMA = ''write''\<rparr> 2 (sample_version 7 1) = (2, 3)"
    using t by (simp_all add: quorums_of_def GetParityForSC_def Let_def)
  have v: "FileInfo_IsValid (sample_version 7 1)" by (rule sample_version_valid) simp_all
  have nd: "\<not> fi_Deleted (sample_version 7 1)" by simp
  note o = objectQuorum_intersection [OF v nd refl refl, unfolded sample_version_fields]
  show ?thesis using q o [OF q(1)] o [OF q(2)] by simp
qed

section \<open>Sizes of parts\<close>

text \<open>The sizes of the parts of an upload add up to its size.\<close>

lemma calculatePartSize_values:
  assumes "0 < tot" "0 < part" "in_int64 (tot + 1)" "1 \<le> i"
  shows "calculatePartSizeFromIdx tot part i =
    Inr (if i \<le> tot div part then part else if i = tot div part + 1 then tot mod part else 0)"
proof -
  have t: "in_int64 tot" by (rule in_int64_between [OF _ _ assms(3)]) (use assms(1) in simp_all)
  have "tot div part \<le> tot" using assms(1,2) by (simp add: div_le_self)
  then have w: "in_int64 (tot div part + 1)"
    using in_int64_between [OF _ _ assms(3), of "tot div part + 1"] assms(1,2)
    by (simp add: pos_imp_zdiv_nonneg_iff)
  show ?thesis
    using assms t w by (simp add: calculatePartSizeFromIdx_def quot64_nonneg rem64_nonneg wrap64_id Let_def)
qed

lemma calculatePartSize_sum:
  assumes "0 < tot" "0 < part" "in_int64 (tot + 1)"
  shows "(\<Sum>i = 1..nat (tot div part) + 1. projr (calculatePartSizeFromIdx tot part (int i))) = tot"
proof -
  have n: "0 \<le> tot div part" using assms by (simp add: pos_imp_zdiv_nonneg_iff)
  have v: "projr (calculatePartSizeFromIdx tot part (int i)) =
      (if i \<le> nat (tot div part) then part else if i = nat (tot div part) + 1 then tot mod part else 0)"
    if "1 \<le> i" for i
    using calculatePartSize_values [OF assms, of "int i"] that n by (auto simp: le_nat_iff)
  have "(\<Sum>i = 1..nat (tot div part). projr (calculatePartSizeFromIdx tot part (int i))) =
      (\<Sum>i = 1..nat (tot div part). part)"
    by (rule sum.cong) (simp_all add: v)
  also have "\<dots> = (tot div part) * part" using n by simp
  finally show ?thesis using v [of "nat (tot div part) + 1"] by simp
qed

end
