(* ===== verification/Object_Lock.thy ===== *)
theory Object_Lock
  imports Go_Time
begin

text \<open>
  Retention and legal hold: \<^verbatim>\<open>pkg/bucket/object/lock/lock.go\<close>, their enforcement in
  \<^verbatim>\<open>cmd/bucket-object-lock.go\<close> and the permission check \<^verbatim>\<open>isPutRetentionAllowed\<close> of \<^verbatim>\<open>cmd/auth-handler.go\<close>.
  The clock is an argument: \<^const>\<open>None\<close> is a failure of the NTP server; its location is UTC. \<open>parse_time\<close> is
  \<^verbatim>\<open>time.Parse\<close> with the layout RFC 3339. Decoding XML is left to the library: the functions that decode have the
  decoded value as argument and make the checks of the code on it.
\<close>

section \<open>Modes and states\<close>

definition RetGovernance :: string where
  "RetGovernance = ''GOVERNANCE''"

definition RetCompliance :: string where
  "RetCompliance = ''COMPLIANCE''"

definition RetMode_Valid :: "string \<Rightarrow> bool" where
  "RetMode_Valid r \<longleftrightarrow> r = RetGovernance \<or> r = RetCompliance"

definition parseRetMode :: "string \<Rightarrow> string" where
  "parseRetMode modeStr =
     (if upper_is modeStr ''GOVERNANCE'' then RetGovernance
      else if upper_is modeStr ''COMPLIANCE'' then RetCompliance
      else '''')"

definition LegalHoldOn :: string where
  "LegalHoldOn = ''ON''"

definition LegalHoldOff :: string where
  "LegalHoldOff = ''OFF''"

definition LegalHoldStatus_Valid :: "string \<Rightarrow> bool" where
  "LegalHoldStatus_Valid l \<longleftrightarrow> l = LegalHoldOn \<or> l = LegalHoldOff"

definition parseLegalHoldStatus :: "string \<Rightarrow> string" where
  "parseLegalHoldStatus holdStr =
     (if upper_is holdStr ''ON'' then LegalHoldOn
      else if upper_is holdStr ''OFF'' then LegalHoldOff
      else '''')"

definition AmzObjectLockBypassRetGovernance :: string where
  "AmzObjectLockBypassRetGovernance = ''X-Amz-Bypass-Governance-Retention''"

definition AmzObjectLockRetainUntilDate :: string where
  "AmzObjectLockRetainUntilDate = ''X-Amz-Object-Lock-Retain-Until-Date''"

definition AmzObjectLockMode :: string where
  "AmzObjectLockMode = ''X-Amz-Object-Lock-Mode''"

definition AmzObjectLockLegalHold :: string where
  "AmzObjectLockLegalHold = ''X-Amz-Object-Lock-Legal-Hold''"

datatype lock_error =
  InvalidRetentionDate | PastObjectLockRetainDate | UnknownWORMModeDirective |
  ObjectLockInvalidHeaders | MalformedXML | UnknownRetentionMode string | DaysOrYearsMissing |
  DaysAndYears | DaysZero | DaysTooLarge nat | YearsZero | YearsTooLarge nat | NotEnabled |
  UnexpectedElement string | DecodeError

section \<open>Configuration of a bucket\<close>

record retention =
  rt_Mode :: string
  rt_Validity :: int
  rt_LockEnabled :: bool

definition Retain :: "int option \<Rightarrow> retention \<Rightarrow> int \<Rightarrow> bool" where
  "Retain now r created = (case now of None \<Rightarrow> True | Some t \<Rightarrow> created + rt_Validity r > t)"

record default_retention =
  dr_Mode :: string
  dr_Days :: "nat option"
  dr_Years :: "nat option"

definition maximumRetentionDays :: nat where
  "maximumRetentionDays = 36500"

definition maximumRetentionYears :: nat where
  "maximumRetentionYears = 100"

text \<open>The checks of \<^verbatim>\<open>UnmarshalXML\<close> on the decoded element.\<close>

definition DefaultRetention_UnmarshalXML :: "default_retention \<Rightarrow> lock_error + default_retention" where
  "DefaultRetention_UnmarshalXML r =
     (if dr_Mode r \<noteq> RetGovernance \<and> dr_Mode r \<noteq> RetCompliance then Inl (UnknownRetentionMode (dr_Mode r))
      else
        (case (dr_Days r, dr_Years r) of
           (None, None) \<Rightarrow> Inl DaysOrYearsMissing
         | (Some d, Some y) \<Rightarrow> Inl DaysAndYears
         | (Some d, None) \<Rightarrow>
             if d = 0 then Inl DaysZero
             else if d > maximumRetentionDays then Inl (DaysTooLarge d)
             else Inr r
         | (None, Some y) \<Rightarrow>
             if y = 0 then Inl YearsZero
             else if y > maximumRetentionYears then Inl (YearsTooLarge y)
             else Inr r))"

record lock_config =
  lc_ObjectLockEnabled :: string
  lc_Rule :: "default_retention option"

definition Config_UnmarshalXML :: "lock_config \<Rightarrow> lock_error + lock_config" where
  "Config_UnmarshalXML parsedConfig =
     (if lc_ObjectLockEnabled parsedConfig \<noteq> ''Enabled'' then Inl NotEnabled else Inr parsedConfig)"

text \<open>
  \<^verbatim>\<open>ParseObjectLockConfig\<close> decodes the rule with the checks of the default retention and then checks the
  configuration.
\<close>

definition ParseObjectLockConfig :: "lock_config \<Rightarrow> lock_error + lock_config" where
  "ParseObjectLockConfig decoded =
     (case lc_Rule decoded of
        None \<Rightarrow> Config_UnmarshalXML decoded
      | Some dr \<Rightarrow>
          (case DefaultRetention_UnmarshalXML dr of
             Inl err \<Rightarrow> Inl err
           | Inr dr' \<Rightarrow> Config_UnmarshalXML (decoded\<lparr>lc_Rule := Some dr'\<rparr>)))"

definition NewObjectLockConfig :: lock_config where
  "NewObjectLockConfig = \<lparr>lc_ObjectLockEnabled = ''Enabled'', lc_Rule = None\<rparr>"

text \<open>\<^const>\<open>None\<close> is the panic on a rule with neither days nor years.\<close>

definition ToRetention :: "int option \<Rightarrow> lock_config \<Rightarrow> retention option" where
  "ToRetention now config =
     (let r = \<lparr>rt_Mode = '''', rt_Validity = 0, rt_LockEnabled = (lc_ObjectLockEnabled config = ''Enabled'')\<rparr>
      in case lc_Rule config of
           None \<Rightarrow> Some r
         | Some rule \<Rightarrow>
             (let r' = r\<lparr>rt_Mode := dr_Mode rule\<rparr>
              in case now of
                   None \<Rightarrow> Some r'
                 | Some t \<Rightarrow>
                     (case dr_Days rule of
                        Some d \<Rightarrow> Some (r'\<lparr>rt_Validity := time_Sub (AddDate_days (wrap64 (int d)) t) t\<rparr>)
                      | None \<Rightarrow>
                          (case dr_Years rule of
                             None \<Rightarrow> None
                           | Some y \<Rightarrow> Some (r'\<lparr>rt_Validity := time_Sub (AddDate_years (wrap64 (int y)) t) t\<rparr>)))))"

section \<open>Retention and legal hold of an object\<close>

text \<open>The decoded text of a date.\<close>

definition RetentionDate_UnmarshalXML :: "(string \<Rightarrow> int option) \<Rightarrow> string \<Rightarrow> lock_error + int" where
  "RetentionDate_UnmarshalXML parse_time dateStr =
     (case parse_time dateStr of None \<Rightarrow> Inl InvalidRetentionDate | Some retDate \<Rightarrow> Inr retDate)"

record object_retention =
  ret_Mode :: string
  ret_Until :: int

definition no_retention :: object_retention where
  "no_retention = \<lparr>ret_Mode = '''', ret_Until = zero_time\<rparr>"

definition ParseObjectRetention :: "int option \<Rightarrow> object_retention \<Rightarrow> lock_error + object_retention" where
  "ParseObjectRetention now ret =
     (if ret_Mode ret \<noteq> '''' \<and> \<not> RetMode_Valid (ret_Mode ret) then Inl UnknownWORMModeDirective
      else if RetMode_Valid (ret_Mode ret) \<and> ret_Until ret = zero_time then Inl MalformedXML
      else if \<not> RetMode_Valid (ret_Mode ret) \<and> ret_Until ret \<noteq> zero_time then Inl MalformedXML
      else
        (case now of
           None \<Rightarrow> Inl PastObjectLockRetainDate
         | Some t \<Rightarrow>
             if ret_Until ret \<noteq> zero_time \<and> ret_Until ret < t then Inl PastObjectLockRetainDate
             else Inr ret))"

text \<open>The headers of a request: the values by canonical key; \<^verbatim>\<open>h.Get\<close> is the first value or nothing.\<close>

type_synonym header = "string \<rightharpoonup> string list"

definition header_Get :: "header \<Rightarrow> string \<Rightarrow> string" where
  "header_Get h k = (case h k of Some (v # vs) \<Rightarrow> v | _ \<Rightarrow> '''')"

definition IsObjectLockRetentionRequested :: "header \<Rightarrow> bool" where
  "IsObjectLockRetentionRequested h =
     (if h AmzObjectLockMode \<noteq> None then True
      else if h AmzObjectLockRetainUntilDate \<noteq> None then True
      else False)"

definition IsObjectLockLegalHoldRequested :: "header \<Rightarrow> bool" where
  "IsObjectLockLegalHoldRequested h = (h AmzObjectLockLegalHold \<noteq> None)"

definition IsObjectLockGovernanceBypassSet :: "header \<Rightarrow> bool" where
  "IsObjectLockGovernanceBypassSet h = lower_is (header_Get h AmzObjectLockBypassRetGovernance) ''true''"

definition IsObjectLockRequested :: "header \<Rightarrow> bool" where
  "IsObjectLockRequested h = (IsObjectLockLegalHoldRequested h \<or> IsObjectLockRetentionRequested h)"

definition ParseObjectLockRetentionHeaders ::
  "(string \<Rightarrow> int option) \<Rightarrow> int option \<Rightarrow> header \<Rightarrow> lock_error + object_retention" where
  "ParseObjectLockRetentionHeaders parse_time now h =
     (let retMode = header_Get h AmzObjectLockMode; dateStr = header_Get h AmzObjectLockRetainUntilDate
      in if length retMode = 0 \<or> length dateStr = 0 then Inl ObjectLockInvalidHeaders
         else
           (let rmode = parseRetMode retMode
            in if \<not> RetMode_Valid rmode then Inl UnknownWORMModeDirective
               else
                 (case parse_time dateStr of
                    None \<Rightarrow> Inl InvalidRetentionDate
                  | Some retDate \<Rightarrow>
                      (case now of
                         None \<Rightarrow> Inl PastObjectLockRetainDate
                       | Some t \<Rightarrow>
                           if retDate < t then Inl PastObjectLockRetainDate
                           else Inr \<lparr>ret_Mode = rmode, ret_Until = retDate\<rparr>))))"

text \<open>The lower case keys that the handlers write, and the lookup by the lower case key first.\<close>

definition lower_key :: "string \<Rightarrow> string" where
  "lower_key k = map to_lower k"

definition lookup_meta :: "(string \<rightharpoonup> string) \<Rightarrow> string \<Rightarrow> string option" where
  "lookup_meta meta key = (case meta (lower_key key) of Some v \<Rightarrow> Some v | None \<Rightarrow> meta key)"

definition GetObjectRetentionMeta :: "(string \<Rightarrow> int option) \<Rightarrow> (string \<rightharpoonup> string) \<Rightarrow> object_retention" where
  "GetObjectRetentionMeta parse_time meta =
     (case lookup_meta meta AmzObjectLockMode of
        None \<Rightarrow> no_retention
      | Some modeStr \<Rightarrow>
          \<lparr>ret_Mode = parseRetMode modeStr,
           ret_Until =
             (case lookup_meta meta AmzObjectLockRetainUntilDate of
                None \<Rightarrow> zero_time
              | Some tillStr \<Rightarrow> (case parse_time tillStr of None \<Rightarrow> zero_time | Some t \<Rightarrow> t))\<rparr>)"

text \<open>The status of a legal hold; the empty string is the empty structure.\<close>

definition GetObjectLegalHoldMeta :: "(string \<rightharpoonup> string) \<Rightarrow> string" where
  "GetObjectLegalHoldMeta meta =
     (case lookup_meta meta AmzObjectLockLegalHold of
        None \<Rightarrow> ''''
      | Some holdStr \<Rightarrow> parseLegalHoldStatus holdStr)"

text \<open>\<^const>\<open>None\<close> is the panic on a header with no value.\<close>

definition ParseObjectLockLegalHoldHeaders :: "header \<Rightarrow> (lock_error + string) option" where
  "ParseObjectLockLegalHoldHeaders h =
     (case h AmzObjectLockLegalHold of
        None \<Rightarrow> Some (Inr '''')
      | Some [] \<Rightarrow> None
      | Some (holdStatus # rest) \<Rightarrow>
          (let lh = parseLegalHoldStatus holdStatus
           in Some (if \<not> LegalHoldStatus_Valid lh then Inl UnknownWORMModeDirective else Inr lh)))"

text \<open>
  The tokens behind the start element of a legal hold: the start of an element with the outcome of decoding
  its content, an error of the decoder, or anything else; the end of the list is the end of the input.
\<close>

datatype hold_token = HoldStart string "string option" | HoldError | HoldOther

fun hold_tokens :: "hold_token list \<Rightarrow> string \<Rightarrow> lock_error + string" where
  "hold_tokens [] status = Inr status"
| "hold_tokens (HoldError # ts) status = Inl DecodeError"
| "hold_tokens (HoldOther # ts) status = hold_tokens ts status"
| "hold_tokens (HoldStart name content # ts) status =
     (if name = ''Status'' then
        (case content of None \<Rightarrow> Inl DecodeError | Some st \<Rightarrow> hold_tokens ts st)
      else Inl (UnexpectedElement name))"

definition ObjectLegalHold_UnmarshalXML :: "string \<Rightarrow> hold_token list \<Rightarrow> lock_error + string" where
  "ObjectLegalHold_UnmarshalXML start ts =
     (if start = ''LegalHold'' \<or> start = ''ObjectLockLegalHold'' then hold_tokens ts ''''
      else Inl (UnexpectedElement start))"

definition ObjectLegalHold_IsEmpty :: "string \<Rightarrow> bool" where
  "ObjectLegalHold_IsEmpty status = (\<not> LegalHoldStatus_Valid status)"

definition ParseObjectLegalHold :: "string \<Rightarrow> hold_token list \<Rightarrow> lock_error + string" where
  "ParseObjectLegalHold start ts =
     (case ObjectLegalHold_UnmarshalXML start ts of
        Inl err \<Rightarrow> Inl err
      | Inr status \<Rightarrow> if \<not> LegalHoldStatus_Valid status then Inl MalformedXML else Inr status)"

definition FilterObjectLockMetadata ::
  "(string \<Rightarrow> int option) \<Rightarrow> (string \<rightharpoonup> string) \<Rightarrow> bool \<Rightarrow> bool \<Rightarrow> (string \<rightharpoonup> string)" where
  "FilterObjectLockMetadata parse_time metadata filterRetention filterLegalHold =
     (let dst = (if \<not> LegalHoldStatus_Valid (GetObjectLegalHoldMeta metadata) \<or> filterLegalHold
                 then metadata(AmzObjectLockLegalHold := None) else metadata)
      in if \<not> RetMode_Valid (ret_Mode (GetObjectRetentionMeta parse_time metadata)) \<or> filterRetention
         then dst(AmzObjectLockMode := None, AmzObjectLockRetainUntilDate := None)
         else dst)"

section \<open>Enforcement\<close>

datatype api_error =
  ErrNone | ErrObjectLocked | ErrAccessDenied | ErrInvalidBucketObjectLockConfiguration |
  ErrClientDisconnected | ErrInvalidRetentionDate | ErrPastObjectLockRetainDate |
  ErrUnknownWORMModeDirective | ErrObjectLockInvalidHeaders | ErrMalformedXML | ErrOther string

text \<open>
  \<^verbatim>\<open>toAPIErrorCode\<close> on the errors of the headers; \<open>canceled\<close> says that the context of the request is canceled.
\<close>

definition lock_api_code :: "bool \<Rightarrow> lock_error option \<Rightarrow> api_error" where
  "lock_api_code canceled err =
     (case err of
        None \<Rightarrow> ErrNone
      | Some e \<Rightarrow>
          if canceled then ErrClientDisconnected
          else (case e of
                  InvalidRetentionDate \<Rightarrow> ErrInvalidRetentionDate
                | PastObjectLockRetainDate \<Rightarrow> ErrPastObjectLockRetainDate
                | UnknownWORMModeDirective \<Rightarrow> ErrUnknownWORMModeDirective
                | ObjectLockInvalidHeaders \<Rightarrow> ErrObjectLockInvalidHeaders
                | MalformedXML \<Rightarrow> ErrMalformedXML
                | _ \<Rightarrow> ErrOther ''ErrInternalError''))"

text \<open>
  \<^verbatim>\<open>BucketObjectLockSys.Get\<close>: whether the server is a gateway and whether its object layer is there, and the
  outcome of the lookup of the configuration, where the inner \<^const>\<open>None\<close> is a configuration that is not found.
\<close>

definition zero_retention :: retention where
  "zero_retention = \<lparr>rt_Mode = '''', rt_Validity = 0, rt_LockEnabled = False\<rparr>"

definition BucketObjectLockSys_Get ::
  "bool \<Rightarrow> bool \<Rightarrow> int option \<Rightarrow> 'e + lock_config option \<Rightarrow> 'e \<Rightarrow> ('e + retention) option" where
  "BucketObjectLockSys_Get gateway layer now lookup notInitialized =
     (if gateway then (if \<not> layer then Some (Inl notInitialized) else Some (Inr zero_retention))
      else (case lookup of
              Inl err \<Rightarrow> Some (Inl err)
            | Inr None \<Rightarrow> Some (Inr zero_retention)
            | Inr (Some config) \<Rightarrow> map_option Inr (ToRetention now config)))"

definition enforceRetentionForDeletion ::
  "(string \<Rightarrow> int option) \<Rightarrow> int option \<Rightarrow> (string \<rightharpoonup> string) \<Rightarrow> bool" where
  "enforceRetentionForDeletion parse_time now userDefined =
     (let lhold = GetObjectLegalHoldMeta userDefined in
      if LegalHoldStatus_Valid lhold \<and> lhold = LegalHoldOn then True
      else
        (let ret = GetObjectRetentionMeta parse_time userDefined in
         if RetMode_Valid (ret_Mode ret) \<and> (ret_Mode ret = RetCompliance \<or> ret_Mode ret = RetGovernance) then
           (case now of None \<Rightarrow> True | Some t \<Rightarrow> ret_Until ret > t)
         else False))"

datatype get_error = MethodNotAllowed | ObjectOrVersionNotFound | OtherGetError

text \<open>
  The arguments are the outcome of \<^verbatim>\<open>getOpts\<close>, the error of \<^verbatim>\<open>GetObjectInfo\<close> if any with its code, the object
  with its delete marker flag and metadata, the headers, the clock and the outcome of the permission check
  for bypassing governance.
\<close>

definition enforceRetentionBypassForDelete ::
  "(string \<Rightarrow> int option) \<Rightarrow> (get_error \<Rightarrow> api_error) \<Rightarrow> api_error option \<Rightarrow> get_error option \<Rightarrow>
     bool \<Rightarrow> (string \<rightharpoonup> string) \<Rightarrow> header \<Rightarrow> int option \<Rightarrow> api_error \<Rightarrow> api_error" where
  "enforceRetentionBypassForDelete parse_time code optsErr gerr deleteMarker userDefined h now bypassAuth =
     (case optsErr of
        Some e \<Rightarrow> e
      | None \<Rightarrow>
          (case gerr of
             Some ge \<Rightarrow>
               if ge = MethodNotAllowed \<and> deleteMarker then ErrNone
               else if ge = ObjectOrVersionNotFound then ErrNone
               else code ge
           | None \<Rightarrow>
               (let lhold = GetObjectLegalHoldMeta userDefined in
                if LegalHoldStatus_Valid lhold \<and> lhold = LegalHoldOn then ErrObjectLocked
                else
                  (let ret = GetObjectRetentionMeta parse_time userDefined;
                       by_date = (case now of
                           None \<Rightarrow> ErrObjectLocked
                         | Some t \<Rightarrow> if \<not> ret_Until ret < t then ErrObjectLocked else ErrNone)
                   in if RetMode_Valid (ret_Mode ret) then
                        (if ret_Mode ret = RetCompliance then by_date
                         else if ret_Mode ret = RetGovernance then
                           (if \<not> IsObjectLockGovernanceBypassSet h then by_date
                            else if bypassAuth \<noteq> ErrNone then ErrAccessDenied
                            else ErrNone)
                         else ErrNone)
                      else ErrNone))))"

text \<open>
  \<^verbatim>\<open>isPutRetentionAllowed\<close>: \<open>allowed\<close> is the decision of the policy engine for an action under conditions,
  of the bucket policies for an anonymous request and of the IAM policies otherwise, and \<open>base\<close> are the
  condition values of the request.
\<close>

definition retention_conditions ::
  "(int \<Rightarrow> string) \<Rightarrow> header \<Rightarrow> int \<Rightarrow> int \<Rightarrow> string \<Rightarrow> header" where
  "retention_conditions format_time base retDays retDate retMode =
     (let c = base(''object-lock-mode'' \<mapsto> [retMode], ''object-lock-retain-until-date'' \<mapsto> [format_time retDate])
      in if retDays > 0 then c(''object-lock-remaining-retention-days'' \<mapsto> [Itoa retDays]) else c)"

definition isPutRetentionAllowed ::
  "(int \<Rightarrow> string) \<Rightarrow> (string \<Rightarrow> header \<Rightarrow> bool) \<Rightarrow> header \<Rightarrow> int \<Rightarrow> int \<Rightarrow> string \<Rightarrow> bool \<Rightarrow> api_error" where
  "isPutRetentionAllowed format_time allowed base retDays retDate retMode byPassSet =
     (let conditions = retention_conditions format_time base retDays retDate retMode;
          byPass = (if retMode = RetGovernance \<and> byPassSet
                    then allowed ''s3:BypassGovernanceRetention'' conditions else byPassSet);
          retSet = allowed ''s3:PutObjectRetention'' conditions
      in if byPass \<or> retSet then ErrNone else ErrAccessDenied)"

text \<open>
  \<open>perm\<close> is \<^verbatim>\<open>isPutRetentionAllowed\<close> for the days, the date, the mode and the bypass flag of the call, and
  \<open>days_of\<close> the floating point computation of the number of days. The result does not include the object.
\<close>

definition enforceRetentionBypassForPut ::
  "(string \<Rightarrow> int option) \<Rightarrow> (int \<Rightarrow> int) \<Rightarrow> (int \<Rightarrow> int \<Rightarrow> string \<Rightarrow> bool \<Rightarrow> api_error) \<Rightarrow>
     api_error option \<Rightarrow> api_error + (string \<rightharpoonup> string) \<Rightarrow> header \<Rightarrow> int option \<Rightarrow> object_retention \<Rightarrow> api_error" where
  "enforceRetentionBypassForPut parse_time days_of perm optsErr info h now objRetention =
     (let byPassSet = IsObjectLockGovernanceBypassSet h in
      case optsErr of
        Some e \<Rightarrow> e
      | None \<Rightarrow>
          (case info of
             Inl e \<Rightarrow> e
           | Inr userDefined \<Rightarrow>
               (case now of
                  None \<Rightarrow> ErrObjectLocked
                | Some t \<Rightarrow>
                    (let days = days_of (time_Sub (ret_Until objRetention) t);
                         ask = perm days (ret_Until objRetention) (ret_Mode objRetention);
                         ret = GetObjectRetentionMeta parse_time userDefined
                     in if RetMode_Valid (ret_Mode ret) then
                          (if ret_Until ret < t then ask byPassSet
                           else if ret_Mode ret = RetGovernance then
                             (if \<not> byPassSet \<and>
                                 (ret_Mode objRetention \<noteq> RetGovernance \<or> ret_Until objRetention < ret_Until ret)
                              then ErrObjectLocked
                              else ask byPassSet)
                           else if ret_Mode ret = RetCompliance then
                             (if ret_Mode objRetention \<noteq> RetCompliance \<or> ret_Until objRetention < ret_Until ret
                              then ErrObjectLocked
                              else ask False)
                           else ErrNone)
                        else ask byPassSet))))"

text \<open>
  What \<^verbatim>\<open>PutObjectRetentionHandler\<close> writes into the metadata when the request is accepted.
\<close>

definition put_retention_metadata ::
  "(int \<Rightarrow> string) \<Rightarrow> object_retention \<Rightarrow> (string \<rightharpoonup> string) \<Rightarrow> (string \<rightharpoonup> string)" where
  "put_retention_metadata format_time objRetention userDefined =
     (if RetMode_Valid (ret_Mode objRetention) then
        userDefined(lower_key AmzObjectLockMode \<mapsto> ret_Mode objRetention,
                    lower_key AmzObjectLockRetainUntilDate \<mapsto> format_time (ret_Until objRetention))
      else
        userDefined(lower_key AmzObjectLockMode \<mapsto> '''', lower_key AmzObjectLockRetainUntilDate \<mapsto> ''''))"

text \<open>
  \<^verbatim>\<open>checkPutObjectLockAllowed\<close>: \<open>cfg\<close> is the outcome of the lookup of the bucket's retention, \<open>opts\<close> the version
  that the request names or the code of its error, \<open>info\<close> the metadata of that version if it can be read, and
  the clock is read at three places. \<^const>\<open>None\<close> is the panic on a legal hold header with no value.
\<close>

definition check_existing ::
  "(string \<Rightarrow> int option) \<Rightarrow> int option \<Rightarrow> (string \<rightharpoonup> string) option \<Rightarrow>
     object_retention \<times> string \<times> api_error" where
  "check_existing parse_time now info =
     (case info of
        None \<Rightarrow> (no_retention, '''', ErrNone)
      | Some userDefined \<Rightarrow>
          (let r = GetObjectRetentionMeta parse_time userDefined in
           case now of
             None \<Rightarrow> (no_retention, '''', ErrObjectLocked)
           | Some t \<Rightarrow>
               if ret_Mode r = RetCompliance \<and> ret_Until r > t then (no_retention, '''', ErrObjectLocked)
               else
                 (let legalHold = GetObjectLegalHoldMeta userDefined
                  in (r, legalHold, if legalHold = LegalHoldOn then ErrObjectLocked else ErrNone))))"

definition requested_lock ::
  "(string \<Rightarrow> int option) \<Rightarrow> int option \<Rightarrow> int option \<Rightarrow> bool \<Rightarrow> retention \<Rightarrow> header \<Rightarrow> bool \<Rightarrow> api_error \<Rightarrow>
     object_retention \<Rightarrow> string \<Rightarrow> (object_retention \<times> string \<times> api_error) option" where
  "requested_lock parse_time now1 now2 canceled retentionCfg h replica retentionPermErr ret legalHold =
     (let retentionRequested = IsObjectLockRetentionRequested h;
          legalHoldRequested = IsObjectLockLegalHoldRequested h;
          parsed = (if legalHoldRequested then ParseObjectLockLegalHoldHeaders h else Some (Inr legalHold))
      in case parsed of
           None \<Rightarrow> None
         | Some (Inl lerr) \<Rightarrow> Some (ret, '''', lock_api_code canceled None)
         | Some (Inr legalHold) \<Rightarrow>
             if retentionRequested then
               (case ParseObjectLockLegalHoldHeaders h of
                  None \<Rightarrow> None
                | Some (Inl err) \<Rightarrow> Some (ret, '''', lock_api_code canceled (Some err))
                | Some (Inr hold) \<Rightarrow>
                    (case ParseObjectLockRetentionHeaders parse_time now1 h of
                       Inl err \<Rightarrow> Some (ret, hold, lock_api_code canceled (Some err))
                     | Inr requested \<Rightarrow>
                         if retentionPermErr \<noteq> ErrNone then Some (ret, hold, retentionPermErr)
                         else Some (requested, hold, ErrNone)))
             else if replica then Some (no_retention, legalHold, ErrNone)
             else if rt_Validity retentionCfg > 0 then
               (if retentionPermErr \<noteq> ErrNone then Some (ret, legalHold, retentionPermErr)
                else
                  (case now2 of
                     None \<Rightarrow> Some (ret, legalHold, ErrObjectLocked)
                   | Some t \<Rightarrow>
                       if \<not> legalHoldRequested \<and> rt_LockEnabled retentionCfg
                       then Some (\<lparr>ret_Mode = rt_Mode retentionCfg, ret_Until = t + rt_Validity retentionCfg\<rparr>,
                                  legalHold, ErrNone)
                       else Some (no_retention, legalHold, ErrNone)))
             else Some (ret, legalHold, ErrNone))"

definition checkPutObjectLockAllowed ::
  "(string \<Rightarrow> int option) \<Rightarrow> int option \<Rightarrow> int option \<Rightarrow> int option \<Rightarrow> bool \<Rightarrow> 'e + retention \<Rightarrow>
     header \<Rightarrow> api_error + string \<Rightarrow> (string \<rightharpoonup> string) option \<Rightarrow> api_error \<Rightarrow>
     (object_retention \<times> string \<times> api_error) option" where
  "checkPutObjectLockAllowed parse_time now0 now1 now2 canceled cfg h opts info retentionPermErr =
     (case cfg of
        Inl err \<Rightarrow> Some (no_retention, '''', ErrInvalidBucketObjectLockConfiguration)
      | Inr retentionCfg \<Rightarrow>
          if \<not> rt_LockEnabled retentionCfg then
            Some (no_retention, '''',
                  if IsObjectLockLegalHoldRequested h \<or> IsObjectLockRetentionRequested h
                  then ErrInvalidBucketObjectLockConfiguration else ErrNone)
          else
            (case opts of
               Inl e \<Rightarrow> Some (no_retention, '''', e)
             | Inr versionID \<Rightarrow>
                 (let replica = (header_Get h ''X-Amz-Replication-Status'' = ''REPLICA'');
                      (ret, hold, err) =
                        (if versionID \<noteq> '''' \<and> \<not> replica then check_existing parse_time now0 info
                         else (no_retention, '''', ErrNone))
                  in if err \<noteq> ErrNone then Some (ret, hold, err)
                     else requested_lock parse_time now1 now2 canceled retentionCfg h replica retentionPermErr
                            ret hold)))"

end
