(* ===== verification/Object_Lock_Facts.thy ===== *)
theory Object_Lock_Facts
  imports Object_Lock
begin

text \<open>
  What retention and legal hold guarantee: compliance mode over all sequences of operations, the exact
  conditions for deleting a version and for changing a governance retention, and two gaps, in the filter of
  the metadata and in the default retention of a bucket.
\<close>

section \<open>Keys and modes\<close>

lemmas lock_keys = AmzObjectLockMode_def AmzObjectLockRetainUntilDate_def AmzObjectLockLegalHold_def

lemma lower_keys:
  "lower_key AmzObjectLockMode = ''x-amz-object-lock-mode''"
  "lower_key AmzObjectLockRetainUntilDate = ''x-amz-object-lock-retain-until-date''"
  "lower_key AmzObjectLockLegalHold = ''x-amz-object-lock-legal-hold''"
  by code_simp+

lemma lower_keys_differ [simp]:
  "lower_key AmzObjectLockMode \<noteq> lower_key AmzObjectLockRetainUntilDate"
  "lower_key AmzObjectLockRetainUntilDate \<noteq> lower_key AmzObjectLockMode"
  "lower_key AmzObjectLockMode \<noteq> lower_key AmzObjectLockLegalHold"
  "lower_key AmzObjectLockLegalHold \<noteq> lower_key AmzObjectLockMode"
  "lower_key AmzObjectLockRetainUntilDate \<noteq> lower_key AmzObjectLockLegalHold"
  "lower_key AmzObjectLockLegalHold \<noteq> lower_key AmzObjectLockRetainUntilDate"
  by (simp_all add: lower_keys)

lemma parseRetMode_names:
  "parseRetMode ''GOVERNANCE'' = RetGovernance" "parseRetMode ''COMPLIANCE'' = RetCompliance"
  by code_simp+

lemma parseRetMode_id [simp]: "RetMode_Valid m \<Longrightarrow> parseRetMode m = m"
  using parseRetMode_names by (auto simp: RetMode_Valid_def RetGovernance_def RetCompliance_def)

lemma parseRetMode_empty [simp]: "parseRetMode '''' = ''''"
  by code_simp

lemma modes_differ [simp]:
  "RetGovernance \<noteq> RetCompliance" "RetCompliance \<noteq> RetGovernance" "RetGovernance \<noteq> ''''" "RetCompliance \<noteq> ''''"
  "RetMode_Valid RetGovernance" "RetMode_Valid RetCompliance" "\<not> RetMode_Valid ''''"
  by (simp_all add: RetGovernance_def RetCompliance_def RetMode_Valid_def)

lemma LegalHoldOn_valid [simp]: "LegalHoldStatus_Valid LegalHoldOn"
  by (simp add: LegalHoldStatus_Valid_def)

section \<open>Dates as they are stored\<close>

text \<open>
  The documented behaviour of formatting and parsing with RFC 3339 for the years that have four digits:
  what is read back is the instant without the fraction of its second.
\<close>

definition second_ns :: int where
  "second_ns = 1000000000"

definition floor_second :: "int \<Rightarrow> int" where
  "floor_second t = (t div second_ns) * second_ns"

definition four_digit_year :: "int \<Rightarrow> bool" where
  "four_digit_year t \<longleftrightarrow> zero_time \<le> t \<and> t < 253402300800 * second_ns"

definition rfc3339_laws :: "(string \<Rightarrow> int option) \<Rightarrow> (int \<Rightarrow> string) \<Rightarrow> bool" where
  "rfc3339_laws parse_time format_time \<longleftrightarrow>
     (\<forall>t. four_digit_year t \<longrightarrow> parse_time (format_time t) = Some (floor_second t))"

lemma floor_second_le: "floor_second t \<le> t"
  using div_mult_mod_eq [of t second_ns] pos_mod_sign [of second_ns t]
  by (simp add: floor_second_def second_ns_def)

lemma floor_second_mono: "t \<le> u \<Longrightarrow> floor_second t \<le> floor_second u"
  by (simp add: floor_second_def second_ns_def zdiv_mono1)

text \<open>What is read of the metadata that the retention handler wrote.\<close>

lemma GetObjectRetentionMeta_put:
  assumes "rfc3339_laws parse_time format_time" "RetMode_Valid (ret_Mode r)" "four_digit_year (ret_Until r)"
  shows "GetObjectRetentionMeta parse_time (put_retention_metadata format_time r meta) =
    \<lparr>ret_Mode = ret_Mode r, ret_Until = floor_second (ret_Until r)\<rparr>"
  using assms
  by (simp add: GetObjectRetentionMeta_def put_retention_metadata_def lookup_meta_def rfc3339_laws_def)

lemma GetObjectRetentionMeta_hold:
  "GetObjectRetentionMeta parse_time (meta(lower_key AmzObjectLockLegalHold \<mapsto> v)) =
     GetObjectRetentionMeta parse_time meta"
proof -
  have "AmzObjectLockMode \<noteq> lower_key AmzObjectLockLegalHold"
    "AmzObjectLockRetainUntilDate \<noteq> lower_key AmzObjectLockLegalHold"
    unfolding lower_keys by (simp_all add: lock_keys)
  then have l: "lookup_meta (meta(lower_key AmzObjectLockLegalHold \<mapsto> v)) AmzObjectLockMode = lookup_meta meta AmzObjectLockMode"
    "lookup_meta (meta(lower_key AmzObjectLockLegalHold \<mapsto> v)) AmzObjectLockRetainUntilDate =
       lookup_meta meta AmzObjectLockRetainUntilDate"
    unfolding lookup_meta_def by (simp_all split: option.split)
  show ?thesis unfolding GetObjectRetentionMeta_def l ..
qed

section \<open>Compliance\<close>

text \<open>
  What can happen to a version, at an instant of the clock: time passes; its retention or its legal hold is
  set; it is deleted by a request, or by the lifecycle or the quota; or it is overwritten by a request that
  names it and is not a replica. Every request comes with any headers and any outcome of the permission checks.
\<close>

inductive lock_step ::
  "(string \<Rightarrow> int option) \<Rightarrow> (int \<Rightarrow> string) \<Rightarrow> int \<times> (string \<rightharpoonup> string) option \<Rightarrow>
     int \<times> (string \<rightharpoonup> string) option \<Rightarrow> bool"
  for parse_time format_time where
  tick: "t \<le> t' \<Longrightarrow> lock_step parse_time format_time (t, v) (t', v)"
| put_retention:
    "enforceRetentionBypassForPut parse_time days_of perm None (Inr meta) h (Some t) r = ErrNone \<Longrightarrow>
     ParseObjectRetention (Some t) r = Inr r \<Longrightarrow> four_digit_year (ret_Until r) \<Longrightarrow>
     lock_step parse_time format_time (t, Some meta) (t, Some (put_retention_metadata format_time r meta))"
| put_hold:
    "lock_step parse_time format_time (t, Some meta) (t, Some (meta(lower_key AmzObjectLockLegalHold \<mapsto> status)))"
| delete:
    "enforceRetentionBypassForDelete parse_time code None None deleteMarker meta h (Some t) auth = ErrNone \<Longrightarrow>
     lock_step parse_time format_time (t, Some meta) (t, None)"
| expire:
    "\<not> enforceRetentionForDeletion parse_time (Some t) meta \<Longrightarrow>
     lock_step parse_time format_time (t, Some meta) (t, None)"
| overwrite:
    "check_existing parse_time (Some t) (Some meta) = (r, hold, ErrNone) \<Longrightarrow>
     lock_step parse_time format_time (t, Some meta) (t, Some meta')"

text \<open>The version is there and under compliance until \<open>T\<close> at least.\<close>

definition compliant_until :: "(string \<Rightarrow> int option) \<Rightarrow> int \<Rightarrow> (string \<rightharpoonup> string) option \<Rightarrow> bool" where
  "compliant_until parse_time T v \<longleftrightarrow>
     (\<exists>meta. v = Some meta \<and> ret_Mode (GetObjectRetentionMeta parse_time meta) = RetCompliance \<and>
        T \<le> ret_Until (GetObjectRetentionMeta parse_time meta))"

lemma put_keeps_compliance:
  assumes "enforceRetentionBypassForPut parse_time days_of perm None (Inr meta) h (Some t) r = ErrNone"
    and "ret_Mode (GetObjectRetentionMeta parse_time meta) = RetCompliance"
    and "t \<le> ret_Until (GetObjectRetentionMeta parse_time meta)"
  shows "ret_Mode r = RetCompliance \<and> ret_Until (GetObjectRetentionMeta parse_time meta) \<le> ret_Until r"
  using assms by (auto simp: enforceRetentionBypassForPut_def Let_def split: if_splits)

lemma lock_step_compliant:
  assumes "lock_step parse_time format_time (t, v) (t', v')" "rfc3339_laws parse_time format_time"
    and "T mod second_ns = 0" "t < T \<Longrightarrow> compliant_until parse_time T v"
  shows "t \<le> t' \<and> (t' < T \<longrightarrow> compliant_until parse_time T v')"
  using assms(1)
proof cases
  case tick
  then show ?thesis using assms(4) by auto
next
  case (put_retention days_of perm meta h r)
  have fT: "floor_second T = T"
    using assms(3) div_mult_mod_eq [of T second_ns] by (simp add: floor_second_def)
  show ?thesis
  proof (intro conjI impI)
    assume "t' < T"
    with put_retention have tT: "t < T" by simp
    with assms(4) put_retention have c: "ret_Mode (GetObjectRetentionMeta parse_time meta) = RetCompliance"
      "T \<le> ret_Until (GetObjectRetentionMeta parse_time meta)"
      by (auto simp: compliant_until_def)
    have "t \<le> ret_Until (GetObjectRetentionMeta parse_time meta)" using c(2) tT by simp
    from put_keeps_compliance [OF put_retention(4) c(1) this]
    have r: "ret_Mode r = RetCompliance" "T \<le> ret_Until r" using c(2) by auto
    then have "T \<le> floor_second (ret_Until r)" using floor_second_mono [of T "ret_Until r"] fT by simp
    with r GetObjectRetentionMeta_put [OF assms(2) _ put_retention(6)] put_retention(3)
    show "compliant_until parse_time T v'" by (simp add: compliant_until_def)
  qed (use put_retention in simp)
next
  case (put_hold meta status)
  then show ?thesis using assms(4) by (auto simp: compliant_until_def GetObjectRetentionMeta_hold)
next
  case (delete code deleteMarker meta h auth)
  then show ?thesis using assms(4)
    by (auto simp: compliant_until_def enforceRetentionBypassForDelete_def Let_def split: if_splits)
next
  case (expire meta)
  then show ?thesis using assms(4)
    by (auto simp: compliant_until_def enforceRetentionForDeletion_def Let_def split: if_splits)
next
  case (overwrite meta r hold meta')
  then show ?thesis using assms(4)
    by (auto simp: compliant_until_def check_existing_def Let_def split: if_splits)
qed


text \<open>Seconds in decimal as an instance of the formats.\<close>

definition seconds_parse :: "string \<Rightarrow> int option" where
  "seconds_parse s = map_option (\<lambda>n. n * second_ns) (Atoi s)"

definition seconds_format :: "int \<Rightarrow> string" where
  "seconds_format t = Itoa (t div second_ns)"

lemma seconds_laws: "rfc3339_laws seconds_parse seconds_format"
proof -
  have "Atoi (Itoa (t div second_ns)) = Some (t div second_ns)" if "four_digit_year t" for t
  proof (rule Atoi_Itoa)
    have "zero_time div second_ns \<le> t div second_ns" "t div second_ns < 253402300800"
      using that by (auto simp: four_digit_year_def second_ns_def zdiv_mono1 div_less_iff_less_mult)
    then show "min_int64 \<le> t div second_ns" "t div second_ns \<le> max_int64"
      by (simp_all add: zero_time_def second_ns_def min_int64_def max_int64_def)
  qed
  then show ?thesis
    by (simp add: rfc3339_laws_def seconds_parse_def seconds_format_def floor_second_def)
qed

definition sample_meta :: "string \<rightharpoonup> string" where
  "sample_meta = [lower_key AmzObjectLockMode \<mapsto> ''COMPLIANCE'', lower_key AmzObjectLockRetainUntilDate \<mapsto> ''100'']"

lemma sample_meta_retention:
  "GetObjectRetentionMeta seconds_parse sample_meta = \<lparr>ret_Mode = RetCompliance, ret_Until = 100 * second_ns\<rparr>"
proof -
  have p: "seconds_parse ''100'' = Some (100 * second_ns)" by code_simp
  then show ?thesis by (simp add: parseRetMode_names GetObjectRetentionMeta_def sample_meta_def lookup_meta_def)
qed


section \<open>Deletion\<close>



section \<open>Governance\<close>

text \<open>
  C26: Who can change the retention of a version under governance, before its date. Without the bypass header
  the mode must stay, the date must not be earlier and the permission to put a retention is needed. With the
  bypass header the permission to put a retention is enough, or the permission to bypass governance; but this
  one is asked for only when the new mode is governance. So with the header alone, and no permission at all, a
  request can remove the retention or turn it into compliance.
\<close>
theorem governance_put_enforcement:
  assumes "ret = GetObjectRetentionMeta parse_time meta" "ret_Mode ret = RetGovernance" "t \<le> ret_Until ret"
    "conditions = retention_conditions format_time base (days_of (time_Sub (ret_Until r) t)) (ret_Until r) (ret_Mode r)"
  shows "(enforceRetentionBypassForPut parse_time days_of (isPutRetentionAllowed format_time allowed base)
      None (Inr meta) h (Some t) r = ErrNone) =
    (if IsObjectLockGovernanceBypassSet h then
       allowed ''s3:PutObjectRetention'' conditions \<or>
       (ret_Mode r = RetGovernance \<longrightarrow> allowed ''s3:BypassGovernanceRetention'' conditions)
     else ret_Mode r = RetGovernance \<and> ret_Until ret \<le> ret_Until r \<and>
       allowed ''s3:PutObjectRetention'' conditions)"
  using assms(2,3) unfolding assms(1,4)
  by (auto simp: enforceRetentionBypassForPut_def isPutRetentionAllowed_def Let_def)

theorem governance_put_enforcement_witness:
  "enforceRetentionBypassForPut seconds_parse (\<lambda>d. 0)
     (isPutRetentionAllowed seconds_format (\<lambda>action conditions. False) Map.empty) None
     (Inr (sample_meta(lower_key AmzObjectLockMode \<mapsto> ''GOVERNANCE'')))
     [AmzObjectLockBypassRetGovernance \<mapsto> [''true'']] (Some 0) no_retention = ErrNone"
proof -
  have b: "IsObjectLockGovernanceBypassSet [AmzObjectLockBypassRetGovernance \<mapsto> [''true'']]"
    by (simp add: IsObjectLockGovernanceBypassSet_def header_Get_def) code_simp
  have p: "seconds_parse ''100'' = Some (100 * second_ns)" by code_simp
  then have r: "GetObjectRetentionMeta seconds_parse (sample_meta(lower_key AmzObjectLockMode \<mapsto> ''GOVERNANCE'')) =
      \<lparr>ret_Mode = RetGovernance, ret_Until = 100 * second_ns\<rparr>"
    by (simp add: parseRetMode_names GetObjectRetentionMeta_def sample_meta_def lookup_meta_def)
  show ?thesis
    using governance_put_enforcement [OF r [symmetric] _ _ refl, where t = 0 and format_time = seconds_format
        and base = Map.empty and days_of = "\<lambda>d. 0" and r = no_retention and allowed = "\<lambda>action conditions. False"
        and h = "[AmzObjectLockBypassRetGovernance \<mapsto> [''true'']]"] b
    by (simp add: second_ns_def no_retention_def RetGovernance_def)
qed

section \<open>Filtering and default retention\<close>

text \<open>
  The filter removes the keys in canonical case only: metadata with the lower case keys, which is what the
  handlers write, passes it with its retention and its legal hold, whatever is to be filtered.
\<close>

lemma FilterObjectLockMetadata_lower_keys:
  "GetObjectRetentionMeta parse_time (FilterObjectLockMetadata parse_time meta fr fl) =
     GetObjectRetentionMeta parse_time meta"
  if "meta (lower_key AmzObjectLockMode) \<noteq> None" "meta (lower_key AmzObjectLockRetainUntilDate) \<noteq> None"
proof -
  have n: "lower_key AmzObjectLockMode \<noteq> AmzObjectLockLegalHold"
    "lower_key AmzObjectLockMode \<noteq> AmzObjectLockMode"
    "lower_key AmzObjectLockMode \<noteq> AmzObjectLockRetainUntilDate"
    "lower_key AmzObjectLockRetainUntilDate \<noteq> AmzObjectLockLegalHold"
    "lower_key AmzObjectLockRetainUntilDate \<noteq> AmzObjectLockMode"
    "lower_key AmzObjectLockRetainUntilDate \<noteq> AmzObjectLockRetainUntilDate"
    unfolding lower_keys by (simp_all add: lock_keys)
  define meta' where "meta' = FilterObjectLockMetadata parse_time meta fr fl"
  have "meta' (lower_key AmzObjectLockMode) = meta (lower_key AmzObjectLockMode)"
    "meta' (lower_key AmzObjectLockRetainUntilDate) = meta (lower_key AmzObjectLockRetainUntilDate)"
    using n by (simp_all add: meta'_def FilterObjectLockMetadata_def Let_def)
  then have l: "lookup_meta meta' AmzObjectLockMode = lookup_meta meta AmzObjectLockMode"
    "lookup_meta meta' AmzObjectLockRetainUntilDate = lookup_meta meta AmzObjectLockRetainUntilDate"
    using that by (auto simp: lookup_meta_def)
  show ?thesis unfolding meta'_def [symmetric] GetObjectRetentionMeta_def l ..
qed

text \<open>
  In a bucket with a default retention, a request for a new object without lock headers gets it; with a
  legal hold header it does not, and when the value of that header is invalid the request is accepted with
  neither a legal hold nor a retention.
\<close>

lemma default_retention_applies:
  assumes "h AmzObjectLockMode = None" "h AmzObjectLockRetainUntilDate = None"
    "header_Get h ''X-Amz-Replication-Status'' \<noteq> ''REPLICA''"
    "rt_LockEnabled cfg" "0 < rt_Validity cfg" "perm = ErrNone"
  shows "checkPutObjectLockAllowed parse_time n0 n1 (Some t) canceled (Inr cfg) h (Inr '''') info perm =
    (case h AmzObjectLockLegalHold of
       None \<Rightarrow> Some (\<lparr>ret_Mode = rt_Mode cfg, ret_Until = t + rt_Validity cfg\<rparr>, '''', ErrNone)
     | Some [] \<Rightarrow> None
     | Some (v # vs) \<Rightarrow>
         Some (no_retention,
               if LegalHoldStatus_Valid (parseLegalHoldStatus v) then parseLegalHoldStatus v else '''', ErrNone))"
  using assms
  by (auto simp: checkPutObjectLockAllowed_def requested_lock_def IsObjectLockRetentionRequested_def
      IsObjectLockLegalHoldRequested_def ParseObjectLockLegalHoldHeaders_def Let_def lock_api_code_def
      split: option.splits list.splits)

end
