(* ===== verification/Lifecycle.thy ===== *)
theory Lifecycle
  imports Go_Time Go_Path Go_Hash
begin

text \<open>
  The lifecycle of objects, \<^verbatim>\<open>pkg/bucket/lifecycle\<close>: rules with their filters and actions, validation, the
  decoding of elements, the selection of an action for a version and the prediction of its expiry. The clock is
  an argument. The XML decoder is left to the library: functions that decode have the tokens or the decoded
  content as argument.
\<close>

section \<open>Rules\<close>

datatype lc_error =
  TooManyRules | NoRule | DuplicateID | XMLNotWellFormed | InvalidDate | InvalidDays | InvalidExpiration |
  InvalidDeleteMarker | DateNotMidnight | InvalidFilter | InvalidRuleID | EmptyRuleStatus | InvalidRuleStatus |
  TransitionInvalidDays | TransitionInvalidDate | TransitionInvalid | TransitionDateNotMidnight |
  DuplicateTagKey | InvalidTagKey | InvalidTagValue | DuplicatedXMLTag | UnknownXMLTag |
  UnexpectedElement string | DecodeError | UUIDError

record tag =
  tag_Key :: string
  tag_Value :: string

record lc_prefix =
  prefix_string :: string
  prefix_set :: bool

record lc_and =
  and_Prefix :: lc_prefix
  and_Tags :: "tag list"

record lc_filter =
  filter_set :: bool
  filter_Prefix :: lc_prefix
  filter_And :: lc_and
  filter_andSet :: bool
  filter_Tag :: tag
  filter_tagSet :: bool

record expiration =
  exp_Days :: int
  exp_Date :: int
  exp_DeleteMarker_val :: bool
  exp_DeleteMarker_set :: bool
  exp_set :: bool

record transition =
  tr_Days :: int
  tr_Date :: int
  tr_StorageClass :: string
  tr_set :: bool

record noncurrent_expiration =
  nve_Days :: int
  nve_set :: bool

record noncurrent_transition =
  nvt_Days :: int
  nvt_StorageClass :: string
  nvt_set :: bool

record rule =
  rule_ID :: string
  rule_Status :: string
  rule_Filter :: lc_filter
  rule_Prefix :: lc_prefix
  rule_Expiration :: expiration
  rule_Transition :: transition
  rule_NVE :: noncurrent_expiration
  rule_NVT :: noncurrent_transition

subsection \<open>Decoding\<close>

definition ExpirationDays_UnmarshalXML :: "int \<Rightarrow> lc_error + int" where
  "ExpirationDays_UnmarshalXML numDays = (if numDays \<le> 0 then Inl InvalidDays else Inr numDays)"

text \<open>
  A parsed date is an instant and whether its location is UTC; \<open>parse_date\<close> is \<^verbatim>\<open>time.Parse\<close> with RFC 3339.
\<close>

definition ExpirationDate_UnmarshalXML :: "(string \<Rightarrow> (int \<times> bool) option) \<Rightarrow> string \<Rightarrow> lc_error + int" where
  "ExpirationDate_UnmarshalXML parse_date dateStr =
     (case parse_date dateStr of
        None \<Rightarrow> Inl InvalidDate
      | Some (t, utc) \<Rightarrow> if \<not> (utc \<and> t mod day_ns = 0) then Inl DateNotMidnight else Inr t)"

definition TransitionDate_UnmarshalXML :: "(string \<Rightarrow> (int \<times> bool) option) \<Rightarrow> string \<Rightarrow> lc_error + int" where
  "TransitionDate_UnmarshalXML parse_date dateStr =
     (case parse_date dateStr of
        None \<Rightarrow> Inl TransitionInvalidDate
      | Some (t, utc) \<Rightarrow> if \<not> (utc \<and> t mod day_ns = 0) then Inl TransitionDateNotMidnight else Inr t)"

definition TransitionDays_UnmarshalXML :: "int \<Rightarrow> lc_error + int" where
  "TransitionDays_UnmarshalXML numDays = (if numDays < 0 then Inl TransitionInvalidDays else Inr numDays)"

text \<open>
  Tokens of an element: the start of an element with its decoded content, \<^const>\<open>None\<close> when decoding fails; an
  error of the decoder; anything else. The end of the list is the end of the input.
\<close>

datatype 'a token = TokenStart string "'a option" | TokenError | TokenOther

fun tag_tokens :: "string token list \<Rightarrow> bool \<Rightarrow> bool \<Rightarrow> tag \<Rightarrow> lc_error + tag" where
  "tag_tokens [] keyParsed valueParsed tg = Inr tg"
| "tag_tokens (TokenError # ts) keyParsed valueParsed tg = Inl DecodeError"
| "tag_tokens (TokenOther # ts) keyParsed valueParsed tg = tag_tokens ts keyParsed valueParsed tg"
| "tag_tokens (TokenStart name content # ts) keyParsed valueParsed tg =
     (case content of
        None \<Rightarrow> Inl DecodeError
      | Some s \<Rightarrow>
          if name = ''Key'' then
            (if keyParsed then Inl DuplicatedXMLTag else tag_tokens ts True valueParsed (tg\<lparr>tag_Key := s\<rparr>))
          else if name = ''Value'' then
            (if valueParsed then Inl DuplicatedXMLTag else tag_tokens ts keyParsed True (tg\<lparr>tag_Value := s\<rparr>))
          else Inl UnknownXMLTag)"

definition Tag_UnmarshalXML :: "string token list \<Rightarrow> lc_error + tag" where
  "Tag_UnmarshalXML ts = tag_tokens ts False False \<lparr>tag_Key = '''', tag_Value = ''''\<rparr>"

text \<open>
  The elements below an action in the order of the document, each with its decoded value or \<^const>\<open>None\<close> when
  decoding fails; others are skipped.
\<close>

datatype child =
  ChildDays "int option" | ChildDate "string option" | ChildDeleteMarker "bool option" | ChildStorageClass string |
  ChildOther

definition no_expiration :: expiration where
  "no_expiration = \<lparr>exp_Days = 0, exp_Date = zero_time, exp_DeleteMarker_val = False, exp_DeleteMarker_set = False,
     exp_set = False\<rparr>"

definition ExpireDeleteMarker_UnmarshalXML :: "bool option \<Rightarrow> expiration \<Rightarrow> lc_error + expiration" where
  "ExpireDeleteMarker_UnmarshalXML v e =
     (case v of
        None \<Rightarrow> Inl DecodeError
      | Some b \<Rightarrow> Inr (e\<lparr>exp_DeleteMarker_val := b, exp_DeleteMarker_set := True\<rparr>))"

fun expiration_children ::
  "(string \<Rightarrow> (int \<times> bool) option) \<Rightarrow> child list \<Rightarrow> expiration \<Rightarrow> lc_error + expiration" where
  "expiration_children parse_date [] e = Inr e"
| "expiration_children parse_date (ChildDays v # cs) e =
     (case v of
        None \<Rightarrow> Inl DecodeError
      | Some n \<Rightarrow>
          (case ExpirationDays_UnmarshalXML n of
             Inl err \<Rightarrow> Inl err
           | Inr d \<Rightarrow> expiration_children parse_date cs (e\<lparr>exp_Days := d\<rparr>)))"
| "expiration_children parse_date (ChildDate v # cs) e =
     (case v of
        None \<Rightarrow> Inl DecodeError
      | Some s \<Rightarrow>
          (case ExpirationDate_UnmarshalXML parse_date s of
             Inl err \<Rightarrow> Inl err
           | Inr t \<Rightarrow> expiration_children parse_date cs (e\<lparr>exp_Date := t\<rparr>)))"
| "expiration_children parse_date (ChildDeleteMarker v # cs) e =
     (case ExpireDeleteMarker_UnmarshalXML v e of
        Inl err \<Rightarrow> Inl err
      | Inr e' \<Rightarrow> expiration_children parse_date cs e')"
| "expiration_children parse_date (ChildStorageClass s # cs) e = expiration_children parse_date cs e"
| "expiration_children parse_date (ChildOther # cs) e = expiration_children parse_date cs e"

definition Expiration_UnmarshalXML ::
  "(string \<Rightarrow> (int \<times> bool) option) \<Rightarrow> child list \<Rightarrow> lc_error + expiration" where
  "Expiration_UnmarshalXML parse_date cs =
     (case expiration_children parse_date cs no_expiration of
        Inl err \<Rightarrow> Inl err
      | Inr e \<Rightarrow> Inr (e\<lparr>exp_set := True\<rparr>))"

fun transition_children ::
  "(string \<Rightarrow> (int \<times> bool) option) \<Rightarrow> child list \<Rightarrow> transition \<Rightarrow> lc_error + transition" where
  "transition_children parse_date [] t = Inr t"
| "transition_children parse_date (ChildDays v # cs) t =
     (case v of
        None \<Rightarrow> Inl DecodeError
      | Some n \<Rightarrow>
          (case TransitionDays_UnmarshalXML n of
             Inl err \<Rightarrow> Inl err
           | Inr d \<Rightarrow> transition_children parse_date cs (t\<lparr>tr_Days := d\<rparr>)))"
| "transition_children parse_date (ChildDate v # cs) t =
     (case v of
        None \<Rightarrow> Inl DecodeError
      | Some s \<Rightarrow>
          (case TransitionDate_UnmarshalXML parse_date s of
             Inl err \<Rightarrow> Inl err
           | Inr d \<Rightarrow> transition_children parse_date cs (t\<lparr>tr_Date := d\<rparr>)))"
| "transition_children parse_date (ChildStorageClass s # cs) t =
     transition_children parse_date cs (t\<lparr>tr_StorageClass := s\<rparr>)"
| "transition_children parse_date (ChildDeleteMarker v # cs) t = transition_children parse_date cs t"
| "transition_children parse_date (ChildOther # cs) t = transition_children parse_date cs t"

definition Transition_UnmarshalXML ::
  "(string \<Rightarrow> (int \<times> bool) option) \<Rightarrow> child list \<Rightarrow> lc_error + transition" where
  "Transition_UnmarshalXML parse_date cs =
     (case transition_children parse_date cs \<lparr>tr_Days = 0, tr_Date = zero_time, tr_StorageClass = '''', tr_set = False\<rparr> of
        Inl err \<Rightarrow> Inl err
      | Inr t \<Rightarrow> Inr (t\<lparr>tr_set := True\<rparr>))"

text \<open>For a noncurrent version the days are those of the element for noncurrent days.\<close>

fun noncurrent_children :: "child list \<Rightarrow> int \<times> string \<Rightarrow> lc_error + int \<times> string" where
  "noncurrent_children [] n = Inr n"
| "noncurrent_children (ChildDays v # cs) n =
     (case v of
        None \<Rightarrow> Inl DecodeError
      | Some d \<Rightarrow>
          (case ExpirationDays_UnmarshalXML d of
             Inl err \<Rightarrow> Inl err
           | Inr d' \<Rightarrow> noncurrent_children cs (d', snd n)))"
| "noncurrent_children (ChildStorageClass s # cs) n = noncurrent_children cs (fst n, s)"
| "noncurrent_children (ChildDate v # cs) n = noncurrent_children cs n"
| "noncurrent_children (ChildDeleteMarker v # cs) n = noncurrent_children cs n"
| "noncurrent_children (ChildOther # cs) n = noncurrent_children cs n"

definition NVE_UnmarshalXML :: "child list \<Rightarrow> lc_error + noncurrent_expiration" where
  "NVE_UnmarshalXML cs =
     (case noncurrent_children cs (0, '''') of
        Inl err \<Rightarrow> Inl err
      | Inr (d, s) \<Rightarrow> Inr \<lparr>nve_Days = d, nve_set = True\<rparr>)"

definition NVT_UnmarshalXML :: "child list \<Rightarrow> lc_error + noncurrent_transition" where
  "NVT_UnmarshalXML cs =
     (case noncurrent_children cs (0, '''') of
        Inl err \<Rightarrow> Inl err
      | Inr (d, s) \<Rightarrow> Inr \<lparr>nvt_Days = d, nvt_StorageClass = s, nvt_set = True\<rparr>)"

definition Prefix_UnmarshalXML :: "string \<Rightarrow> lc_prefix" where
  "Prefix_UnmarshalXML s = \<lparr>prefix_string = s, prefix_set = True\<rparr>"

datatype filter_content = ContentPrefix lc_prefix | ContentAnd lc_and | ContentTag tag

text \<open>The content is that of the type that belongs to the name of the element.\<close>

fun filter_tokens :: "filter_content token list \<Rightarrow> lc_filter \<Rightarrow> lc_error + lc_filter" where
  "filter_tokens [] f = Inr f"
| "filter_tokens (TokenError # ts) f = Inl DecodeError"
| "filter_tokens (TokenOther # ts) f = filter_tokens ts f"
| "filter_tokens (TokenStart name content # ts) f =
     (if name = ''Prefix'' then
        (case content of Some (ContentPrefix p) \<Rightarrow> filter_tokens ts (f\<lparr>filter_Prefix := p\<rparr>) | _ \<Rightarrow> Inl DecodeError)
      else if name = ''And'' then
        (case content of
           Some (ContentAnd a) \<Rightarrow> filter_tokens ts (f\<lparr>filter_And := a, filter_andSet := True\<rparr>)
         | _ \<Rightarrow> Inl DecodeError)
      else if name = ''Tag'' then
        (case content of
           Some (ContentTag t) \<Rightarrow> filter_tokens ts (f\<lparr>filter_Tag := t, filter_tagSet := True\<rparr>)
         | _ \<Rightarrow> Inl DecodeError)
      else Inl UnknownXMLTag)"

definition no_prefix :: lc_prefix where
  "no_prefix = \<lparr>prefix_string = '''', prefix_set = False\<rparr>"

definition no_filter :: lc_filter where
  "no_filter = \<lparr>filter_set = False, filter_Prefix = no_prefix,
     filter_And = \<lparr>and_Prefix = no_prefix, and_Tags = []\<rparr>, filter_andSet = False,
     filter_Tag = \<lparr>tag_Key = '''', tag_Value = ''''\<rparr>, filter_tagSet = False\<rparr>"

definition Filter_UnmarshalXML :: "filter_content token list \<Rightarrow> lc_error + lc_filter" where
  "Filter_UnmarshalXML ts = filter_tokens ts (no_filter\<lparr>filter_set := True\<rparr>)"

fun rule_tokens :: "rule token list \<Rightarrow> rule list \<Rightarrow> lc_error + rule list" where
  "rule_tokens [] rules = Inr rules"
| "rule_tokens (TokenError # ts) rules = Inl DecodeError"
| "rule_tokens (TokenOther # ts) rules = rule_tokens ts rules"
| "rule_tokens (TokenStart name content # ts) rules =
     (if name = ''Rule'' then
        (case content of None \<Rightarrow> Inl DecodeError | Some r \<Rightarrow> rule_tokens ts (rules @ [r]))
      else Inl (UnexpectedElement name))"

definition Lifecycle_UnmarshalXML :: "string \<Rightarrow> rule token list \<Rightarrow> lc_error + rule list" where
  "Lifecycle_UnmarshalXML start ts =
     (if start = ''LifecycleConfiguration'' \<or> start = ''BucketLifecycleConfiguration'' then rule_tokens ts []
      else Inl (UnexpectedElement start))"

subsection \<open>Validation\<close>

definition Tag_IsEmpty :: "tag \<Rightarrow> bool" where
  "Tag_IsEmpty tg = (tag_Key tg = '''')"

definition Tag_String :: "tag \<Rightarrow> string" where
  "Tag_String tg = tag_Key tg @ ''='' @ tag_Value tg"

definition Tag_Validate :: "tag \<Rightarrow> lc_error option" where
  "Tag_Validate tg =
     (if length (tag_Key tg) = 0 \<or> length (runes (tag_Key tg)) > 128 then Some InvalidTagKey
      else if length (runes (tag_Value tg)) > 256 then Some InvalidTagValue
      else None)"

definition And_isEmpty :: "lc_and \<Rightarrow> bool" where
  "And_isEmpty a = (length (and_Tags a) = 0 \<and> \<not> prefix_set (and_Prefix a))"

fun contains_duplicate :: "string set \<Rightarrow> tag list \<Rightarrow> bool" where
  "contains_duplicate seen [] = False"
| "contains_duplicate seen (t # ts) =
     (if tag_Key t \<in> seen then True else contains_duplicate (insert (tag_Key t) seen) ts)"

definition ContainsDuplicateTag :: "lc_and \<Rightarrow> bool" where
  "ContainsDuplicateTag a = contains_duplicate {} (and_Tags a)"

fun first_error :: "('a \<Rightarrow> lc_error option) \<Rightarrow> 'a list \<Rightarrow> lc_error option" where
  "first_error check [] = None"
| "first_error check (x # xs) = (case check x of Some err \<Rightarrow> Some err | None \<Rightarrow> first_error check xs)"

definition And_Validate :: "lc_and \<Rightarrow> lc_error option" where
  "And_Validate a =
     (let emptyPrefix = (\<not> prefix_set (and_Prefix a)); emptyTags = (length (and_Tags a) = 0)
      in if emptyPrefix \<and> emptyTags then None
         else if emptyPrefix \<and> \<not> emptyTags \<or> \<not> emptyPrefix \<and> emptyTags then Some XMLNotWellFormed
         else if ContainsDuplicateTag a then Some DuplicateTagKey
         else first_error Tag_Validate (and_Tags a))"

definition Filter_IsEmpty :: "lc_filter \<Rightarrow> bool" where
  "Filter_IsEmpty f = (\<not> filter_set f)"

definition Filter_Validate :: "lc_filter \<Rightarrow> lc_error option" where
  "Filter_Validate f =
     (if Filter_IsEmpty f then Some XMLNotWellFormed
      else
        (case (if \<not> And_isEmpty (filter_And f) then
                 (if prefix_set (filter_Prefix f) then Some InvalidFilter
                  else if \<not> Tag_IsEmpty (filter_Tag f) then Some InvalidFilter
                  else And_Validate (filter_And f))
               else None) of
           Some err \<Rightarrow> Some err
         | None \<Rightarrow>
             if prefix_set (filter_Prefix f) \<and> \<not> Tag_IsEmpty (filter_Tag f) then Some InvalidFilter
             else if \<not> Tag_IsEmpty (filter_Tag f) then
               (if prefix_set (filter_Prefix f) then Some InvalidFilter else Tag_Validate (filter_Tag f))
             else None))"

definition Expiration_IsDaysNull :: "expiration \<Rightarrow> bool" where
  "Expiration_IsDaysNull e = (exp_Days e = 0)"

definition Expiration_IsDateNull :: "expiration \<Rightarrow> bool" where
  "Expiration_IsDateNull e = (exp_Date e = zero_time)"

definition Expiration_IsNull :: "expiration \<Rightarrow> bool" where
  "Expiration_IsNull e = (Expiration_IsDaysNull e \<and> Expiration_IsDateNull e)"

definition Expiration_Validate :: "expiration \<Rightarrow> lc_error option" where
  "Expiration_Validate e =
     (if \<not> exp_set e then None
      else if (\<not> Expiration_IsDaysNull e \<or> \<not> Expiration_IsDateNull e) \<and> exp_DeleteMarker_set e
      then Some InvalidDeleteMarker
      else if \<not> exp_DeleteMarker_set e \<and> Expiration_IsDaysNull e \<and> Expiration_IsDateNull e
      then Some XMLNotWellFormed
      else if \<not> Expiration_IsDaysNull e \<and> \<not> Expiration_IsDateNull e then Some InvalidExpiration
      else None)"

definition Transition_IsDaysNull :: "transition \<Rightarrow> bool" where
  "Transition_IsDaysNull t = (tr_Days t = 0)"

definition Transition_IsDateNull :: "transition \<Rightarrow> bool" where
  "Transition_IsDateNull t = (tr_Date t = zero_time)"

definition Transition_IsNull :: "transition \<Rightarrow> bool" where
  "Transition_IsNull t = (Transition_IsDaysNull t \<and> Transition_IsDateNull t)"

definition Transition_Validate :: "transition \<Rightarrow> lc_error option" where
  "Transition_Validate t =
     (if \<not> tr_set t then None
      else if Transition_IsDaysNull t \<and> Transition_IsDateNull t then Some XMLNotWellFormed
      else if \<not> Transition_IsDaysNull t \<and> \<not> Transition_IsDateNull t then Some TransitionInvalid
      else if tr_StorageClass t = '''' then Some XMLNotWellFormed
      else None)"

definition NVE_IsDaysNull :: "noncurrent_expiration \<Rightarrow> bool" where
  "NVE_IsDaysNull n = (nve_Days n = 0)"

definition NVE_Validate :: "noncurrent_expiration \<Rightarrow> lc_error option" where
  "NVE_Validate n = (if \<not> nve_set n then None else if nve_Days n \<le> 0 then Some XMLNotWellFormed else None)"

definition NVT_IsDaysNull :: "noncurrent_transition \<Rightarrow> bool" where
  "NVT_IsDaysNull n = (nvt_Days n = 0)"

definition NVT_Validate :: "noncurrent_transition \<Rightarrow> lc_error option" where
  "NVT_Validate n =
     (if \<not> nvt_set n then None
      else if nvt_Days n \<le> 0 \<or> nvt_StorageClass n = '''' then Some XMLNotWellFormed
      else None)"

text \<open>
  The rule is a copy, so that the new identifier does not reach the caller; \<open>uuid_fails\<close> says that the random
  source fails.
\<close>

definition validateID :: "bool \<Rightarrow> rule \<Rightarrow> lc_error option" where
  "validateID uuid_fails r =
     (let IDLen = length (rule_ID r)
      in if IDLen = 0 then (if uuid_fails then Some UUIDError else None)
         else if IDLen > 255 then Some InvalidRuleID
         else None)"

definition validateStatus :: "rule \<Rightarrow> lc_error option" where
  "validateStatus r =
     (if length (rule_Status r) = 0 then Some EmptyRuleStatus
      else if rule_Status r \<noteq> ''Enabled'' \<and> rule_Status r \<noteq> ''Disabled'' then Some InvalidRuleStatus
      else None)"

definition validatePrefixAndFilter :: "rule \<Rightarrow> lc_error option" where
  "validatePrefixAndFilter r =
     (if \<not> prefix_set (rule_Prefix r) \<and> Filter_IsEmpty (rule_Filter r) \<or>
         prefix_set (rule_Prefix r) \<and> \<not> Filter_IsEmpty (rule_Filter r) then Some XMLNotWellFormed
      else if \<not> prefix_set (rule_Prefix r) then Filter_Validate (rule_Filter r)
      else None)"

definition Rule_Validate :: "bool \<Rightarrow> rule \<Rightarrow> lc_error option" where
  "Rule_Validate uuid_fails r =
     first_error id
       [validateID uuid_fails r, validateStatus r, Expiration_Validate (rule_Expiration r),
        NVE_Validate (rule_NVE r), validatePrefixAndFilter r, Transition_Validate (rule_Transition r),
        NVT_Validate (rule_NVT r),
        if \<not> exp_set (rule_Expiration r) \<and> \<not> tr_set (rule_Transition r) \<and> \<not> nve_set (rule_NVE r) \<and>
           \<not> nvt_set (rule_NVT r) then Some XMLNotWellFormed else None]"

fun duplicate_ID :: "rule list \<Rightarrow> bool" where
  "duplicate_ID [] = False"
| "duplicate_ID (r # rs) = (list_ex (\<lambda>other. rule_ID r = rule_ID other) rs \<or> duplicate_ID rs)"

definition Lifecycle_Validate :: "bool \<Rightarrow> rule list \<Rightarrow> lc_error option" where
  "Lifecycle_Validate uuid_fails rules =
     (if length rules > 1000 then Some TooManyRules
      else if length rules = 0 then Some NoRule
      else
        (case first_error (Rule_Validate uuid_fails) rules of
           Some err \<Rightarrow> Some err
         | None \<Rightarrow> if duplicate_ID rules then Some DuplicateID else None))"

section \<open>Filters\<close>

definition GetPrefix :: "rule \<Rightarrow> string" where
  "GetPrefix r =
     (if prefix_string (rule_Prefix r) \<noteq> '''' then prefix_string (rule_Prefix r)
      else if prefix_string (filter_Prefix (rule_Filter r)) \<noteq> '''' then prefix_string (filter_Prefix (rule_Filter r))
      else if prefix_string (and_Prefix (filter_And (rule_Filter r))) \<noteq> ''''
      then prefix_string (and_Prefix (filter_And (rule_Filter r)))
      else '''')"

definition Rule_Tags :: "rule \<Rightarrow> string" where
  "Rule_Tags r =
     (if \<not> Tag_IsEmpty (filter_Tag (rule_Filter r)) then Tag_String (filter_Tag (rule_Filter r))
      else if length (and_Tags (filter_And (rule_Filter r))) \<noteq> 0
      then join_byte CHR ''&'' (map Tag_String (and_Tags (filter_And (rule_Filter r))))
      else '''')"

text \<open>
  \<^verbatim>\<open>url.ParseQuery\<close>: the pairs of a query, or \<^const>\<open>None\<close> for an error; a semicolon and a malformed escape are
  errors, an empty pair is skipped.
\<close>

definition hex_value :: "char \<Rightarrow> nat option" where
  "hex_value c =
     (let b = byte c in
      if 48 \<le> b \<and> b \<le> 57 then Some (b - 48)
      else if 97 \<le> b \<and> b \<le> 102 then Some (b - 87)
      else if 65 \<le> b \<and> b \<le> 70 then Some (b - 55)
      else None)"

fun QueryUnescape :: "string \<Rightarrow> string option" where
  "QueryUnescape [] = Some []"
| "QueryUnescape (c # s) =
     (if c = CHR ''%'' then
        (case s of
           a # b # s' \<Rightarrow>
             (case (hex_value a, hex_value b) of
                (Some x, Some y) \<Rightarrow> map_option ((#) (char_of (16 * x + y))) (QueryUnescape s')
              | _ \<Rightarrow> None)
         | _ \<Rightarrow> None)
      else if c = CHR ''+'' then map_option ((#) CHR '' '') (QueryUnescape s)
      else map_option ((#) c) (QueryUnescape s))"

definition cut_equals :: "string \<Rightarrow> string \<times> string" where
  "cut_equals s = (takeWhile (\<lambda>c. c \<noteq> CHR ''='') s, drop 1 (dropWhile (\<lambda>c. c \<noteq> CHR ''='') s))"

definition query_pair :: "string \<Rightarrow> (string \<times> string) option" where
  "query_pair s =
     (let (k, v) = cut_equals s
      in case QueryUnescape k of
           None \<Rightarrow> None
         | Some k' \<Rightarrow> (case QueryUnescape v of None \<Rightarrow> None | Some v' \<Rightarrow> Some (k', v')))"

fun query_pairs :: "string list \<Rightarrow> (string \<times> string) list option" where
  "query_pairs [] = Some []"
| "query_pairs (s # ss) =
     (if CHR '';'' \<in> set s then None
      else if s = '''' then query_pairs ss
      else (case query_pair s of
              None \<Rightarrow> None
            | Some p \<Rightarrow> map_option ((#) p) (query_pairs ss)))"

definition ParseQuery :: "string \<Rightarrow> (string \<times> string) list option" where
  "ParseQuery query = query_pairs (split_byte CHR ''&'' query)"

definition tag_matches :: "(string \<times> string) list \<Rightarrow> tag \<Rightarrow> bool" where
  "tag_matches pairs tg = (if Tag_IsEmpty tg then True else map_of pairs (tag_Key tg) = Some (tag_Value tg))"

definition TestTags :: "lc_filter \<Rightarrow> string list \<Rightarrow> bool" where
  "TestTags f tags =
     (if length (and_Tags (filter_And f)) = 0 \<and> Tag_IsEmpty (filter_Tag f) then True
      else if list_ex (\<lambda>t. CHR ''='' \<notin> set t) tags then False
      else
        (case ParseQuery (join_byte CHR ''&'' tags) of
           None \<Rightarrow> False
         | Some pairs \<Rightarrow>
             if list_ex (\<lambda>(k, v). k = '''' \<or> \<not> ValidString k \<or> count_list (map fst pairs) k \<noteq> 1 \<or>
                           \<not> ValidString v) pairs
             then False
             else list_all (tag_matches pairs) (and_Tags (filter_And f)) \<and> tag_matches pairs (filter_Tag f)))"

section \<open>Selection\<close>

datatype action =
  NoneAction | DeleteAction | DeleteVersionAction | TransitionAction | TransitionVersionAction |
  DeleteRestoredAction | DeleteRestoredVersionAction

record object_opts =
  obj_Name :: string
  obj_UserTags :: string
  obj_ModTime :: int
  obj_VersionID :: string
  obj_IsLatest :: bool
  obj_DeleteMarker :: bool
  obj_NumVersions :: int
  obj_SuccessorModTime :: int
  obj_TransitionStatus :: string
  obj_RestoreOngoing :: bool
  obj_RestoreExpires :: int

record selection =
  sel_Action :: action
  sel_StorageClass :: string
  sel_RuleID :: string
  sel_Due :: int

definition rule_active :: "int \<Rightarrow> string \<Rightarrow> bool \<Rightarrow> rule \<Rightarrow> bool" where
  "rule_active now pre recursive r =
     (if rule_Status r = ''Disabled'' then False
      else if length pre > 0 \<and> length (GetPrefix r) > 0 \<and> \<not> recursive \<and> \<not> HasPrefix pre (GetPrefix r) then False
      else if length pre > 0 \<and> length (GetPrefix r) > 0 \<and> recursive \<and> \<not> HasPrefix pre (GetPrefix r) \<and>
              \<not> HasPrefix (GetPrefix r) pre then False
      else if nve_Days (rule_NVE r) > 0 then True
      else if nvt_Days (rule_NVT r) > 0 then True
      else if exp_DeleteMarker_val (rule_Expiration r) then True
      else if Expiration_IsNull (rule_Expiration r) \<and> Transition_IsNull (rule_Transition r) then False
      else if \<not> Expiration_IsDateNull (rule_Expiration r) \<and> exp_Date (rule_Expiration r) < now then True
      else if \<not> Transition_IsDateNull (rule_Transition r) \<and> tr_Date (rule_Transition r) < now then True
      else \<not> Expiration_IsDaysNull (rule_Expiration r) \<or> \<not> Transition_IsDaysNull (rule_Transition r))"

text \<open>The clock is read for every date, here with one value for all of them.\<close>

definition HasActiveRules :: "int \<Rightarrow> rule list \<Rightarrow> string \<Rightarrow> bool \<Rightarrow> bool" where
  "HasActiveRules now rules pre recursive = list_ex (rule_active now pre recursive) rules"

definition actionable :: "object_opts \<Rightarrow> rule \<Rightarrow> bool" where
  "actionable obj r =
     (if rule_Status r = ''Disabled'' then False
      else if \<not> HasPrefix (obj_Name obj) (GetPrefix r) then False
      else TestTags (rule_Filter r) (split_byte CHR ''&'' (obj_UserTags obj)))"

definition FilterActionableRules :: "rule list \<Rightarrow> object_opts \<Rightarrow> rule list" where
  "FilterActionableRules rules obj = (if obj_Name obj = '''' then [] else filter (actionable obj) rules)"

definition ExpiredObjectDeleteMarker :: "object_opts \<Rightarrow> bool" where
  "ExpiredObjectDeleteMarker obj = (obj_DeleteMarker obj \<and> obj_NumVersions obj = 1)"

definition last_deadline :: int where
  "last_deadline = day_of_civil 9999 12 31 * day_ns"

definition unix_seconds :: "int \<Rightarrow> int" where
  "unix_seconds t = t div 1000000000"

definition ExpectedExpiryTime :: "int \<Rightarrow> int \<Rightarrow> int" where
  "ExpectedExpiryTime modTime days =
     (let t = time_Truncate modTime day_ns
      in if days \<ge> 0 \<and> t < last_deadline \<and>
            days \<ge> quot64 (wrap64 (unix_seconds last_deadline - unix_seconds t)) 86400 then last_deadline
         else if days \<ge> 0 \<and> \<not> t < last_deadline then t
         else AddDate_days (wrap64 (days + 1)) t)"

definition priority :: "action \<Rightarrow> nat" where
  "priority a =
     (case a of
        DeleteAction \<Rightarrow> 3 | DeleteVersionAction \<Rightarrow> 3
      | DeleteRestoredAction \<Rightarrow> 2 | DeleteRestoredVersionAction \<Rightarrow> 2
      | TransitionAction \<Rightarrow> 1 | TransitionVersionAction \<Rightarrow> 1
      | NoneAction \<Rightarrow> 0)"

definition consider_selection :: "selection \<Rightarrow> selection \<Rightarrow> selection" where
  "consider_selection candidate selected =
     (if priority (sel_Action candidate) > priority (sel_Action selected) \<or>
         priority (sel_Action candidate) = priority (sel_Action selected) \<and> sel_Due candidate < sel_Due selected
      then candidate else selected)"

definition considerDue :: "int \<Rightarrow> action \<Rightarrow> int \<Rightarrow> rule \<Rightarrow> string \<Rightarrow> selection \<Rightarrow> selection" where
  "considerDue now act due r storageClass selected =
     (if due \<noteq> zero_time \<and> \<not> now < due
      then consider_selection \<lparr>sel_Action = act, sel_StorageClass = storageClass, sel_RuleID = rule_ID r, sel_Due = due\<rparr> selected
      else selected)"

text \<open>The steps of one rule, in the order of the code.\<close>

definition step_marker :: "object_opts \<Rightarrow> rule \<Rightarrow> selection \<Rightarrow> selection" where
  "step_marker obj r selected =
     (if ExpiredObjectDeleteMarker obj \<and> exp_DeleteMarker_val (rule_Expiration r)
      then consider_selection \<lparr>sel_Action = DeleteVersionAction, sel_StorageClass = '''', sel_RuleID = rule_ID r,
                     sel_Due = obj_ModTime obj\<rparr> selected
      else selected)"

definition step_noncurrent :: "int \<Rightarrow> object_opts \<Rightarrow> rule \<Rightarrow> selection \<Rightarrow> selection" where
  "step_noncurrent now obj r selected =
     (if \<not> NVE_IsDaysNull (rule_NVE r) then
        (let s1 = (if obj_VersionID obj \<noteq> '''' \<and> \<not> obj_IsLatest obj \<and> obj_SuccessorModTime obj \<noteq> zero_time
                   then considerDue now DeleteVersionAction
                          (ExpectedExpiryTime (obj_SuccessorModTime obj) (nve_Days (rule_NVE r))) r '''' selected
                   else selected)
         in if obj_VersionID obj \<noteq> '''' \<and> ExpiredObjectDeleteMarker obj
            then considerDue now DeleteVersionAction
                   (ExpectedExpiryTime (obj_ModTime obj) (nve_Days (rule_NVE r))) r '''' s1
            else s1)
      else selected)"

definition step_noncurrent_transition :: "int \<Rightarrow> object_opts \<Rightarrow> rule \<Rightarrow> selection \<Rightarrow> selection" where
  "step_noncurrent_transition now obj r selected =
     (if \<not> NVT_IsDaysNull (rule_NVT r) \<and> nvt_StorageClass (rule_NVT r) \<noteq> '''' \<and> obj_VersionID obj \<noteq> '''' \<and>
         \<not> obj_IsLatest obj \<and> obj_SuccessorModTime obj \<noteq> zero_time \<and> \<not> obj_DeleteMarker obj \<and>
         obj_TransitionStatus obj \<noteq> ''complete''
      then considerDue now TransitionVersionAction
             (ExpectedExpiryTime (obj_SuccessorModTime obj) (nvt_Days (rule_NVT r))) r
             (nvt_StorageClass (rule_NVT r)) selected
      else selected)"

definition step_expiration :: "int \<Rightarrow> object_opts \<Rightarrow> rule \<Rightarrow> selection \<Rightarrow> selection" where
  "step_expiration now obj r selected =
     (let e = rule_Expiration r
      in if \<not> Expiration_IsDateNull e then considerDue now DeleteAction (exp_Date e) r '''' selected
         else if \<not> Expiration_IsDaysNull e
         then considerDue now DeleteAction (ExpectedExpiryTime (obj_ModTime obj) (exp_Days e)) r '''' selected
         else selected)"

definition step_transition :: "int \<Rightarrow> object_opts \<Rightarrow> rule \<Rightarrow> selection \<Rightarrow> selection" where
  "step_transition now obj r selected =
     (let t = rule_Transition r
      in if obj_TransitionStatus obj \<noteq> ''complete'' \<and> tr_StorageClass t \<noteq> '''' then
           (if \<not> Transition_IsDateNull t
            then considerDue now TransitionAction (tr_Date t) r (tr_StorageClass t) selected
            else if \<not> Transition_IsDaysNull t
            then considerDue now TransitionAction (ExpectedExpiryTime (obj_ModTime obj) (tr_Days t)) r
                   (tr_StorageClass t) selected
            else selected)
         else selected)"

definition select_rule :: "int \<Rightarrow> object_opts \<Rightarrow> selection \<Rightarrow> rule \<Rightarrow> selection" where
  "select_rule now obj selected r =
     (let s = step_noncurrent_transition now obj r (step_noncurrent now obj r (step_marker obj r selected))
      in if \<not> obj_DeleteMarker obj \<and> (obj_VersionID obj = '''' \<or> obj_IsLatest obj)
         then step_transition now obj r (step_expiration now obj r s)
         else s)"

definition no_selection :: selection where
  "no_selection = \<lparr>sel_Action = NoneAction, sel_StorageClass = '''', sel_RuleID = '''', sel_Due = zero_time\<rparr>"

definition select_restored :: "int \<Rightarrow> object_opts \<Rightarrow> selection" where
  "select_restored now obj =
     (if \<not> obj_DeleteMarker obj \<and> obj_TransitionStatus obj = ''complete'' \<and> \<not> obj_RestoreOngoing obj \<and>
         obj_RestoreExpires obj \<noteq> zero_time \<and> \<not> now < obj_RestoreExpires obj
      then consider_selection \<lparr>sel_Action = (if obj_VersionID obj \<noteq> '''' then DeleteRestoredVersionAction
                                   else DeleteRestoredAction),
                     sel_StorageClass = '''', sel_RuleID = '''', sel_Due = obj_RestoreExpires obj\<rparr> no_selection
      else no_selection)"

definition SelectAt :: "rule list \<Rightarrow> object_opts \<Rightarrow> int \<Rightarrow> selection" where
  "SelectAt rules obj now =
     (if obj_Name obj = '''' then no_selection
      else if obj_ModTime obj = zero_time then select_restored now obj
      else foldl (select_rule now obj) (select_restored now obj) (FilterActionableRules rules obj))"

definition ComputeAction :: "rule list \<Rightarrow> object_opts \<Rightarrow> int \<Rightarrow> action" where
  "ComputeAction rules obj now = sel_Action (SelectAt rules obj now)"

section \<open>Prediction\<close>

definition predict_consider :: "string \<Rightarrow> int \<Rightarrow> string \<times> int \<Rightarrow> string \<times> int" where
  "predict_consider ruleID due final =
     (if snd final = zero_time \<or> due < snd final then (ruleID, due) else final)"

definition predict_rule :: "object_opts \<Rightarrow> string \<times> int \<Rightarrow> rule \<Rightarrow> string \<times> int" where
  "predict_rule obj final r =
     (if obj_VersionID obj \<noteq> '''' \<and> \<not> obj_IsLatest obj then
        (if \<not> NVE_IsDaysNull (rule_NVE r)
         then predict_consider (rule_ID r) (ExpectedExpiryTime (obj_SuccessorModTime obj) (nve_Days (rule_NVE r))) final
         else final)
      else
        (let e = rule_Expiration r;
             f1 = (if \<not> Expiration_IsDateNull e then predict_consider (rule_ID r) (exp_Date e) final else final)
         in if \<not> Expiration_IsDaysNull e
            then predict_consider (rule_ID r) (ExpectedExpiryTime (obj_ModTime obj) (exp_Days e)) f1
            else f1))"

definition PredictExpiryTime :: "rule list \<Rightarrow> object_opts \<Rightarrow> string \<times> int" where
  "PredictExpiryTime rules obj =
     (if obj_DeleteMarker obj \<or> obj_Name obj = '''' \<or> obj_ModTime obj = zero_time then ('''', zero_time)
      else if obj_VersionID obj \<noteq> '''' \<and> \<not> obj_IsLatest obj \<and> obj_SuccessorModTime obj = zero_time
      then ('''', zero_time)
      else foldl (predict_rule obj) ('''', zero_time) (FilterActionableRules rules obj))"

end
