(* ===== verification/Lifecycle_Facts.thy ===== *)
theory Lifecycle_Facts
  imports Lifecycle
begin

text \<open>
  Facts about the lifecycle of objects: the selection is the best of the candidates that the rules bring, the
  bounds of a deadline, and the agreement of the announced expiry with the one that is carried out.
\<close>

section \<open>Selection as the best candidate\<close>

text \<open>The candidates that a rule brings for a version, in the order of the code.\<close>

definition due_candidates :: "int \<Rightarrow> action \<Rightarrow> int \<Rightarrow> rule \<Rightarrow> string \<Rightarrow> selection list" where
  "due_candidates now act due r sc =
     (if due \<noteq> zero_time \<and> due \<le> now
      then [\<lparr>sel_Action = act, sel_StorageClass = sc, sel_RuleID = rule_ID r, sel_Due = due\<rparr>] else [])"

definition marker_candidates :: "object_opts \<Rightarrow> rule \<Rightarrow> selection list" where
  "marker_candidates obj r =
     (if ExpiredObjectDeleteMarker obj \<and> exp_DeleteMarker_val (rule_Expiration r)
      then [\<lparr>sel_Action = DeleteVersionAction, sel_StorageClass = '''', sel_RuleID = rule_ID r,
             sel_Due = obj_ModTime obj\<rparr>] else [])"

definition noncurrent_candidates :: "int \<Rightarrow> object_opts \<Rightarrow> rule \<Rightarrow> selection list" where
  "noncurrent_candidates now obj r =
     (if NVE_IsDaysNull (rule_NVE r) \<or> obj_VersionID obj = '''' then []
      else
        (if \<not> obj_IsLatest obj \<and> obj_SuccessorModTime obj \<noteq> zero_time
         then due_candidates now DeleteVersionAction
                (ExpectedExpiryTime (obj_SuccessorModTime obj) (nve_Days (rule_NVE r))) r '''' else []) @
        (if ExpiredObjectDeleteMarker obj
         then due_candidates now DeleteVersionAction
                (ExpectedExpiryTime (obj_ModTime obj) (nve_Days (rule_NVE r))) r '''' else []))"

definition noncurrent_transition_candidates :: "int \<Rightarrow> object_opts \<Rightarrow> rule \<Rightarrow> selection list" where
  "noncurrent_transition_candidates now obj r =
     (if NVT_IsDaysNull (rule_NVT r) \<or> nvt_StorageClass (rule_NVT r) = '''' \<or> obj_VersionID obj = '''' \<or>
         obj_IsLatest obj \<or> obj_SuccessorModTime obj = zero_time \<or> obj_DeleteMarker obj \<or>
         obj_TransitionStatus obj = ''complete'' then []
      else due_candidates now TransitionVersionAction
             (ExpectedExpiryTime (obj_SuccessorModTime obj) (nvt_Days (rule_NVT r))) r (nvt_StorageClass (rule_NVT r)))"

text \<open>The deadline of the expiration or the transition of a current version, the date before the days.\<close>

definition expiration_deadline :: "object_opts \<Rightarrow> expiration \<Rightarrow> int option" where
  "expiration_deadline obj e =
     (if exp_Date e \<noteq> zero_time then Some (exp_Date e)
      else if exp_Days e \<noteq> 0 then Some (ExpectedExpiryTime (obj_ModTime obj) (exp_Days e)) else None)"

definition transition_deadline :: "object_opts \<Rightarrow> transition \<Rightarrow> int option" where
  "transition_deadline obj t =
     (if tr_StorageClass t = '''' \<or> obj_TransitionStatus obj = ''complete'' then None
      else if tr_Date t \<noteq> zero_time then Some (tr_Date t)
      else if tr_Days t \<noteq> 0 then Some (ExpectedExpiryTime (obj_ModTime obj) (tr_Days t)) else None)"

definition is_current :: "object_opts \<Rightarrow> bool" where
  "is_current obj \<longleftrightarrow> \<not> obj_DeleteMarker obj \<and> (obj_VersionID obj = '''' \<or> obj_IsLatest obj)"

definition current_candidates :: "int \<Rightarrow> object_opts \<Rightarrow> rule \<Rightarrow> selection list" where
  "current_candidates now obj r =
     (if \<not> is_current obj then []
      else
        (case expiration_deadline obj (rule_Expiration r) of
           None \<Rightarrow> [] | Some due \<Rightarrow> due_candidates now DeleteAction due r '''') @
        (case transition_deadline obj (rule_Transition r) of
           None \<Rightarrow> []
         | Some due \<Rightarrow> due_candidates now TransitionAction due r (tr_StorageClass (rule_Transition r))))"

definition rule_candidates :: "int \<Rightarrow> object_opts \<Rightarrow> rule \<Rightarrow> selection list" where
  "rule_candidates now obj r =
     marker_candidates obj r @ noncurrent_candidates now obj r @ noncurrent_transition_candidates now obj r @
     current_candidates now obj r"

definition restored_candidates :: "int \<Rightarrow> object_opts \<Rightarrow> selection list" where
  "restored_candidates now obj =
     (if \<not> obj_DeleteMarker obj \<and> obj_TransitionStatus obj = ''complete'' \<and> \<not> obj_RestoreOngoing obj \<and>
         obj_RestoreExpires obj \<noteq> zero_time \<and> obj_RestoreExpires obj \<le> now
      then [\<lparr>sel_Action = (if obj_VersionID obj \<noteq> '''' then DeleteRestoredVersionAction else DeleteRestoredAction),
             sel_StorageClass = '''', sel_RuleID = '''', sel_Due = obj_RestoreExpires obj\<rparr>] else [])"

definition candidates :: "rule list \<Rightarrow> object_opts \<Rightarrow> int \<Rightarrow> selection list" where
  "candidates rules obj now =
     (if obj_Name obj = '''' then []
      else restored_candidates now obj @
        (if obj_ModTime obj = zero_time then []
         else concat (map (rule_candidates now obj) (filter (actionable obj) rules))))"

definition better :: "selection \<Rightarrow> selection \<Rightarrow> bool" where
  "better a b \<longleftrightarrow> priority (sel_Action a) > priority (sel_Action b) \<or>
     (priority (sel_Action a) = priority (sel_Action b) \<and> sel_Due a < sel_Due b)"

definition select_from :: "selection list \<Rightarrow> selection \<Rightarrow> selection" where
  "select_from cs s = foldl (\<lambda>s c. consider_selection c s) s cs"

lemma select_from_simps [simp]:
  "select_from [] s = s" "select_from (c # cs) s = select_from cs (consider_selection c s)"
  "select_from (cs @ ds) s = select_from ds (select_from cs s)"
  by (simp_all add: select_from_def)

lemma considerDue_candidates: "considerDue now act due r sc s = select_from (due_candidates now act due r sc) s"
  by (simp add: considerDue_def due_candidates_def not_less)

lemma step_marker_candidates: "step_marker obj r s = select_from (marker_candidates obj r) s"
  by (simp add: step_marker_def marker_candidates_def)

lemma step_noncurrent_candidates: "step_noncurrent now obj r s = select_from (noncurrent_candidates now obj r) s"
  by (simp add: step_noncurrent_def noncurrent_candidates_def Let_def considerDue_candidates)

lemma step_noncurrent_transition_candidates:
  "step_noncurrent_transition now obj r s = select_from (noncurrent_transition_candidates now obj r) s"
  by (simp add: step_noncurrent_transition_def noncurrent_transition_candidates_def considerDue_candidates)

lemma current_steps_candidates:
  "is_current obj \<Longrightarrow> step_transition now obj r (step_expiration now obj r s) = select_from (current_candidates now obj r) s"
  by (simp add: step_transition_def step_expiration_def current_candidates_def expiration_deadline_def
      transition_deadline_def Let_def considerDue_candidates Expiration_IsDateNull_def Expiration_IsDaysNull_def
      Transition_IsDateNull_def Transition_IsDaysNull_def)

lemmas step_candidates =
  step_marker_candidates step_noncurrent_candidates step_noncurrent_transition_candidates

lemma select_rule_candidates: "select_rule now obj s r = select_from (rule_candidates now obj r) s"
proof (cases "is_current obj")
  case True
  then show ?thesis
    using current_steps_candidates [OF True]
    by (simp add: select_rule_def Let_def rule_candidates_def step_candidates is_current_def)
next
  case False
  then show ?thesis
    by (auto simp: select_rule_def Let_def rule_candidates_def step_candidates is_current_def current_candidates_def)
qed

lemma SelectAt_candidates: "SelectAt rules obj now = select_from (candidates rules obj now) no_selection"
proof -
  have f: "foldl (select_rule now obj) s rs = select_from (concat (map (rule_candidates now obj) rs)) s" for s rs
    by (induction rs arbitrary: s) (simp_all add: select_rule_candidates)
  have "select_restored now obj = select_from (restored_candidates now obj) no_selection"
    by (simp add: select_restored_def restored_candidates_def not_less)
  then show ?thesis by (simp add: SelectAt_def candidates_def FilterActionableRules_def f)
qed

text \<open>Every candidate has an action.\<close>

definition active :: "selection \<Rightarrow> bool" where
  "active c \<longleftrightarrow> 0 < priority (sel_Action c)"

lemma active_due: "0 < priority act \<Longrightarrow> list_all active (due_candidates now act due r sc)"
  by (simp add: due_candidates_def active_def)

lemma active_rule: "list_all active (rule_candidates now obj r)"
proof -
  have "list_all active (marker_candidates obj r)"
    by (simp add: marker_candidates_def active_def priority_def)
  moreover have "list_all active (noncurrent_candidates now obj r)"
    by (simp add: noncurrent_candidates_def active_due priority_def)
  moreover have "list_all active (noncurrent_transition_candidates now obj r)"
    by (simp add: noncurrent_transition_candidates_def active_due priority_def)
  moreover have "list_all active (current_candidates now obj r)"
    by (simp add: current_candidates_def active_due priority_def split: option.split)
  ultimately show ?thesis by (simp add: rule_candidates_def)
qed

lemma candidates_priority: "c \<in> set (candidates rules obj now) \<Longrightarrow> 0 < priority (sel_Action c)"
proof -
  have "list_all active (concat (map (rule_candidates now obj) rs))" for rs
    by (induction rs) (simp_all add: active_rule)
  moreover have "list_all active (restored_candidates now obj)"
    by (simp add: restored_candidates_def active_def priority_def)
  ultimately have "list_all active (candidates rules obj now)" by (simp add: candidates_def)
  then show "c \<in> set (candidates rules obj now) \<Longrightarrow> 0 < priority (sel_Action c)"
    by (simp add: list_all_iff active_def)
qed

lemma better_trans_neg:
  "\<not> better a b \<Longrightarrow> \<not> better b c \<Longrightarrow> \<not> better a c" "better a b \<Longrightarrow> \<not> better c b \<Longrightarrow> better a c"
  by (auto simp: better_def)

lemma consider_better: "consider_selection c s = (if better c s then c else s)"
  by (simp add: consider_selection_def better_def)

text \<open>The first of the best in a list.\<close>

definition first_best :: "selection list \<Rightarrow> selection \<Rightarrow> bool" where
  "first_best xs x \<longleftrightarrow> (\<exists>i < length xs. x = xs ! i \<and> (\<forall>j < length xs. \<not> better (xs ! j) x) \<and> (\<forall>j < i. better x (xs ! j)))"

lemma first_best_snoc:
  assumes "first_best xs x"
  shows "first_best (xs @ [c]) (consider_selection c x)"
proof -
  obtain i where i: "i < length xs" "x = xs ! i" "\<And>j. j < length xs \<Longrightarrow> \<not> better (xs ! j) x"
    "\<And>j. j < i \<Longrightarrow> better x (xs ! j)" using assms by (auto simp: first_best_def)
  have irr: "\<not> better c c" by (simp add: better_def)
  show ?thesis
  proof (cases "better c x")
    case True
    have b: "better c (xs ! j)" "\<not> better (xs ! j) c" if "j < length xs" for j
      using better_trans_neg(2) [OF True i(3) [OF that]] by (auto simp: better_def)
    show ?thesis
      unfolding first_best_def consider_better
      by (rule exI [of _ "length xs"]) (use True b irr in \<open>auto simp: nth_append less_Suc_eq\<close>)
  next
    case False
    show ?thesis
      unfolding first_best_def consider_better
      by (rule exI [of _ i]) (use False i in \<open>auto simp: nth_append less_Suc_eq\<close>)
  qed
qed

lemma select_from_first_best: "first_best (s # cs) (select_from cs s)"
proof (induction cs rule: rev_induct)
  case Nil
  then show ?case by (simp add: first_best_def better_def)
next
  case (snoc c cs)
  from first_best_snoc [OF this, of c] show ?case by simp
qed

text \<open>
  C27: The action that the lifecycle takes. \<^verbatim>\<open>SelectAt\<close> selects nothing exactly when no enabled rule that
  matches the prefix and the tags of the object and no restored copy brings a candidate; else it selects the
  first of the best candidates: deletions come before the removal of a restored copy and this before
  transitions, in one class the earlier deadline wins, and for equal deadlines the document order.
\<close>
theorem SelectAt_first_best:
  "(SelectAt rules obj now = no_selection) = (candidates rules obj now = []) \<and>
   (candidates rules obj now = [] \<or> first_best (candidates rules obj now) (SelectAt rules obj now))"
proof -
  define cs where "cs = candidates rules obj now"
  have s: "SelectAt rules obj now = select_from cs no_selection" by (simp add: SelectAt_candidates cs_def)
  have p0: "priority (sel_Action no_selection) = 0" by (simp add: no_selection_def priority_def)
  have pc: "0 < priority (sel_Action c)" if "c \<in> set cs" for c using that candidates_priority by (simp add: cs_def)
  obtain i where i: "i < length (no_selection # cs)" "select_from cs no_selection = (no_selection # cs) ! i"
    "\<And>j. j < length (no_selection # cs) \<Longrightarrow> \<not> better ((no_selection # cs) ! j) ((no_selection # cs) ! i)"
    "\<And>j. j < i \<Longrightarrow> better ((no_selection # cs) ! i) ((no_selection # cs) ! j)"
    using select_from_first_best [of no_selection cs] unfolding first_best_def by metis
  show ?thesis
  proof (cases "cs = []")
    case True
    then show ?thesis using s by (simp add: cs_def)
  next
    case False
    have "i \<noteq> 0"
    proof
      assume "i = 0"
      then have "\<not> better (hd cs) no_selection" using i(3) [of 1] False by (simp add: hd_conv_nth)
      moreover have "0 < priority (sel_Action (hd cs))" using False pc by simp
      ultimately show False using p0 by (simp add: better_def)
    qed
    then obtain k where k: "i = Suc k" by (cases i) auto
    then have "select_from cs no_selection = cs ! k" "k < length cs" using i by auto
    moreover have "cs ! k \<noteq> no_selection" using pc [OF nth_mem [OF \<open>k < length cs\<close>]] p0 by auto
    moreover have "\<not> better (cs ! j) (cs ! k)" if "j < length cs" for j using i(3) [of "Suc j"] that k by simp
    moreover have "better (cs ! k) (cs ! j)" if "j < k" for j using i(4) [of "Suc j"] that k by simp
    ultimately show ?thesis using False s unfolding cs_def [symmetric] first_best_def by auto
  qed
qed

section \<open>Deadlines\<close>

lemma day_ns_pos [simp]: "0 < day_ns"
  by (simp add: day_ns_def)

lemma last_deadline_value: "last_deadline = 2932896 * day_ns"
  by (simp add: last_deadline_def day_of_civil_def Let_def)

lemma unix_seconds_day: "unix_seconds (k * day_ns) = k * 86400"
proof -
  have "k * day_ns = (k * 86400) * 1000000000" by (simp add: day_ns_def)
  then show ?thesis by (simp only: unix_seconds_def nonzero_mult_div_cancel_right)
qed

text \<open>
  The deadline for a day of the epoch, a number of days that is not negative and a day before the end: the day
  after the last of these days, or the end.
\<close>

lemma ExpectedExpiryTime_value:
  assumes "0 \<le> modTime" "0 \<le> days"
  shows "ExpectedExpiryTime modTime days =
    max (modTime div day_ns) (min 2932896 (modTime div day_ns + days + 1)) * day_ns"
proof -
  define k where "k = modTime div day_ns"
  have k0: "0 \<le> k" using assms(1) by (simp add: k_def pos_imp_zdiv_nonneg_iff)
  have t: "time_Truncate modTime day_ns = k * day_ns" by (simp add: time_Truncate_day k_def)
  have lt: "k * day_ns < last_deadline \<longleftrightarrow> k < 2932896"
    unfolding last_deadline_value by simp
  show ?thesis
  proof (cases "k < 2932896")
    case True
    have i: "in_int64 ((2932896 - k) * 86400)"
      using k0 True by (simp add: in_int64_def min_int64_def max_int64_def)
    have "unix_seconds last_deadline - unix_seconds (k * day_ns) = (2932896 - k) * 86400"
      unfolding last_deadline_value unix_seconds_day by (simp add: algebra_simps)
    then have q: "quot64 (wrap64 (unix_seconds last_deadline - unix_seconds (k * day_ns))) 86400 = 2932896 - k"
      using i True by (simp add: wrap64_id quot64_nonneg)
    show ?thesis
    proof (cases "2932896 - k \<le> days")
      case d: True
      have "ExpectedExpiryTime modTime days = last_deadline"
        unfolding ExpectedExpiryTime_def t Let_def q using assms(2) True d lt by simp
      then show ?thesis using True d by (simp add: last_deadline_value k_def [symmetric] min_def max_def)
    next
      case d: False
      then have w: "wrap64 (days + 1) = days + 1"
        using assms(2) k0 by (intro wrap64_id) (simp add: in_int64_def min_int64_def max_int64_def)
      have "ExpectedExpiryTime modTime days = k * day_ns + (days + 1) * day_ns"
        unfolding ExpectedExpiryTime_def t Let_def q using assms(2) True d lt by (simp add: AddDate_days_def w)
      also have "\<dots> = (k + days + 1) * day_ns" by (simp add: algebra_simps)
      finally show ?thesis using d assms(2) by (simp add: k_def [symmetric] min_def max_def)
    qed
  next
    case False
    then show ?thesis
      unfolding ExpectedExpiryTime_def t Let_def using assms(2) lt
      by (simp add: k_def [symmetric] min_def max_def)
  qed
qed

text \<open>
  Hence a deadline is a midnight, and before the end of the calendar it is after the modification and after
  the given number of full days.
\<close>

lemma ExpectedExpiryTime_bounds:
  assumes "0 \<le> modTime" "modTime < last_deadline" "0 \<le> days"
  shows "ExpectedExpiryTime modTime days mod day_ns = 0" "modTime < ExpectedExpiryTime modTime days"
    "ExpectedExpiryTime modTime days \<le> last_deadline"
    "ExpectedExpiryTime modTime days < last_deadline \<Longrightarrow> modTime + days * day_ns < ExpectedExpiryTime modTime days"
proof -
  define k where "k = modTime div day_ns"
  have k: "k < 2932896" using assms(2) unfolding k_def last_deadline_value day_ns_def by arith
  have m: "modTime < (k + 1) * day_ns"
    unfolding k_def day_ns_def by arith
  have e: "ExpectedExpiryTime modTime days = min 2932896 (k + days + 1) * day_ns"
    using ExpectedExpiryTime_value [OF assms(1,3)] k assms(3) by (simp add: k_def max_def min_def)
  show "ExpectedExpiryTime modTime days mod day_ns = 0" by (simp add: e)
  have "(k + 1) * day_ns \<le> min 2932896 (k + days + 1) * day_ns"
    using k assms(3) by (intro mult_right_mono) (auto simp: day_ns_def)
  then show "modTime < ExpectedExpiryTime modTime days" using m e by linarith
  show "ExpectedExpiryTime modTime days \<le> last_deadline" by (simp add: e last_deadline_value)
  assume "ExpectedExpiryTime modTime days < last_deadline"
  then have "ExpectedExpiryTime modTime days = (k + 1) * day_ns + days * day_ns"
    by (simp add: e last_deadline_value min_def algebra_simps split: if_splits)
  with m show "modTime + days * day_ns < ExpectedExpiryTime modTime days" by linarith
qed

lemma ExpectedExpiryTime_nonzero:
  assumes "0 \<le> modTime" "0 \<le> days"
  shows "ExpectedExpiryTime modTime days \<noteq> zero_time"
proof -
  have "0 \<le> modTime div day_ns" using assms(1) by (simp add: pos_imp_zdiv_nonneg_iff)
  then have "0 \<le> ExpectedExpiryTime modTime days" by (simp add: ExpectedExpiryTime_value [OF assms] zero_le_mult_iff le_max_iff_disj order.strict_implies_order)
  then show ?thesis by (simp add: zero_time_def)
qed

section \<open>The prediction of an expiry\<close>

text \<open>The expiration of a rule as validation and decoding leave it: a date or days, and no negative days.\<close>

definition expiration_ok :: "expiration \<Rightarrow> bool" where
  "expiration_ok e \<longleftrightarrow> (exp_Date e = zero_time \<or> exp_Days e = 0) \<and> 0 \<le> exp_Days e"

lemma expiration_children_days:
  "expiration_children parse_date cs e = Inr e' \<Longrightarrow> 0 \<le> exp_Days e \<Longrightarrow> 0 \<le> exp_Days e'"
  by (induction parse_date cs e rule: expiration_children.induct)
    (auto simp: ExpirationDays_UnmarshalXML_def ExpireDeleteMarker_UnmarshalXML_def split: option.splits sum.splits if_splits)

lemma decoded_expiration_ok:
  assumes "Expiration_UnmarshalXML parse_date cs = Inr e" "Expiration_Validate e = None"
  shows "expiration_ok e"
proof -
  obtain e1 where e1: "expiration_children parse_date cs no_expiration = Inr e1" "e = e1\<lparr>exp_set := True\<rparr>"
    using assms(1) by (auto simp: Expiration_UnmarshalXML_def split: sum.splits)
  have "0 \<le> exp_Days e" using expiration_children_days [OF e1(1)] e1(2) by (simp add: no_expiration_def)
  then show ?thesis
    using assms(2) e1(2)
    by (auto simp: expiration_ok_def Expiration_Validate_def Expiration_IsDaysNull_def Expiration_IsDateNull_def
        split: if_splits)
qed

lemma absent_expiration_ok: "expiration_ok no_expiration"
  by (simp add: expiration_ok_def no_expiration_def)

definition predict_from :: "object_opts \<Rightarrow> rule \<Rightarrow> string \<times> int \<Rightarrow> string \<times> int" where
  "predict_from obj r final =
     (case expiration_deadline obj (rule_Expiration r) of
        None \<Rightarrow> final | Some due \<Rightarrow> predict_consider (rule_ID r) due final)"

lemma predict_rule_current:
  "is_current obj \<Longrightarrow> expiration_ok (rule_Expiration r) \<Longrightarrow> predict_rule obj final r = predict_from obj r final"
  by (auto simp: predict_rule_def predict_from_def expiration_deadline_def expiration_ok_def is_current_def
      Expiration_IsDateNull_def Expiration_IsDaysNull_def Let_def)

lemma expiration_deadline_nonzero:
  "expiration_ok e \<Longrightarrow> 0 \<le> obj_ModTime obj \<Longrightarrow> expiration_deadline obj e = Some due \<Longrightarrow> due \<noteq> zero_time"
  using ExpectedExpiryTime_nonzero by (auto simp: expiration_deadline_def expiration_ok_def split: if_splits)

lemma rule_candidates_current:
  assumes "is_current obj"
  shows "rule_candidates now obj r = current_candidates now obj r"
  using assms
  by (auto simp: rule_candidates_def marker_candidates_def noncurrent_candidates_def
      noncurrent_transition_candidates_def is_current_def ExpiredObjectDeleteMarker_def)

text \<open>What the two loops have in common after a number of rules.\<close>

definition predict_related :: "int \<Rightarrow> selection \<Rightarrow> string \<times> int \<Rightarrow> bool" where
  "predict_related now s final \<longleftrightarrow>
     (if snd final \<noteq> zero_time \<and> snd final \<le> now
      then sel_Action s = DeleteAction \<and> sel_RuleID s = fst final \<and> sel_Due s = snd final
      else priority (sel_Action s) < 3)"

lemma related_transition:
  "predict_related now s final \<Longrightarrow> predict_related now (select_from (due_candidates now TransitionAction due r sc) s) final"
  by (auto simp: predict_related_def due_candidates_def consider_selection_def priority_def)

lemma related_expiration:
  "predict_related now s final \<Longrightarrow> due \<noteq> zero_time \<Longrightarrow>
     predict_related now (select_from (due_candidates now DeleteAction due r '''') s) (predict_consider (rule_ID r) due final)"
  by (auto simp: predict_related_def due_candidates_def consider_selection_def predict_consider_def priority_def
      split: if_splits)

lemma related_rule:
  assumes "predict_related now s final" "is_current obj" "expiration_ok (rule_Expiration r)" "0 \<le> obj_ModTime obj"
  shows "predict_related now (select_rule now obj s r) (predict_rule obj final r)"
proof -
  define s1 where "s1 = select_from (case expiration_deadline obj (rule_Expiration r) of
           None \<Rightarrow> [] | Some due \<Rightarrow> due_candidates now DeleteAction due r '''') s"
  have "predict_related now s1 (predict_from obj r final)"
    using assms(1) related_expiration expiration_deadline_nonzero [OF assms(3,4)]
    by (simp add: s1_def predict_from_def split: option.split)
  moreover have "select_rule now obj s r = select_from (case transition_deadline obj (rule_Transition r) of
           None \<Rightarrow> []
         | Some due \<Rightarrow> due_candidates now TransitionAction due r (tr_StorageClass (rule_Transition r))) s1"
    using assms(2) by (simp add: select_rule_candidates rule_candidates_current current_candidates_def s1_def)
  ultimately show ?thesis
    using related_transition assms(2,3) by (simp add: predict_rule_current split: option.split)
qed

text \<open>
  C9: The expiry that the server announces is the one that it carries out. For the current version of an object
  that is no delete marker, and rules whose expiration is a date or a number of days, the lifecycle deletes the
  object exactly when \<^verbatim>\<open>PredictExpiryTime\<close> gives a date and this has come, and then by the announced rule and
  with the announced date as deadline.
\<close>
theorem predicted_expiry_enforced:
  assumes "is_current obj" "obj_Name obj \<noteq> ''''" "0 \<le> obj_ModTime obj"
    "list_all (\<lambda>r. expiration_ok (rule_Expiration r)) rules"
  shows "(ComputeAction rules obj now = DeleteAction) =
      (snd (PredictExpiryTime rules obj) \<noteq> zero_time \<and> snd (PredictExpiryTime rules obj) \<le> now) \<and>
    (ComputeAction rules obj now = DeleteAction \<longrightarrow>
       sel_RuleID (SelectAt rules obj now) = fst (PredictExpiryTime rules obj) \<and>
       sel_Due (SelectAt rules obj now) = snd (PredictExpiryTime rules obj))"
proof -
  have mt: "obj_ModTime obj \<noteq> zero_time" using assms(3) by (simp add: zero_time_def)
  have loop: "predict_related now (foldl (select_rule now obj) s rs) (foldl (predict_rule obj) f rs)"
    if "predict_related now s f" "list_all (\<lambda>r. expiration_ok (rule_Expiration r)) rs" for s f rs
    using that by (induction rs arbitrary: s f) (simp_all add: related_rule assms(1,3))
  have start: "predict_related now (select_restored now obj) ('''', zero_time)"
    by (simp add: predict_related_def select_restored_def consider_selection_def no_selection_def priority_def)
  have ok: "list_all (\<lambda>r. expiration_ok (rule_Expiration r)) (FilterActionableRules rules obj)"
    using assms(4) by (simp add: FilterActionableRules_def list_all_iff)
  have "PredictExpiryTime rules obj = foldl (predict_rule obj) ('''', zero_time) (FilterActionableRules rules obj)"
    using assms(1,2) mt by (auto simp: PredictExpiryTime_def is_current_def)
  moreover have "SelectAt rules obj now =
      foldl (select_rule now obj) (select_restored now obj) (FilterActionableRules rules obj)"
    using assms(2) mt by (simp add: SelectAt_def)
  ultimately have "predict_related now (SelectAt rules obj now) (PredictExpiryTime rules obj)"
    using loop [OF start ok] by simp
  then show ?thesis
    by (auto simp: predict_related_def ComputeAction_def priority_def split: if_splits)
qed

definition sample_rule :: rule where
  "sample_rule = \<lparr>rule_ID = ''week'', rule_Status = ''Enabled'', rule_Filter = no_filter,
     rule_Prefix = \<lparr>prefix_string = ''logs/'', prefix_set = True\<rparr>,
     rule_Expiration = \<lparr>exp_Days = 7, exp_Date = zero_time, exp_DeleteMarker_val = False, exp_DeleteMarker_set = False,
       exp_set = True\<rparr>,
     rule_Transition = \<lparr>tr_Days = 0, tr_Date = zero_time, tr_StorageClass = '''', tr_set = False\<rparr>,
     rule_NVE = \<lparr>nve_Days = 0, nve_set = False\<rparr>,
     rule_NVT = \<lparr>nvt_Days = 0, nvt_StorageClass = '''', nvt_set = False\<rparr>\<rparr>"

definition sample_object :: object_opts where
  "sample_object = \<lparr>obj_Name = ''logs/a'', obj_UserTags = '''', obj_ModTime = 1000 * day_ns + 1, obj_VersionID = '''',
     obj_IsLatest = True, obj_DeleteMarker = False, obj_NumVersions = 1, obj_SuccessorModTime = zero_time,
     obj_TransitionStatus = '''', obj_RestoreOngoing = False, obj_RestoreExpires = zero_time\<rparr>"

lemma sample_prediction: "PredictExpiryTime [sample_rule] sample_object = (''week'', 1008 * day_ns)"
  by code_simp

theorem predicted_expiry_enforced_witness:
  "ComputeAction [sample_rule] sample_object (1008 * day_ns) = DeleteAction \<and>
   sel_RuleID (SelectAt [sample_rule] sample_object (1008 * day_ns)) = ''week'' \<and>
   ComputeAction [sample_rule] sample_object (1008 * day_ns - 1) \<noteq> DeleteAction"
proof -
  have h: "is_current sample_object" "obj_Name sample_object \<noteq> ''''" "0 \<le> obj_ModTime sample_object"
    "list_all (\<lambda>r. expiration_ok (rule_Expiration r)) [sample_rule]"
    by (simp_all add: is_current_def sample_object_def sample_rule_def expiration_ok_def day_ns_def)
  show ?thesis
    using predicted_expiry_enforced [OF h, of "1008 * day_ns"] predicted_expiry_enforced [OF h, of "1008 * day_ns - 1"]
    by (simp add: sample_prediction zero_time_def day_ns_def)
qed

text \<open>
  Two rules without identifier are rejected as duplicates, since the identifier that \<^verbatim>\<open>validateID\<close> makes is
  set in a copy of the rule.
\<close>

lemma rules_without_ID_rejected:
  "Lifecycle_Validate uuid_fails [r, s] \<noteq> None" if "rule_ID r = ''''" "rule_ID s = ''''"
  using that by (simp add: Lifecycle_Validate_def split: option.split)

text \<open>A transition after zero days is decoded and then refused.\<close>

lemma transition_zero_days_rejected:
  "Transition_UnmarshalXML parse_date [ChildDays (Some 0), ChildStorageClass sc] =
     Inr \<lparr>tr_Days = 0, tr_Date = zero_time, tr_StorageClass = sc, tr_set = True\<rparr> \<and>
   Transition_Validate \<lparr>tr_Days = 0, tr_Date = zero_time, tr_StorageClass = sc, tr_set = True\<rparr> = Some XMLNotWellFormed"
  by (simp add: Transition_UnmarshalXML_def TransitionDays_UnmarshalXML_def Transition_Validate_def
      Transition_IsDaysNull_def Transition_IsDateNull_def)

end
