(* ===== verification/Inline_Data.thy ===== *)
theory Inline_Data
  imports Erasure_Coding
begin

text \<open>
  The inline data of \<^verbatim>\<open>cmd/xl-storage-format-v2.go\<close>: small objects in the metadata file of a drive, as a map from
  names of versions to bytes in MessagePack, with its operations and the map that they implement. The
  functions of the package \<^verbatim>\<open>msgp\<close> are a record; \<^const>\<open>None\<close> is an error, with which the length of a map is 0.
\<close>

section \<open>Operations\<close>

record msgp =
  ReadMapHeaderBytes :: "bytes \<Rightarrow> (nat \<times> bytes) option"
  ReadMapKeyZC :: "bytes \<Rightarrow> (bytes \<times> bytes) option"
  ReadBytesZC :: "bytes \<Rightarrow> (bytes \<times> bytes) option"
  AppendMapHeader :: "nat \<Rightarrow> bytes"
  AppendStringFromBytes :: "bytes \<Rightarrow> bytes"
  AppendBytes :: "bytes \<Rightarrow> bytes"

definition string_bytes :: "string \<Rightarrow> bytes" where
  "string_bytes s = map (\<lambda>c. word_of_nat (of_char c)) s"

definition bytes_string :: "bytes \<Rightarrow> string" where
  "bytes_string b = map (\<lambda>w. char_of (unat w)) b"

definition xlMetaInlineDataVer :: "8 word" where
  "xlMetaInlineDataVer = 1"

definition versionOK :: "bytes \<Rightarrow> bool" where
  "versionOK x = (case x of [] \<Rightarrow> True | b # _ \<Rightarrow> b > 0 \<and> b \<le> xlMetaInlineDataVer)"

definition afterVersion :: "bytes \<Rightarrow> bytes" where
  "afterVersion x = (case x of [] \<Rightarrow> x | _ # bs \<Rightarrow> bs)"

fun inline_find_loop :: "msgp \<Rightarrow> bytes \<Rightarrow> nat \<Rightarrow> bytes \<Rightarrow> bytes option" where
  "inline_find_loop M key 0 buf = None"
| "inline_find_loop M key (Suc n) buf =
     (case ReadMapKeyZC M buf of
        None \<Rightarrow> None
      | Some (found, buf1) \<Rightarrow>
          if found = key then map_option fst (ReadBytesZC M buf1)
          else (case ReadBytesZC M buf1 of
                  None \<Rightarrow> None
                | Some (_, buf2) \<Rightarrow> inline_find_loop M key n buf2))"

definition inline_find :: "msgp \<Rightarrow> bytes \<Rightarrow> string \<Rightarrow> bytes option" where
  "inline_find M x key =
     (if length x = 0 \<or> \<not> versionOK x then None
      else
        (case ReadMapHeaderBytes M (afterVersion x) of
           None \<Rightarrow> None
         | Some (sz, buf) \<Rightarrow> if sz = 0 then None else inline_find_loop M (string_bytes key) sz buf))"

datatype inline_error = UnknownVersion | MsgpError | EmptyKey

fun inline_validate_loop :: "msgp \<Rightarrow> nat \<Rightarrow> bytes \<Rightarrow> inline_error option" where
  "inline_validate_loop M 0 buf = None"
| "inline_validate_loop M (Suc n) buf =
     (case ReadMapKeyZC M buf of
        None \<Rightarrow> Some MsgpError
      | Some (key, buf1) \<Rightarrow>
          if length key = 0 then Some EmptyKey
          else (case ReadBytesZC M buf1 of
                  None \<Rightarrow> Some MsgpError
                | Some (_, buf2) \<Rightarrow> inline_validate_loop M n buf2))"

definition inline_validate :: "msgp \<Rightarrow> bytes \<Rightarrow> inline_error option" where
  "inline_validate M x =
     (if length x = 0 then None
      else if \<not> versionOK x then Some UnknownVersion
      else
        (case ReadMapHeaderBytes M (afterVersion x) of
           None \<Rightarrow> Some MsgpError
         | Some (sz, buf) \<Rightarrow> inline_validate_loop M sz buf))"

text \<open>The loop that collects the entries until one cannot be read; \<open>nonempty\<close> makes an empty key end it, too.\<close>

fun read_entries :: "msgp \<Rightarrow> bool \<Rightarrow> nat \<Rightarrow> bytes \<Rightarrow> (bytes \<times> bytes) list" where
  "read_entries M nonempty 0 buf = []"
| "read_entries M nonempty (Suc n) buf =
     (case ReadMapKeyZC M buf of
        None \<Rightarrow> []
      | Some (key, buf1) \<Rightarrow>
          if nonempty \<and> length key = 0 then []
          else (case ReadBytesZC M buf1 of
                  None \<Rightarrow> []
                | Some (val, buf2) \<Rightarrow> (key, val) # read_entries M nonempty n buf2))"

text \<open>The keys and the values are one list of pairs, so that their numbers agree; the size is a hint.\<close>

definition inline_serialize :: "msgp \<Rightarrow> (bytes \<times> bytes) list \<Rightarrow> bytes" where
  "inline_serialize M kvs =
     (if length kvs = 0 then []
      else xlMetaInlineDataVer # AppendMapHeader M (length kvs mod 2 ^ 32) @
           concat (map (\<lambda>(k, v). AppendStringFromBytes M k @ AppendBytes M v) kvs))"

definition inline_repair :: "msgp \<Rightarrow> bytes \<Rightarrow> bytes" where
  "inline_repair M data =
     (if length data = 0 then data
      else if \<not> versionOK data then []
      else
        (case ReadMapHeaderBytes M (afterVersion data) of
           None \<Rightarrow> []
         | Some (sz, buf) \<Rightarrow> inline_serialize M (read_entries M True sz buf)))"

fun inline_list_loop :: "msgp \<Rightarrow> nat \<Rightarrow> bytes \<Rightarrow> string list \<times> inline_error option" where
  "inline_list_loop M 0 buf = ([], None)"
| "inline_list_loop M (Suc n) buf =
     (case ReadMapKeyZC M buf of
        None \<Rightarrow> ([], Some MsgpError)
      | Some (key, buf1) \<Rightarrow>
          if length key = 0 then ([], Some EmptyKey)
          else (case ReadBytesZC M buf1 of
                  None \<Rightarrow> ([bytes_string key], Some MsgpError)
                | Some (_, buf2) \<Rightarrow>
                    (let (keys, err) = inline_list_loop M n buf2 in (bytes_string key # keys, err))))"

definition inline_list :: "msgp \<Rightarrow> bytes \<Rightarrow> string list \<times> inline_error option" where
  "inline_list M x =
     (if length x = 0 then ([], None)
      else if \<not> versionOK x then ([], Some UnknownVersion)
      else
        (case ReadMapHeaderBytes M (afterVersion x) of
           None \<Rightarrow> ([], Some MsgpError)
         | Some (sz, buf) \<Rightarrow> inline_list_loop M sz buf))"

definition inline_entries :: "msgp \<Rightarrow> bytes \<Rightarrow> nat" where
  "inline_entries M x =
     (if length x = 0 \<or> \<not> versionOK x then 0
      else (case ReadMapHeaderBytes M (afterVersion x) of None \<Rightarrow> 0 | Some (sz, _) \<Rightarrow> sz))"

definition old_entries :: "msgp \<Rightarrow> bytes \<Rightarrow> (bytes \<times> bytes) list" where
  "old_entries M x =
     (case ReadMapHeaderBytes M (afterVersion x) of None \<Rightarrow> [] | Some (sz, buf) \<Rightarrow> read_entries M False sz buf)"

definition inline_replace :: "msgp \<Rightarrow> string \<Rightarrow> bytes \<Rightarrow> bytes \<Rightarrow> bytes" where
  "inline_replace M key val x =
     (let k = string_bytes key; old = old_entries M x;
          kvs = map (\<lambda>(found, foundVal). (found, if found = k then val else foundVal)) old;
          replaced = list_ex (\<lambda>(found, _). found = k) old
      in inline_serialize M (if \<not> replaced then kvs @ [(k, val)] else kvs))"

definition inline_rename :: "msgp \<Rightarrow> string \<Rightarrow> string \<Rightarrow> bytes \<Rightarrow> bool \<times> bytes" where
  "inline_rename M oldKey newKey x =
     (let k = string_bytes oldKey; old = old_entries M x;
          kvs = map (\<lambda>(foundKey, foundVal). (if foundKey \<noteq> k then foundKey else string_bytes newKey, foundVal)) old
      in if \<not> list_ex (\<lambda>(foundKey, _). foundKey = k) old then (False, x)
         else (True, inline_serialize M kvs))"

definition inline_remove :: "msgp \<Rightarrow> string \<Rightarrow> bytes \<Rightarrow> bool \<times> bytes" where
  "inline_remove M key x =
     (let k = string_bytes key; old = old_entries M x;
          kvs = filter (\<lambda>(foundKey, _). foundKey \<noteq> k) old
      in if \<not> list_ex (\<lambda>(foundKey, _). foundKey = k) old then (False, x)
         else if length kvs = 0 then (True, [])
         else (True, inline_serialize M kvs))"

end
