(* ===== verification/XL_Meta.thy ===== *)
theory XL_Meta
  imports File_Info Inline_Data "HOL-Library.AList"
begin

text \<open>
  The journal of versions of an object at a drive, \<^verbatim>\<open>cmd/xl-storage-format-v2.go\<close> with
  \<^verbatim>\<open>cmd/xl-storage-format-utils.go\<close> and the old format of \<^verbatim>\<open>cmd/xl-storage-format-v1.go\<close>: adding, updating, deleting,
  listing and finding versions, and the frame of the file. A Go map is the list of its entries in the order
  of a traversal, or \<^const>\<open>None\<close> for nil. The entries of \<^verbatim>\<open>fi.Metadata\<close> are an argument of their own. The outer
  \<^const>\<open>None\<close> of a result is a panic.
\<close>

section \<open>Maps and keys\<close>

type_synonym go_map = "(string \<times> string) list option"

definition gm_entries :: "go_map \<Rightarrow> (string \<times> string) list" where
  "gm_entries m = (case m of None \<Rightarrow> [] | Some es \<Rightarrow> es)"

definition gm_lookup :: "go_map \<Rightarrow> string \<rightharpoonup> string" where
  "gm_lookup m = map_of (gm_entries m)"

text \<open>Assignment to a map that is made when it is nil, and deletion.\<close>

definition gm_set :: "string \<Rightarrow> string \<Rightarrow> go_map \<Rightarrow> go_map" where
  "gm_set k v m = Some (AList.update k v (gm_entries m))"

definition gm_delete :: "string \<Rightarrow> go_map \<Rightarrow> go_map" where
  "gm_delete k m = map_option (AList.delete k) m"

definition nullVersionID :: string where
  "nullVersionID = ''null''"

definition transition_status_key :: string where
  "transition_status_key = ''x-otterio-internal-transition-status''"

definition VersionPurgeStatusKey :: string where
  "VersionPurgeStatusKey = ''purgestatus''"

definition AmzBucketReplicationStatus :: string where
  "AmzBucketReplicationStatus = ''X-Amz-Replication-Status''"

text \<open>\<^verbatim>\<open>strings.HasPrefix(strings.ToLower(k), ReservedMetadataPrefixLower)\<close>\<close>

definition isReserved :: "string \<Rightarrow> bool" where
  "isReserved k \<longleftrightarrow> prefix (map byte ''x-otterio-internal-'') (map lower_rune (runes k))"

text \<open>\<^verbatim>\<open>strings.EqualFold\<close> with a string of small ASCII letters.\<close>

definition fold_rune :: "rune \<Rightarrow> rune" where
  "fold_rune r =
     (if 65 \<le> r \<and> r \<le> 90 then r + 32 else if r = 0x17F then 0x73 else if r = 0x212A then 0x6B else r)"

definition removeRestoreHeader :: "go_map \<Rightarrow> go_map" where
  "removeRestoreHeader m =
     map_option (filter (\<lambda>(key, _). map fold_rune (runes key) \<noteq> map byte ''x-amz-restore'')) m"

text \<open>\<^verbatim>\<open>caseInsensitiveMap(m).Lookup(xhttp.AmzRestore)\<close>: the key, in small letters and in canonical form.\<close>

definition Lookup_AmzRestore :: "(string \<times> string) list \<Rightarrow> string option" where
  "Lookup_AmzRestore m =
     (case map_of m ''x-amz-restore'' of Some v \<Rightarrow> Some v | None \<Rightarrow> map_of m ''X-Amz-Restore'')"

section \<open>Versions\<close>

type_synonym uuid = bytes

definition zero_uuid :: uuid where
  "zero_uuid = replicate 16 0"

record xlMetaV1Object =
  v1_Version :: string
  v1_Format :: string
  v1_StatSize :: int
  v1_StatModTime :: int
  v1_Erasure :: erasure_info
  v1_Release :: string
  v1_Meta :: go_map
  v1_Parts :: "object_part list"
  v1_VersionID :: string
  v1_DataDir :: string

record xlMetaV2DeleteMarker =
  dm_VersionID :: uuid
  dm_ModTime :: int
  dm_MetaSys :: go_map

record xlMetaV2Object =
  o_VersionID :: uuid
  o_DataDir :: uuid
  o_ErasureAlgorithm :: nat
  o_ErasureM :: int
  o_ErasureN :: int
  o_ErasureBlockSize :: int
  o_ErasureIndex :: int
  o_ErasureDist :: "8 word list"
  o_BitrotChecksumAlgo :: nat
  o_PartNumbers :: "int list"
  o_PartETags :: "string list"
  o_PartSizes :: "int list"
  o_PartActualSizes :: "int list"
  o_Size :: int
  o_ModTime :: int
  o_MetaSys :: go_map
  o_MetaUser :: go_map

record xlMetaV2Version =
  v_Type :: nat
  v_ObjectV1 :: "xlMetaV1Object option"
  v_ObjectV2 :: "xlMetaV2Object option"
  v_DeleteMarker :: "xlMetaV2DeleteMarker option"

record xlMetaV2 =
  x_Versions :: "xlMetaV2Version list"
  x_data :: bytes

definition ObjectType :: nat where "ObjectType = 1"
definition DeleteType :: nat where "DeleteType = 2"
definition LegacyType :: nat where "LegacyType = 3"

definition ErasureAlgo_valid :: "nat \<Rightarrow> bool" where
  "ErasureAlgo_valid e \<longleftrightarrow> e > 0 \<and> e < 2"

definition ErasureAlgo_String :: "nat \<Rightarrow> string" where
  "ErasureAlgo_String e = (if e = 1 then ''reedsolomon'' else '''')"

definition ChecksumAlgo_valid :: "nat \<Rightarrow> bool" where
  "ChecksumAlgo_valid e \<longleftrightarrow> e > 0 \<and> e < 2"

definition isXLMetaFormatValid :: "string \<Rightarrow> string \<Rightarrow> bool" where
  "isXLMetaFormatValid ver format \<longleftrightarrow> (ver = ''1.0.1'' \<or> ver = ''1.0.0'') \<and> format = ''xl''"

definition xlMetaV1Object_valid :: "xlMetaV1Object \<Rightarrow> bool" where
  "xlMetaV1Object_valid m =
     (if v1_StatSize m < 0 \<or> \<not> validStoragePath (v1_DataDir m) \<or> \<not> validStorageErasureInfo (v1_Erasure m) then False
      else if list_ex (\<lambda>part. op_Number part \<le> 0 \<or> op_Number part > globalMaxPartID \<or> op_Size part < 0) (v1_Parts m)
      then False
      else isXLMetaFormatValid (v1_Version m) (v1_Format m) \<and>
           isXLMetaErasureInfoValid (ei_DataBlocks (v1_Erasure m)) (ei_ParityBlocks (v1_Erasure m)))"

definition validData :: "xlMetaV2Object \<Rightarrow> bool" where
  "validData j =
     (if o_Size j < 0 \<or>
         \<not> validStorageErasureInfo (zero_erasure_info\<lparr>ei_DataBlocks := o_ErasureM j, ei_ParityBlocks := o_ErasureN j,
             ei_BlockSize := o_ErasureBlockSize j\<rparr>) then False
      else
        (let n = length (o_PartNumbers j)
         in if int n > globalMaxPartID \<or> length (o_PartSizes j) \<noteq> n \<or> length (o_PartETags j) \<noteq> n \<or>
               length (o_PartActualSizes j) \<noteq> n then False
            else list_all (\<lambda>(number, size). \<not> (number \<le> 0 \<or> number > globalMaxPartID \<or> size < 0))
                   (zip (o_PartNumbers j) (o_PartSizes j))))"

definition Version_Valid :: "xlMetaV2Version \<Rightarrow> bool" where
  "Version_Valid j =
     (if v_Type j = LegacyType then
        (case v_ObjectV1 j of None \<Rightarrow> False | Some m \<Rightarrow> xlMetaV1Object_valid m)
      else if v_Type j = ObjectType then
        (case v_ObjectV2 j of
           None \<Rightarrow> False
         | Some ob \<Rightarrow> ErasureAlgo_valid (o_ErasureAlgorithm ob) \<and> ChecksumAlgo_valid (o_BitrotChecksumAlgo ob) \<and>
             validData ob \<and> o_ModTime ob > 0)
      else if v_Type j = DeleteType then
        (case v_DeleteMarker j of None \<Rightarrow> False | Some d \<Rightarrow> dm_ModTime d > 0)
      else False)"

text \<open>A switch on the type of a version, with the pointer that its case follows.\<close>

datatype version_case =
  CaseLegacy xlMetaV1Object | CaseObject xlMetaV2Object | CaseDelete xlMetaV2DeleteMarker | CaseOther | CaseNil

definition version_case :: "xlMetaV2Version \<Rightarrow> version_case" where
  "version_case v =
     (if v_Type v = LegacyType then (case v_ObjectV1 v of None \<Rightarrow> CaseNil | Some m \<Rightarrow> CaseLegacy m)
      else if v_Type v = ObjectType then (case v_ObjectV2 v of None \<Rightarrow> CaseNil | Some ob \<Rightarrow> CaseObject ob)
      else if v_Type v = DeleteType then (case v_DeleteMarker v of None \<Rightarrow> CaseNil | Some d \<Rightarrow> CaseDelete d)
      else CaseOther)"

text \<open>
  What other packages do: UUIDs, the hash of the metadata, the generated codec of the journal, the numbers of
  the frame, and sorting, which need not be stable. A number that cannot be read is \<^const>\<open>None\<close>.
\<close>

record xl_libs =
  lib_msgp :: msgp
  uuid_Parse :: "string \<Rightarrow> uuid option"
  uuid_String :: "uuid \<Rightarrow> string"
  Sum64 :: "bytes \<Rightarrow> 64 word"
  MarshalMsg :: "xlMetaV2Version list \<Rightarrow> bytes option"
  UnmarshalMsg :: "bytes \<Rightarrow> xlMetaV2Version list option"
  ReadUint32Bytes :: "bytes \<Rightarrow> nat option \<times> bytes"
  AppendUint32 :: "nat \<Rightarrow> bytes"
  sort_versions :: "xlMetaV2Version list \<Rightarrow> xlMetaV2Version list"
  sort_infos :: "file_info list \<Rightarrow> file_info list"

datatype xl_error =
  XLStorage storage_error | XLCorrupt | XLMethodNotAllowed | XLVersionNotFound | XLNotFound | XLInternal | XLParse |
  XLNoData | XLUnknownHeader | XLUnknownMajor | XLUnknownMinor | XLDecode | XLCRC | XLInline inline_error |
  XLChecksumAlgo nat

section \<open>Frame\<close>

definition xlHeader :: bytes where
  "xlHeader = string_bytes ''XL2 ''"

definition xlVersionCurrent :: bytes where
  "xlVersionCurrent = [1, 0, 2, 0]"

definition checkXL2V1 :: "bytes \<Rightarrow> xl_error + bytes \<times> nat \<times> nat" where
  "checkXL2V1 buf =
     (if length buf \<le> 8 then Inl XLNoData
      else if take 4 buf \<noteq> xlHeader then Inl XLUnknownHeader
      else
        (let (major, minor) =
               (if take 4 (drop 4 buf) = string_bytes ''1   '' then (1, 0)
                else (unat (buf ! 4) + 256 * unat (buf ! 5), unat (buf ! 6) + 256 * unat (buf ! 7)))
         in if major > 1 then Inl XLUnknownMajor else Inr (drop 8 buf, major, minor)))"

definition isXL2V1Format :: "bytes \<Rightarrow> bool" where
  "isXL2V1Format buf = (case checkXL2V1 buf of Inl _ \<Rightarrow> False | Inr _ \<Rightarrow> True)"

definition Load :: "xl_libs \<Rightarrow> bytes \<Rightarrow> xl_error + xlMetaV2" where
  "Load L buf0 =
     (case checkXL2V1 buf0 of
        Inl err \<Rightarrow> Inl err
      | Inr (buf, major, minor) \<Rightarrow>
          if major \<noteq> 1 then Inl XLUnknownMajor
          else if minor = 0 then
            (case UnmarshalMsg L buf of
               None \<Rightarrow> Inl XLDecode | Some vs \<Rightarrow> Inr \<lparr>x_Versions = vs, x_data = []\<rparr>)
          else if minor = 1 \<or> minor = 2 then
            (case ReadBytesZC (lib_msgp L) buf of
               None \<Rightarrow> Inl XLDecode
             | Some (v, buf1) \<Rightarrow>
                 (let checked =
                    (if minor \<ge> 2 then
                       (case ReadUint32Bytes L buf1 of
                          (None, _) \<Rightarrow> Inl XLDecode
                        | (Some crc, nbuf) \<Rightarrow>
                            if unat (ucast (Sum64 L v) :: 32 word) \<noteq> crc then Inl XLCRC else Inr nbuf)
                     else Inr buf1)
                  in case checked of
                       Inl err \<Rightarrow> Inl err
                     | Inr buf2 \<Rightarrow>
                         (case UnmarshalMsg L v of
                            None \<Rightarrow> Inl XLDecode
                          | Some vs \<Rightarrow>
                              Inr \<lparr>x_Versions = vs,
                                   x_data = (case inline_validate (lib_msgp L) buf2 of
                                               None \<Rightarrow> buf2
                                             | Some _ \<Rightarrow> inline_repair (lib_msgp L) buf2)\<rparr>)))
          else Inl XLUnknownMinor)"

definition be32_bytes :: "nat \<Rightarrow> bytes" where
  "be32_bytes n = map (\<lambda>i. word_of_nat (n div 256 ^ i)) [3, 2, 1, 0]"

definition AppendTo :: "xl_libs \<Rightarrow> xlMetaV2 \<Rightarrow> bytes \<Rightarrow> xl_error + bytes" where
  "AppendTo L z dst =
     (case inline_validate (lib_msgp L) (x_data z) of
        Some err \<Rightarrow> Inl (XLInline err)
      | None \<Rightarrow>
          (case MarshalMsg L (x_Versions z) of
             None \<Rightarrow> Inl XLDecode
           | Some meta \<Rightarrow>
               Inr (dst @ xlHeader @ xlVersionCurrent @ 0xC6 # be32_bytes (length meta mod 2 ^ 32) @ meta @
                    AppendUint32 L (unat (ucast (Sum64 L meta) :: 32 word)) @ x_data z)))"

text \<open>The first of the two numbers is called \<^verbatim>\<open>mn\<close> and the second \<^verbatim>\<open>maj\<close> here.\<close>

definition xlMetaV2TrimData :: "xl_libs \<Rightarrow> bytes \<Rightarrow> bytes" where
  "xlMetaV2TrimData L buf =
     (case checkXL2V1 buf of
        Inl _ \<Rightarrow> buf
      | Inr (metaBuf, mn, maj) \<Rightarrow>
          if maj = 1 \<and> mn < 1 then buf
          else
            (case ReadBytesZC (lib_msgp L) metaBuf of
               None \<Rightarrow> buf
             | Some (_, metaBuf1) \<Rightarrow>
                 (let metaBuf2 = (if maj > 1 \<or> mn \<ge> 2 then snd (ReadUint32Bytes L metaBuf1) else metaBuf1);
                      ends = int (length buf) - int (length metaBuf2)
                  in if ends > int (length buf) then buf else take (nat ends) buf)))"

end
