(* ===== verification/XL_Journal.thy ===== *)
theory XL_Journal
  imports XL_Meta
begin

text \<open>
  The operations on the journal of \<^verbatim>\<open>cmd/xl-storage-format-v2.go\<close>. A loop over \<^verbatim>\<open>z.Versions\<close> has the versions
  before the current one as an argument, so that it can put the journal together again.
\<close>

section \<open>Conversion\<close>

definition part_infos :: "xlMetaV2Object \<Rightarrow> object_part list" where
  "part_infos j =
     map (\<lambda>((number, size), (etag, actual)). \<lparr>op_ETag = etag, op_Number = number, op_Size = size, op_ActualSize = actual\<rparr>)
       (zip (zip (o_PartNumbers j) (o_PartSizes j)) (zip (o_PartETags j) (o_PartActualSizes j)))"

definition version_string :: "xl_libs \<Rightarrow> uuid \<Rightarrow> string" where
  "version_string L u = (if u \<noteq> zero_uuid then uuid_String L u else '''')"

definition DeleteMarker_ToFileInfo :: "xl_libs \<Rightarrow> string \<Rightarrow> string \<Rightarrow> xlMetaV2DeleteMarker \<Rightarrow> file_info" where
  "DeleteMarker_ToFileInfo L volume path j =
     foldl (\<lambda>fi (k, v).
         if lower_is k ''x-amz-replication-status'' then fi\<lparr>fi_DeleteMarkerReplicationStatus := v\<rparr>
         else if lower_is k VersionPurgeStatusKey then fi\<lparr>fi_VersionPurgeStatus := v\<rparr>
         else fi)
       (zero_file_info\<lparr>fi_Volume := volume, fi_Name := path, fi_ModTime := dm_ModTime j,
          fi_VersionID := version_string L (dm_VersionID j), fi_Deleted := True\<rparr>)
       (gm_entries (dm_MetaSys j))"

definition user_info :: "file_info \<Rightarrow> string \<times> string \<Rightarrow> file_info" where
  "user_info fi kv =
     (if lower_is (fst kv) ''x-amz-meta-x-amz-unencrypted-content-length'' \<or>
         lower_is (fst kv) ''x-amz-meta-x-amz-unencrypted-content-md5'' then fi
      else fi\<lparr>fi_Metadata := (fi_Metadata fi)(fst kv \<mapsto> snd kv)\<rparr>)"

definition sys_info :: "file_info \<Rightarrow> string \<times> string \<Rightarrow> file_info" where
  "sys_info fi kv =
     (if lower_is (fst kv) transition_status_key then fi\<lparr>fi_TransitionStatus := snd kv\<rparr>
      else if lower_is (fst kv) VersionPurgeStatusKey then fi\<lparr>fi_VersionPurgeStatus := snd kv\<rparr>
      else if isReserved (fst kv) then fi\<lparr>fi_Metadata := (fi_Metadata fi)(fst kv \<mapsto> snd kv)\<rparr>
      else fi)"

text \<open>3 is the streaming HighwayHash.\<close>

definition Object_ToFileInfo :: "xl_libs \<Rightarrow> string \<Rightarrow> string \<Rightarrow> xlMetaV2Object \<Rightarrow> xl_error + file_info" where
  "Object_ToFileInfo L volume path j =
     (if \<not> validData j then Inl XLCorrupt
      else if part_infos j \<noteq> [] \<and> o_BitrotChecksumAlgo j \<noteq> 1 then Inl (XLChecksumAlgo (o_BitrotChecksumAlgo j))
      else
        (let fi = zero_file_info\<lparr>fi_Volume := volume, fi_Name := path, fi_Size := o_Size j, fi_ModTime := o_ModTime j,
                    fi_VersionID := version_string L (o_VersionID j), fi_Parts := part_infos j\<rparr>;
             fi = foldl sys_info (foldl user_info fi (gm_entries (o_MetaUser j))) (gm_entries (o_MetaSys j))
         in Inr (fi\<lparr>fi_Erasure :=
                \<lparr>ei_Algorithm = ErasureAlgo_String (o_ErasureAlgorithm j), ei_DataBlocks = o_ErasureM j,
                 ei_ParityBlocks = o_ErasureN j, ei_BlockSize = o_ErasureBlockSize j, ei_Index = o_ErasureIndex j,
                 ei_Distribution = map uint (o_ErasureDist j),
                 ei_Checksums = map (\<lambda>part. \<lparr>ck_PartNumber = op_Number part, ck_Algorithm = 3, ck_Hash = []\<rparr>)
                                  (part_infos j)\<rparr>,
                fi_DataDir := uuid_String L (o_DataDir j)\<rparr>)))"

definition V1_ToFileInfo :: "string \<Rightarrow> string \<Rightarrow> xlMetaV1Object \<Rightarrow> xl_error + file_info" where
  "V1_ToFileInfo volume path m =
     (if \<not> xlMetaV1Object_valid m then Inl XLCorrupt
      else Inr (zero_file_info\<lparr>fi_Volume := volume, fi_Name := path, fi_ModTime := v1_StatModTime m,
             fi_Size := v1_StatSize m, fi_Metadata := gm_lookup (v1_Meta m), fi_Parts := v1_Parts m,
             fi_Erasure := v1_Erasure m, fi_VersionID := v1_VersionID m, fi_DataDir := v1_DataDir m,
             fi_TransitionStatus := (case gm_lookup (v1_Meta m) transition_status_key of None \<Rightarrow> '''' | Some st \<Rightarrow> st)\<rparr>))"

text \<open>The conversion of a version, \<^const>\<open>None\<close> for a nil pointer; another type gives the empty information.\<close>

definition Version_ToFileInfo :: "xl_libs \<Rightarrow> string \<Rightarrow> string \<Rightarrow> xlMetaV2Version \<Rightarrow> (xl_error + file_info) option" where
  "Version_ToFileInfo L volume path v =
     (case version_case v of
        CaseObject ob \<Rightarrow> Some (Object_ToFileInfo L volume path ob)
      | CaseDelete d \<Rightarrow> Some (Inr (DeleteMarker_ToFileInfo L volume path d))
      | CaseLegacy m \<Rightarrow> Some (V1_ToFileInfo volume path m)
      | CaseOther \<Rightarrow> Some (Inr zero_file_info)
      | CaseNil \<Rightarrow> None)"

section \<open>Updating\<close>

text \<open>The UUID of a version, zero for none and for the null version; \<^const>\<open>None\<close> is an error.\<close>

definition parse_version :: "xl_libs \<Rightarrow> string \<Rightarrow> uuid option" where
  "parse_version L vid = (if vid \<noteq> '''' \<and> vid \<noteq> nullVersionID then uuid_Parse L vid else Some zero_uuid)"

definition legacy_matches :: "string \<Rightarrow> xlMetaV1Object \<Rightarrow> bool" where
  "legacy_matches vid m \<longleftrightarrow> v1_VersionID m = vid \<or> v1_VersionID m = nullVersionID \<and> vid = ''''"

definition put_metadata :: "(string \<times> string) list \<Rightarrow> go_map \<times> go_map \<Rightarrow> go_map \<times> go_map" where
  "put_metadata meta su =
     foldl (\<lambda>(sys, user) (k, v). if isReserved k then (gm_set k v sys, user) else (sys, gm_set k v user)) su meta"

text \<open>The metadata of a legacy version at a transition; \<open>keep\<close> keeps the header of a restored copy.\<close>

definition transition_legacy :: "file_info \<Rightarrow> (string \<times> string) list \<Rightarrow> bool \<Rightarrow> xlMetaV1Object \<Rightarrow> xlMetaV1Object" where
  "transition_legacy fi meta keep m =
     (let m1 = foldl (\<lambda>gm (k, v). gm_set k v gm) (Some (gm_entries (v1_Meta m))) meta;
          m2 = gm_set transition_status_key (fi_TransitionStatus fi) m1
      in m\<lparr>v1_Meta := (if fi_TransitionStatus fi = TransitionComplete \<and> \<not> keep then removeRestoreHeader m2 else m2)\<rparr>)"

definition update_object :: "file_info \<Rightarrow> (string \<times> string) list \<Rightarrow> xlMetaV2Object \<Rightarrow> xlMetaV2Object" where
  "update_object fi meta ob =
     (let (sys, user) = put_metadata meta (Some (gm_entries (o_MetaSys ob)), Some (gm_entries (o_MetaUser ob)));
          (sys, user) =
            (if fi_TransitionStatus fi \<noteq> '''' then
               (gm_set transition_status_key (fi_TransitionStatus fi) sys,
                if fi_TransitionStatus fi = TransitionComplete \<and> Lookup_AmzRestore meta = None
                then removeRestoreHeader user else user)
             else (sys, user))
      in ob\<lparr>o_MetaSys := sys, o_MetaUser := user,
           o_ModTime := (if fi_ModTime fi \<noteq> zero_time then wrap64 (fi_ModTime fi) else o_ModTime ob)\<rparr>)"

fun update_loop ::
  "file_info \<Rightarrow> (string \<times> string) list \<Rightarrow> string \<Rightarrow> uuid \<Rightarrow> xlMetaV2Version list \<Rightarrow> xlMetaV2Version list \<Rightarrow>
     (xl_error + xlMetaV2Version list) option" where
  "update_loop fi meta vid uv pre [] = Some (Inl XLVersionNotFound)"
| "update_loop fi meta vid uv pre (v # vs) =
     (if \<not> Version_Valid v then Some (Inl XLCorrupt)
      else
        (case version_case v of
           CaseLegacy m \<Rightarrow>
             if legacy_matches vid m then
               (if fi_TransitionStatus fi \<noteq> ''''
                then Some (Inr (pre @ v\<lparr>v_ObjectV1 := Some (transition_legacy fi meta (Lookup_AmzRestore meta \<noteq> None) m)\<rparr> # vs))
                else Some (Inl XLMethodNotAllowed))
             else update_loop fi meta vid uv (pre @ [v]) vs
         | CaseObject ob \<Rightarrow>
             if o_VersionID ob = uv
             then Some (Inr (pre @ v\<lparr>v_ObjectV2 := Some (update_object fi meta ob)\<rparr> # vs))
             else update_loop fi meta vid uv (pre @ [v]) vs
         | CaseDelete d \<Rightarrow> Some (Inl XLMethodNotAllowed)
         | CaseOther \<Rightarrow> update_loop fi meta vid uv (pre @ [v]) vs
         | CaseNil \<Rightarrow> None))"

definition UpdateObjectVersion ::
  "xl_libs \<Rightarrow> file_info \<Rightarrow> (string \<times> string) list \<Rightarrow> xlMetaV2 \<Rightarrow> (xl_error + xlMetaV2) option" where
  "UpdateObjectVersion L fi meta z =
     (let vid = (if fi_VersionID fi = '''' then nullVersionID else fi_VersionID fi)
      in case parse_version L vid of
           None \<Rightarrow> Some (Inl XLParse)
         | Some uv \<Rightarrow>
             map_option (map_sum id (\<lambda>vs. z\<lparr>x_Versions := vs\<rparr>)) (update_loop fi meta vid uv [] (x_Versions z)))"

section \<open>Adding\<close>

definition no_version :: xlMetaV2Version where
  "no_version = \<lparr>v_Type = 0, v_ObjectV1 = None, v_ObjectV2 = None, v_DeleteMarker = None\<rparr>"

definition object_entry :: "uuid \<Rightarrow> uuid \<Rightarrow> file_info \<Rightarrow> (string \<times> string) list \<Rightarrow> xlMetaV2Object" where
  "object_entry uv dd fi meta =
     (let (sys, user) = put_metadata meta (Some [], Some [])
      in \<lparr>o_VersionID = uv, o_DataDir = dd, o_ErasureAlgorithm = 1, o_ErasureM = ei_DataBlocks (fi_Erasure fi),
          o_ErasureN = ei_ParityBlocks (fi_Erasure fi), o_ErasureBlockSize = ei_BlockSize (fi_Erasure fi),
          o_ErasureIndex = ei_Index (fi_Erasure fi),
          o_ErasureDist = map word_of_int (ei_Distribution (fi_Erasure fi)), o_BitrotChecksumAlgo = 1,
          o_PartNumbers = map op_Number (fi_Parts fi), o_PartETags = map op_ETag (fi_Parts fi),
          o_PartSizes = map op_Size (fi_Parts fi), o_PartActualSizes = map op_ActualSize (fi_Parts fi),
          o_Size = fi_Size fi, o_ModTime = wrap64 (fi_ModTime fi), o_MetaSys = sys, o_MetaUser = user\<rparr>)"

definition version_entry :: "uuid \<Rightarrow> uuid \<Rightarrow> file_info \<Rightarrow> (string \<times> string) list \<Rightarrow> xlMetaV2Version" where
  "version_entry uv dd fi meta =
     (if fi_Deleted fi
      then no_version\<lparr>v_Type := DeleteType,
             v_DeleteMarker := Some \<lparr>dm_VersionID = uv, dm_ModTime = wrap64 (fi_ModTime fi), dm_MetaSys = Some []\<rparr>\<rparr>
      else no_version\<lparr>v_Type := ObjectType, v_ObjectV2 := Some (object_entry uv dd fi meta)\<rparr>)"

definition same_layout :: "uuid \<Rightarrow> uuid \<Rightarrow> file_info \<Rightarrow> xlMetaV2Version \<Rightarrow> bool" where
  "same_layout uv dd fi old \<longleftrightarrow>
     v_Type old = ObjectType \<and>
     (case v_ObjectV2 old of
        None \<Rightarrow> False
      | Some ob \<Rightarrow> o_VersionID ob = uv \<and> o_DataDir ob = dd \<and> o_Size ob = fi_Size fi \<and>
          length (o_PartNumbers ob) = length (fi_Parts fi) \<and> length (o_PartSizes ob) = length (fi_Parts fi))"

definition preserveInline :: "uuid \<Rightarrow> uuid \<Rightarrow> file_info \<Rightarrow> xlMetaV2Version list \<Rightarrow> bool" where
  "preserveInline uv dd fi versions =
     (case find (same_layout uv dd fi) versions of
        None \<Rightarrow> False
      | Some old \<Rightarrow>
          (case v_ObjectV2 old of
             None \<Rightarrow> False
           | Some ob \<Rightarrow> o_PartNumbers ob = map op_Number (fi_Parts fi) \<and> o_PartSizes ob = map op_Size (fi_Parts fi)))"

definition add_inline :: "msgp \<Rightarrow> string \<Rightarrow> uuid \<Rightarrow> uuid \<Rightarrow> file_info \<Rightarrow> xlMetaV2 \<Rightarrow> bytes" where
  "add_inline M vid uv dd fi z =
     (if fi_Deleted fi then x_data z
      else if length (fi_Data fi) > 0 \<or> fi_Size fi = 0 then inline_replace M vid (fi_Data fi) (x_data z)
      else if \<not> preserveInline uv dd fi (x_Versions z) then snd (inline_remove M vid (x_data z))
      else x_data z)"

fun add_loop ::
  "xlMetaV2Version \<Rightarrow> string \<Rightarrow> uuid \<Rightarrow> xlMetaV2Version list \<Rightarrow> xlMetaV2Version list \<Rightarrow>
     (xl_error + xlMetaV2Version list) option" where
  "add_loop ventry vid uv pre [] = Some (Inr (pre @ [ventry]))"
| "add_loop ventry vid uv pre (v # vs) =
     (if \<not> Version_Valid v then Some (Inl XLCorrupt)
      else
        (case version_case v of
           CaseLegacy m \<Rightarrow>
             if v1_VersionID m = vid then Some (Inr (pre @ ventry # vs))
             else add_loop ventry vid uv (pre @ [v]) vs
         | CaseObject ob \<Rightarrow>
             if o_VersionID ob = uv then Some (Inr (pre @ ventry # vs))
             else add_loop ventry vid uv (pre @ [v]) vs
         | CaseDelete d \<Rightarrow>
             if dm_VersionID d = uv then Some (Inr (pre @ ventry # vs))
             else add_loop ventry vid uv (pre @ [v]) vs
         | CaseOther \<Rightarrow> add_loop ventry vid uv (pre @ [v]) vs
         | CaseNil \<Rightarrow> None))"

text \<open>With an error the journal is not used any more, although its inline data may have changed.\<close>

definition AddVersion ::
  "xl_libs \<Rightarrow> file_info \<Rightarrow> (string \<times> string) list \<Rightarrow> xlMetaV2 \<Rightarrow> (xl_error + xlMetaV2) option" where
  "AddVersion L fi meta z =
     (case validateStorageFileInfo fi True of
        Some err \<Rightarrow> Some (Inl (XLStorage err))
      | None \<Rightarrow>
          (let vid = (if fi_VersionID fi = '''' then nullVersionID else fi_VersionID fi)
           in case parse_version L vid of
                None \<Rightarrow> Some (Inl XLParse)
              | Some uv \<Rightarrow>
                  (case (if fi_DataDir fi \<noteq> '''' then uuid_Parse L (fi_DataDir fi) else Some zero_uuid) of
                     None \<Rightarrow> Some (Inl XLParse)
                   | Some dd \<Rightarrow>
                       (let ventry = version_entry uv dd fi meta
                        in if \<not> Version_Valid ventry then Some (Inl XLInternal)
                           else map_option (map_sum id (\<lambda>vs. \<lparr>x_Versions = vs,
                                    x_data = add_inline (lib_msgp L) vid uv dd fi z\<rparr>))
                                  (add_loop ventry vid uv [] (x_Versions z))))))"

definition newXLMetaV2 :: "xl_libs \<Rightarrow> file_info \<Rightarrow> (string \<times> string) list \<Rightarrow> (xl_error + xlMetaV2) option" where
  "newXLMetaV2 L fi meta = AddVersion L fi meta \<lparr>x_Versions = [], x_data = []\<rparr>"

definition AddLegacy :: "xlMetaV1Object \<Rightarrow> xlMetaV2 \<Rightarrow> xl_error + xlMetaV2" where
  "AddLegacy m z =
     (if \<not> xlMetaV1Object_valid m then Inl XLCorrupt
      else Inr (z\<lparr>x_Versions := [no_version\<lparr>v_Type := LegacyType,
                    v_ObjectV1 := Some (m\<lparr>v1_VersionID := nullVersionID, v1_DataDir := ''legacy''\<rparr>)\<rparr>]\<rparr>))"

section \<open>Deleting\<close>

fun shared_loop :: "uuid \<Rightarrow> uuid \<Rightarrow> xlMetaV2Version list \<Rightarrow> nat option" where
  "shared_loop vid dataDir [] = Some 0"
| "shared_loop vid dataDir (v # vs) =
     (if v_Type v = ObjectType then
        (case v_ObjectV2 v of
           None \<Rightarrow> None
         | Some ob \<Rightarrow>
             if o_VersionID ob = vid then shared_loop vid dataDir vs
             else if gm_lookup (o_MetaSys ob) transition_status_key = Some TransitionComplete \<and>
                     Lookup_AmzRestore (gm_entries (o_MetaUser ob)) = None
             then shared_loop vid dataDir vs
             else if o_DataDir ob = dataDir then map_option Suc (shared_loop vid dataDir vs)
             else shared_loop vid dataDir vs)
      else shared_loop vid dataDir vs)"

definition SharedDataDirCount :: "xl_libs \<Rightarrow> xlMetaV2 \<Rightarrow> uuid \<Rightarrow> uuid \<Rightarrow> nat option" where
  "SharedDataDirCount L z vid dataDir =
     (if inline_find (lib_msgp L) (x_data z) (uuid_String L vid) \<noteq> None then Some 0
      else shared_loop vid dataDir (x_Versions z))"

definition SharedDataDirCountStr :: "xl_libs \<Rightarrow> xlMetaV2 \<Rightarrow> string \<Rightarrow> string \<Rightarrow> nat option" where
  "SharedDataDirCountStr L z vid dataDir =
     (case parse_version L vid of
        None \<Rightarrow> Some 0
      | Some uv \<Rightarrow>
          (case uuid_Parse L dataDir of
             None \<Rightarrow> Some 0
           | Some ddir \<Rightarrow> SharedDataDirCount L z uv ddir))"

definition status_entries :: "file_info \<Rightarrow> go_map \<Rightarrow> go_map" where
  "status_entries fi m =
     (let m1 = (if fi_DeleteMarkerReplicationStatus fi \<noteq> ''''
                then gm_set AmzBucketReplicationStatus (fi_DeleteMarkerReplicationStatus fi) m else m)
      in if fi_VersionPurgeStatus fi \<noteq> '''' then gm_set VersionPurgeStatusKey (fi_VersionPurgeStatus fi) m1 else m1)"

text \<open>The delete marker that the call is to leave, or the empty version.\<close>

definition delete_entry :: "uuid \<Rightarrow> file_info \<Rightarrow> xlMetaV2Version" where
  "delete_entry uv fi =
     (if fi_Deleted fi
      then no_version\<lparr>v_Type := DeleteType,
             v_DeleteMarker := Some \<lparr>dm_VersionID = uv, dm_ModTime = wrap64 (fi_ModTime fi),
               dm_MetaSys = status_entries fi (Some [])\<rparr>\<rparr>
      else no_version)"

definition updateVersion :: "file_info \<Rightarrow> bool" where
  "updateVersion fi =
     (if fi_VersionPurgeStatus fi = '''' \<and>
         (fi_DeleteMarkerReplicationStatus fi = ''REPLICA'' \<or> fi_DeleteMarkerReplicationStatus fi = '''')
      then fi_MarkDeleted fi
      else fi_Deleted fi \<and> fi_VersionPurgeStatus fi \<noteq> ''COMPLETE'' \<and>
             (fi_VersionPurgeStatus fi \<noteq> '''' \<or> fi_DeleteMarkerReplicationStatus fi \<noteq> '''') \<or>
           fi_VersionPurgeStatus fi \<noteq> '''' \<and> fi_VersionPurgeStatus fi \<noteq> ''COMPLETE'')"

text \<open>
  The first loop: legacy versions, delete markers and marking of objects. The result has the directory of
  the data to delete, whether no version is left, and the versions; \<^const>\<open>None\<close> inside says that the loop ran
  to its end.
\<close>

fun delete_loop ::
  "file_info \<Rightarrow> (string \<times> string) list \<Rightarrow> string \<Rightarrow> uuid \<Rightarrow> xlMetaV2Version list \<Rightarrow> xlMetaV2Version list \<Rightarrow>
     (xl_error + (string \<times> bool \<times> xlMetaV2Version list)) option option" where
  "delete_loop fi meta vid uv pre [] = Some None"
| "delete_loop fi meta vid uv pre (v # vs) =
     (if \<not> Version_Valid v then Some (Some (Inl XLCorrupt))
      else
        (case version_case v of
           CaseLegacy m \<Rightarrow>
             if legacy_matches vid m then
               (if fi_TransitionStatus fi \<noteq> ''''
                then Some (Some (Inr (v1_DataDir m, False, pre @ v\<lparr>v_ObjectV1 := Some (transition_legacy fi meta False m)\<rparr> # vs)))
                else
                  (let vs' = pre @ vs @ (if fi_Deleted fi then [delete_entry uv fi] else [])
                   in Some (Some (Inr (v1_DataDir m, vs' = [], vs')))))
             else delete_loop fi meta vid uv (pre @ [v]) vs
         | CaseDelete d \<Rightarrow>
             if dm_VersionID d = uv then
               (let vs' =
                  (if updateVersion fi
                   then pre @ v\<lparr>v_DeleteMarker := Some (d\<lparr>dm_MetaSys := status_entries fi
                          (gm_delete VersionPurgeStatusKey (gm_delete AmzBucketReplicationStatus
                             (Some (gm_entries (dm_MetaSys d)))))\<rparr>)\<rparr> # vs
                   else pre @ vs @
                     (if fi_MarkDeleted fi \<and> (fi_VersionPurgeStatus fi = '''' \<or> fi_VersionPurgeStatus fi \<noteq> ''COMPLETE'')
                      then [delete_entry uv fi] else []))
                in Some (Some (Inr ('''', vs' = [], vs'))))
             else delete_loop fi meta vid uv (pre @ [v]) vs
         | CaseObject ob \<Rightarrow>
             if o_VersionID ob = uv \<and> updateVersion fi then
               (case o_MetaSys ob of
                  None \<Rightarrow> None
                | Some es \<Rightarrow>
                    Some (Some (Inr ('''', False,
                      pre @ v\<lparr>v_ObjectV2 := Some (ob\<lparr>o_MetaSys :=
                        gm_set VersionPurgeStatusKey (fi_VersionPurgeStatus fi) (Some es)\<rparr>)\<rparr> # vs))))
             else delete_loop fi meta vid uv (pre @ [v]) vs
         | CaseOther \<Rightarrow> delete_loop fi meta vid uv (pre @ [v]) vs
         | CaseNil \<Rightarrow> None))"

text \<open>The object of the second loop at a transition: only reserved metadata is taken over.\<close>

definition transition_object :: "file_info \<Rightarrow> (string \<times> string) list \<Rightarrow> xlMetaV2Object \<Rightarrow> xlMetaV2Object" where
  "transition_object fi meta ob =
     ob\<lparr>o_MetaSys := gm_set transition_status_key (fi_TransitionStatus fi)
           (foldl (\<lambda>gm (k, v). if isReserved k then gm_set k v gm else gm) (Some (gm_entries (o_MetaSys ob))) meta),
        o_MetaUser := (if fi_TransitionStatus fi = TransitionComplete then removeRestoreHeader (o_MetaUser ob)
                       else o_MetaUser ob)\<rparr>"

fun delete_object_loop ::
  "xl_libs \<Rightarrow> file_info \<Rightarrow> (string \<times> string) list \<Rightarrow> uuid \<Rightarrow> bytes \<Rightarrow> xlMetaV2Version list \<Rightarrow> xlMetaV2Version list \<Rightarrow>
     (xl_error + (string \<times> bool \<times> xlMetaV2Version list)) option option" where
  "delete_object_loop L fi meta uv data pre [] = Some None"
| "delete_object_loop L fi meta uv data pre (v # vs) =
     (if \<not> Version_Valid v then Some (Some (Inl XLCorrupt))
      else
        (case version_case v of
           CaseObject ob \<Rightarrow>
             if o_VersionID ob = uv then
               (let vs' = (if fi_TransitionStatus fi \<noteq> ''''
                           then pre @ v\<lparr>v_ObjectV2 := Some (transition_object fi meta ob)\<rparr> # vs
                           else pre @ vs)
                in case SharedDataDirCount L \<lparr>x_Versions = vs', x_data = data\<rparr> (o_VersionID ob) (o_DataDir ob) of
                     None \<Rightarrow> None
                   | Some n \<Rightarrow>
                       (let dir = (if n > 0 then '''' else uuid_String L (o_DataDir ob));
                            left = vs' @ (if fi_Deleted fi then [delete_entry uv fi] else [])
                        in if fi_TransitionStatus fi \<noteq> '''' then Some (Some (Inr (dir, False, vs')))
                           else Some (Some (Inr (dir, left = [], left)))))
             else delete_object_loop L fi meta uv data (pre @ [v]) vs
         | CaseNil \<Rightarrow> None
         | _ \<Rightarrow> delete_object_loop L fi meta uv data (pre @ [v]) vs))"

definition DeleteVersion ::
  "xl_libs \<Rightarrow> file_info \<Rightarrow> (string \<times> string) list \<Rightarrow> xlMetaV2 \<Rightarrow> (xl_error + (string \<times> bool \<times> xlMetaV2)) option" where
  "DeleteVersion L fi meta z =
     (let vid = (if fi_VersionID fi = nullVersionID then '''' else fi_VersionID fi)
      in case parse_version L vid of
           None \<Rightarrow> Some (Inl XLVersionNotFound)
         | Some uv \<Rightarrow>
             if fi_Deleted fi \<and> \<not> Version_Valid (delete_entry uv fi) then Some (Inl XLInternal)
             else
               (let finish = map_option (map_sum id (\<lambda>(dir, last, vs). (dir, last, z\<lparr>x_Versions := vs\<rparr>)))
                in case delete_loop fi meta vid uv [] (x_Versions z) of
                     None \<Rightarrow> None
                   | Some (Some res) \<Rightarrow> finish (Some res)
                   | Some None \<Rightarrow>
                       (case delete_object_loop L fi meta uv (x_data z) [] (x_Versions z) of
                          None \<Rightarrow> None
                        | Some (Some res) \<Rightarrow> finish (Some res)
                        | Some None \<Rightarrow>
                            if fi_Deleted fi
                            then Some (Inr ('''', False, z\<lparr>x_Versions := x_Versions z @ [delete_entry uv fi]\<rparr>))
                            else Some (Inl XLVersionNotFound))))"

section \<open>Reading\<close>

fun TotalSize_loop :: "int \<Rightarrow> xlMetaV2Version list \<Rightarrow> int option" where
  "TotalSize_loop acc [] = Some acc"
| "TotalSize_loop acc (v # vs) =
     (case version_case v of
        CaseObject ob \<Rightarrow> TotalSize_loop (wrap64 (acc + o_Size ob)) vs
      | CaseLegacy m \<Rightarrow> TotalSize_loop (wrap64 (acc + v1_StatSize m)) vs
      | CaseNil \<Rightarrow> if v_Type v = DeleteType then TotalSize_loop acc vs else None
      | _ \<Rightarrow> TotalSize_loop acc vs)"

definition TotalSize :: "xlMetaV2 \<Rightarrow> int option" where
  "TotalSize z = TotalSize_loop 0 (x_Versions z)"

fun list_loop :: "xl_libs \<Rightarrow> string \<Rightarrow> string \<Rightarrow> xlMetaV2Version list \<Rightarrow> (xl_error + file_info list) option" where
  "list_loop L volume path [] = Some (Inr [])"
| "list_loop L volume path (v # vs) =
     (if \<not> Version_Valid v then Some (Inl XLCorrupt)
      else
        (case Version_ToFileInfo L volume path v of
           None \<Rightarrow> None
         | Some (Inl err) \<Rightarrow> Some (Inl err)
         | Some (Inr fi) \<Rightarrow>
             (case list_loop L volume path vs of
                Some (Inr fis) \<Rightarrow> Some (Inr (fi # fis))
              | res \<Rightarrow> res)))"

definition number_versions :: "file_info list \<Rightarrow> file_info list" where
  "number_versions fis =
     map (\<lambda>i. (fis ! i)\<lparr>fi_NumVersions := int (length fis), fi_IsLatest := (i = 0 \<or> fi_IsLatest (fis ! i)),
                 fi_SuccessorModTime := (if i > 0 then fi_ModTime (fis ! (i - 1)) else fi_SuccessorModTime (fis ! i))\<rparr>)
       [0..<length fis]"

definition ListVersions ::
  "xl_libs \<Rightarrow> xlMetaV2 \<Rightarrow> string \<Rightarrow> string \<Rightarrow> (xl_error + file_info list \<times> int) option" where
  "ListVersions L z volume path =
     (case list_loop L volume path (x_Versions z) of
        None \<Rightarrow> None
      | Some (Inl err) \<Rightarrow> Some (Inl err)
      | Some (Inr fis) \<Rightarrow>
          (case number_versions (sort_infos L fis) of
             [] \<Rightarrow> None
           | fi # rest \<Rightarrow> Some (Inr (fi # rest, fi_ModTime fi))))"

definition getModTimeFromVersion :: "xlMetaV2Version \<Rightarrow> int option" where
  "getModTimeFromVersion v =
     (case version_case v of
        CaseObject ob \<Rightarrow> Some (o_ModTime ob)
      | CaseDelete d \<Rightarrow> Some (dm_ModTime d)
      | CaseLegacy m \<Rightarrow> Some (v1_StatModTime m)
      | CaseOther \<Rightarrow> Some zero_time
      | CaseNil \<Rightarrow> None)"

definition version_matches :: "string \<Rightarrow> uuid \<Rightarrow> xlMetaV2Version \<Rightarrow> bool" where
  "version_matches vid uv v =
     (case version_case v of
        CaseObject ob \<Rightarrow> o_VersionID ob = uv
      | CaseLegacy m \<Rightarrow> v1_VersionID m = vid
      | CaseDelete d \<Rightarrow> dm_VersionID d = uv
      | _ \<Rightarrow> False)"

text \<open>The \<^verbatim>\<open>break\<close> leaves the switch and not the loop, so that the last match counts.\<close>

definition last_match :: "string \<Rightarrow> uuid \<Rightarrow> xlMetaV2Version list \<Rightarrow> nat option" where
  "last_match vid uv vs =
     foldl (\<lambda>found i. if version_matches vid uv (vs ! i) then Some i else found) None [0..<length vs]"

definition ToFileInfo :: "xl_libs \<Rightarrow> xlMetaV2 \<Rightarrow> string \<Rightarrow> string \<Rightarrow> string \<Rightarrow> (xl_error + file_info) option" where
  "ToFileInfo L z volume path vid =
     (case parse_version L vid of
        None \<Rightarrow> Some (Inl XLVersionNotFound)
      | Some uv \<Rightarrow>
          if list_ex (\<lambda>v. \<not> Version_Valid v) (x_Versions z)
          then Some (Inl (if vid = '''' then XLNotFound else XLVersionNotFound))
          else
            (let ordered = sort_versions L (x_Versions z);
                 num = int (length (x_Versions z))
             in if vid = '''' then
                  (case ordered of
                     [] \<Rightarrow> Some (Inl XLNotFound)
                   | v # _ \<Rightarrow>
                       map_option (map_sum id (\<lambda>fi. fi\<lparr>fi_IsLatest := True, fi_NumVersions := num\<rparr>))
                         (Version_ToFileInfo L volume path v))
                else
                  (case last_match vid uv ordered of
                     None \<Rightarrow> Some (Inl XLVersionNotFound)
                   | Some i \<Rightarrow>
                       (case Version_ToFileInfo L volume path (ordered ! i) of
                          None \<Rightarrow> None
                        | Some (Inl err) \<Rightarrow> Some (Inl err)
                        | Some (Inr fi) \<Rightarrow>
                            if i > 0
                            then (case getModTimeFromVersion (ordered ! (i - 1)) of
                                    None \<Rightarrow> None
                                  | Some t \<Rightarrow> Some (Inr (fi\<lparr>fi_IsLatest := False, fi_NumVersions := num, fi_SuccessorModTime := t\<rparr>)))
                            else Some (Inr (fi\<lparr>fi_IsLatest := True, fi_NumVersions := num\<rparr>))))))"

text \<open>\<open>json\<close> decodes the old format.\<close>

definition getFileInfoVersions ::
  "xl_libs \<Rightarrow> (bytes \<Rightarrow> xlMetaV1Object option) \<Rightarrow> bytes \<Rightarrow> string \<Rightarrow> string \<Rightarrow>
     (xl_error + file_info list \<times> int) option" where
  "getFileInfoVersions L json buf volume path =
     (if isXL2V1Format buf then
        (case Load L buf of Inl err \<Rightarrow> Some (Inl err) | Inr z \<Rightarrow> ListVersions L z volume path)
      else
        (case json buf of
           None \<Rightarrow> Some (Inl XLCorrupt)
         | Some m \<Rightarrow>
             (case V1_ToFileInfo volume path m of
                Inl err \<Rightarrow> Some (Inl err)
              | Inr fi \<Rightarrow> Some (Inr ([fi\<lparr>fi_IsLatest := True, fi_XLV1 := True\<rparr>], fi_ModTime fi)))))"

definition getFileInfo ::
  "xl_libs \<Rightarrow> (bytes \<Rightarrow> xlMetaV1Object option) \<Rightarrow> bytes \<Rightarrow> string \<Rightarrow> string \<Rightarrow> string \<Rightarrow> bool \<Rightarrow>
     (xl_error + file_info) option" where
  "getFileInfo L json buf volume path vid data =
     (if isXL2V1Format buf then
        (case Load L buf of
           Inl err \<Rightarrow> Some (Inl err)
         | Inr z \<Rightarrow>
             (case ToFileInfo L z volume path vid of
                Some (Inr fi) \<Rightarrow>
                  if \<not> data then Some (Inr fi)
                  else
                    (let get = (\<lambda>key. case inline_find (lib_msgp L) (x_data z) key of None \<Rightarrow> [] | Some d \<Rightarrow> d);
                         d = get (if fi_VersionID fi = '''' then nullVersionID else fi_VersionID fi)
                     in Some (Inr (fi\<lparr>fi_Data := (if length d = 0 then get (fi_DataDir fi) else d)\<rparr>)))
              | res \<Rightarrow> res))
      else
        (case json buf of
           None \<Rightarrow> Some (Inl XLCorrupt)
         | Some m \<Rightarrow> Some (map_sum id (\<lambda>fi. fi\<lparr>fi_XLV1 := True\<rparr>) (V1_ToFileInfo volume path m))))"

end
