(* ===== verification/Inline_Data_Facts.thy ===== *)
theory Inline_Data_Facts
  imports Inline_Data
begin

text \<open>
  The inline data of a metadata file is a map: what the operations of \<^verbatim>\<open>Inline_Data\<close> do to the entries, under
  the documented behaviour of the MessagePack package.
\<close>

section \<open>The map that the inline data is\<close>

text \<open>
  The documented behaviour of the package: what is appended is read back with the rest of the buffer, and an
  empty buffer is an error.
\<close>

definition msgp_laws :: "msgp \<Rightarrow> bool" where
  "msgp_laws M \<longleftrightarrow>
     ReadMapHeaderBytes M [] = None \<and>
     (\<forall>n rest. n < 2 ^ 32 \<longrightarrow> ReadMapHeaderBytes M (AppendMapHeader M n @ rest) = Some (n, rest)) \<and>
     (\<forall>k rest. length k < 2 ^ 32 \<longrightarrow> ReadMapKeyZC M (AppendStringFromBytes M k @ rest) = Some (k, rest)) \<and>
     (\<forall>v rest. length v < 2 ^ 32 \<longrightarrow> ReadBytesZC M (AppendBytes M v @ rest) = Some (v, rest))"

definition storable :: "(bytes \<times> bytes) list \<Rightarrow> bool" where
  "storable kvs \<longleftrightarrow> length kvs < 2 ^ 32 \<and> (\<forall>(k, v) \<in> set kvs. length k < 2 ^ 32 \<and> length v < 2 ^ 32)"

abbreviation encoded :: "msgp \<Rightarrow> (bytes \<times> bytes) list \<Rightarrow> bytes" where
  "encoded M kvs \<equiv> concat (map (\<lambda>(k, v). AppendStringFromBytes M k @ AppendBytes M v) kvs)"

lemma string_bytes_inj [simp]: "string_bytes s = string_bytes t \<longleftrightarrow> s = t"
proof
  assume "string_bytes s = string_bytes t"
  then have "map unat (string_bytes s) = map unat (string_bytes t)" by simp
  then have "map (of_char :: char \<Rightarrow> nat) s = map of_char t"
    by (simp add: string_bytes_def unat_of_nat comp_def)
  then show "s = t" by (metis inj_map_eq_map inj_of_char)
qed simp

lemma bytes_string_bytes [simp]: "bytes_string (string_bytes s) = s"
  by (simp add: bytes_string_def string_bytes_def comp_def unat_of_nat)

lemma length_string_bytes [simp]: "length (string_bytes s) = length s"
  by (simp add: string_bytes_def)

lemma string_bytes_Nil [simp]: "string_bytes s = [] \<longleftrightarrow> s = []"
  by (simp add: string_bytes_def)

lemma serialized_version [simp]: "versionOK (inline_serialize M kvs)"
  by (simp add: inline_serialize_def versionOK_def xlMetaInlineDataVer_def)

lemma serialized_Nil [simp]: "inline_serialize M kvs = [] \<longleftrightarrow> kvs = []"
  by (simp add: inline_serialize_def)

lemma read_header:
  "msgp_laws M \<Longrightarrow> storable kvs \<Longrightarrow> kvs \<noteq> [] \<Longrightarrow>
     ReadMapHeaderBytes M (afterVersion (inline_serialize M kvs)) = Some (length kvs, encoded M kvs)"
  by (simp add: inline_serialize_def afterVersion_def msgp_laws_def storable_def)

lemma read_encoded:
  "msgp_laws M \<Longrightarrow> \<forall>(k, v) \<in> set kvs. length k < 2 ^ 32 \<and> length v < 2 ^ 32 \<Longrightarrow>
     (nonempty \<Longrightarrow> \<forall>(k, v) \<in> set kvs. k \<noteq> []) \<Longrightarrow>
     read_entries M nonempty (length kvs) (encoded M kvs) = kvs"
  by (induction kvs) (auto simp: msgp_laws_def)

lemma find_encoded:
  "msgp_laws M \<Longrightarrow> \<forall>(k, v) \<in> set kvs. length k < 2 ^ 32 \<and> length v < 2 ^ 32 \<Longrightarrow>
     inline_find_loop M key (length kvs) (encoded M kvs) = map_of kvs key"
  by (induction kvs) (auto simp: msgp_laws_def)

lemma validate_encoded:
  "msgp_laws M \<Longrightarrow> \<forall>(k, v) \<in> set kvs. length k < 2 ^ 32 \<and> length v < 2 ^ 32 \<Longrightarrow> \<forall>(k, v) \<in> set kvs. k \<noteq> [] \<Longrightarrow>
     inline_validate_loop M (length kvs) (encoded M kvs) = None"
  by (induction kvs) (auto simp: msgp_laws_def)

lemma old_entries_serialized:
  assumes "msgp_laws M" "storable kvs"
  shows "old_entries M (inline_serialize M kvs) = kvs"
proof (cases "kvs = []")
  case True
  then show ?thesis using assms(1) by (simp add: old_entries_def inline_serialize_def afterVersion_def msgp_laws_def)
next
  case False
  then show ?thesis
    using read_header [OF assms False] read_encoded [of M kvs False] assms
    by (simp add: old_entries_def storable_def)
qed

lemma find_serialized:
  assumes "msgp_laws M" "storable kvs"
  shows "inline_find M (inline_serialize M kvs) key = map_of kvs (string_bytes key)"
proof (cases "kvs = []")
  case True
  then show ?thesis by (simp add: inline_find_def inline_serialize_def)
next
  case False
  then show ?thesis
    using read_header [OF assms False] find_encoded [of M kvs "string_bytes key"] assms
    by (simp add: inline_find_def storable_def)
qed

lemma validate_serialized:
  assumes "msgp_laws M" "storable kvs" "\<forall>(k, v) \<in> set kvs. k \<noteq> []"
  shows "inline_validate M (inline_serialize M kvs) = None"
proof (cases "kvs = []")
  case True
  then show ?thesis by (simp add: inline_validate_def inline_serialize_def)
next
  case False
  then show ?thesis
    using read_header [OF assms(1,2) False] validate_encoded [of M kvs] assms
    by (simp add: inline_validate_def storable_def)
qed

text \<open>The map that a serialized list of entries stands for.\<close>

definition represents :: "msgp \<Rightarrow> bytes \<Rightarrow> (bytes \<rightharpoonup> bytes) \<Rightarrow> bool" where
  "represents M x m \<longleftrightarrow>
     (\<exists>kvs. storable kvs \<and> distinct (map fst kvs) \<and> x = inline_serialize M kvs \<and> map_of kvs = m)"

lemma representsI:
  "storable kvs \<Longrightarrow> distinct (map fst kvs) \<Longrightarrow> map_of kvs = m \<Longrightarrow> represents M (inline_serialize M kvs) m"
  by (auto simp: represents_def)

lemma has_key: "list_ex (\<lambda>(k', _). k' = k) kvs \<longleftrightarrow> k \<in> fst ` set kvs"
  by (force simp: list_ex_iff)

lemma map_of_set_value:
  "map_of (map (\<lambda>(k', v'). (k', if k' = k then v else v')) kvs) =
     (if k \<in> fst ` set kvs then (map_of kvs)(k \<mapsto> v) else map_of kvs)"
  by (induction kvs) auto

lemma map_of_without: "map_of (filter (\<lambda>(k', _). k' \<noteq> k) kvs) = (map_of kvs)(k := None)"
  by (induction kvs) (auto simp: fun_eq_iff)

lemma represents_replace:
  assumes "msgp_laws M" "represents M x m" "length key < 2 ^ 32" "length val < 2 ^ 32" "card (dom m) + 1 < 2 ^ 32"
  shows "represents M (inline_replace M key val x) (m(string_bytes key \<mapsto> val))"
proof -
  obtain kvs where kvs: "storable kvs" "distinct (map fst kvs)" "x = inline_serialize M kvs" "map_of kvs = m"
    using assms(2) by (auto simp: represents_def)
  have old: "old_entries M x = kvs" using old_entries_serialized assms(1) kvs(1,3) by simp
  have card: "card (dom m) = length kvs"
    using kvs(2,4) by (metis distinct_card dom_map_of_conv_image_fst length_map list.set_map)
  let ?k = "string_bytes key"
  let ?set = "map (\<lambda>(k', v'). (k', if k' = ?k then val else v')) kvs"
  have fst: "map fst ?set = map fst kvs" by (induction kvs) auto
  have dis: "distinct (map fst ?set)" unfolding fst by (rule kvs(2))
  have fits: "storable ?set" using kvs(1) assms(4) by (auto simp: storable_def)
  show ?thesis
  proof (cases "?k \<in> fst ` set kvs")
    case True
    then have "inline_replace M key val x = inline_serialize M ?set"
      by (simp add: inline_replace_def old has_key Let_def)
    moreover have "map_of ?set = m(?k \<mapsto> val)" using True kvs(4) by (simp only: map_of_set_value if_True)
    ultimately show ?thesis using representsI [OF fits dis] by simp
  next
    case False
    then have r: "inline_replace M key val x = inline_serialize M (?set @ [(?k, val)])"
      by (simp add: inline_replace_def old has_key Let_def)
    have "storable (?set @ [(?k, val)])"
      using fits assms(3-5) card by (auto simp: storable_def)
    moreover have "distinct (map fst (?set @ [(?k, val)]))"
      unfolding map_append fst using kvs(2) False by auto
    moreover have "map_of (?set @ [(?k, val)]) = m(?k \<mapsto> val)"
    proof -
      have "m ?k = None" using False kvs(4) map_of_eq_None_iff by metis
      then show ?thesis using False kvs(4) by (auto simp: map_of_set_value map_add_def fun_eq_iff split: option.split)
    qed
    ultimately show ?thesis unfolding r by (rule representsI)
  qed
qed

lemma represents_remove:
  assumes "msgp_laws M" "represents M x m"
  shows "represents M (snd (inline_remove M key x)) (m(string_bytes key := None))"
    "fst (inline_remove M key x) = (m (string_bytes key) \<noteq> None)"
proof -
  obtain kvs where kvs: "storable kvs" "distinct (map fst kvs)" "x = inline_serialize M kvs" "map_of kvs = m"
    using assms(2) by (auto simp: represents_def)
  have old: "old_entries M x = kvs" using old_entries_serialized assms(1) kvs(1,3) by simp
  let ?k = "string_bytes key"
  let ?left = "filter (\<lambda>(k', _). k' \<noteq> ?k) kvs"
  have found: "?k \<in> fst ` set kvs \<longleftrightarrow> m ?k \<noteq> None" using kvs(4) map_of_eq_None_iff by metis
  have "storable ?left"
    using kvs(1) le_less_trans [OF length_filter_le] by (auto simp: storable_def)
  moreover have "distinct (map fst ?left)" using kvs(2) by (simp add: distinct_map_filter)
  ultimately have left: "represents M (inline_serialize M ?left) (m(?k := None))"
    using kvs(4) by (simp add: representsI map_of_without)
  show "fst (inline_remove M key x) = (m ?k \<noteq> None)"
    using found by (simp add: inline_remove_def old has_key Let_def)
  have "snd (inline_remove M key x) = (if m ?k = None then x else inline_serialize M ?left)"
    using found by (auto simp: inline_remove_def old has_key Let_def inline_serialize_def)
  then show "represents M (snd (inline_remove M key x)) (m(?k := None))"
    using left assms(2) by (auto simp: fun_upd_idem)
qed

lemma map_of_renamed:
  "new \<notin> fst ` set kvs \<Longrightarrow>
     map_of (map (\<lambda>(k', v'). (if k' \<noteq> old then k' else new, v')) kvs) q =
       (if q = new then map_of kvs old else if q = old then None else map_of kvs q)"
  by (induction kvs) auto

lemma represents_rename:
  assumes "msgp_laws M" "represents M x m" "length newKey < 2 ^ 32" "m (string_bytes newKey) = None"
  shows "represents M (snd (inline_rename M oldKey newKey x))
      (case m (string_bytes oldKey) of
         None \<Rightarrow> m | Some v \<Rightarrow> m(string_bytes oldKey := None, string_bytes newKey \<mapsto> v))"
    "fst (inline_rename M oldKey newKey x) = (m (string_bytes oldKey) \<noteq> None)"
proof -
  obtain kvs where kvs: "storable kvs" "distinct (map fst kvs)" "x = inline_serialize M kvs" "map_of kvs = m"
    using assms(2) by (auto simp: represents_def)
  have old: "old_entries M x = kvs" using old_entries_serialized assms(1) kvs(1,3) by simp
  let ?o = "string_bytes oldKey" and ?n = "string_bytes newKey"
  let ?f = "\<lambda>k. if k \<noteq> ?o then k else ?n"
  let ?new = "map (\<lambda>(k', v'). (?f k', v')) kvs"
  have found: "?o \<in> fst ` set kvs \<longleftrightarrow> m ?o \<noteq> None" using kvs(4) map_of_eq_None_iff by metis
  show "fst (inline_rename M oldKey newKey x) = (m ?o \<noteq> None)"
    using found by (simp add: inline_rename_def old has_key Let_def)
  have nin: "?n \<notin> fst ` set kvs" using assms(4) kvs(4) map_of_eq_None_iff by metis
  have st: "storable ?new" using kvs(1) assms(3) by (auto simp: storable_def)
  have keys: "map fst ?new = map ?f (map fst kvs)" by (induction kvs) auto
  have "inj_on ?f (fst ` set kvs)" using nin unfolding inj_on_def by metis
  then have dis: "distinct (map fst ?new)" unfolding keys using kvs(2) by (subst distinct_map) auto
  have m: "map_of ?new = (case map_of kvs ?o of None \<Rightarrow> map_of kvs | Some v \<Rightarrow> (map_of kvs)(?o := None, ?n \<mapsto> v))"
    unfolding fun_eq_iff map_of_renamed [OF nin] using nin
    by (auto simp: map_of_eq_None_iff [THEN iffD2] split: option.split)
  show "represents M (snd (inline_rename M oldKey newKey x))
      (case m ?o of None \<Rightarrow> m | Some v \<Rightarrow> m(?o := None, ?n \<mapsto> v))"
  proof (cases "m ?o")
    case None
    then show ?thesis using found assms(2) by (simp add: inline_rename_def old has_key Let_def)
  next
    case (Some v)
    then have "snd (inline_rename M oldKey newKey x) = inline_serialize M ?new"
      using found by (simp add: inline_rename_def old has_key Let_def)
    then show ?thesis using representsI [OF st dis m, of M] unfolding kvs(4) by (simp only:)
  qed
qed

lemma represents_find:
  "msgp_laws M \<Longrightarrow> represents M x m \<Longrightarrow> inline_find M x key = m (string_bytes key)"
  by (auto simp: represents_def find_serialized)

text \<open>Repairing a valid map changes nothing.\<close>

lemma repair_serialized:
  assumes "msgp_laws M" "storable kvs" "\<forall>(k, v) \<in> set kvs. k \<noteq> []"
  shows "inline_repair M (inline_serialize M kvs) = inline_serialize M kvs"
proof (cases "kvs = []")
  case True
  then show ?thesis by (simp add: inline_repair_def inline_serialize_def)
next
  case False
  then show ?thesis
    using read_header [OF assms(1,2) False] read_encoded [OF assms(1), of kvs True] assms
    by (simp add: inline_repair_def storable_def)
qed

text \<open>
  The inline data of a metadata file is a map from names to bytes. With what the MessagePack package
  documents, on data that stands for a map, \<^verbatim>\<open>find\<close> is lookup, \<^verbatim>\<open>replace\<close> is update, \<^verbatim>\<open>remove\<close> is deletion and says
  whether the name was there, and \<^verbatim>\<open>rename\<close> to a name that is not used moves the entry; the results again stand
  for a map.
\<close>
theorem inline_data_refines_map:
  assumes "msgp_laws M" "represents M x m" "length key < 2 ^ 32" "length val < 2 ^ 32" "card (dom m) + 1 < 2 ^ 32"
    "length new < 2 ^ 32" "m (string_bytes new) = None"
  shows "inline_find M x key = m (string_bytes key) \<and>
    represents M (inline_replace M key val x) (m(string_bytes key \<mapsto> val)) \<and>
    fst (inline_remove M key x) = (m (string_bytes key) \<noteq> None) \<and>
    represents M (snd (inline_remove M key x)) (m(string_bytes key := None)) \<and>
    fst (inline_rename M key new x) = (m (string_bytes key) \<noteq> None) \<and>
    represents M (snd (inline_rename M key new x))
      (case m (string_bytes key) of
         None \<Rightarrow> m | Some v \<Rightarrow> m(string_bytes key := None, string_bytes new \<mapsto> v))"
  using represents_find [OF assms(1,2)] represents_replace [OF assms(1-5)] represents_remove [OF assms(1,2)]
    represents_rename [OF assms(1,2,6,7)]
  by blast

text \<open>The forms of MessagePack with a length of 32 bits, for an example.\<close>

definition be32 :: "nat \<Rightarrow> bytes" where
  "be32 n = map (\<lambda>i. word_of_nat (n div 256 ^ i)) [3, 2, 1, 0]"

definition read32 :: "8 word \<Rightarrow> bytes \<Rightarrow> (nat \<times> bytes) option" where
  "read32 tag buf =
     (case buf of
        t # a # b # c # d # rest \<Rightarrow>
          if t = tag then Some (((unat a * 256 + unat b) * 256 + unat c) * 256 + unat d, rest) else None
      | _ \<Rightarrow> None)"

definition read_sized :: "8 word \<Rightarrow> bytes \<Rightarrow> (bytes \<times> bytes) option" where
  "read_sized tag buf =
     (case read32 tag buf of
        None \<Rightarrow> None
      | Some (n, rest) \<Rightarrow> if n \<le> length rest then Some (take n rest, drop n rest) else None)"

definition msgp32 :: msgp where
  "msgp32 = \<lparr>ReadMapHeaderBytes = read32 0xDF, ReadMapKeyZC = read_sized 0xDB, ReadBytesZC = read_sized 0xC6,
     AppendMapHeader = (\<lambda>n. 0xDF # be32 n), AppendStringFromBytes = (\<lambda>k. 0xDB # be32 (length k) @ k),
     AppendBytes = (\<lambda>v. 0xC6 # be32 (length v) @ v)\<rparr>"

lemma read32_be32:
  assumes "n < 2 ^ 32"
  shows "read32 tag (tag # be32 n @ rest) = Some (n, rest)"
proof -
  have lt: "n div 16777216 < 256" using assms by (simp add: div_less_iff_less_mult)
  moreover have "n div 65536 div 256 = n div 16777216" "n div 256 div 256 = n div 65536"
    by (simp_all add: div_mult2_eq [symmetric])
  moreover have "n div 16777216 mod 256 = n div 16777216" using lt by (rule mod_less)
  ultimately have "((n div 16777216 mod 256 * 256 + n div 65536 mod 256) * 256 + n div 256 mod 256) * 256 + n mod 256 = n"
    by (metis div_mult_mod_eq mod_less)
  then show ?thesis using lt by (simp add: read32_def be32_def unat_of_nat)
qed

lemma msgp32_laws: "msgp_laws msgp32"
  by (simp add: msgp_laws_def msgp32_def read32_be32 read_sized_def) (simp add: read32_def)

theorem inline_data_refines_map_witness:
  "represents msgp32 (inline_replace msgp32 ''null'' [1, 2] []) [string_bytes ''null'' \<mapsto> [1, 2]] \<and>
   inline_find msgp32 [] ''null'' = None"
proof -
  have "represents msgp32 [] Map.empty"
    using representsI [of "[]" Map.empty msgp32] by (simp add: storable_def inline_serialize_def)
  from inline_data_refines_map [OF msgp32_laws this, of "''null''" "[1, 2]" "''x''"]
  show ?thesis by simp
qed

end
