(* ===== verification/XL_Journal_Facts.thy ===== *)
theory XL_Journal_Facts
  imports XL_Journal Inline_Data_Facts "HOL-Library.Multiset"
begin

text \<open>
  What the journal of versions guarantees: it is a map from names to versions, which adding and deleting change
  at one name, a version can be read back, and data that another version needs is not deleted.
\<close>

section \<open>Journals\<close>

text \<open>The name of a version: a legacy version is the null version, whose UUID is zero.\<close>

definition version_key :: "xlMetaV2Version \<Rightarrow> uuid" where
  "version_key v =
     (case version_case v of
        CaseObject ob \<Rightarrow> o_VersionID ob
      | CaseDelete d \<Rightarrow> dm_VersionID d
      | _ \<Rightarrow> zero_uuid)"

definition version_ok :: "xlMetaV2Version \<Rightarrow> bool" where
  "version_ok v \<longleftrightarrow> Version_Valid v \<and> (\<forall>m. version_case v = CaseLegacy m \<longrightarrow> v1_VersionID m = nullVersionID)"

definition journal_ok :: "xlMetaV2Version list \<Rightarrow> bool" where
  "journal_ok vs \<longleftrightarrow> (\<forall>v \<in> set vs. version_ok v) \<and> distinct (map version_key vs)"

text \<open>The journal as a map from names to versions.\<close>

definition journal_map :: "xlMetaV2Version list \<Rightarrow> uuid \<rightharpoonup> xlMetaV2Version" where
  "journal_map vs = map_of (map (\<lambda>v. (version_key v, v)) vs)"

lemma version_types [simp]: "ObjectType \<noteq> DeleteType" "ObjectType \<noteq> LegacyType" "DeleteType \<noteq> LegacyType"
  "DeleteType \<noteq> ObjectType" "LegacyType \<noteq> ObjectType" "LegacyType \<noteq> DeleteType"
  by (simp_all add: ObjectType_def DeleteType_def LegacyType_def)

lemma Version_Valid_case:
  assumes "Version_Valid v"
  obtains (Legacy) m where "version_case v = CaseLegacy m" "v_Type v = LegacyType" "v_ObjectV1 v = Some m"
      "xlMetaV1Object_valid m"
  | (Object) ob where "version_case v = CaseObject ob" "v_Type v = ObjectType" "v_ObjectV2 v = Some ob"
      "validData ob" "o_BitrotChecksumAlgo ob = 1" "o_ErasureAlgorithm ob = 1" "0 < o_ModTime ob"
  | (Delete) d where "version_case v = CaseDelete d" "v_Type v = DeleteType" "v_DeleteMarker v = Some d"
      "0 < dm_ModTime d"
  using assms
  by (fastforce simp: Version_Valid_def version_case_def ChecksumAlgo_valid_def ErasureAlgo_valid_def
      split: if_splits option.splits)

lemma version_case_types:
  "version_case v = CaseObject ob \<longleftrightarrow> v_Type v = ObjectType \<and> v_ObjectV2 v = Some ob"
  "version_case v = CaseDelete d \<longleftrightarrow> v_Type v = DeleteType \<and> v_DeleteMarker v = Some d"
  "version_case v = CaseLegacy m \<longleftrightarrow> v_Type v = LegacyType \<and> v_ObjectV1 v = Some m"
  by (auto simp: version_case_def split: option.splits)

lemma journal_ok_Cons [simp]:
  "journal_ok (v # vs) \<longleftrightarrow> version_ok v \<and> version_key v \<notin> version_key ` set vs \<and> journal_ok vs"
  by (auto simp: journal_ok_def)

lemma journal_ok_Nil [simp]: "journal_ok []"
  by (simp add: journal_ok_def)

lemma journal_map_Some:
  "journal_ok vs \<Longrightarrow> journal_map vs u = Some v \<longleftrightarrow> v \<in> set vs \<and> version_key v = u"
  by (induction vs) (auto simp: journal_map_def image_iff)

lemma journal_map_None: "journal_map vs u = None \<longleftrightarrow> u \<notin> version_key ` set vs"
  by (auto simp: journal_map_def map_of_eq_None_iff image_iff)

text \<open>The journal with a version put at its name, and without a name.\<close>

fun put_version :: "xlMetaV2Version \<Rightarrow> xlMetaV2Version list \<Rightarrow> xlMetaV2Version list" where
  "put_version e [] = [e]"
| "put_version e (v # vs) = (if version_key v = version_key e then e # vs else v # put_version e vs)"

definition without :: "uuid \<Rightarrow> xlMetaV2Version list \<Rightarrow> xlMetaV2Version list" where
  "without u vs = filter (\<lambda>v. version_key v \<noteq> u) vs"

lemma put_version_map: "journal_map (put_version e vs) = (journal_map vs)(version_key e \<mapsto> e)"
  by (induction vs) (auto simp: journal_map_def fun_eq_iff)

lemma keys_put_version: "version_key ` set (put_version e vs) = insert (version_key e) (version_key ` set vs)"
  by (induction vs) auto

lemma put_version_ok: "journal_ok vs \<Longrightarrow> version_ok e \<Longrightarrow> journal_ok (put_version e vs)"
  by (induction vs) (auto simp: keys_put_version image_iff)

lemma without_map: "journal_map (without u vs) = (journal_map vs)(u := None)"
  by (induction vs) (auto simp: journal_map_def without_def fun_eq_iff)

lemma keys_without: "version_key ` set (without u vs) = version_key ` set vs - {u}"
  by (auto simp: without_def)

lemma without_ok: "journal_ok vs \<Longrightarrow> journal_ok (without u vs)"
  by (auto simp: journal_ok_def without_def distinct_map_filter)

lemma journal_ok_append:
  "journal_ok (vs @ ws) \<longleftrightarrow> journal_ok vs \<and> journal_ok ws \<and> version_key ` set vs \<inter> version_key ` set ws = {}"
  by (auto simp: journal_ok_def)

lemma append_marker_ok:
  "journal_ok vs \<Longrightarrow> version_ok e \<Longrightarrow> version_key e = u \<Longrightarrow> journal_ok (without u vs @ [e])"
  by (simp add: journal_ok_append without_ok keys_without)

lemma append_marker_map:
  "version_key e = u \<Longrightarrow> journal_map (without u vs @ [e]) = (journal_map vs)(u \<mapsto> e)"
proof -
  assume u: "version_key e = u"
  have "journal_map (without u vs) u = None" by (simp add: without_map)
  then show ?thesis
    using u without_map [of u vs]
    by (auto simp: journal_map_def map_add_def fun_eq_iff split: option.splits)
qed

section \<open>Adding\<close>

text \<open>
  The name that a string means: the null version has no UUID, and the zero UUID has no other text than
  the one that is excluded here.
\<close>

definition names_version :: "xl_libs \<Rightarrow> string \<Rightarrow> uuid \<Rightarrow> bool" where
  "names_version L vid uv \<longleftrightarrow>
     (if vid = '''' \<or> vid = nullVersionID then uv = zero_uuid else uuid_Parse L vid = Some uv \<and> uv \<noteq> zero_uuid)"

lemma names_version_parse: "names_version L vid uv \<Longrightarrow> parse_version L vid = Some uv"
  by (auto simp: names_version_def parse_version_def split: if_splits)

lemma names_version_null: "names_version L vid uv \<Longrightarrow> uv = zero_uuid \<longleftrightarrow> vid = '''' \<or> vid = nullVersionID"
  by (auto simp: names_version_def split: if_splits)

lemma names_version_default:
  "names_version L (if vid = '''' then nullVersionID else vid) uv \<longleftrightarrow> names_version L vid uv"
  "names_version L (if vid = nullVersionID then '''' else vid) uv \<longleftrightarrow> names_version L vid uv"
  by (auto simp: names_version_def nullVersionID_def)

lemma add_loop_put:
  assumes "journal_ok vs" "version_key ventry = uv" "vid \<noteq> ''''" "names_version L vid uv"
  shows "add_loop ventry vid uv pre vs = Some (Inr (pre @ put_version ventry vs))"
  using assms(1)
proof (induction vs arbitrary: pre)
  case (Cons v vs)
  then have ok: "version_ok v" "Version_Valid v" by (auto simp: version_ok_def)
  have IH: "add_loop ventry vid uv (pre @ [v]) vs = Some (Inr ((pre @ [v]) @ put_version ventry vs))"
    using Cons by simp
  from ok(2) show ?case
  proof (cases rule: Version_Valid_case)
    case (Legacy m)
    then have "v1_VersionID m = nullVersionID" "version_key v = zero_uuid"
      using ok(1) by (auto simp: version_ok_def version_key_def)
    then show ?thesis using Legacy ok(2) IH assms(2,3) names_version_null [OF assms(4)] by auto
  next
    case (Object ob)
    then have "version_key v = o_VersionID ob" by (simp add: version_key_def)
    then show ?thesis using Object ok(2) IH assms(2) by auto
  next
    case (Delete d)
    then have "version_key v = dm_VersionID d" by (simp add: version_key_def)
    then show ?thesis using Delete ok(2) IH assms(2) by auto
  qed
qed simp

lemma version_entry_key [simp]: "version_key (version_entry uv dd fi meta) = uv"
  by (auto simp: version_entry_def version_key_def version_case_def no_version_def object_entry_def
      split: prod.split)

lemma put_metadata_parts: "o_PartNumbers (object_entry uv dd fi meta) = map op_Number (fi_Parts fi)"
  "o_PartSizes (object_entry uv dd fi meta) = map op_Size (fi_Parts fi)"
  "o_PartETags (object_entry uv dd fi meta) = map op_ETag (fi_Parts fi)"
  "o_PartActualSizes (object_entry uv dd fi meta) = map op_ActualSize (fi_Parts fi)"
  "o_Size (object_entry uv dd fi meta) = fi_Size fi" "o_ErasureM (object_entry uv dd fi meta) = ei_DataBlocks (fi_Erasure fi)"
  "o_ErasureN (object_entry uv dd fi meta) = ei_ParityBlocks (fi_Erasure fi)"
  "o_ErasureBlockSize (object_entry uv dd fi meta) = ei_BlockSize (fi_Erasure fi)"
  "o_ErasureAlgorithm (object_entry uv dd fi meta) = 1" "o_BitrotChecksumAlgo (object_entry uv dd fi meta) = 1"
  "o_ModTime (object_entry uv dd fi meta) = wrap64 (fi_ModTime fi)"
  "o_VersionID (object_entry uv dd fi meta) = uv" "o_DataDir (object_entry uv dd fi meta) = dd"
  "o_ErasureIndex (object_entry uv dd fi meta) = ei_Index (fi_Erasure fi)"
  "o_ErasureDist (object_entry uv dd fi meta) = map word_of_int (ei_Distribution (fi_Erasure fi))"
  by (simp_all add: object_entry_def split: prod.split)

lemma object_entry_valid:
  assumes "validStorageFileInfoData fi" "\<not> fi_Deleted fi"
  shows "validData (object_entry uv dd fi meta)"
proof -
  have "list_all (\<lambda>(number, size). \<not> (number \<le> 0 \<or> number > globalMaxPartID \<or> size < 0))
      (zip (map op_Number (fi_Parts fi)) (map op_Size (fi_Parts fi)))"
    using assms by (auto simp: validStorageFileInfoData_def list_all_iff zip_map_map zip_same_conv_map split: if_splits)
  then show ?thesis
    using assms
    by (auto simp: validData_def put_metadata_parts validStorageFileInfoData_def validStorageErasureInfo_def
        split: if_splits)
qed

lemma version_entry_ok:
  assumes "validateStorageFileInfo fi True = None" "0 < wrap64 (fi_ModTime fi)"
  shows "version_ok (version_entry uv dd fi meta)"
proof (cases "fi_Deleted fi")
  case True
  then show ?thesis
    using assms(2) by (simp add: version_ok_def version_entry_def Version_Valid_def version_case_def no_version_def)
next
  case False
  have "validStorageFileInfoData fi" using assms(1) by (auto simp: validateStorageFileInfo_def split: if_splits)
  then show ?thesis
    using False assms(2) object_entry_valid
    by (simp add: version_ok_def version_entry_def Version_Valid_def version_case_def no_version_def
        put_metadata_parts ErasureAlgo_valid_def ChecksumAlgo_valid_def)
qed

definition data_dir_uuid :: "xl_libs \<Rightarrow> string \<Rightarrow> uuid option" where
  "data_dir_uuid L dir = (if dir \<noteq> '''' then uuid_Parse L dir else Some zero_uuid)"

lemma AddVersion_success:
  assumes "journal_ok (x_Versions z)" "validateStorageFileInfo fi True = None" "0 < wrap64 (fi_ModTime fi)"
    "names_version L (fi_VersionID fi) uv" "data_dir_uuid L (fi_DataDir fi) = Some dd"
  shows "AddVersion L fi meta z =
    Some (Inr \<lparr>x_Versions = put_version (version_entry uv dd fi meta) (x_Versions z),
      x_data = add_inline (lib_msgp L) (if fi_VersionID fi = '''' then nullVersionID else fi_VersionID fi) uv dd fi z\<rparr>)"
proof -
  let ?vid = "if fi_VersionID fi = '''' then nullVersionID else fi_VersionID fi"
  have n: "names_version L ?vid uv" using assms(4) by (simp only: names_version_default)
  have e: "Version_Valid (version_entry uv dd fi meta)"
    using version_entry_ok [OF assms(2,3)] by (auto simp: version_ok_def)
  have "?vid \<noteq> ''''" by (simp add: nullVersionID_def)
  then have "add_loop (version_entry uv dd fi meta) ?vid uv [] (x_Versions z) =
      Some (Inr (put_version (version_entry uv dd fi meta) (x_Versions z)))"
    using add_loop_put [OF assms(1), of "version_entry uv dd fi meta" uv ?vid L "[]"] n by simp
  then show ?thesis
    using assms(2,5) names_version_parse [OF n] e unfolding AddVersion_def data_dir_uuid_def Let_def by simp
qed

section \<open>Deleting\<close>

lemma journal_map_find: "journal_map vs u = find (\<lambda>v. version_key v = u) vs"
  by (induction vs) (auto simp: journal_map_def)

lemma without_absent: "u \<notin> version_key ` set vs \<Longrightarrow> without u vs = vs"
  by (auto simp: without_def filter_id_conv)

lemma without_Cons: "without u (v # vs) = (if version_key v = u then without u vs else v # without u vs)"
  by (simp add: without_def)

lemma put_version_absent: "version_key e \<notin> version_key ` set vs \<Longrightarrow> put_version e vs = vs @ [e]"
  by (induction vs) auto

lemma delete_entry_key: "fi_Deleted fi \<Longrightarrow> version_key (delete_entry uv fi) = uv"
  by (simp add: delete_entry_def version_key_def version_case_def no_version_def)

lemma delete_entry_ok: "fi_Deleted fi \<Longrightarrow> 0 < wrap64 (fi_ModTime fi) \<Longrightarrow> version_ok (delete_entry uv fi)"
  by (simp add: delete_entry_def version_ok_def Version_Valid_def version_case_def no_version_def)

text \<open>A call without a transition, a status of replication or a mark.\<close>

definition plain_delete :: "file_info \<Rightarrow> bool" where
  "plain_delete fi \<longleftrightarrow> fi_TransitionStatus fi = '''' \<and> fi_VersionPurgeStatus fi = '''' \<and>
     fi_DeleteMarkerReplicationStatus fi = '''' \<and> \<not> fi_MarkDeleted fi"

lemma plain_delete_update: "plain_delete fi \<Longrightarrow> \<not> updateVersion fi"
  by (simp add: plain_delete_def updateVersion_def)

lemma legacy_matches_null:
  "version_ok v \<Longrightarrow> version_case v = CaseLegacy m \<Longrightarrow> vid \<noteq> nullVersionID \<Longrightarrow> names_version L vid uv \<Longrightarrow>
     legacy_matches vid m \<longleftrightarrow> uv = zero_uuid"
  by (auto simp: legacy_matches_def version_ok_def names_version_null)

definition marker_left :: "uuid \<Rightarrow> file_info \<Rightarrow> xlMetaV2Version list" where
  "marker_left uv fi = (if fi_Deleted fi then [delete_entry uv fi] else [])"

definition plain_result ::
  "uuid \<Rightarrow> file_info \<Rightarrow> xlMetaV2Version list \<Rightarrow> xlMetaV2Version option \<Rightarrow>
     (xl_error + (string \<times> bool \<times> xlMetaV2Version list)) option option" where
  "plain_result uv fi kept found =
     (case found of
        None \<Rightarrow> Some None
      | Some v \<Rightarrow>
          (case version_case v of
             CaseLegacy m \<Rightarrow> Some (Some (Inr (v1_DataDir m, kept @ marker_left uv fi = [], kept @ marker_left uv fi)))
           | CaseDelete d \<Rightarrow> Some (Some (Inr ('''', kept = [], kept)))
           | _ \<Rightarrow> Some None))"

lemma delete_loop_plain:
  assumes "journal_ok vs" "plain_delete fi" "vid \<noteq> nullVersionID" "names_version L vid uv"
  shows "delete_loop fi meta vid uv pre vs = plain_result uv fi (pre @ without uv vs) (journal_map vs uv)"
  using assms(1)
proof (induction vs arbitrary: pre)
  case Nil
  then show ?case by (simp add: journal_map_def plain_result_def)
next
  case (Cons v vs)
  have ok: "version_ok v" "Version_Valid v" using Cons.prems by (auto simp: version_ok_def)
  have IH: "delete_loop fi meta vid uv (pre @ [v]) vs = plain_result uv fi (pre @ v # without uv vs) (journal_map vs uv)"
    using Cons by simp
  have absent: "journal_map vs uv = None" "without uv vs = vs" if "version_key v = uv"
    using that Cons.prems by (auto simp: journal_map_None without_absent)
  have up: "\<not> updateVersion fi" using assms(2) by (rule plain_delete_update)
  have m: "journal_map (v # vs) uv = (if version_key v = uv then Some v else journal_map vs uv)"
    by (simp add: journal_map_def)
  have plain: "fi_TransitionStatus fi = ''''" "\<not> fi_MarkDeleted fi" using assms(2) by (auto simp: plain_delete_def)
  from ok(2) show ?case
  proof (cases rule: Version_Valid_case)
    case (Legacy lm)
    then have k: "version_key v = zero_uuid" by (simp add: version_key_def)
    have "legacy_matches vid lm \<longleftrightarrow> version_key v = uv"
      using legacy_matches_null [OF ok(1) Legacy(1) assms(3,4)] k by auto
    then show ?thesis
      using Legacy(1) ok(2) IH plain m absent
      by (auto simp: without_Cons marker_left_def Let_def plain_result_def)
  next
    case (Object ob)
    then show ?thesis using ok(2) IH up m absent by (auto simp: without_Cons plain_result_def)
  next
    case (Delete d)
    then have "version_key v = dm_VersionID d" by (simp add: version_key_def)
    then show ?thesis
      using Delete(1) ok(2) IH up m absent plain by (auto simp: without_Cons Let_def plain_result_def)
  qed
qed

text \<open>A version without data of its own: it was moved to another store and is not restored.\<close>

definition tiered :: "xlMetaV2Object \<Rightarrow> bool" where
  "tiered ob \<longleftrightarrow> gm_lookup (o_MetaSys ob) transition_status_key = Some TransitionComplete \<and>
     Lookup_AmzRestore (gm_entries (o_MetaUser ob)) = None"

definition shares :: "uuid \<Rightarrow> uuid \<Rightarrow> xlMetaV2Version \<Rightarrow> bool" where
  "shares vid dir v \<longleftrightarrow>
     (\<exists>ob. version_case v = CaseObject ob \<and> o_VersionID ob \<noteq> vid \<and> o_DataDir ob = dir \<and> \<not> tiered ob)"

lemma shared_loop_count:
  "\<forall>v \<in> set vs. version_case v \<noteq> CaseNil \<Longrightarrow>
     shared_loop vid dir vs = Some (length (filter (shares vid dir) vs))"
proof (induction vs)
  case (Cons v vs)
  show ?case
  proof (cases "v_Type v = ObjectType")
    case True
    then obtain ob where ob: "v_ObjectV2 v = Some ob" "version_case v = CaseObject ob"
      using Cons.prems by (auto simp: version_case_def split: option.splits)
    then have "shares vid dir v \<longleftrightarrow> o_VersionID ob \<noteq> vid \<and> o_DataDir ob = dir \<and> \<not> tiered ob"
      by (auto simp: shares_def)
    then show ?thesis using Cons True ob by (simp add: tiered_def)
  next
    case False
    then have "\<not> shares vid dir v" by (auto simp: shares_def version_case_types)
    then show ?thesis using Cons False by simp
  qed
qed simp

lemma SharedDataDirCount_zero:
  assumes "\<forall>v \<in> set (x_Versions z). version_case v \<noteq> CaseNil"
  shows "\<exists>n. SharedDataDirCount L z vid dir = Some n \<and>
    (n > 0 \<longleftrightarrow> inline_find (lib_msgp L) (x_data z) (uuid_String L vid) = None \<and> (\<exists>v \<in> set (x_Versions z). shares vid dir v))"
  using shared_loop_count [OF assms, of vid dir] by (auto simp: SharedDataDirCount_def filter_empty_conv)

lemma version_ok_not_nil: "version_ok v \<Longrightarrow> version_case v \<noteq> CaseNil"
  by (auto simp: version_ok_def elim: Version_Valid_case)

text \<open>The versions after the object itself is moved or removed.\<close>

definition after_object :: "file_info \<Rightarrow> (string \<times> string) list \<Rightarrow> xlMetaV2Version \<Rightarrow> xlMetaV2Object \<Rightarrow>
    xlMetaV2Version list \<Rightarrow> xlMetaV2Version list" where
  "after_object fi meta v ob vs =
     (if fi_TransitionStatus fi \<noteq> '''' then put_version (v\<lparr>v_ObjectV2 := Some (transition_object fi meta ob)\<rparr>) vs
      else without (version_key v) vs)"

definition delete_dir :: "xl_libs \<Rightarrow> bytes \<Rightarrow> xlMetaV2Object \<Rightarrow> xlMetaV2Version list \<Rightarrow> string" where
  "delete_dir L data ob vs =
     (if inline_find (lib_msgp L) data (uuid_String L (o_VersionID ob)) = None \<and>
         (\<exists>v \<in> set vs. shares (o_VersionID ob) (o_DataDir ob) v)
      then '''' else uuid_String L (o_DataDir ob))"

lemma transition_version_ok:
  assumes "version_ok v" "version_case v = CaseObject ob"
  shows "version_ok (v\<lparr>v_ObjectV2 := Some (transition_object fi meta ob)\<rparr>)"
    "version_key (v\<lparr>v_ObjectV2 := Some (transition_object fi meta ob)\<rparr>) = version_key v"
proof -
  have t: "v_Type v = ObjectType" "v_ObjectV2 v = Some ob" using assms(2) by (auto simp: version_case_types)
  have "validData (transition_object fi meta ob) = validData ob"
    by (simp add: transition_object_def validData_def)
  then show "version_ok (v\<lparr>v_ObjectV2 := Some (transition_object fi meta ob)\<rparr>)"
    using assms(1) t by (simp add: version_ok_def Version_Valid_def version_case_def transition_object_def)
  show "version_key (v\<lparr>v_ObjectV2 := Some (transition_object fi meta ob)\<rparr>) = version_key v"
    using t by (simp add: version_key_def version_case_def transition_object_def)
qed

definition object_result ::
  "xl_libs \<Rightarrow> uuid \<Rightarrow> file_info \<Rightarrow> (string \<times> string) list \<Rightarrow> bytes \<Rightarrow> xlMetaV2Version list \<Rightarrow> xlMetaV2Version list \<Rightarrow>
     xlMetaV2Version option \<Rightarrow> (xl_error + (string \<times> bool \<times> xlMetaV2Version list)) option option" where
  "object_result L uv fi meta data pre vs found =
     (case found of
        None \<Rightarrow> Some None
      | Some v \<Rightarrow>
          (case version_case v of
             CaseObject ob \<Rightarrow>
               (let vs' = pre @ after_object fi meta v ob vs;
                    left = (if fi_TransitionStatus fi \<noteq> '''' then vs' else vs' @ marker_left uv fi)
                in Some (Some (Inr (delete_dir L data ob vs', left = [], left))))
           | _ \<Rightarrow> Some None))"

lemma delete_object_loop_object:
  assumes "version_ok v" "version_case v = CaseObject ob" "version_key v = uv" "\<forall>w \<in> set pre \<union> set vs. version_ok w"
    "uv \<notin> version_key ` set vs"
  shows "delete_object_loop L fi meta uv data pre (v # vs) = object_result L uv fi meta data pre (v # vs) (Some v)"
proof -
  let ?vs = "pre @ after_object fi meta v ob (v # vs)"
  have id: "o_VersionID ob = uv" using assms(2,3) by (simp add: version_key_def)
  have a: "after_object fi meta v ob (v # vs) =
      (if fi_TransitionStatus fi \<noteq> '''' then v\<lparr>v_ObjectV2 := Some (transition_object fi meta ob)\<rparr> # vs else vs)"
    using transition_version_ok(2) [OF assms(1,2)] assms(3,5)
    by (simp add: after_object_def without_Cons without_absent)
  have "\<forall>w \<in> set ?vs. version_ok w"
    using assms(4) transition_version_ok(1) [OF assms(1,2)] unfolding a by auto
  then have "\<forall>w \<in> set ?vs. version_case w \<noteq> CaseNil" using version_ok_not_nil by blast
  then obtain n where n: "SharedDataDirCount L \<lparr>x_Versions = ?vs, x_data = data\<rparr> uv (o_DataDir ob) = Some n"
      "n > 0 \<longleftrightarrow> inline_find (lib_msgp L) data (uuid_String L uv) = None \<and>
         (\<exists>w \<in> set ?vs. shares uv (o_DataDir ob) w)"
    using SharedDataDirCount_zero [of "\<lparr>x_Versions = ?vs, x_data = data\<rparr>" L uv "o_DataDir ob"] by auto
  have dir: "delete_dir L data ob ?vs = (if n > 0 then '''' else uuid_String L (o_DataDir ob))"
    using n(2) id by (auto simp: delete_dir_def)
  have v: "Version_Valid v" using assms(1) by (simp add: version_ok_def)
  show ?thesis
    using assms(2) v id n(1) dir unfolding object_result_def
    by (cases "fi_TransitionStatus fi = ''''") (simp_all add: a marker_left_def Let_def)
qed

lemma delete_object_loop_find:
  assumes "journal_ok vs" "\<forall>v \<in> set pre. version_ok v"
  shows "delete_object_loop L fi meta uv data pre vs = object_result L uv fi meta data pre vs (journal_map vs uv)"
  using assms
proof (induction vs arbitrary: pre)
  case Nil
  then show ?case by (simp add: journal_map_def object_result_def)
next
  case (Cons v vs)
  have ok: "version_ok v" "Version_Valid v" using Cons.prems by (auto simp: version_ok_def)
  have oks: "\<forall>w \<in> set vs. version_ok w" "journal_ok vs" using Cons.prems(1) by (auto simp: journal_ok_def)
  have IH: "delete_object_loop L fi meta uv data (pre @ [v]) vs =
      object_result L uv fi meta data (pre @ [v]) vs (journal_map vs uv)"
    using Cons ok(1) by simp
  have m: "journal_map (v # vs) uv = (if version_key v = uv then Some v else journal_map vs uv)"
    by (simp add: journal_map_def)
  have skip: "delete_object_loop L fi meta uv data pre (v # vs) = delete_object_loop L fi meta uv data (pre @ [v]) vs"
    if "version_key v \<noteq> uv \<or> (\<forall>ob. version_case v \<noteq> CaseObject ob)"
    using ok(2) that by - (rule Version_Valid_case [OF ok(2)], auto simp: version_key_def)
  show ?case
  proof (cases "version_key v = uv")
    case False
    have "object_result L uv fi meta data (pre @ [v]) vs (journal_map vs uv) =
        object_result L uv fi meta data pre (v # vs) (journal_map vs uv)"
    proof (cases "\<exists>w ob. journal_map vs uv = Some w \<and> version_case w = CaseObject ob")
      case True
      then obtain w ob where w: "journal_map vs uv = Some w" "version_case w = CaseObject ob" by blast
      then have k: "version_key w = uv" "version_ok w" using journal_map_Some [OF oks(2)] oks(1) by auto
      have "after_object fi meta w ob (v # vs) = v # after_object fi meta w ob vs"
        using False k transition_version_ok(2) [OF k(2) w(2)] by (simp add: after_object_def without_Cons)
      then show ?thesis using w by (simp add: object_result_def)
    next
      case False
      then show ?thesis by (auto simp: object_result_def split: option.split version_case.split)
    qed
    then show ?thesis using skip IH m False by simp
  next
    case True
    have absent: "journal_map vs uv = None" "uv \<notin> version_key ` set vs"
      using True Cons.prems(1) by (auto simp: journal_map_None)
    show ?thesis
    proof (cases "\<exists>ob. version_case v = CaseObject ob")
      case ob: True
      then obtain ob where "version_case v = CaseObject ob" ..
      moreover have "\<forall>w \<in> set pre \<union> set vs. version_ok w" using oks(1) Cons.prems(2) by blast
      moreover have "journal_map (v # vs) uv = Some v" using m True by simp
      ultimately show ?thesis using delete_object_loop_object [OF ok(1) _ True _ absent(2)] by metis
    next
      case False
      then have "object_result L uv fi meta data pre (v # vs) (Some v) = Some None"
        by (auto simp: object_result_def split: version_case.split)
      then show ?thesis using skip False IH absent(1) m True by (simp add: object_result_def)
    qed
  qed
qed

text \<open>What a deletion leaves at the name: a marker that was there is not put back.\<close>

definition left_at :: "xlMetaV2 \<Rightarrow> uuid \<Rightarrow> file_info \<Rightarrow> xlMetaV2Version option" where
  "left_at z uv fi =
     (if fi_Deleted fi \<and> (\<forall>v d. journal_map (x_Versions z) uv = Some v \<longrightarrow> version_case v \<noteq> CaseDelete d)
      then Some (delete_entry uv fi) else None)"

lemma marker_left_ok:
  assumes "journal_ok vs" "fi_Deleted fi \<Longrightarrow> 0 < wrap64 (fi_ModTime fi)"
  shows "journal_ok (without uv vs @ marker_left uv fi)"
    "journal_map (without uv vs @ marker_left uv fi) =
       (journal_map vs)(uv := if fi_Deleted fi then Some (delete_entry uv fi) else None)"
  using append_marker_ok [OF assms(1) delete_entry_ok delete_entry_key] append_marker_map [OF delete_entry_key] assms(2)
  by (simp_all add: marker_left_def without_ok [OF assms(1)] without_map)

lemma after_object_plain: "plain_delete fi \<Longrightarrow> after_object fi meta v ob vs = without (version_key v) vs"
  by (simp add: after_object_def plain_delete_def)

lemma DeleteVersion_loops:
  assumes "journal_ok (x_Versions z)" "names_version L (fi_VersionID fi) uv"
    "fi_Deleted fi \<Longrightarrow> 0 < wrap64 (fi_ModTime fi)"
  shows "DeleteVersion L fi meta z =
    (let finish = map_option (map_sum id (\<lambda>(dir, last, vs). (dir, last, z\<lparr>x_Versions := vs\<rparr>)))
     in case delete_loop fi meta (if fi_VersionID fi = nullVersionID then '''' else fi_VersionID fi) uv [] (x_Versions z) of
          None \<Rightarrow> None
        | Some (Some res) \<Rightarrow> finish (Some res)
        | Some None \<Rightarrow>
            (case object_result L uv fi meta (x_data z) [] (x_Versions z) (journal_map (x_Versions z) uv) of
               None \<Rightarrow> None
             | Some (Some res) \<Rightarrow> finish (Some res)
             | Some None \<Rightarrow>
                 if fi_Deleted fi
                 then Some (Inr ('''', False, z\<lparr>x_Versions := x_Versions z @ [delete_entry uv fi]\<rparr>))
                 else Some (Inl XLVersionNotFound)))"
proof -
  let ?vid = "if fi_VersionID fi = nullVersionID then '''' else fi_VersionID fi"
  have n: "names_version L ?vid uv" using assms(2) by (simp only: names_version_default)
  have "\<not> (fi_Deleted fi \<and> \<not> Version_Valid (delete_entry uv fi))"
    using delete_entry_ok assms(3) by (auto simp: version_ok_def)
  then have d: "(fi_Deleted fi \<and> \<not> Version_Valid (delete_entry uv fi)) = False" by blast
  have loop: "delete_object_loop L fi meta uv (x_data z) [] (x_Versions z) =
      object_result L uv fi meta (x_data z) [] (x_Versions z) (journal_map (x_Versions z) uv)"
    using delete_object_loop_find [OF assms(1), of "[]"] by simp
  show ?thesis
    unfolding DeleteVersion_def Let_def names_version_parse [OF n] option.case d if_False loop ..
qed

lemma DeleteVersion_plain:
  assumes "journal_ok (x_Versions z)" "plain_delete fi" "names_version L (fi_VersionID fi) uv"
    "fi_Deleted fi \<Longrightarrow> 0 < wrap64 (fi_ModTime fi)" "journal_map (x_Versions z) uv \<noteq> None \<or> fi_Deleted fi"
  shows "\<exists>dir vs'. DeleteVersion L fi meta z = Some (Inr (dir, vs' = [], z\<lparr>x_Versions := vs'\<rparr>)) \<and> journal_ok vs' \<and>
    journal_map vs' = (journal_map (x_Versions z))(uv := left_at z uv fi)"
proof -
  let ?vs = "x_Versions z" and ?vid = "if fi_VersionID fi = nullVersionID then '''' else fi_VersionID fi"
  have n: "names_version L ?vid uv" using assms(3) by (simp only: names_version_default)
  have "?vid \<noteq> nullVersionID" by (simp add: nullVersionID_def)
  then have loop: "delete_loop fi meta ?vid uv [] ?vs = plain_result uv fi (without uv ?vs) (journal_map ?vs uv)"
    using delete_loop_plain [OF assms(1,2) _ n, of meta "[]"] by simp
  note D = DeleteVersion_loops [OF assms(1,3), of meta, OF assms(4), simplified loop Let_def]
  have marker: "journal_ok (without uv ?vs @ marker_left uv fi)"
    "journal_map (without uv ?vs @ marker_left uv fi) =
       (journal_map ?vs)(uv := if fi_Deleted fi then Some (delete_entry uv fi) else None)"
    using marker_left_ok [OF assms(1)] assms(4) by auto
  have tr: "fi_TransitionStatus fi = ''''" using assms(2) by (simp add: plain_delete_def)
  have goal: ?thesis
    if "DeleteVersion L fi meta z = Some (Inr (dir, ws = [], z\<lparr>x_Versions := ws\<rparr>))" "journal_ok ws"
      "journal_map ws = (journal_map ?vs)(uv := left_at z uv fi)" for dir ws
    using that by blast
  show ?thesis
  proof (cases "journal_map ?vs uv")
    case None
    then have w: "without uv ?vs = ?vs" by (simp add: journal_map_None without_absent)
    have d: "fi_Deleted fi" using assms(5) None by simp
    have l: "left_at z uv fi = Some (delete_entry uv fi)" using d None by (simp add: left_at_def)
    have m: "marker_left uv fi = [delete_entry uv fi]" using d by (simp add: marker_left_def)
    have "DeleteVersion L fi meta z = Some (Inr ('''', False, z\<lparr>x_Versions := ?vs @ [delete_entry uv fi]\<rparr>))"
      using D None d by (simp add: plain_result_def object_result_def)
    then show ?thesis using goal [of "''''" "?vs @ [delete_entry uv fi]"] marker d unfolding w l m by simp
  next
    case (Some v)
    then have v: "version_key v = uv" "version_ok v"
      using journal_map_Some [OF assms(1)] assms(1) by (auto simp: journal_ok_def)
    have "Version_Valid v" using v(2) by (simp add: version_ok_def)
    then show ?thesis
    proof (cases rule: Version_Valid_case)
      case (Legacy m)
      have l: "left_at z uv fi = (if fi_Deleted fi then Some (delete_entry uv fi) else None)"
        using Some Legacy(1) by (simp add: left_at_def)
      have r: "DeleteVersion L fi meta z = Some (Inr (v1_DataDir m, without uv ?vs @ marker_left uv fi = [],
          z\<lparr>x_Versions := without uv ?vs @ marker_left uv fi\<rparr>))"
        using D Some Legacy(1) by (simp add: plain_result_def)
      show ?thesis by (rule goal [OF r marker(1)]) (simp only: l marker(2))
    next
      case (Object ob)
      let ?ws = "without uv ?vs"
      have l: "left_at z uv fi = (if fi_Deleted fi then Some (delete_entry uv fi) else None)"
        using Some Object(1) by (simp add: left_at_def)
      have r: "DeleteVersion L fi meta z = Some (Inr (delete_dir L (x_data z) ob ?ws, ?ws @ marker_left uv fi = [],
          z\<lparr>x_Versions := ?ws @ marker_left uv fi\<rparr>))"
        using D Some Object(1) v(1) tr after_object_plain [OF assms(2)]
        by (simp add: plain_result_def object_result_def Let_def)
      show ?thesis by (rule goal [OF r marker(1)]) (simp only: l marker(2))
    next
      case (Delete d)
      have l: "left_at z uv fi = None" using Some Delete(1) by (auto simp: left_at_def)
      have r: "DeleteVersion L fi meta z = Some (Inr ('''', without uv ?vs = [], z\<lparr>x_Versions := without uv ?vs\<rparr>))"
        using D Some Delete(1) by (simp add: plain_result_def)
      show ?thesis by (rule goal [OF r without_ok [OF assms(1)]]) (simp only: l without_map)
    qed
  qed
qed

lemma DeleteVersion_missing:
  assumes "journal_ok (x_Versions z)" "plain_delete fi" "names_version L (fi_VersionID fi) uv"
    "journal_map (x_Versions z) uv = None" "\<not> fi_Deleted fi"
  shows "DeleteVersion L fi meta z = Some (Inl XLVersionNotFound)"
proof -
  let ?vid = "if fi_VersionID fi = nullVersionID then '''' else fi_VersionID fi"
  have n: "names_version L ?vid uv" using assms(3) by (simp only: names_version_default)
  have "?vid \<noteq> nullVersionID" by (simp add: nullVersionID_def)
  then have "delete_loop fi meta ?vid uv [] (x_Versions z) = Some None"
    using delete_loop_plain [OF assms(1,2) _ n, of meta "[]"] assms(4) by (simp add: plain_result_def)
  then show ?thesis
    using DeleteVersion_loops [OF assms(1,3)] assms(4,5) by (simp add: object_result_def)
qed

lemma delete_loop_object:
  assumes "journal_ok vs" "\<not> updateVersion fi" "vid \<noteq> nullVersionID" "names_version L vid uv"
    "\<forall>v. journal_map vs uv = Some v \<longrightarrow> (\<exists>ob. version_case v = CaseObject ob)"
  shows "delete_loop fi meta vid uv pre vs = Some None"
  using assms(1,5)
proof (induction vs arbitrary: pre)
  case (Cons v vs)
  have ok: "version_ok v" "Version_Valid v" using Cons.prems by (auto simp: version_ok_def)
  have m: "journal_map (v # vs) uv = (if version_key v = uv then Some v else journal_map vs uv)"
    by (simp add: journal_map_def)
  have "\<forall>w. journal_map vs uv = Some w \<longrightarrow> (\<exists>ob. version_case w = CaseObject ob)"
    using Cons.prems m journal_map_None [of vs uv] by (cases "version_key v = uv") auto
  then have IH: "delete_loop fi meta vid uv (pre @ [v]) vs = Some None" using Cons by simp
  from ok(2) show ?case
  proof (cases rule: Version_Valid_case)
    case (Legacy lm)
    then have "version_key v \<noteq> uv" using Cons.prems(2) m by auto
    then have "\<not> legacy_matches vid lm"
      using legacy_matches_null [OF ok(1) Legacy(1) assms(3,4)] Legacy(1) by (auto simp: version_key_def)
    then show ?thesis using Legacy(1) ok(2) IH by simp
  next
    case (Object ob)
    then show ?thesis using ok(2) IH assms(2) by simp
  next
    case (Delete d)
    then have "version_key v \<noteq> uv" using Cons.prems(2) m by auto
    then show ?thesis using Delete(1) ok(2) IH by (simp add: version_key_def)
  qed
qed simp

lemma delete_entry_not_shares: "\<not> shares vid dir (delete_entry uv fi)"
  by (auto simp: shares_def delete_entry_def version_case_def no_version_def)

lemma DeleteVersion_object:
  assumes "journal_ok (x_Versions z)" "\<not> updateVersion fi" "names_version L (fi_VersionID fi) uv"
    "fi_Deleted fi \<Longrightarrow> 0 < wrap64 (fi_ModTime fi)"
    "journal_map (x_Versions z) uv = Some v" "version_case v = CaseObject ob"
  shows "\<exists>last vs'. DeleteVersion L fi meta z = Some (Inr (delete_dir L (x_data z) ob vs', last, z\<lparr>x_Versions := vs'\<rparr>)) \<and>
    (\<forall>w \<in> set vs'. version_key w \<noteq> uv \<longrightarrow> w \<in> set (x_Versions z)) \<and>
    (\<forall>w \<in> set (x_Versions z). version_key w \<noteq> uv \<longrightarrow> w \<in> set vs')"
proof -
  let ?vs = "x_Versions z" and ?vid = "if fi_VersionID fi = nullVersionID then '''' else fi_VersionID fi"
  have n: "names_version L ?vid uv" using assms(3) by (simp only: names_version_default)
  have "?vid \<noteq> nullVersionID" by (simp add: nullVersionID_def)
  then have loop: "delete_loop fi meta ?vid uv [] ?vs = Some None"
    using delete_loop_object [OF assms(1,2) _ n] assms(5,6) by auto
  let ?aft = "after_object fi meta v ob ?vs"
  let ?left = "if fi_TransitionStatus fi \<noteq> '''' then ?aft else ?aft @ marker_left uv fi"
  have "(\<exists>w \<in> set ?left. shares vid dir w) \<longleftrightarrow> (\<exists>w \<in> set ?aft. shares vid dir w)" for vid dir
    using delete_entry_not_shares by (auto simp: marker_left_def)
  then have dir: "delete_dir L (x_data z) ob ?left = delete_dir L (x_data z) ob ?aft"
    unfolding delete_dir_def by presburger
  have D: "DeleteVersion L fi meta z =
      Some (Inr (delete_dir L (x_data z) ob ?left, ?left = [], z\<lparr>x_Versions := ?left\<rparr>))"
    unfolding dir using DeleteVersion_loops [OF assms(1,3,4), of meta, unfolded loop] assms(5,6)
    by (simp add: object_result_def Let_def)
  have v: "version_key v = uv" "version_ok v"
    using assms(1,5) journal_map_Some [OF assms(1)] by (auto simp: journal_ok_def)
  have put: "w \<in> set (put_version e ws) \<longleftrightarrow> w \<in> set ws" if "version_key w \<noteq> uv" "version_key e = uv" for w e ws
    using that by (induction ws) auto
  have mem: "w \<in> set ?aft \<longleftrightarrow> w \<in> set ?vs" if "version_key w \<noteq> uv" for w
    using that put transition_version_ok(2) [OF v(2) assms(6)] v(1) by (auto simp: after_object_def without_def)
  have marker: "w \<notin> set (marker_left uv fi)" if "version_key w \<noteq> uv" for w
    using that delete_entry_key [of fi uv] by (auto simp: marker_left_def split: if_splits)
  have "w \<in> set ?left \<longleftrightarrow> w \<in> set ?vs" if "version_key w \<noteq> uv" for w
    using mem [OF that] marker [OF that] by auto
  then show ?thesis using D by blast
qed

section \<open>Reading\<close>

definition mod_time :: "xlMetaV2Version \<Rightarrow> int" where
  "mod_time v = (case getModTimeFromVersion v of None \<Rightarrow> zero_time | Some t \<Rightarrow> t)"

text \<open>
  The documented behaviour of sorting: the same elements, in the order of the comparison, here the latest
  first. The comparison of listed versions prefers those that are marked as the latest, and there is none.
\<close>

definition sort_laws :: "xl_libs \<Rightarrow> bool" where
  "sort_laws L \<longleftrightarrow>
     (\<forall>vs. mset (sort_versions L vs) = mset vs \<and>
           sorted_wrt (\<lambda>v w. mod_time w \<le> mod_time v) (sort_versions L vs)) \<and>
     (\<forall>fis. mset (sort_infos L fis) = mset fis \<and>
            ((\<forall>fi \<in> set fis. \<not> fi_IsLatest fi) \<longrightarrow>
               sorted_wrt (\<lambda>a b. fi_ModTime b \<le> fi_ModTime a) (sort_infos L fis)))"

lemma sort_versions_set [simp]: "sort_laws L \<Longrightarrow> set (sort_versions L vs) = set vs"
  by (metis mset_eq_setD sort_laws_def)

lemma sort_versions_length: "sort_laws L \<Longrightarrow> length (sort_versions L vs) = length vs"
  by (metis mset_eq_length sort_laws_def)

lemma sort_versions_ok: "sort_laws L \<Longrightarrow> journal_ok vs \<Longrightarrow> journal_ok (sort_versions L vs)"
proof -
  assume L: "sort_laws L" "journal_ok vs"
  then have "mset (map version_key (sort_versions L vs)) = mset (map version_key vs)"
    by (simp add: sort_laws_def)
  then have "distinct (map version_key (sort_versions L vs))"
    using L(2) mset_eq_imp_distinct_iff unfolding journal_ok_def by blast
  then show ?thesis using L by (simp add: journal_ok_def)
qed

lemma Version_ToFileInfo_Some:
  assumes "version_ok v"
  shows "\<exists>fi. Version_ToFileInfo L volume path v = Some (Inr fi) \<and> fi_ModTime fi = mod_time v \<and>
    getModTimeFromVersion v = Some (mod_time v) \<and> \<not> fi_IsLatest fi"
proof -
  have user: "fi_ModTime (foldl user_info fi es) = fi_ModTime fi \<and> fi_IsLatest (foldl user_info fi es) = fi_IsLatest fi"
    for fi es by (induction es arbitrary: fi) (auto simp: user_info_def)
  have sys: "fi_ModTime (foldl sys_info fi es) = fi_ModTime fi \<and> fi_IsLatest (foldl sys_info fi es) = fi_IsLatest fi"
    for fi es by (induction es arbitrary: fi) (auto simp: sys_info_def)
  have dm: "fi_ModTime (foldl (\<lambda>fi (k, v).
         if lower_is k ''x-amz-replication-status'' then fi\<lparr>fi_DeleteMarkerReplicationStatus := v\<rparr>
         else if lower_is k VersionPurgeStatusKey then fi\<lparr>fi_VersionPurgeStatus := v\<rparr>
         else fi) fi es) = fi_ModTime fi \<and>
      fi_IsLatest (foldl (\<lambda>fi (k, v).
         if lower_is k ''x-amz-replication-status'' then fi\<lparr>fi_DeleteMarkerReplicationStatus := v\<rparr>
         else if lower_is k VersionPurgeStatusKey then fi\<lparr>fi_VersionPurgeStatus := v\<rparr>
         else fi) fi es) = fi_IsLatest fi" for fi es
    by (induction es arbitrary: fi) (auto split: prod.splits)
  have "Version_Valid v" using assms by (simp add: version_ok_def)
  then show ?thesis
  proof (cases rule: Version_Valid_case)
    case (Legacy m)
    then show ?thesis
      by (simp add: Version_ToFileInfo_def V1_ToFileInfo_def mod_time_def getModTimeFromVersion_def zero_file_info_def)
  next
    case (Object ob)
    then show ?thesis
      by (simp add: Version_ToFileInfo_def Object_ToFileInfo_def mod_time_def getModTimeFromVersion_def user sys
          zero_file_info_def Let_def)
  next
    case (Delete d)
    then show ?thesis
      by (simp add: Version_ToFileInfo_def DeleteMarker_ToFileInfo_def mod_time_def getModTimeFromVersion_def dm
          zero_file_info_def)
  qed
qed

subsection \<open>Looking up a name\<close>

lemma version_matches_key:
  assumes "version_ok v" "vid \<noteq> ''''" "names_version L vid uv"
  shows "version_matches vid uv v \<longleftrightarrow> version_key v = uv"
proof -
  have "Version_Valid v" using assms(1) by (simp add: version_ok_def)
  then show ?thesis
  proof (cases rule: Version_Valid_case)
    case (Legacy m)
    then have "v1_VersionID m = nullVersionID" using assms(1) by (simp add: version_ok_def)
    then show ?thesis
      using Legacy(1) names_version_null [OF assms(3)] assms(2) by (auto simp: version_matches_def version_key_def)
  qed (simp_all add: version_matches_def version_key_def)
qed

lemma foldl_last_Some:
  "foldl (\<lambda>found i. if P i then Some i else found) acc is =
     (case filter P is of [] \<Rightarrow> acc | xs \<Rightarrow> Some (last xs))"
  by (induction "is" arbitrary: acc) (auto split: list.split)

lemma last_match_unique:
  assumes "journal_ok vs" "vid \<noteq> ''''" "names_version L vid uv"
  shows "case journal_map vs uv of
       None \<Rightarrow> last_match vid uv vs = None
     | Some v \<Rightarrow> \<exists>i < length vs. vs ! i = v \<and> last_match vid uv vs = Some i"
proof -
  have match: "version_matches vid uv (vs ! i) \<longleftrightarrow> version_key (vs ! i) = uv" if "i < length vs" for i
    using version_matches_key [OF _ assms(2,3)] assms(1) that by (auto simp: journal_ok_def)
  have flt: "filter (\<lambda>i. version_matches vid uv (vs ! i)) [0..<length vs] =
      filter (\<lambda>i. version_key (vs ! i) = uv) [0..<length vs]"
    using match by (intro filter_cong) auto
  show ?thesis
  proof (cases "journal_map vs uv")
    case None
    then have "filter (\<lambda>i. version_key (vs ! i) = uv) [0..<length vs] = []"
      by (auto simp: journal_map_None filter_empty_conv image_iff)
    then show ?thesis using None by (simp add: last_match_def foldl_last_Some flt)
  next
    case (Some v)
    then have v: "v \<in> set vs" "version_key v = uv" using journal_map_Some [OF assms(1)] by auto
    then obtain i where i: "i < length vs" "vs ! i = v" by (auto simp: in_set_conv_nth)
    have "distinct (map version_key vs)" using assms(1) by (simp add: journal_ok_def)
    then have uniq: "j = i" if "j < length vs" "version_key (vs ! j) = uv" for j
      using nth_eq_iff_index_eq [of "map version_key vs" j i] that i v(2) by simp
    let ?F = "filter (\<lambda>i. version_key (vs ! i) = uv) [0..<length vs]"
    have "i \<in> set ?F" using i v(2) by simp
    then have "?F \<noteq> []" by force
    moreover from this have "last ?F \<in> set ?F" by (rule last_in_set)
    then have "last ?F = i" using uniq by simp
    ultimately have "last_match vid uv vs = Some i"
      unfolding last_match_def foldl_last_Some flt by (auto simp: neq_Nil_conv)
    then show ?thesis using Some i by auto
  qed
qed

lemma ToFileInfo_lookup:
  assumes "journal_ok (x_Versions z)" "sort_laws L" "vid \<noteq> ''''" "names_version L vid uv"
  shows "case journal_map (x_Versions z) uv of
      None \<Rightarrow> ToFileInfo L z volume path vid = Some (Inl XLVersionNotFound)
    | Some v \<Rightarrow> \<exists>fi latest succ. Version_ToFileInfo L volume path v = Some (Inr fi) \<and>
        ToFileInfo L z volume path vid =
          Some (Inr (fi\<lparr>fi_IsLatest := latest, fi_NumVersions := int (length (x_Versions z)), fi_SuccessorModTime := succ\<rparr>))"
proof -
  let ?ord = "sort_versions L (x_Versions z)"
  have ok: "journal_ok ?ord" by (rule sort_versions_ok [OF assms(2,1)])
  have same: "journal_map ?ord uv = journal_map (x_Versions z) uv"
  proof (cases "journal_map (x_Versions z) uv")
    case None
    then have "journal_map ?ord uv = None" unfolding journal_map_None using assms(2) by simp
    with None show ?thesis by simp
  next
    case (Some v)
    then have "v \<in> set ?ord" "version_key v = uv" using journal_map_Some [OF assms(1)] assms(2) by simp_all
    then have "journal_map ?ord uv = Some v" using journal_map_Some [OF ok] by blast
    with Some show ?thesis by simp
  qed
  have valid: "\<not> list_ex (\<lambda>v. \<not> Version_Valid v) (x_Versions z)"
    using assms(1) by (auto simp: journal_ok_def version_ok_def list_ex_iff)
  note parse = names_version_parse [OF assms(4)]
  show ?thesis
  proof (cases "journal_map (x_Versions z) uv")
    case None
    then have "last_match vid uv ?ord = None" using last_match_unique [OF ok assms(3,4)] same by simp
    then show ?thesis using None parse valid assms(3) by (simp add: ToFileInfo_def Let_def)
  next
    case (Some v)
    then obtain i where i: "i < length ?ord" "?ord ! i = v" "last_match vid uv ?ord = Some i"
      using last_match_unique [OF ok assms(3,4)] same by auto
    have vok: "\<forall>w \<in> set ?ord. version_ok w" using ok by (simp add: journal_ok_def)
    then obtain fi where fi: "Version_ToFileInfo L volume path v = Some (Inr fi)"
      using Version_ToFileInfo_Some [of v] i by (metis nth_mem)
    show ?thesis
    proof (cases "i > 0")
      case True
      have "?ord ! (i - 1) \<in> set ?ord" using i(1) by simp
      then obtain t where "getModTimeFromVersion (?ord ! (i - 1)) = Some t"
        using Version_ToFileInfo_Some vok by blast
      then have "ToFileInfo L z volume path vid = Some (Inr (fi\<lparr>fi_IsLatest := False,
          fi_NumVersions := int (length (x_Versions z)), fi_SuccessorModTime := t\<rparr>))"
        using parse valid assms(3) i fi True by (simp add: ToFileInfo_def Let_def)
      with fi show ?thesis unfolding Some option.case by blast
    next
      case False
      then have "ToFileInfo L z volume path vid = Some (Inr (fi\<lparr>fi_IsLatest := True,
          fi_NumVersions := int (length (x_Versions z)), fi_SuccessorModTime := fi_SuccessorModTime fi\<rparr>))"
        using parse valid assms(3) i fi by (simp add: ToFileInfo_def Let_def)
      with fi show ?thesis unfolding Some option.case by blast
    qed
  qed
qed

subsection \<open>Metadata that is stored and read\<close>

lemma update_fresh: "k \<notin> fst ` set es \<Longrightarrow> AList.update k v es = es @ [(k, v)]"
  by (induction es) auto

lemma put_metadata_split:
  "distinct (map fst (sys @ user @ meta)) \<Longrightarrow>
     put_metadata meta (Some sys, Some user) =
       (Some (sys @ filter (\<lambda>(k, v). isReserved k) meta), Some (user @ filter (\<lambda>(k, v). \<not> isReserved k) meta))"
proof (induction meta arbitrary: sys user)
  case Nil
  then show ?case by (simp add: put_metadata_def)
next
  case (Cons kv meta)
  obtain k v where kv: "kv = (k, v)" by (cases kv)
  have fresh: "k \<notin> fst ` set sys" "k \<notin> fst ` set user" using Cons.prems kv by auto
  have step: "put_metadata (kv # meta) (Some sys, Some user) =
      put_metadata meta (if isReserved k then (gm_set k v (Some sys), Some user) else (Some sys, gm_set k v (Some user)))"
    by (simp add: put_metadata_def kv)
  show ?case
  proof (cases "isReserved k")
    case True
    have "distinct (map fst ((sys @ [(k, v)]) @ user @ meta))" using Cons.prems kv by auto
    then show ?thesis
      using Cons.IH [of "sys @ [(k, v)]" user] True fresh(1)
      unfolding step by (simp add: kv gm_set_def gm_entries_def update_fresh)
  next
    case False
    have "distinct (map fst (sys @ (user @ [(k, v)]) @ meta))" using Cons.prems kv by auto
    then show ?thesis
      using Cons.IH [of sys "user @ [(k, v)]"] False fresh(2)
      unfolding step by (simp add: kv gm_set_def gm_entries_def update_fresh)
  qed
qed

text \<open>Metadata whose keys are not treated specially; the status of a transition has its own spelling.\<close>

definition ordinary_metadata :: "(string \<times> string) list \<Rightarrow> bool" where
  "ordinary_metadata meta \<longleftrightarrow> distinct (map fst meta) \<and>
     (\<forall>k \<in> fst ` set meta.
        \<not> lower_is k ''x-amz-meta-x-amz-unencrypted-content-length'' \<and>
        \<not> lower_is k ''x-amz-meta-x-amz-unencrypted-content-md5'' \<and>
        (lower_is k transition_status_key \<longrightarrow> k = transition_status_key))"

lemma lower_status_key [simp]: "lower_is transition_status_key transition_status_key" "isReserved transition_status_key"
  by (simp_all add: lower_is_def isReserved_def transition_status_key_def runes_ascii ascii_def lower_rune_def)

lemma purge_not_reserved: "isReserved k \<Longrightarrow> \<not> lower_is k VersionPurgeStatusKey"
  by (auto simp: isReserved_def lower_is_def VersionPurgeStatusKey_def)

lemma foldl_user_info:
  assumes "\<forall>k \<in> fst ` set es. \<not> lower_is k ''x-amz-meta-x-amz-unencrypted-content-length'' \<and>
        \<not> lower_is k ''x-amz-meta-x-amz-unencrypted-content-md5''" "distinct (map fst es)"
  shows "foldl user_info fi es = fi\<lparr>fi_Metadata := fi_Metadata fi ++ map_of es\<rparr>"
  using assms
proof (induction es arbitrary: fi)
  case (Cons kv es)
  have "map_of es (fst kv) = None" using Cons.prems(2) by (simp add: map_of_eq_None_iff)
  then have "(fi_Metadata fi)(fst kv \<mapsto> snd kv) ++ map_of es = fi_Metadata fi ++ map_of (kv # es)"
    by (cases kv) (auto simp: fun_eq_iff map_add_def split: option.split)
  then have m: "(fi_Metadata fi)(fst kv \<mapsto> snd kv) ++ map_of es = fi_Metadata fi ++ map_of (kv # es)" .
  have step: "user_info fi kv = fi\<lparr>fi_Metadata := (fi_Metadata fi)(fst kv \<mapsto> snd kv)\<rparr>"
    using Cons.prems(1) by (simp add: user_info_def)
  show ?case unfolding foldl_Cons step using Cons.IH Cons.prems m [symmetric] by (simp del: map_of.simps)
qed (simp add: map_add_def)

lemma foldl_sys_info:
  assumes "\<forall>k \<in> fst ` set es. isReserved k \<and> (lower_is k transition_status_key \<longrightarrow> k = transition_status_key)"
    "distinct (map fst es)"
  shows "foldl sys_info fi es =
    fi\<lparr>fi_Metadata := fi_Metadata fi ++ (map_of es)(transition_status_key := None),
       fi_TransitionStatus := (case map_of es transition_status_key of None \<Rightarrow> fi_TransitionStatus fi | Some s \<Rightarrow> s)\<rparr>"
  using assms
proof (induction es arbitrary: fi)
  case (Cons kv es)
  obtain k v where kv: "kv = (k, v)" by (cases kv)
  have res: "isReserved k" "\<not> lower_is k VersionPurgeStatusKey" using Cons.prems(1) kv purge_not_reserved by auto
  have fresh: "map_of es k = None" using Cons.prems(2) kv by (auto simp: map_of_eq_None_iff)
  note IH = Cons.IH [of "sys_info fi kv"]
  show ?case
  proof (cases "lower_is k transition_status_key")
    case True
    then have k: "k = transition_status_key" using Cons.prems(1) kv by auto
    then have "sys_info fi kv = fi\<lparr>fi_TransitionStatus := v\<rparr>" by (simp add: sys_info_def kv)
    then have step: "foldl sys_info fi (kv # es) = foldl sys_info (fi\<lparr>fi_TransitionStatus := v\<rparr>) es" by simp
    have m: "(map_of (kv # es))(transition_status_key := None) = (map_of es)(transition_status_key := None)"
      "map_of (kv # es) transition_status_key = Some v"
      using k kv by (simp_all add: fun_eq_iff)
    have "map_of es transition_status_key = None" using fresh k by simp
    then show ?thesis
      unfolding step m using Cons.IH [of "fi\<lparr>fi_TransitionStatus := v\<rparr>"] Cons.prems by simp
  next
    case False
    then have ne: "k \<noteq> transition_status_key" by auto
    have step: "sys_info fi kv = fi\<lparr>fi_Metadata := (fi_Metadata fi)(k \<mapsto> v)\<rparr>"
      using False res by (simp add: sys_info_def kv)
    have m: "fi_Metadata fi ++ (map_of (kv # es))(transition_status_key := None) =
        (fi_Metadata fi)(k \<mapsto> v) ++ (map_of es)(transition_status_key := None)"
      "map_of (kv # es) transition_status_key = map_of es transition_status_key"
      using fresh ne kv by (auto simp: fun_eq_iff map_add_def split: option.split)
    show ?thesis
      unfolding foldl_Cons step m using Cons.IH [of "fi\<lparr>fi_Metadata := (fi_Metadata fi)(k \<mapsto> v)\<rparr>"] Cons.prems
      by (cases "map_of es transition_status_key") (simp_all del: fun_upd_apply)
  qed
qed (simp add: map_add_def)

lemma zip_map_same: "zip (map f xs) (map g xs) = map (\<lambda>x. (f x, g x)) xs"
  by (induction xs) auto

lemma part_infos_object_entry [simp]: "part_infos (object_entry uv dd fi meta) = fi_Parts fi"
  by (simp add: part_infos_def put_metadata_parts zip_map_same comp_def map_idI)

lemma map_of_filter_keys: "map_of (filter (\<lambda>(k, v). P k) es) k = (if P k then map_of es k else None)"
  by (induction es) auto

lemma Object_ToFileInfo_entry:
  assumes "validStorageFileInfoData fi" "\<not> fi_Deleted fi" "ordinary_metadata meta"
    "\<forall>i \<in> set (ei_Distribution (fi_Erasure fi)). 0 \<le> i \<and> i < 256"
  shows "Object_ToFileInfo L volume path (object_entry uv dd fi meta) =
    Inr (zero_file_info\<lparr>fi_Volume := volume, fi_Name := path, fi_Size := fi_Size fi, fi_ModTime := wrap64 (fi_ModTime fi),
      fi_VersionID := version_string L uv, fi_Parts := fi_Parts fi,
      fi_Metadata := (map_of meta)(transition_status_key := None),
      fi_TransitionStatus := (case map_of meta transition_status_key of None \<Rightarrow> '''' | Some s \<Rightarrow> s),
      fi_Erasure := (fi_Erasure fi)\<lparr>ei_Algorithm := ''reedsolomon'',
        ei_Checksums := map (\<lambda>part. \<lparr>ck_PartNumber = op_Number part, ck_Algorithm = 3, ck_Hash = []\<rparr>) (fi_Parts fi)\<rparr>,
      fi_DataDir := uuid_String L dd\<rparr>)"
proof -
  let ?sys = "filter (\<lambda>(k, v). isReserved k) meta" and ?user = "filter (\<lambda>(k, v). \<not> isReserved k) meta"
  have d: "distinct (map fst meta)" using assms(3) by (simp add: ordinary_metadata_def)
  have put: "put_metadata meta (Some [], Some []) = (Some ?sys, Some ?user)"
    using put_metadata_split [of "[]" "[]" meta] d by simp
  have maps: "o_MetaSys (object_entry uv dd fi meta) = Some ?sys" "o_MetaUser (object_entry uv dd fi meta) = Some ?user"
    by (simp_all add: object_entry_def put)
  have dist: "map uint (map word_of_int (ei_Distribution (fi_Erasure fi)) :: 8 word list) = ei_Distribution (fi_Erasure fi)"
    using assms(4) by (simp add: map_idI uint_word_of_int)
  have user: "foldl user_info f ?user = f\<lparr>fi_Metadata := fi_Metadata f ++ map_of ?user\<rparr>" for f
    by (rule foldl_user_info) (use assms(3) d in \<open>force simp: ordinary_metadata_def distinct_map_filter\<close>)+
  have sys: "foldl sys_info f ?sys =
      f\<lparr>fi_Metadata := fi_Metadata f ++ (map_of ?sys)(transition_status_key := None),
        fi_TransitionStatus := (case map_of ?sys transition_status_key of None \<Rightarrow> fi_TransitionStatus f | Some s \<Rightarrow> s)\<rparr>" for f
    by (rule foldl_sys_info) (use assms(3) d in \<open>force simp: ordinary_metadata_def distinct_map_filter\<close>)+
  have m: "map_of ?user ++ (map_of ?sys)(transition_status_key := None) = (map_of meta)(transition_status_key := None)"
    by (auto simp: fun_eq_iff map_add_def map_of_filter_keys split: option.split)
  have s: "map_of ?sys transition_status_key = map_of meta transition_status_key"
    by (simp add: map_of_filter_keys)
  show ?thesis
    using object_entry_valid [OF assms(1,2), of uv dd meta]
    unfolding Object_ToFileInfo_def part_infos_object_entry maps gm_entries_def option.case user sys put_metadata_parts dist
    by (simp add: Let_def m s zero_file_info_def ErasureAlgo_String_def split: option.split)
qed

subsection \<open>Listing and the latest version\<close>

lemma list_loop_Some:
  "\<forall>v \<in> set vs. version_ok v \<Longrightarrow>
     \<exists>fis. list_loop L volume path vs = Some (Inr fis) \<and>
       list_all2 (\<lambda>v fi. Version_ToFileInfo L volume path v = Some (Inr fi)) vs fis"
proof (induction vs)
  case (Cons v vs)
  then obtain fi where fi: "Version_ToFileInfo L volume path v = Some (Inr fi)" using Version_ToFileInfo_Some by force
  obtain fis where fis: "list_loop L volume path vs = Some (Inr fis)"
      "list_all2 (\<lambda>v fi. Version_ToFileInfo L volume path v = Some (Inr fi)) vs fis" using Cons by auto
  have "Version_Valid v" using Cons.prems by (auto simp: version_ok_def)
  then show ?case using fi fis by simp
qed simp

lemma ListVersions_result:
  assumes "journal_ok (x_Versions z)" "sort_laws L" "x_Versions z \<noteq> []"
  obtains fis where "list_all2 (\<lambda>v fi. Version_ToFileInfo L volume path v = Some (Inr fi)) (x_Versions z) fis"
    "ListVersions L z volume path =
       Some (Inr (number_versions (sort_infos L fis), fi_ModTime (hd (number_versions (sort_infos L fis)))))"
    "mset (sort_infos L fis) = mset fis" "sorted_wrt (\<lambda>a b. fi_ModTime b \<le> fi_ModTime a) (sort_infos L fis)"
    "\<forall>fi \<in> set fis. \<not> fi_IsLatest fi"
proof -
  have ok: "\<forall>v \<in> set (x_Versions z). version_ok v" using assms(1) by (simp add: journal_ok_def)
  then obtain fis where fis: "list_loop L volume path (x_Versions z) = Some (Inr fis)"
      "list_all2 (\<lambda>v fi. Version_ToFileInfo L volume path v = Some (Inr fi)) (x_Versions z) fis"
    using list_loop_Some [OF ok, of L volume path] by blast
  have latest: "\<forall>fi \<in> set fis. \<not> fi_IsLatest fi"
  proof
    fix fi assume "fi \<in> set fis"
    then obtain i where i: "i < length fis" "fi = fis ! i" by (auto simp: in_set_conv_nth)
    then have "x_Versions z ! i \<in> set (x_Versions z)" "Version_ToFileInfo L volume path (x_Versions z ! i) = Some (Inr fi)"
      using fis(2) by (auto simp: list_all2_conv_all_nth)
    then show "\<not> fi_IsLatest fi" using Version_ToFileInfo_Some [of "x_Versions z ! i" L volume path] ok by auto
  qed
  have m: "mset (sort_infos L fis) = mset fis" using assms(2) by (simp add: sort_laws_def)
  have "length fis = length (x_Versions z)" using fis(2) by (simp add: list_all2_lengthD)
  then have "number_versions (sort_infos L fis) \<noteq> []"
    using assms(3) mset_eq_length [OF m] by (auto simp: number_versions_def)
  then have "ListVersions L z volume path =
       Some (Inr (number_versions (sort_infos L fis), fi_ModTime (hd (number_versions (sort_infos L fis)))))"
    using fis(1) by (auto simp: ListVersions_def neq_Nil_conv)
  moreover have "sorted_wrt (\<lambda>a b. fi_ModTime b \<le> fi_ModTime a) (sort_infos L fis)"
    using assms(2) latest by (simp add: sort_laws_def)
  ultimately show ?thesis using that fis(2) m latest by blast
qed

text \<open>The newest version is given for no name, whatever the order of the journal is.\<close>

lemma ToFileInfo_latest:
  assumes "journal_ok (x_Versions z)" "sort_laws L" "x_Versions z \<noteq> []"
  shows "\<exists>v fi. v \<in> set (x_Versions z) \<and> (\<forall>w \<in> set (x_Versions z). mod_time w \<le> mod_time v) \<and>
    Version_ToFileInfo L volume path v = Some (Inr fi) \<and>
    ToFileInfo L z volume path '''' =
      Some (Inr (fi\<lparr>fi_IsLatest := True, fi_NumVersions := int (length (x_Versions z))\<rparr>))"
proof -
  let ?ord = "sort_versions L (x_Versions z)"
  have "?ord \<noteq> []" using assms(2,3) sort_versions_length [of L "x_Versions z"] by auto
  then obtain v rest where ord: "?ord = v # rest" by (cases ?ord) auto
  have "sorted_wrt (\<lambda>v w. mod_time w \<le> mod_time v) (v # rest)" using assms(2) ord by (metis sort_laws_def)
  then have newest: "\<forall>w \<in> set (x_Versions z). mod_time w \<le> mod_time v"
    using sort_versions_set [OF assms(2), of "x_Versions z"] ord by auto
  have v: "v \<in> set (x_Versions z)" using sort_versions_set [OF assms(2), of "x_Versions z"] ord by auto
  then obtain fi where fi: "Version_ToFileInfo L volume path v = Some (Inr fi)"
    using Version_ToFileInfo_Some assms(1) unfolding journal_ok_def by blast
  have "\<not> list_ex (\<lambda>v. \<not> Version_Valid v) (x_Versions z)"
    using assms(1) by (auto simp: journal_ok_def version_ok_def list_ex_iff)
  then have "ToFileInfo L z volume path '''' =
      Some (Inr (fi\<lparr>fi_IsLatest := True, fi_NumVersions := int (length (x_Versions z))\<rparr>))"
    using ord fi by (simp add: ToFileInfo_def parse_version_def Let_def)
  then show ?thesis using v newest fi by blast
qed

text \<open>A journal without versions makes the listing panic.\<close>

lemma ListVersions_empty: "sort_laws L \<Longrightarrow> ListVersions L \<lparr>x_Versions = [], x_data = d\<rparr> volume path = None"
proof -
  assume "sort_laws L"
  then have "sort_infos L [] = []" by (metis mset_zero_iff mset.simps(1) sort_laws_def)
  then show ?thesis by (simp add: ListVersions_def number_versions_def)
qed

section \<open>Updating metadata\<close>

text \<open>The loop ends at the first delete marker, whatever its name is.\<close>

lemma update_loop_marker:
  assumes "journal_ok (vs @ m # ws)" "version_case m = CaseDelete d" "uv \<notin> version_key ` set vs"
    "vid \<noteq> ''''" "names_version L vid uv"
  shows "update_loop fi meta vid uv pre (vs @ m # ws) = Some (Inl XLMethodNotAllowed)"
  using assms(1,3)
proof (induction vs arbitrary: pre)
  case Nil
  then show ?case using assms(2) by (simp add: version_ok_def)
next
  case (Cons v vs)
  have ok: "version_ok v" "Version_Valid v" using Cons.prems by (auto simp: version_ok_def)
  have IH: "update_loop fi meta vid uv (pre @ [v]) (vs @ m # ws) = Some (Inl XLMethodNotAllowed)" using Cons by simp
  have key: "version_key v \<noteq> uv" using Cons.prems by auto
  from ok(2) show ?case
  proof (cases rule: Version_Valid_case)
    case (Legacy lm)
    have "\<not> legacy_matches vid lm"
      using Legacy(1) ok(1) key names_version_null [OF assms(5)] assms(4)
      by (auto simp: legacy_matches_def version_ok_def version_key_def)
    then show ?thesis using Legacy(1) ok(2) IH by simp
  next
    case (Object ob)
    then show ?thesis using ok(2) IH key by (simp add: version_key_def)
  next
    case (Delete d')
    then show ?thesis using ok(2) by simp
  qed
qed

lemma update_loop_object:
  assumes "journal_ok (vs @ v # ws)" "version_case v = CaseObject ob" "version_key v = uv"
    "\<forall>w \<in> set vs. \<forall>d. version_case w \<noteq> CaseDelete d" "vid \<noteq> ''''" "names_version L vid uv"
  shows "update_loop fi meta vid uv pre (vs @ v # ws) =
    Some (Inr (pre @ vs @ v\<lparr>v_ObjectV2 := Some (update_object fi meta ob)\<rparr> # ws))"
  using assms(1,4)
proof (induction vs arbitrary: pre)
  case Nil
  then show ?case using assms(2,3) by (simp add: version_ok_def version_key_def)
next
  case (Cons w vs)
  have ok: "version_ok w" "Version_Valid w" using Cons.prems by (auto simp: version_ok_def)
  have IH: "update_loop fi meta vid uv (pre @ [w]) (vs @ v # ws) =
      Some (Inr (pre @ w # vs @ v\<lparr>v_ObjectV2 := Some (update_object fi meta ob)\<rparr> # ws))" using Cons by simp
  have key: "version_key w \<noteq> uv" using Cons.prems(1) assms(3) by auto
  from ok(2) show ?case
  proof (cases rule: Version_Valid_case)
    case (Legacy lm)
    have "\<not> legacy_matches vid lm"
      using Legacy(1) ok(1) key names_version_null [OF assms(6)] assms(5)
      by (auto simp: legacy_matches_def version_ok_def version_key_def)
    then show ?thesis using Legacy(1) ok(2) IH by simp
  next
    case (Object ob')
    then show ?thesis using ok(2) IH key by (simp add: version_key_def)
  next
    case (Delete d')
    then show ?thesis using Cons.prems(2) by simp
  qed
qed

end
