(* ===== verification/XL_Journal_Spec.thy ===== *)
theory XL_Journal_Spec
  imports XL_Journal_Facts
begin

text \<open>
  The properties of the journal of versions, through the file that holds it: a written version is read back,
  adding and deleting refine updates of a map, and data that another version needs is kept. The section on
  examples has libraries for which the documented behaviour holds.
\<close>

section \<open>The frame of the file\<close>

text \<open>A legacy version has a map after it was stored.\<close>

definition stored_version :: "xlMetaV2Version \<Rightarrow> xlMetaV2Version" where
  "stored_version v = v\<lparr>v_ObjectV1 := map_option (\<lambda>m. m\<lparr>v1_Meta := Some (gm_entries (v1_Meta m))\<rparr>) (v_ObjectV1 v)\<rparr>"

text \<open>
  The documented behaviour of the codec: the generated functions are inverse to each other, a byte string with
  its length in 32 bits is read as such, and a number is read back.
\<close>

definition codec_laws :: "xl_libs \<Rightarrow> bool" where
  "codec_laws L \<longleftrightarrow>
     (\<forall>vs b. MarshalMsg L vs = Some b \<longrightarrow> length b < 2 ^ 32 \<and> UnmarshalMsg L b = Some (map stored_version vs)) \<and>
     (\<forall>b rest. length b < 2 ^ 32 \<longrightarrow>
        ReadBytesZC (lib_msgp L) (0xC6 # be32_bytes (length b) @ b @ rest) = Some (b, rest)) \<and>
     (\<forall>n rest. n < 2 ^ 32 \<longrightarrow> ReadUint32Bytes L (AppendUint32 L n @ rest) = (Some n, rest))"

lemma length_be32_bytes [simp]: "length (be32_bytes n) = 4"
  by (simp add: be32_bytes_def)

lemma xlHeader_bytes: "xlHeader = [0x58, 0x4C, 0x32, 0x20]"
  by (simp add: xlHeader_def string_bytes_def)

lemma checkXL2V1_current:
  "rest \<noteq> [] \<Longrightarrow> checkXL2V1 (xlHeader @ xlVersionCurrent @ rest) = Inr (rest, 1, 2)"
  by (simp add: checkXL2V1_def xlHeader_bytes xlVersionCurrent_def string_bytes_def Let_def)

lemma Load_AppendTo:
  assumes "codec_laws L" "AppendTo L z [] = Inr buf"
  shows "Load L buf = Inr (z\<lparr>x_Versions := map stored_version (x_Versions z)\<rparr>)"
proof -
  obtain b where b: "MarshalMsg L (x_Versions z) = Some b" and v: "inline_validate (lib_msgp L) (x_data z) = None"
      and buf: "buf = xlHeader @ xlVersionCurrent @ 0xC6 # be32_bytes (length b mod 2 ^ 32) @ b @
        AppendUint32 L (unat (ucast (Sum64 L b) :: 32 word)) @ x_data z"
    using assms(2) by (auto simp: AppendTo_def split: option.splits)
  have len: "length b < 2 ^ 32" and un: "UnmarshalMsg L b = Some (map stored_version (x_Versions z))"
    using assms(1) b unfolding codec_laws_def by blast+
  have "unat (ucast (Sum64 L b) :: 32 word) < 2 ^ 32" using unsigned_less [of "ucast (Sum64 L b) :: 32 word"] by simp
  then have crc: "ReadUint32Bytes L (AppendUint32 L (unat (ucast (Sum64 L b) :: 32 word)) @ rest) =
      (Some (unat (ucast (Sum64 L b) :: 32 word)), rest)" for rest
    using assms(1) unfolding codec_laws_def by blast
  have read: "ReadBytesZC (lib_msgp L) (0xC6 # be32_bytes (length b) @ b @ rest) = Some (b, rest)" for rest
    using assms(1) len unfolding codec_laws_def by blast
  have mod: "length b mod 2 ^ 32 = length b" using len by (rule mod_less)
  have chk: "checkXL2V1 buf = Inr (0xC6 # be32_bytes (length b) @ b @
        AppendUint32 L (unat (ucast (Sum64 L b) :: 32 word)) @ x_data z, 1, 2)"
    unfolding buf mod by (rule checkXL2V1_current) simp
  show ?thesis
    unfolding Load_def chk by (simp add: read crc un v)
qed

section \<open>Examples\<close>

text \<open>
  Libraries for examples: a UUID is printed as its bytes behind a small letter and read also behind a capital
  one, and the codec knows no other journals than those of the examples.
\<close>

definition example_info :: file_info where
  "example_info = zero_file_info\<lparr>fi_Volume := ''b'', fi_Name := ''o'', fi_ModTime := 5, fi_Size := 3,
     fi_Data := [1, 2, 3], fi_Parts := [\<lparr>op_ETag = ''e'', op_Number = 1, op_Size = 3, op_ActualSize = 3\<rparr>],
     fi_Erasure := \<lparr>ei_Algorithm = ''reedsolomon'', ei_DataBlocks = 2, ei_ParityBlocks = 2, ei_BlockSize = 10,
       ei_Index = 1, ei_Distribution = [1, 2, 3, 4], ei_Checksums = []\<rparr>\<rparr>"

definition example_meta :: "(string \<times> string) list" where
  "example_meta = [(''etag'', ''e'')]"

definition example_entry :: xlMetaV2Version where
  "example_entry = version_entry zero_uuid zero_uuid example_info example_meta"

definition other_entry :: xlMetaV2Version where
  "other_entry = version_entry (replicate 16 1) zero_uuid example_info example_meta"

definition example_libs :: xl_libs where
  "example_libs = \<lparr>lib_msgp = msgp32,
     uuid_Parse = (\<lambda>s. case s of [] \<Rightarrow> None | c # cs \<Rightarrow> if c \<in> {CHR ''u'', CHR ''U''} \<and> length cs = 16 then Some (string_bytes cs) else None),
     uuid_String = (\<lambda>u. CHR ''u'' # bytes_string u),
     Sum64 = (\<lambda>b. word_of_nat (length b)),
     MarshalMsg = (\<lambda>vs. if vs = [] then Some [0] else if vs = [example_entry] then Some [1]
       else if vs = [other_entry] then Some [2] else None),
     UnmarshalMsg = (\<lambda>b. if b = [0] then Some [] else if b = [1] then Some [example_entry]
       else if b = [2] then Some [other_entry] else None),
     ReadUint32Bytes = (\<lambda>b. case read32 0xCE b of None \<Rightarrow> (None, b) | Some (n, rest) \<Rightarrow> (Some n, rest)),
     AppendUint32 = (\<lambda>n. 0xCE # be32 n),
     sort_versions = sort_key (\<lambda>v. - mod_time v), sort_infos = sort_key (\<lambda>fi. - fi_ModTime fi)\<rparr>"

lemma sorted_wrt_sort_key: "sorted_wrt (\<lambda>a b. f b \<le> f a) (sort_key (\<lambda>x. - f x) xs)" for f :: "'a \<Rightarrow> int"
  using sorted_sort_key [of "\<lambda>x. - f x" xs] by (simp add: sorted_map sorted_wrt_map)

lemma example_sort: "sort_laws example_libs"
  by (simp add: sort_laws_def example_libs_def sorted_wrt_sort_key)

lemma be32_bytes_eq: "be32_bytes = be32"
  by (simp add: be32_bytes_def be32_def fun_eq_iff)

lemma example_entry_stored: "stored_version example_entry = example_entry" "stored_version other_entry = other_entry"
  by (simp_all add: stored_version_def example_entry_def other_entry_def version_entry_def no_version_def example_info_def zero_file_info_def)

lemma example_codec: "codec_laws example_libs"
proof -
  have "ReadBytesZC msgp32 (0xC6 # be32 (length b) @ b @ rest) = Some (b, rest)" if "length b < 2 ^ 32" for b rest
    using msgp32_laws that by (simp add: msgp_laws_def msgp32_def)
  then show ?thesis
    by (auto simp: codec_laws_def example_libs_def be32_bytes_eq read32_be32 example_entry_stored split: if_splits)
qed

lemma example_time: "fi_ModTime example_info = 5" "\<not> fi_Deleted example_info" "fi_VersionID example_info = ''''"
  "fi_DataDir example_info = ''''" "wrap64 5 = 5"
  by (simp_all add: example_info_def zero_file_info_def wrap64_def)

lemma example_dist: "\<forall>i \<in> set (ei_Distribution (fi_Erasure example_info)). 0 \<le> i \<and> i < 256"
  "fi_Data example_info = [1, 2, 3]" "fi_Size example_info = 3"
  by (simp_all add: example_info_def)

lemma example_msgp: "lib_msgp example_libs = msgp32"
  by (simp add: example_libs_def)

lemma zero_info: "\<not> fi_Deleted zero_file_info" "\<not> updateVersion zero_file_info" "plain_delete zero_file_info"
  "names_version example_libs (fi_VersionID zero_file_info) zero_uuid"
  by (simp_all add: zero_file_info_def updateVersion_def plain_delete_def names_version_def)

lemma example_valid: "validateStorageFileInfo example_info True = None"
  by code_simp

lemma example_meta_ordinary: "ordinary_metadata example_meta"
  by (simp add: ordinary_metadata_def example_meta_def lower_is_def runes_ascii ascii_def transition_status_key_def)

section \<open>Versions through the file\<close>

lemma stored_case:
  "version_case (stored_version v) =
     (case version_case v of CaseLegacy m \<Rightarrow> CaseLegacy (m\<lparr>v1_Meta := Some (gm_entries (v1_Meta m))\<rparr>) | c \<Rightarrow> c)"
  by (simp add: version_case_def stored_version_def split: option.splits)

lemma stored_key [simp]: "version_key (stored_version v) = version_key v"
  by (simp add: version_key_def stored_case split: version_case.splits)

lemma stored_valid: "Version_Valid (stored_version v) = Version_Valid v"
  by (simp add: Version_Valid_def stored_version_def xlMetaV1Object_valid_def split: option.splits)

lemma stored_ok: "version_ok v \<Longrightarrow> version_ok (stored_version v)"
  by (auto simp: version_ok_def stored_case stored_valid split: version_case.splits)

lemma stored_journal_ok: "journal_ok vs \<Longrightarrow> journal_ok (map stored_version vs)"
  by (auto simp: journal_ok_def comp_def intro: stored_ok)

lemma stored_journal_map: "journal_map (map stored_version vs) u = map_option stored_version (journal_map vs u)"
  by (induction vs) (auto simp: journal_map_def)

lemma stored_version_entry [simp]: "stored_version (version_entry uv dd fi meta) = version_entry uv dd fi meta"
  by (simp add: stored_version_def version_entry_def no_version_def)

text \<open>The name of a version in the inline data, and what adding a version does there.\<close>

definition inline_name :: "file_info \<Rightarrow> string" where
  "inline_name fi = (if fi_VersionID fi = '''' then nullVersionID else fi_VersionID fi)"

definition added_data :: "uuid \<Rightarrow> uuid \<Rightarrow> file_info \<Rightarrow> xlMetaV2 \<Rightarrow> (bytes \<rightharpoonup> bytes) \<Rightarrow> bytes \<rightharpoonup> bytes" where
  "added_data uv dd fi z m =
     (if fi_Deleted fi then m
      else if fi_Data fi \<noteq> [] \<or> fi_Size fi = 0 then m(string_bytes (inline_name fi) \<mapsto> fi_Data fi)
      else if preserveInline uv dd fi (x_Versions z) then m
      else m(string_bytes (inline_name fi) := None))"

lemma add_inline_represents:
  assumes "msgp_laws M" "represents M (x_data z) m" "card (dom m) + 1 < 2 ^ 32"
    "length (inline_name fi) < 2 ^ 32" "length (fi_Data fi) < 2 ^ 32"
  shows "represents M (add_inline M (inline_name fi) uv dd fi z) (added_data uv dd fi z m)"
  using assms(2) represents_replace [OF assms(1,2,4,5,3)] represents_remove(1) [OF assms(1,2)]
  by (simp add: add_inline_def added_data_def)

text \<open>
  C29: Adding a version. On a journal whose versions are valid and have different names, with a valid
  version, \<^verbatim>\<open>AddVersion\<close> succeeds and the result is such a journal, in which exactly the name of the new version
  changed; a version of that name is replaced, whatever its type, and no other is lost. The inline data again
  stands for a map, which has the new data under the name of the version, or has lost an old entry that the
  new version does not use.
\<close>
theorem AddVersion_refines_map:
  assumes "journal_ok (x_Versions z)" "validateStorageFileInfo fi True = None" "0 < wrap64 (fi_ModTime fi)"
    "names_version L (fi_VersionID fi) uv" "data_dir_uuid L (fi_DataDir fi) = Some dd"
    "msgp_laws (lib_msgp L)" "represents (lib_msgp L) (x_data z) m" "card (dom m) + 1 < 2 ^ 32"
    "length (fi_VersionID fi) < 2 ^ 32" "length (fi_Data fi) < 2 ^ 32"
  shows "\<exists>z'. AddVersion L fi meta z = Some (Inr z') \<and> journal_ok (x_Versions z') \<and>
    journal_map (x_Versions z') = (journal_map (x_Versions z))(uv \<mapsto> version_entry uv dd fi meta) \<and>
    represents (lib_msgp L) (x_data z') (added_data uv dd fi z m)"
proof -
  have "length (inline_name fi) < 2 ^ 32" using assms(9) by (simp add: inline_name_def nullVersionID_def)
  from add_inline_represents [OF assms(6-8) this assms(10)] show ?thesis
    using AddVersion_success [OF assms(1-5)] put_version_ok [OF assms(1) version_entry_ok [OF assms(2,3)]]
      put_version_map [of "version_entry uv dd fi meta" "x_Versions z"]
    by (simp add: inline_name_def)
qed

lemma example_empty: "represents msgp32 [] Map.empty"
  using representsI [of "[]" Map.empty msgp32] by (simp add: storable_def inline_serialize_def)

theorem AddVersion_refines_map_witness:
  "\<exists>z'. AddVersion example_libs example_info example_meta \<lparr>x_Versions = [], x_data = []\<rparr> = Some (Inr z') \<and>
     journal_map (x_Versions z') = [zero_uuid \<mapsto> example_entry]"
  using AddVersion_refines_map [of "\<lparr>x_Versions = [], x_data = []\<rparr>" example_info example_libs zero_uuid zero_uuid
        Map.empty example_meta] example_valid example_empty msgp32_laws
  by (auto simp: example_entry_def journal_map_def names_version_def data_dir_uuid_def example_time example_dist example_msgp)

section \<open>Deleting\<close>


lemma example_entry_ok: "journal_ok [example_entry]"
  using version_entry_ok [OF example_valid, of zero_uuid zero_uuid example_meta]
  by (simp add: example_entry_def example_info_def wrap64_def zero_file_info_def)


text \<open>The documented behaviour of the UUID package: the text of a UUID determines it and is not empty.\<close>

definition uuid_laws :: "xl_libs \<Rightarrow> bool" where
  "uuid_laws L \<longleftrightarrow> inj (uuid_String L) \<and> (\<forall>u. uuid_String L u \<noteq> '''')"

lemma bytes_string_inj: "inj bytes_string"
proof (rule injI)
  fix a b assume "bytes_string a = bytes_string b"
  then have "string_bytes (bytes_string a) = string_bytes (bytes_string b)" by simp
  moreover have "unat w mod 256 = unat w" for w :: "8 word" using unsigned_less [where 'a = nat, of w] by simp
  then have "string_bytes (bytes_string c) = c" for c
    by (induction c) (simp_all add: string_bytes_def bytes_string_def)
  ultimately show "a = b" by simp
qed

lemma example_uuid: "uuid_laws example_libs"
  using bytes_string_inj by (auto simp: uuid_laws_def example_libs_def inj_def)

text \<open>
  C31: Data that is still needed is not given up. When an object version is deleted or moved to another tier,
  the directory that \<^verbatim>\<open>DeleteVersion\<close> tells its caller to remove is not the data directory of another version
  that is left, unless that version was moved itself or the deleted version has its data inside the file.
\<close>
theorem DeleteVersion_keeps_shared_data:
  assumes "journal_ok (x_Versions z)" "\<not> updateVersion fi" "names_version L (fi_VersionID fi) uv"
    "fi_Deleted fi \<longrightarrow> 0 < wrap64 (fi_ModTime fi)" "uuid_laws L"
    "journal_map (x_Versions z) uv = Some v" "version_case v = CaseObject ob"
    "inline_find (lib_msgp L) (x_data z) (uuid_String L uv) = None"
  shows "\<exists>dir last z'. DeleteVersion L fi meta z = Some (Inr (dir, last, z')) \<and>
    (\<forall>w \<in> set (x_Versions z). version_key w \<noteq> uv \<longrightarrow> w \<in> set (x_Versions z')) \<and>
    (\<forall>w \<in> set (x_Versions z'). \<forall>ob'. version_case w = CaseObject ob' \<and> o_VersionID ob' \<noteq> uv \<and> \<not> tiered ob' \<longrightarrow>
       dir \<noteq> uuid_String L (o_DataDir ob')) \<and>
    ((\<forall>w \<in> set (x_Versions z'). \<not> shares uv (o_DataDir ob) w) \<longrightarrow> dir = uuid_String L (o_DataDir ob))"
proof -
  have key: "o_VersionID ob = uv" using journal_map_Some [OF assms(1)] assms(6,7) by (auto simp: version_key_def)
  obtain last vs' where
      d: "DeleteVersion L fi meta z = Some (Inr (delete_dir L (x_data z) ob vs', last, z\<lparr>x_Versions := vs'\<rparr>))"
      and kept: "\<forall>w \<in> set (x_Versions z). version_key w \<noteq> uv \<longrightarrow> w \<in> set vs'"
    using DeleteVersion_object [OF assms(1-3) _ assms(6,7)] assms(4) by blast
  have ne: "'''' \<noteq> uuid_String L u" for u using assms(5) by (metis uuid_laws_def)
  have "delete_dir L (x_data z) ob vs' \<noteq> uuid_String L (o_DataDir ob')"
    if "w \<in> set vs'" "version_case w = CaseObject ob'" "o_VersionID ob' \<noteq> uv" "\<not> tiered ob'" for w ob'
  proof (cases "o_DataDir ob' = o_DataDir ob")
    case True
    then have "\<exists>w \<in> set vs'. shares uv (o_DataDir ob) w" using that by (auto simp: shares_def)
    then show ?thesis using assms(8) key ne by (simp add: delete_dir_def)
  next
    case False
    then show ?thesis using assms(5) ne by (auto simp: delete_dir_def uuid_laws_def inj_eq)
  qed
  moreover have "(\<forall>w \<in> set vs'. \<not> shares uv (o_DataDir ob) w) \<longrightarrow>
      delete_dir L (x_data z) ob vs' = uuid_String L (o_DataDir ob)"
    using key by (auto simp: delete_dir_def)
  ultimately show ?thesis using d kept by fastforce
qed

lemma other_key: "version_key other_entry = replicate 16 1" "version_key example_entry = replicate 16 0"
  by (simp_all add: other_entry_def example_entry_def zero_uuid_def)

lemma replicate_bytes: "replicate 16 (1 :: 8 word) \<noteq> replicate 16 0" "replicate 16 (0 :: 8 word) \<noteq> replicate 16 1"
  by simp_all

lemma example_two_ok: "journal_ok [example_entry, other_entry]"
  using version_entry_ok [OF example_valid] example_entry_ok replicate_bytes
  by (simp add: other_key example_time) (simp add: other_entry_def example_time)

lemma example_no_data: "inline_find msgp32 [] key = None"
  using represents_find [OF msgp32_laws example_empty] by simp

lemma object_entry_fields [simp]:
  "o_VersionID (object_entry uv dd fi meta) = uv" "o_DataDir (object_entry uv dd fi meta) = dd"
  by (simp_all add: object_entry_def split: prod.splits)

lemma version_entry_case: "\<not> fi_Deleted fi \<Longrightarrow> version_case (version_entry uv dd fi meta) = CaseObject (object_entry uv dd fi meta)"
  by (simp add: version_case_def version_entry_def no_version_def)

lemma example_not_tiered: "\<not> tiered (object_entry uv dd example_info example_meta)"
  by (simp add: tiered_def object_entry_def put_metadata_def example_meta_def isReserved_def gm_set_def
      runes_ascii ascii_def lower_rune_def gm_lookup_def gm_entries_def split: prod.splits)

theorem DeleteVersion_keeps_shared_data_witness:
  "\<exists>dir last z'. DeleteVersion example_libs zero_file_info [] \<lparr>x_Versions = [example_entry, other_entry], x_data = []\<rparr> =
     Some (Inr (dir, last, z')) \<and> other_entry \<in> set (x_Versions z') \<and> dir \<noteq> uuid_String example_libs zero_uuid"
proof -
  have m: "journal_map [example_entry, other_entry] zero_uuid = Some example_entry"
    by (simp add: journal_map_def other_key zero_uuid_def)
  have c: "version_case example_entry = CaseObject (object_entry zero_uuid zero_uuid example_info example_meta)"
    "version_case other_entry = CaseObject (object_entry (replicate 16 1) zero_uuid example_info example_meta)"
    by (simp_all add: example_entry_def other_entry_def version_entry_case example_time)
  obtain dir last z' where
      d: "DeleteVersion example_libs zero_file_info [] \<lparr>x_Versions = [example_entry, other_entry], x_data = []\<rparr> =
        Some (Inr (dir, last, z'))"
      and kept: "\<forall>w \<in> set [example_entry, other_entry]. version_key w \<noteq> zero_uuid \<longrightarrow> w \<in> set (x_Versions z')"
      and dir: "\<forall>w \<in> set (x_Versions z'). \<forall>ob'. version_case w = CaseObject ob' \<and> o_VersionID ob' \<noteq> zero_uuid \<and> \<not> tiered ob' \<longrightarrow>
         dir \<noteq> uuid_String example_libs (o_DataDir ob')"
    using DeleteVersion_keeps_shared_data [of "\<lparr>x_Versions = [example_entry, other_entry], x_data = []\<rparr>",
        OF _ zero_info(2,4) _ example_uuid _ c(1), of "[]"] example_two_ok m example_no_data zero_info(1)
    by (auto simp: example_msgp)
  have "other_entry \<in> set (x_Versions z')" using kept by (simp add: other_key zero_uuid_def)
  moreover from this have "dir \<noteq> uuid_String example_libs zero_uuid"
    using dir c(2) example_not_tiered by (force simp: zero_uuid_def)
  ultimately show ?thesis using d by blast
qed

section \<open>Writing and reading\<close>

text \<open>
  The file of a journal. What \<^verbatim>\<open>AppendTo\<close> writes, \<^verbatim>\<open>Load\<close> reads back with its inline data, where the checksum of
  the metadata is verified; only the missing metadata of a legacy version has become empty metadata.
\<close>
theorem journal_file_round_trip:
  assumes "codec_laws L" "AppendTo L z [] = Inr buf"
  shows "isXL2V1Format buf \<and> Load L buf = Inr (z\<lparr>x_Versions := map stored_version (x_Versions z)\<rparr>)"
proof -
  note load = Load_AppendTo [OF assms]
  then have "isXL2V1Format buf" by (auto simp: Load_def isXL2V1Format_def split: sum.splits)
  with load show ?thesis by simp
qed

lemma example_written:
  "AppendTo example_libs \<lparr>x_Versions = [example_entry], x_data = []\<rparr> [] =
     Inr (xlHeader @ xlVersionCurrent @ 0xC6 # be32_bytes 1 @ [1] @ 0xCE # be32 1)"
  by (simp add: AppendTo_def example_libs_def inline_validate_def)

theorem journal_file_round_trip_witness:
  "Load example_libs (xlHeader @ xlVersionCurrent @ 0xC6 # be32_bytes 1 @ [1] @ 0xCE # be32 1) =
     Inr \<lparr>x_Versions = [example_entry], x_data = []\<rparr>"
  using journal_file_round_trip [OF example_codec example_written] by (simp add: example_entry_stored)

text \<open>The object that is read for an object that was written.\<close>

definition read_info :: "xl_libs \<Rightarrow> string \<Rightarrow> string \<Rightarrow> uuid \<Rightarrow> uuid \<Rightarrow> file_info \<Rightarrow> (string \<times> string) list \<Rightarrow> file_info" where
  "read_info L volume path uv dd fi meta =
     zero_file_info\<lparr>fi_Volume := volume, fi_Name := path, fi_Size := fi_Size fi, fi_ModTime := wrap64 (fi_ModTime fi),
      fi_VersionID := version_string L uv, fi_Parts := fi_Parts fi,
      fi_Metadata := (map_of meta)(transition_status_key := None),
      fi_TransitionStatus := (case map_of meta transition_status_key of None \<Rightarrow> '''' | Some s \<Rightarrow> s),
      fi_Erasure := (fi_Erasure fi)\<lparr>ei_Algorithm := ''reedsolomon'',
        ei_Checksums := map (\<lambda>part. \<lparr>ck_PartNumber = op_Number part, ck_Algorithm = 3, ck_Hash = []\<rparr>) (fi_Parts fi)\<rparr>,
      fi_DataDir := uuid_String L dd\<rparr>"

text \<open>The data that is found: under the text of the version, else under that of the data directory.\<close>

definition found_data :: "xl_libs \<Rightarrow> uuid \<Rightarrow> uuid \<Rightarrow> (bytes \<rightharpoonup> bytes) \<Rightarrow> bytes" where
  "found_data L uv dd m =
     (let get = (\<lambda>key. case m (string_bytes key) of None \<Rightarrow> [] | Some d \<Rightarrow> d);
          d = get (if version_string L uv = '''' then nullVersionID else version_string L uv)
      in if d = [] then get (uuid_String L dd) else d)"

lemma inline_name_names: "names_version L (fi_VersionID fi) uv \<Longrightarrow> names_version L (inline_name fi) uv"
  by (simp only: inline_name_def names_version_default)

lemma added_version_read:
  assumes "journal_ok (x_Versions z)" "validateStorageFileInfo fi True = None" "0 < wrap64 (fi_ModTime fi)"
    "names_version L (fi_VersionID fi) uv" "data_dir_uuid L (fi_DataDir fi) = Some dd"
    "\<not> fi_Deleted fi" "ordinary_metadata meta" "\<forall>i \<in> set (ei_Distribution (fi_Erasure fi)). 0 \<le> i \<and> i < 256"
    "sort_laws L" "codec_laws L" "AddVersion L fi meta z = Some (Inr z')" "AppendTo L z' [] = Inr buf"
    "msgp_laws (lib_msgp L)" "represents (lib_msgp L) (x_data z') m'"
  shows "\<exists>latest num succ. getFileInfo L json buf volume path (inline_name fi) data =
    Some (Inr ((read_info L volume path uv dd fi meta)\<lparr>fi_IsLatest := latest, fi_NumVersions := num,
      fi_SuccessorModTime := succ, fi_Data := (if data then found_data L uv dd m' else [])\<rparr>))"
proof -
  let ?e = "version_entry uv dd fi meta" and ?s = "z'\<lparr>x_Versions := map stored_version (x_Versions z')\<rparr>"
  have z': "x_Versions z' = put_version ?e (x_Versions z)"
    using AddVersion_success [OF assms(1-5), of meta] assms(11) by simp
  have "journal_ok (x_Versions z')"
    unfolding z' by (rule put_version_ok [OF assms(1) version_entry_ok [OF assms(2,3)]])
  then have ok: "journal_ok (x_Versions ?s)" by (simp add: stored_journal_ok)
  have m: "journal_map (x_Versions ?s) uv = Some ?e"
    using put_version_map [of ?e "x_Versions z"] by (simp add: stored_journal_map z')
  have valid: "validStorageFileInfoData fi"
    using assms(2,6) by (auto simp: validateStorageFileInfo_def split: if_splits)
  have info: "Version_ToFileInfo L volume path ?e = Some (Inr (read_info L volume path uv dd fi meta))"
    using Object_ToFileInfo_entry [OF valid assms(6-8), of L volume path uv dd]
    by (simp add: Version_ToFileInfo_def version_entry_case [OF assms(6)] read_info_def)
  have "inline_name fi \<noteq> ''''" by (simp add: inline_name_def nullVersionID_def)
  from ToFileInfo_lookup [OF ok assms(9) this inline_name_names [OF assms(4)], of volume path] m info
  obtain latest succ where t: "ToFileInfo L ?s volume path (inline_name fi) = Some (Inr ((read_info L volume path uv dd fi meta)
      \<lparr>fi_IsLatest := latest, fi_NumVersions := int (length (x_Versions ?s)), fi_SuccessorModTime := succ\<rparr>))"
    by auto
  have load: "Load L buf = Inr ?s" by (rule Load_AppendTo [OF assms(10,12)])
  then have "isXL2V1Format buf" by (auto simp: Load_def isXL2V1Format_def split: sum.splits)
  then show ?thesis
    unfolding getFileInfo_def load using t represents_find [OF assms(13,14)]
    by (auto simp: found_data_def read_info_def zero_file_info_def Let_def split: option.splits)
qed

lemma represents_validate:
  assumes "msgp_laws M" "represents M x m" "m [] = None"
  shows "inline_validate M x = None"
proof -
  obtain kvs where kvs: "storable kvs" "distinct (map fst kvs)" "x = inline_serialize M kvs" "map_of kvs = m"
    using assms(2) by (auto simp: represents_def)
  have "k \<noteq> []" if "(k, v) \<in> set kvs" for k v using that kvs(2,4) assms(3) by auto
  then show ?thesis unfolding kvs(3) by (intro validate_serialized [OF assms(1) kvs(1)]) auto
qed


lemma example_read:
  assumes "AddVersion example_libs fi example_meta \<lparr>x_Versions = [], x_data = []\<rparr> = Some (Inr z')"
    "validateStorageFileInfo fi True = None" "0 < wrap64 (fi_ModTime fi)"
    "names_version example_libs (fi_VersionID fi) uv" "fi_DataDir fi = ''''"
    "fi_Data fi = [1, 2, 3]" "length (fi_VersionID fi) < 2 ^ 32" "\<not> fi_Deleted fi"
    "version_entry uv zero_uuid fi example_meta \<in> {example_entry, other_entry}"
  obtains buf where "AppendTo example_libs z' [] = Inr buf"
proof -
  let ?z = "\<lparr>x_Versions = [], x_data = []\<rparr>"
  have d: "data_dir_uuid example_libs (fi_DataDir fi) = Some zero_uuid" using assms(5) by (simp add: data_dir_uuid_def)
  have z': "z' = \<lparr>x_Versions = [version_entry uv zero_uuid fi example_meta],
      x_data = add_inline msgp32 (inline_name fi) uv zero_uuid fi ?z\<rparr>"
    using AddVersion_success [OF _ assms(2-4) d, of ?z example_meta] assms(1)
    by (simp add: inline_name_def example_msgp)
  have "length (inline_name fi) < 2 ^ 32" using assms(7) by (simp add: inline_name_def nullVersionID_def)
  from add_inline_represents [OF msgp32_laws _ _ this, of ?z Map.empty uv zero_uuid]
  have "represents msgp32 (x_data z') [string_bytes (inline_name fi) \<mapsto> fi_Data fi]"
    using example_empty assms(6,8) z' by (simp add: added_data_def)
  then have "inline_validate msgp32 (x_data z') = None"
    by (rule represents_validate [OF msgp32_laws]) (simp add: inline_name_def nullVersionID_def string_bytes_def)
  moreover have "\<exists>b. MarshalMsg example_libs (x_Versions z') = Some b"
    using assms(9) z' by (auto simp: example_libs_def)
  ultimately have "\<exists>buf. AppendTo example_libs z' [] = Inr buf"
    by (auto simp: AppendTo_def example_msgp)
  then show ?thesis using that by blast
qed

lemma example_added:
  "\<exists>z'. AddVersion example_libs example_info example_meta \<lparr>x_Versions = [], x_data = []\<rparr> = Some (Inr z')"
  using AddVersion_success [of "\<lparr>x_Versions = [], x_data = []\<rparr>" example_info example_libs zero_uuid zero_uuid
      example_meta] example_valid
  by (simp add: example_time names_version_def data_dir_uuid_def)


text \<open>
  C33: Inline data under a name that is not canonical. A version whose name is another text of its UUID than the
  canonical one, for instance in capital letters, is written without an error and found again, but without
  its data: the data was stored under the text of the request and is looked up under the canonical one.
\<close>
theorem noncanonical_version_loses_data:
  assumes "journal_ok (x_Versions z)" "validateStorageFileInfo fi True = None" "0 < wrap64 (fi_ModTime fi)"
    "names_version L (fi_VersionID fi) uv" "data_dir_uuid L (fi_DataDir fi) = Some dd"
    "\<not> fi_Deleted fi" "ordinary_metadata meta" "\<forall>i \<in> set (ei_Distribution (fi_Erasure fi)). 0 \<le> i \<and> i < 256"
    "sort_laws L" "codec_laws L" "AddVersion L fi meta z = Some (Inr z')" "AppendTo L z' [] = Inr buf"
    "msgp_laws (lib_msgp L)" "represents (lib_msgp L) (x_data z) m" "card (dom m) + 1 < 2 ^ 32"
    "length (fi_VersionID fi) < 2 ^ 32" "length (fi_Data fi) < 2 ^ 32" "fi_Data fi \<noteq> []" "uuid_laws L"
    "uv \<noteq> zero_uuid" "fi_VersionID fi \<notin> {uuid_String L uv, uuid_String L dd}"
    "m (string_bytes (uuid_String L uv)) = None" "m (string_bytes (uuid_String L dd)) = None"
  shows "\<exists>latest num succ. getFileInfo L json buf volume path (fi_VersionID fi) True =
    Some (Inr ((read_info L volume path uv dd fi meta)\<lparr>fi_IsLatest := latest, fi_NumVersions := num,
      fi_SuccessorModTime := succ, fi_Data := []\<rparr>))"
proof -
  have name: "inline_name fi = fi_VersionID fi"
    using names_version_null [OF assms(4)] assms(20) by (simp add: inline_name_def)
  have z': "x_data z' = add_inline (lib_msgp L) (inline_name fi) uv dd fi z"
    using AddVersion_success [OF assms(1-5), of meta] assms(11) by (simp add: inline_name_def)
  have rep: "represents (lib_msgp L) (x_data z') (m(string_bytes (fi_VersionID fi) \<mapsto> fi_Data fi))"
    using add_inline_represents [OF assms(13-15) _ assms(17), of uv dd] assms(6,16,18) name
    by (simp add: z' added_data_def)
  have "uuid_String L uv \<noteq> ''''" using assms(19) by (simp add: uuid_laws_def)
  then have "found_data L uv dd (m(string_bytes (fi_VersionID fi) \<mapsto> fi_Data fi)) = []"
    using assms(20-23) by (auto simp: found_data_def version_string_def Let_def)
  then show ?thesis using added_version_read [OF assms(1-13) rep, of json volume path True] name by simp
qed

definition capital_info :: file_info where
  "capital_info = example_info\<lparr>fi_VersionID := CHR ''U'' # bytes_string (replicate 16 1)\<rparr>"

lemma capital_fields: "fi_ModTime capital_info = 5" "\<not> fi_Deleted capital_info" "fi_DataDir capital_info = ''''"
  "fi_VersionID capital_info = CHR ''U'' # bytes_string (replicate 16 1)" "fi_Data capital_info = [1, 2, 3]"
  "ei_Distribution (fi_Erasure capital_info) = [1, 2, 3, 4]"
  "version_entry (replicate 16 1) zero_uuid capital_info example_meta = other_entry"
  by (simp_all add: capital_info_def example_info_def zero_file_info_def other_entry_def version_entry_def
      object_entry_def)

lemma capital_valid: "validateStorageFileInfo capital_info True = None"
  by code_simp

lemma capital_name: "names_version example_libs (fi_VersionID capital_info) (replicate 16 1)"
  by (simp add: names_version_def capital_fields example_libs_def nullVersionID_def string_bytes_def bytes_string_def
      zero_uuid_def)

theorem noncanonical_version_loses_data_witness:
  "\<exists>buf fi. getFileInfo example_libs (\<lambda>_. None) buf ''b'' ''o'' (fi_VersionID capital_info) True = Some (Inr fi) \<and>
     fi_Data fi = [] \<and> fi_Size fi = 3 \<and> fi_Data capital_info = [1, 2, 3]"
proof -
  let ?z = "\<lparr>x_Versions = [], x_data = []\<rparr>"
  have d: "data_dir_uuid example_libs (fi_DataDir capital_info) = Some zero_uuid"
    by (simp add: data_dir_uuid_def capital_fields)
  obtain z' where z': "AddVersion example_libs capital_info example_meta ?z = Some (Inr z')"
    using AddVersion_success [OF _ capital_valid _ capital_name d, of ?z example_meta]
    by (auto simp: capital_fields example_time)
  obtain buf where buf: "AppendTo example_libs z' [] = Inr buf"
    using example_read [OF z' capital_valid _ capital_name]
    by (auto simp: capital_fields example_time bytes_string_def)
  have u: "fi_VersionID capital_info \<notin> {uuid_String example_libs (replicate 16 1), uuid_String example_libs zero_uuid}"
    by (simp add: capital_fields example_libs_def)
  have uv: "replicate 16 1 \<noteq> zero_uuid" by (simp add: zero_uuid_def)
  have dist: "\<forall>i \<in> set (ei_Distribution (fi_Erasure capital_info)). 0 \<le> i \<and> i < 256" by (simp add: capital_fields)
  obtain latest num succ where
      "getFileInfo example_libs (\<lambda>_. None) buf ''b'' ''o'' (fi_VersionID capital_info) True =
        Some (Inr ((read_info example_libs ''b'' ''o'' (replicate 16 1) zero_uuid capital_info example_meta)
          \<lparr>fi_IsLatest := latest, fi_NumVersions := num, fi_SuccessorModTime := succ, fi_Data := []\<rparr>))"
    using noncanonical_version_loses_data [OF _ capital_valid _ capital_name d _ example_meta_ordinary dist example_sort
        example_codec z' buf _ _ _ _ _ _ example_uuid uv u, of Map.empty "\<lambda>_. None" "''b''" "''o''"]
      msgp32_laws example_empty
    by (auto simp: example_msgp example_time capital_fields bytes_string_def)
  then show ?thesis by (intro exI conjI, assumption) (simp_all add: read_info_def capital_info_def example_dist)
qed

section \<open>Listing and updating\<close>

lemma number_versions_nth:
  "i < length fis \<Longrightarrow> number_versions fis ! i =
     (fis ! i)\<lparr>fi_NumVersions := int (length fis), fi_IsLatest := (i = 0 \<or> fi_IsLatest (fis ! i)),
        fi_SuccessorModTime := (if i > 0 then fi_ModTime (fis ! (i - 1)) else fi_SuccessorModTime (fis ! i))\<rparr>"
  by (simp only: number_versions_def nth_map length_upt diff_zero nth_upt add_0)

lemma length_number_versions [simp]: "length (number_versions fis) = length fis"
  by (simp add: number_versions_def)

lemma number_versions_time: "i < length fis \<Longrightarrow> fi_ModTime (number_versions fis ! i) = fi_ModTime (fis ! i)"
  by (simp add: number_versions_nth)

lemma ListVersions_entries:
  assumes "journal_ok (x_Versions z)" "sort_laws L" "x_Versions z \<noteq> []"
  obtains fis vs where "ListVersions L z volume path = Some (Inr (fis, fi_ModTime (hd fis)))"
    "mset vs = mset (x_Versions z)" "length fis = length vs"
    "\<And>i. i < length fis \<Longrightarrow> \<exists>fi0 t. Version_ToFileInfo L volume path (vs ! i) = Some (Inr fi0) \<and>
       fis ! i = fi0\<lparr>fi_NumVersions := int (length fis), fi_IsLatest := (i = 0), fi_SuccessorModTime := t\<rparr> \<and>
       (0 < i \<longrightarrow> t = fi_ModTime (fis ! (i - 1)) \<and> fi_ModTime (fis ! i) \<le> t)"
    "\<And>i. i < length fis \<Longrightarrow> fi_ModTime (fis ! i) \<le> fi_ModTime (hd fis)"
proof -
  obtain fis where fis: "list_all2 (\<lambda>v fi. Version_ToFileInfo L volume path v = Some (Inr fi)) (x_Versions z) fis"
    "ListVersions L z volume path =
       Some (Inr (number_versions (sort_infos L fis), fi_ModTime (hd (number_versions (sort_infos L fis)))))"
    "mset (sort_infos L fis) = mset fis" "sorted_wrt (\<lambda>a b. fi_ModTime b \<le> fi_ModTime a) (sort_infos L fis)"
    "\<forall>fi \<in> set fis. \<not> fi_IsLatest fi"
    using ListVersions_result [OF assms] by blast
  let ?s = "sort_infos L fis"
  let ?n = "number_versions ?s"
  have "list_all2 (\<lambda>fi v. Version_ToFileInfo L volume path v = Some (Inr fi)) fis (x_Versions z)"
    using fis(1) by (simp add: list_all2_conv_all_nth)
  from list_all2_reorder_left_invariance [OF this fis(3)]
  obtain vs where vs: "list_all2 (\<lambda>v fi. Version_ToFileInfo L volume path v = Some (Inr fi)) vs ?s"
      "mset vs = mset (x_Versions z)" by (auto simp: list_all2_conv_all_nth)
  have len: "length ?s = length vs" using list_all2_lengthD [OF vs(1)] by simp
  have "set ?s = set fis" using fis(3) by (metis set_mset_mset)
  then have plain: "\<not> fi_IsLatest (?s ! i)" if "i < length ?s" for i using fis(5) that by (metis nth_mem)
  show thesis
  proof (rule that [OF fis(2) vs(2)])
    show "length ?n = length vs" using len by simp
  next
    fix i assume "i < length ?n"
    then have i: "i < length ?s" by simp
    let ?t = "if i > 0 then fi_ModTime (?s ! (i - 1)) else fi_SuccessorModTime (?s ! i)"
    have "Version_ToFileInfo L volume path (vs ! i) = Some (Inr (?s ! i))" using vs(1) i by (simp add: list_all2_conv_all_nth)
    moreover have "?n ! i = (?s ! i)\<lparr>fi_NumVersions := int (length ?n), fi_IsLatest := (i = 0), fi_SuccessorModTime := ?t\<rparr>"
      using plain [OF i] i by (simp add: number_versions_nth)
    moreover have "0 < i \<longrightarrow> ?t = fi_ModTime (?n ! (i - 1)) \<and> fi_ModTime (?n ! i) \<le> ?t"
      using i fis(4) by (simp add: number_versions_time sorted_wrt_iff_nth_less)
    ultimately show "\<exists>fi0 t. Version_ToFileInfo L volume path (vs ! i) = Some (Inr fi0) \<and>
        ?n ! i = fi0\<lparr>fi_NumVersions := int (length ?n), fi_IsLatest := (i = 0), fi_SuccessorModTime := t\<rparr> \<and>
        (0 < i \<longrightarrow> t = fi_ModTime (?n ! (i - 1)) \<and> fi_ModTime (?n ! i) \<le> t)" by blast
    have "0 < length ?s" using i by linarith
    note zero = number_versions_time [OF this]
    have "hd ?n = ?n ! 0" using i by (subst hd_conv_nth) (auto simp flip: length_0_conv)
    then show "fi_ModTime (?n ! i) \<le> fi_ModTime (hd ?n)"
      using sorted_wrt_nth_less [OF fis(4), of 0 i] i
      by (cases "i = 0") (auto simp: number_versions_time zero)
  qed
qed



text \<open>
  Updating metadata. \<^verbatim>\<open>UpdateObjectVersion\<close> changes the version that it names and no other. But it refuses the
  request when any delete marker stands before that version in the journal, so that the metadata of an
  object that was written after a delete marker cannot be changed.
\<close>
theorem UpdateObjectVersion_at_marker:
  assumes "journal_ok (x_Versions z)" "x_Versions z = vs @ v # ws" "version_case v = CaseObject ob"
    "version_key v = uv" "names_version L (fi_VersionID fi) uv"
  shows "UpdateObjectVersion L fi meta z =
    (if \<exists>w \<in> set vs. \<exists>d. version_case w = CaseDelete d then Some (Inl XLMethodNotAllowed)
     else Some (Inr (z\<lparr>x_Versions := vs @ v\<lparr>v_ObjectV2 := Some (update_object fi meta ob)\<rparr> # ws\<rparr>)))"
proof -
  let ?vid = "inline_name fi"
  have n: "names_version L ?vid uv" by (rule inline_name_names [OF assms(5)])
  have ne: "?vid \<noteq> ''''" by (simp add: inline_name_def nullVersionID_def)
  note U = UpdateObjectVersion_def [of L fi meta z, unfolded Let_def inline_name_def [symmetric], unfolded names_version_parse [OF n]]
  show ?thesis
  proof (cases "\<exists>w \<in> set vs. \<exists>d. version_case w = CaseDelete d")
    case True
    then obtain as w bs d where w: "vs = as @ w # bs" "version_case w = CaseDelete d" by (metis in_set_conv_decomp)
    have "uv \<notin> version_key ` set as" using assms(1,2,4) w(1) by (auto simp: journal_ok_def)
    then have "update_loop fi meta ?vid uv [] (as @ w # (bs @ v # ws)) = Some (Inl XLMethodNotAllowed)"
      using update_loop_marker [OF _ w(2) _ ne n] assms(1,2) w(1) by simp
    then show ?thesis using True assms(2) w(1) by (simp add: U)
  next
    case False
    then have "update_loop fi meta ?vid uv [] (vs @ v # ws) =
        Some (Inr (vs @ v\<lparr>v_ObjectV2 := Some (update_object fi meta ob)\<rparr> # ws))"
      using update_loop_object [OF _ assms(3,4) _ ne n] assms(1,2) by auto
    then show ?thesis using False assms(2) by (simp add: U)
  qed
qed

definition marker_entry :: xlMetaV2Version where
  "marker_entry = no_version\<lparr>v_Type := DeleteType,
     v_DeleteMarker := Some \<lparr>dm_VersionID = replicate 16 1, dm_ModTime = 3, dm_MetaSys = Some []\<rparr>\<rparr>"

theorem UpdateObjectVersion_at_marker_witness:
  "UpdateObjectVersion example_libs zero_file_info [] \<lparr>x_Versions = [marker_entry, example_entry], x_data = []\<rparr> =
     Some (Inl XLMethodNotAllowed)"
proof -
  have c: "version_case marker_entry = CaseDelete \<lparr>dm_VersionID = replicate 16 1, dm_ModTime = 3, dm_MetaSys = Some []\<rparr>"
    by (simp add: marker_entry_def version_case_def no_version_def)
  have "version_ok marker_entry" using c by (simp add: version_ok_def Version_Valid_def marker_entry_def no_version_def)
  then have "journal_ok [marker_entry, example_entry]"
    using example_entry_ok replicate_bytes by (simp add: version_key_def c) (simp add: flip: version_key_def add: other_key)
  moreover have "version_case example_entry = CaseObject (object_entry zero_uuid zero_uuid example_info example_meta)"
    by (simp add: example_entry_def version_entry_case example_time)
  ultimately show ?thesis
    using UpdateObjectVersion_at_marker [of "\<lparr>x_Versions = [marker_entry, example_entry], x_data = []\<rparr>" "[marker_entry]"
        example_entry "[]" _ zero_uuid example_libs zero_file_info "[]"] zero_info(4) c
    by (simp add: other_key zero_uuid_def)
qed

end
