(* ===== verification/Go_Files.thy ===== *)
theory Go_Files
  imports Go_Path Go_Ints "HOL-Library.AList"
begin

text \<open>
  The files that the package \<^verbatim>\<open>os\<close> works on: a tree of files and directories by their paths, without symbolic links,
  and the calls of the package that the sources use. Every call that changes the tree may fail.
\<close>

section \<open>The tree\<close>

text \<open>The error numbers of the system calls that the sources tell apart.\<close>

datatype errno =
  ENOENT | EACCES | EPERM | EEXIST | ENOTDIR | EISDIR | EINVAL | ENOSPC | EIO | ENOTEMPTY | EXDEV | EMFILE | ENFILE | EBUSY
| ENAMETOOLONG

datatype node = File "8 word list" | Directory

type_synonym fpath = "string list"

type_synonym tree = "(fpath \<times> node) list"

text \<open>The elements of an absolute path. Without symbolic links the kernel finds the same file as for the cleaned path.\<close>

definition elements :: "string \<Rightarrow> fpath" where
  "elements p = clean_components True p"

text \<open>The root is always there.\<close>

definition look :: "tree \<Rightarrow> fpath \<Rightarrow> node option" where
  "look t p = (if p = [] then Some Directory else map_of t p)"

definition put_node :: "fpath \<Rightarrow> node \<Rightarrow> tree \<Rightarrow> tree" where
  "put_node p n t = AList.update p n t"

definition drop_node :: "fpath \<Rightarrow> tree \<Rightarrow> tree" where
  "drop_node p t = filter (\<lambda>(q, _). q \<noteq> p) t"

definition drop_below :: "fpath \<Rightarrow> tree \<Rightarrow> tree" where
  "drop_below p t = filter (\<lambda>(q, _). \<not> prefix p q) t"

definition move_below :: "fpath \<Rightarrow> fpath \<Rightarrow> tree \<Rightarrow> tree" where
  "move_below s d t =
     map (\<lambda>(q, n). (if prefix s q then d @ drop (length s) q else q, n)) (drop_below d t)"

text \<open>The names in a directory, in the order in which it has them.\<close>

definition names_in :: "fpath \<Rightarrow> tree \<Rightarrow> string list" where
  "names_in p t = map (\<lambda>(q, _). last q) (filter (\<lambda>(q, _). q \<noteq> [] \<and> butlast q = p) t)"

text \<open>The error of a path one of whose parents is missing or is no directory.\<close>

fun walk :: "tree \<Rightarrow> fpath \<Rightarrow> fpath \<Rightarrow> errno option" where
  "walk t pre [] = None"
| "walk t pre [x] = None"
| "walk t pre (x # y # ys) =
     (case look t (pre @ [x]) of
        None \<Rightarrow> Some ENOENT
      | Some (File _) \<Rightarrow> Some ENOTDIR
      | Some Directory \<Rightarrow> walk t (pre @ [x]) (y # ys))"

definition node_at :: "tree \<Rightarrow> string \<Rightarrow> errno + node" where
  "node_at t p =
     (case walk t [] (elements p) of
        Some e \<Rightarrow> Inl e
      | None \<Rightarrow>
          (case look t (elements p) of
             None \<Rightarrow> Inl ENOENT
           | Some (File b) \<Rightarrow> if HasSuffix p ''/'' then Inl ENOTDIR else Inr (File b)
           | Some Directory \<Rightarrow> Inr Directory))"

section \<open>Calls that change the tree\<close>

text \<open>
  A call that changes the tree may fail for reasons outside the model: \<open>faults\<close> lists what happens to the next
  calls, which all work when it is empty. A write may store a part of the bytes before it fails. \<open>drawn\<close>
  counts the random names that were drawn.
\<close>

datatype fault = Works | Fails errno | Short nat errno

record disk =
  files :: tree
  faults :: "fault list"
  drawn :: nat

definition next_fault :: "disk \<Rightarrow> fault \<times> disk" where
  "next_fault d = (case faults d of [] \<Rightarrow> (Works, d) | f # fs \<Rightarrow> (f, d\<lparr>faults := fs\<rparr>))"

definition change :: "(tree \<Rightarrow> errno + tree) \<Rightarrow> disk \<Rightarrow> errno option \<times> disk" where
  "change op d =
     (case next_fault d of
        (Works, d') \<Rightarrow> (case op (files d') of Inl e \<Rightarrow> (Some e, d') | Inr t \<Rightarrow> (None, d'\<lparr>files := t\<rparr>))
      | (Fails e, d') \<Rightarrow> (Some e, d')
      | (Short _ e, d') \<Rightarrow> (Some e, d'))"

text \<open>\<^verbatim>\<open>os.MkdirAll\<close>: the missing directories, from the root on.\<close>

fun mkdirs :: "fpath \<Rightarrow> fpath \<Rightarrow> disk \<Rightarrow> errno option \<times> disk" where
  "mkdirs pre [] d = (None, d)"
| "mkdirs pre (x # xs) d =
     (case look (files d) (pre @ [x]) of
        Some Directory \<Rightarrow> mkdirs (pre @ [x]) xs d
      | Some (File _) \<Rightarrow> (Some ENOTDIR, d)
      | None \<Rightarrow>
          (case change (\<lambda>t. Inr (put_node (pre @ [x]) Directory t)) d of
             (None, d') \<Rightarrow> mkdirs (pre @ [x]) xs d'
           | (Some e, d') \<Rightarrow> (Some e, d')))"

definition os_MkdirAll :: "string \<Rightarrow> disk \<Rightarrow> errno option \<times> disk" where
  "os_MkdirAll p d = mkdirs [] (elements p) d"

text \<open>The system call behind \<^verbatim>\<open>os.Rename\<close>.\<close>

definition rename_call :: "string \<Rightarrow> string \<Rightarrow> tree \<Rightarrow> errno + tree" where
  "rename_call src dst t =
     (let s = elements src; d = elements dst
      in case walk t [] s of
           Some e \<Rightarrow> Inl e
         | None \<Rightarrow>
             (case walk t [] d of
                Some e \<Rightarrow> Inl e
              | None \<Rightarrow>
                  (case node_at t src of
                     Inl e \<Rightarrow> Inl e
                   | Inr n \<Rightarrow>
                       if s = d then Inr t
                       else if prefix s d then Inl EINVAL
                       else
                         (case (n, look t d) of
                            (Directory, Some (File _)) \<Rightarrow> Inl ENOTDIR
                          | _ \<Rightarrow> Inr (move_below s d t)))))"

text \<open>\<^verbatim>\<open>os.Rename\<close> refuses to replace a directory.\<close>

definition os_Rename :: "string \<Rightarrow> string \<Rightarrow> disk \<Rightarrow> errno option \<times> disk" where
  "os_Rename src dst d =
     (case node_at (files d) dst of
        Inr Directory \<Rightarrow>
          (case node_at (files d) src of
             Inl e \<Rightarrow> (Some e, d)
           | Inr _ \<Rightarrow>
               if src = dst \<or> elements src \<noteq> elements dst then (Some EEXIST, d)
               else change (rename_call src dst) d)
      | _ \<Rightarrow> change (rename_call src dst) d)"

text \<open>\<^verbatim>\<open>os.Remove\<close> takes a file or an empty directory.\<close>

definition remove_call :: "string \<Rightarrow> tree \<Rightarrow> errno + tree" where
  "remove_call p t =
     (case node_at t p of
        Inl e \<Rightarrow> Inl e
      | Inr n \<Rightarrow>
          if elements p = [] then Inl EBUSY
          else if n = Directory \<and> names_in (elements p) t \<noteq> [] then Inl ENOTEMPTY
          else Inr (drop_node (elements p) t))"

definition os_Remove :: "string \<Rightarrow> disk \<Rightarrow> errno option \<times> disk" where
  "os_Remove p d = change (remove_call p) d"

text \<open>\<^verbatim>\<open>os.RemoveAll\<close>: a missing path is no error. A call that fails leaves the tree.\<close>

definition remove_all_call :: "string \<Rightarrow> tree \<Rightarrow> errno + tree" where
  "remove_all_call p t =
     (case node_at t p of
        Inl ENOENT \<Rightarrow> Inr t
      | Inl e \<Rightarrow> Inl e
      | Inr _ \<Rightarrow> if elements p = [] then Inl EBUSY else Inr (drop_below (elements p) t))"

definition os_RemoveAll :: "string \<Rightarrow> disk \<Rightarrow> errno option \<times> disk" where
  "os_RemoveAll p d = change (remove_all_call p) d"

text \<open>
  \<^verbatim>\<open>os.OpenFile\<close> for writing with \<^verbatim>\<open>O_CREATE\<close> and, as the flags say, \<^verbatim>\<open>O_TRUNC\<close>, \<^verbatim>\<open>O_EXCL\<close> or \<^verbatim>\<open>O_APPEND\<close>.
\<close>

datatype open_flag = O_TRUNC | O_EXCL | O_APPEND

definition create_call :: "open_flag \<Rightarrow> string \<Rightarrow> tree \<Rightarrow> errno + tree" where
  "create_call flag p t =
     (case walk t [] (elements p) of
        Some e \<Rightarrow> Inl e
      | None \<Rightarrow>
          if HasSuffix p ''/'' then Inl EISDIR
          else
            (case look t (elements p) of
               None \<Rightarrow> Inr (put_node (elements p) (File []) t)
             | Some Directory \<Rightarrow> Inl (if flag = O_EXCL then EEXIST else EISDIR)
             | Some (File b) \<Rightarrow>
                 (case flag of
                    O_EXCL \<Rightarrow> Inl EEXIST
                  | O_TRUNC \<Rightarrow> Inr (put_node (elements p) (File []) t)
                  | O_APPEND \<Rightarrow> Inr t)))"

definition os_Create :: "open_flag \<Rightarrow> string \<Rightarrow> disk \<Rightarrow> errno option \<times> disk" where
  "os_Create flag p d = change (create_call flag p) d"

text \<open>Writing at the end of an open file.\<close>

definition append_bytes :: "fpath \<Rightarrow> 8 word list \<Rightarrow> tree \<Rightarrow> tree" where
  "append_bytes p b t =
     (case look t p of
        Some (File old) \<Rightarrow> put_node p (File (old @ b)) t
      | _ \<Rightarrow> t)"

definition os_Write :: "string \<Rightarrow> 8 word list \<Rightarrow> disk \<Rightarrow> errno option \<times> disk" where
  "os_Write p b d =
     (case next_fault d of
        (Works, d') \<Rightarrow> (None, d'\<lparr>files := append_bytes (elements p) b (files d')\<rparr>)
      | (Fails e, d') \<Rightarrow> (Some e, d')
      | (Short n e, d') \<Rightarrow> (Some e, d'\<lparr>files := append_bytes (elements p) (take n b) (files d')\<rparr>))"

end
