(* ===== verification/Path_Facts.thy ===== *)
theory Path_Facts
  imports File_Info_Facts
begin

text \<open>
  The elements of a cleaned path, absolute or relative, and of its parent.
\<close>

section \<open>Parents of a path\<close>

text \<open>A cleaned relative path climbs first and then descends.\<close>

definition relative_clean :: "string list \<Rightarrow> bool" where
  "relative_clean cs \<longleftrightarrow> list_all (\<lambda>c. c = ''..'' \<or> clean_name c) cs \<and> sorted_wrt (\<lambda>a b. b = ''..'' \<longrightarrow> a = ''..'') cs"

lemma relative_clean_snoc:
  "relative_clean (cs @ [c]) \<longleftrightarrow> relative_clean cs \<and> (c = ''..'' \<and> (\<forall>a \<in> set cs. a = ''..'') \<or> c \<noteq> ''..'' \<and> clean_name c)"
  by (auto simp: relative_clean_def sorted_wrt_append)

lemma clean_step_relative:
  assumes "relative_clean (rev stack)" "CHR ''/'' \<notin> set c"
  shows "relative_clean (rev (clean_step False stack c))"
proof (cases "c = '''' \<or> c = ''.''")
  case False
  show ?thesis
  proof (cases "c = ''..''")
    case True
    show ?thesis
    proof (cases stack)
      case (Cons t ts)
      then have t: "relative_clean (rev ts @ [t])" using assms by simp
      show ?thesis
      proof (cases "t = ''..''")
        case True
        then have "\<forall>a \<in> set (rev ts @ [t]). a = ''..''" using t by (auto simp: relative_clean_snoc)
        then show ?thesis using t True Cons \<open>c = ''..''\<close> relative_clean_snoc [of "rev ts @ [t]" "''..''"]
          by (simp add: clean_step_def)
      qed (use t Cons \<open>c = ''..''\<close> in \<open>auto simp: clean_step_def relative_clean_snoc\<close>)
    qed (simp add: clean_step_def True relative_clean_def)
  next
    case notup: False
    then have "clean_name c" using False assms(2) by (simp add: clean_name_def)
    then show ?thesis using assms(1) False notup by (simp add: clean_step_def relative_clean_snoc)
  qed
qed (use assms in \<open>auto simp: clean_step_def\<close>)

lemma clean_components_relative: "relative_clean (clean_components False p)"
proof -
  have "relative_clean (rev (foldl (clean_step False) stack cs))"
    if "relative_clean (rev stack)" "\<forall>c \<in> set cs. CHR ''/'' \<notin> set c" for stack cs
    using that by (induction cs arbitrary: stack) (simp_all add: clean_step_relative)
  from this [of "[]"] show ?thesis
    unfolding clean_components_def by (simp add: relative_clean_def split_byte_no_sep)
qed

lemma foldl_clean_step_relative: "relative_clean cs \<Longrightarrow> foldl (clean_step False) [] cs = rev cs"
proof (induction cs rule: rev_induct)
  case (snoc c cs)
  then have s: "foldl (clean_step False) [] cs = rev cs" by (simp add: relative_clean_snoc)
  show ?case
  proof (cases "c = ''..''")
    case True
    then have "\<forall>a \<in> set cs. a = ''..''" using snoc.prems by (auto simp: relative_clean_snoc)
    then have "clean_step False (rev cs) ''..'' = ''..'' # rev cs" by (cases "rev cs") (auto simp: clean_step_def dest: arg_cong [of _ _ set])
    then show ?thesis using s True by simp
  next
    case False
    then show ?thesis using snoc.prems s by (simp add: relative_clean_snoc clean_step_name)
  qed
qed simp

text \<open>The elements of a cleaned path, absolute or relative.\<close>

definition path_elements :: "string \<Rightarrow> string list" where
  "path_elements p = clean_components (HasPrefix p ''/'') p"

lemma path_elements_no_slash:
  assumes "c \<in> set (path_elements p)"
  shows "CHR ''/'' \<notin> set c \<and> c \<noteq> ''''"
proof -
  have "c = ''..'' \<or> clean_name c"
  proof (cases "HasPrefix p ''/''")
    case True
    then have "c \<in> set (clean_components True p)" using assms by (simp add: path_elements_def)
    then show ?thesis using clean_components_rooted [of p] unfolding list_all_iff by blast
  next
    case False
    then have "c \<in> set (clean_components False p)" using assms by (simp add: path_elements_def)
    then show ?thesis using clean_components_relative [of p] unfolding relative_clean_def list_all_iff by blast
  qed
  then show ?thesis
  proof
    assume "c = ''..''"
    then show ?thesis by simp
  qed (simp add: clean_name_def)
qed

lemma join_byte_hd:
  assumes "cs \<noteq> []" "\<forall>c \<in> set cs. CHR ''/'' \<notin> set c \<and> c \<noteq> ''''"
  shows "\<not> HasPrefix (join_byte CHR ''/'' cs) ''/''"
proof (cases cs)
  case (Cons c ds)
  then obtain x xs where "c = x # xs" "x \<noteq> CHR ''/''" using assms(2) by (cases c) auto
  then show ?thesis using Cons by (cases ds) auto
qed (use assms in simp)

lemma path_Clean_elements:
  "HasPrefix (path_Clean p) ''/'' = HasPrefix p ''/''" "path_elements (path_Clean p) = path_elements p"
proof -
  let ?cs = "clean_components False p"
  show r: "HasPrefix (path_Clean p) ''/'' = HasPrefix p ''/''"
    using join_byte_hd [of ?cs] path_elements_no_slash [of _ p]
    by (auto simp: path_Clean_def Let_def path_elements_def)
  show "path_elements (path_Clean p) = path_elements p"
  proof (cases "HasPrefix p ''/''")
    case True
    then show ?thesis using r clean_components_Clean by (simp add: path_elements_def)
  next
    case False
    have "clean_components False (path_Clean p) = ?cs"
    proof (cases "?cs = []")
      case True
      then show ?thesis using False by (simp add: path_Clean_def Let_def) (simp add: clean_components_def clean_step_def)
    next
      case ne: False
      have "split_byte CHR ''/'' (join_byte CHR ''/'' ?cs) = ?cs"
        using ne path_elements_no_slash [of _ p] False by (intro split_join_byte) (auto simp: path_elements_def)
      then show ?thesis
        using False ne foldl_clean_step_relative [OF clean_components_relative [of p]]
        by (simp add: path_Clean_def Let_def) (simp add: clean_components_def [of False "join_byte _ _"])
    qed
    then show ?thesis using False r by (simp add: path_elements_def)
  qed
qed

lemma dir_part_slash: "CHR ''/'' \<notin> set c \<Longrightarrow> rev (dropWhile (\<lambda>x. x \<noteq> CHR ''/'') (rev (a @ CHR ''/'' # c))) = a @ ''/''"
proof -
  assume "CHR ''/'' \<notin> set c"
  then have "dropWhile (\<lambda>x. x \<noteq> CHR ''/'') (rev c @ CHR ''/'' # rev a) = CHR ''/'' # rev a"
    by (subst dropWhile_append2) auto
  then show ?thesis by simp
qed

lemma dir_part_none: "CHR ''/'' \<notin> set c \<Longrightarrow> dropWhile (\<lambda>x. x \<noteq> CHR ''/'') (rev c) = []"
  by (auto simp: dropWhile_eq_Nil_conv)

lemma join_byte_snoc: "ds \<noteq> [] \<Longrightarrow> join_byte x (ds @ [c]) = join_byte x ds @ x # c"
  by (induction x ds rule: join_byte.induct) auto

lemma clean_components_slash: "clean_components r (a @ ''/'') = clean_components r a"
  using split_byte_append_sep [of "CHR ''/''" a "[]"] by (simp add: clean_components_def clean_step_def)

text \<open>\<^verbatim>\<open>path.Dir\<close> of a cleaned path takes its last element away.\<close>

lemma path_Dir_elements:
  assumes "path_elements p \<noteq> []"
  shows "path_elements (path_Dir (path_Clean p)) = butlast (path_elements p)"
    "HasPrefix (path_Dir (path_Clean p)) ''/'' = HasPrefix p ''/''"
proof -
  obtain ds c where dc: "path_elements p = ds @ [c]" using assms rev_exhaust by blast
  have c: "CHR ''/'' \<notin> set c" using path_elements_no_slash [of c p] dc by simp
  define q where "q = rev (dropWhile (\<lambda>x. x \<noteq> CHR ''/'') (rev (path_Clean p)))"
  have q: "path_elements q = ds \<and> HasPrefix q ''/'' = HasPrefix p ''/''"
  proof (cases "HasPrefix p ''/''")
    case True
    then have P: "path_Clean p = CHR ''/'' # join_byte CHR ''/'' (ds @ [c])" using dc by (simp add: path_Clean_def Let_def path_elements_def)
    have q: "q = CHR ''/'' # (if ds = [] then '''' else join_byte CHR ''/'' ds @ ''/'')"
      using dir_part_slash [OF c, of "[]"] dir_part_slash [OF c, of "CHR ''/'' # join_byte CHR ''/'' ds"] P
      by (auto simp: q_def join_byte_snoc)
    have names: "list_all clean_name ds" using clean_components_rooted [of p] dc True by (simp add: path_elements_def)
    have "clean_components True q = ds"
      using clean_components_join [OF names] clean_components_slash [of True "CHR ''/'' # join_byte CHR ''/'' ds"]
      by (auto simp: q)
    then show ?thesis using q True by (simp add: path_elements_def)
  next
    case False
    then have P: "path_Clean p = join_byte CHR ''/'' (ds @ [c])" using dc by (simp add: path_Clean_def Let_def path_elements_def)
    have rel: "relative_clean ds"
      using clean_components_relative [of p] dc False by (simp add: path_elements_def relative_clean_snoc)
    show ?thesis
    proof (cases "ds = []")
      case True
      then have "q = ''''" using P dir_part_none [OF c] by (simp add: q_def)
      then show ?thesis using True False by (simp add: path_elements_def clean_components_def clean_step_def)
    next
      case ne: False
      then have q: "q = join_byte CHR ''/'' ds @ ''/''"
        using P dir_part_slash [OF c, of "join_byte CHR ''/'' ds"] by (simp add: q_def join_byte_snoc)
      have ns: "\<forall>c \<in> set ds. CHR ''/'' \<notin> set c \<and> c \<noteq> ''''" using path_elements_no_slash [of _ p] dc by auto
      have "clean_components False (join_byte CHR ''/'' ds) = ds"
        using split_join_byte [of ds "CHR ''/''"] ne ns foldl_clean_step_relative [OF rel] by (simp add: clean_components_def)
      moreover have "\<not> HasPrefix q ''/''"
        using join_byte_hd [OF ne ns] ne ns by (cases "join_byte CHR ''/'' ds") (auto simp: q elim: join_byte.elims)
      ultimately show ?thesis using False q clean_components_slash by (simp add: path_elements_def)
    qed
  qed
  have "path_Dir (path_Clean p) = path_Clean q" by (simp add: path_Dir_def q_def)
  then show "path_elements (path_Dir (path_Clean p)) = butlast (path_elements p)"
    "HasPrefix (path_Dir (path_Clean p)) ''/'' = HasPrefix p ''/''"
    using q dc path_Clean_elements [of q] by simp_all
qed

text \<open>A path without elements is within no other directory.\<close>

lemma storagePathWithin_root:
  assumes "storagePathWithin base p" "path_elements p = []"
  shows "path_Clean base = path_Clean p"
proof (rule ccontr)
  assume ne: "path_Clean base \<noteq> path_Clean p"
  define bs where "bs = clean_components (HasPrefix base ''/'') base"
  have same: "HasPrefix base ''/'' = HasPrefix p ''/''"
    using assms(1) ne by (auto simp: storagePathWithin_def filepath_Rel_def Let_def split: if_splits)
  have "bs \<noteq> []" using ne same assms(2) by (auto simp: path_Clean_def Let_def bs_def path_elements_def)
  then obtain b bs' where b: "bs = b # bs'" by (cases bs) auto
  have dot: "b \<noteq> ''.''"
    using clean_components_rooted [of base] clean_components_relative [of base] b bs_def
    by (cases "HasPrefix base ''/''") (auto simp: clean_name_def relative_clean_def)
  show False
  proof (cases "HasPrefix p ''/''")
    case True
    have "b \<noteq> ''..''" using clean_components_rooted [of base] b bs_def same True by (auto simp: clean_name_def)
    then show False
      using assms True same ne b bs_def [symmetric]
      by (cases bs') (auto simp: storagePathWithin_def filepath_Rel_def Let_def path_elements_def split: if_splits)
  next
    case False
    then show False
      using assms same ne b dot bs_def [symmetric]
      by (cases "b = ''..''"; cases bs')
        (auto simp: storagePathWithin_def filepath_Rel_def Let_def path_elements_def split: if_splits)
  qed
qed

lemma path_Clean_cong: "HasPrefix p ''/'' = HasPrefix q ''/'' \<Longrightarrow> path_elements p = path_elements q \<Longrightarrow> path_Clean p = path_Clean q"
  by (cases "HasPrefix q ''/''") (simp_all add: path_Clean_def path_elements_def Let_def)

lemma path_Clean_Clean: "path_Clean (path_Clean p) = path_Clean p"
  by (rule path_Clean_cong) (simp_all add: path_Clean_elements)

lemma path_Dir_shorter:
  assumes "storagePathWithin (path_Clean b) (path_Clean p)" "path_Clean p \<noteq> path_Clean b"
  shows "length (path_elements (path_Dir (path_Clean p))) < length (path_elements p)"
proof -
  have "path_elements p \<noteq> []"
    using storagePathWithin_root [OF assms(1)] assms(2) path_Clean_elements(2) [of p] path_Clean_Clean by metis
  then show ?thesis by (simp add: path_Dir_elements(1))
qed

end
