(* ===== verification/XL_Drive.thy ===== *)
theory XL_Drive
  imports XL_Journal Erasure_Metadata
begin

text \<open>
  The operations of a drive on the metadata of an object, \<^verbatim>\<open>cmd/xl-storage.go\<close>: they read the file \<^verbatim>\<open>xl.meta\<close>, apply
  an operation of the journal and write the file again, and move the data of a deleted version away. The
  operations on files that they call are parameters; a drive is the state of type \<open>'d\<close> that these change.
\<close>

section \<open>Errors\<close>

definition errFileNotFound :: go_error where
  "errFileNotFound = StorageErr ''file not found''"

definition errFileVersionNotFound :: go_error where
  "errFileVersionNotFound = StorageErr ''file version not found''"

definition errFileAccessDenied :: go_error where
  "errFileAccessDenied = StorageErr ''file access denied''"

definition errFileCorrupt :: go_error where
  "errFileCorrupt = StorageErr ''file is corrupted''"

definition errFileNameTooLong :: go_error where
  "errFileNameTooLong = StorageErr ''file name too long''"

definition errVolumeNotFound :: go_error where
  "errVolumeNotFound = StorageErr ''volume not found''"

definition errMethodNotAllowed :: go_error where
  "errMethodNotAllowed = ErrorVar ''errMethodNotAllowed''"

definition errInvalidArgument :: go_error where
  "errInvalidArgument = ErrorVar ''errInvalidArgument''"

definition storage_go_error :: "storage_error \<Rightarrow> go_error" where
  "storage_go_error e = (case e of FileAccessDenied \<Rightarrow> errFileAccessDenied | FileCorrupt \<Rightarrow> errFileCorrupt)"

text \<open>The errors that the journal makes with \<^verbatim>\<open>errors.New\<close> or \<^verbatim>\<open>fmt.Errorf\<close>, which nobody compares, are named alike.\<close>

definition xl_go_error :: "xl_error \<Rightarrow> go_error" where
  "xl_go_error e =
     (case e of
        XLStorage s \<Rightarrow> storage_go_error s
      | XLCorrupt \<Rightarrow> errFileCorrupt
      | XLMethodNotAllowed \<Rightarrow> errMethodNotAllowed
      | XLVersionNotFound \<Rightarrow> errFileVersionNotFound
      | XLNotFound \<Rightarrow> errFileNotFound
      | _ \<Rightarrow> ErrorVar ''xl.meta'')"

section \<open>Paths\<close>

definition pathJoin :: "string list \<Rightarrow> string" where
  "pathJoin elem =
     path_Join elem @ (if elem \<noteq> [] \<and> HasSuffix (last elem) ''/'' then ''/'' else '''')"

definition retainSlash :: "string \<Rightarrow> string" where
  "retainSlash s = (if s = '''' then s else (if HasSuffix s ''/'' then s else s @ ''/''))"

text \<open>On Unix; a rune is counted, whatever its width is.\<close>

fun path_segments_ok :: "nat \<Rightarrow> rune list \<Rightarrow> bool" where
  "path_segments_ok n [] = True"
| "path_segments_ok n (p # ps) =
     (if p = byte (CHR ''/'') then path_segments_ok 0 ps
      else if n + 1 > 255 then False
      else path_segments_ok (n + 1) ps)"

definition checkPathLength :: "string \<Rightarrow> go_error option" where
  "checkPathLength pathName =
     (if pathName = ''.'' \<or> pathName = ''..'' \<or> pathName = ''/'' then Some errFileAccessDenied
      else if path_segments_ok 0 (runes pathName) then None
      else Some errFileNameTooLong)"

definition getVolDir :: "string \<Rightarrow> string \<Rightarrow> go_error + string" where
  "getVolDir diskPath volume =
     (if volume = '''' \<or> \<not> validStoragePath volume then Inl errVolumeNotFound
      else
        (let volumeDir = pathJoin [diskPath, volume]
         in if \<not> storagePathWithin diskPath volumeDir \<or> path_Clean volumeDir = path_Clean diskPath
            then Inl errVolumeNotFound else Inr volumeDir))"

section \<open>Files of a drive\<close>

text \<open>
  What the operations on metadata call on the files of a drive, whose state is \<open>'d\<close>: whole files by volume and
  path, and by a path of the operating system.
\<close>

record 'd drive_io =
  diskPath :: string
  ReadAll :: "string \<Rightarrow> string \<Rightarrow> 'd \<Rightarrow> go_error + bytes"
  WriteAll :: "string \<Rightarrow> string \<Rightarrow> bytes \<Rightarrow> 'd \<Rightarrow> go_error option \<times> 'd"
  RenameFile :: "string \<Rightarrow> string \<Rightarrow> string \<Rightarrow> string \<Rightarrow> 'd \<Rightarrow> go_error option \<times> 'd"
  Delete :: "string \<Rightarrow> string \<Rightarrow> bool \<Rightarrow> 'd \<Rightarrow> go_error option \<times> 'd"
  deleteFile :: "string \<Rightarrow> string \<Rightarrow> bool \<Rightarrow> 'd \<Rightarrow> go_error option \<times> 'd"
  renameAll :: "string \<Rightarrow> string \<Rightarrow> 'd \<Rightarrow> go_error option \<times> 'd"
  readAllData :: "string \<Rightarrow> string \<Rightarrow> 'd \<Rightarrow> go_error + bytes"
  renameLegacyMetadata :: "string \<Rightarrow> string \<Rightarrow> 'd \<Rightarrow> go_error option \<times> 'd"

text \<open>
  What varies from call to call: whether the context is done at the two places where it is asked, and the
  random names.
\<close>

record call_env =
  ctx_before :: "go_error option"
  ctx_written :: "go_error option"
  uuid_temporary :: string
  uuid_trash :: string

definition xl_meta_of :: "string \<Rightarrow> string" where
  "xl_meta_of path = pathJoin [path, ''xl.meta'']"

definition transition_temporary :: "call_env \<Rightarrow> string \<Rightarrow> string" where
  "transition_temporary E object = pathJoin [object, ''.transition-'' @ uuid_temporary E @ ''.meta'']"

definition writeTransitionMetadata ::
  "'d drive_io \<Rightarrow> call_env \<Rightarrow> string \<Rightarrow> string \<Rightarrow> bytes \<Rightarrow> 'd \<Rightarrow> go_error option \<times> 'd" where
  "writeTransitionMetadata S E volume object data d =
     (case ctx_before E of
        Some err \<Rightarrow> (Some err, d)
      | None \<Rightarrow>
          (let temporary = transition_temporary E object;
               (err, d1) =
                 (case WriteAll S volume temporary data d of
                    (Some err, d') \<Rightarrow> (Some err, d')
                  | (None, d') \<Rightarrow>
                      (case ctx_written E of
                         Some err \<Rightarrow> (Some err, d')
                       | None \<Rightarrow> RenameFile S volume temporary volume (xl_meta_of object) d'))
           in (err, snd (Delete S volume temporary False d1))))"

definition write_meta ::
  "'d drive_io \<Rightarrow> call_env \<Rightarrow> string \<Rightarrow> string \<Rightarrow> file_info \<Rightarrow> bytes \<Rightarrow> 'd \<Rightarrow> go_error option \<times> 'd" where
  "write_meta S E volume path fi buf d =
     (if fi_TransitionStatus fi \<noteq> '''' then writeTransitionMetadata S E volume path buf d
      else WriteAll S volume (xl_meta_of path) buf d)"

section \<open>Metadata of a drive\<close>

text \<open>A panic is the outer \<^const>\<open>None\<close>.\<close>

definition WriteMetadata ::
  "xl_libs \<Rightarrow> 'd drive_io \<Rightarrow> call_env \<Rightarrow> string \<Rightarrow> string \<Rightarrow> file_info \<Rightarrow> (string \<times> string) list \<Rightarrow> 'd \<Rightarrow>
     (go_error option \<times> 'd) option" where
  "WriteMetadata L S E volume path fi meta d =
     (case validateStorageFileInfo fi True of
        Some err \<Rightarrow> Some (Some (storage_go_error err), d)
      | None \<Rightarrow>
          if \<not> validStoragePath path then Some (Some errFileAccessDenied, d)
          else
            (let use = (\<lambda>buf.
               (case (if \<not> isXL2V1Format buf then newXLMetaV2 L fi meta
                      else (case Load L buf of Inl err \<Rightarrow> Some (Inl err) | Inr z \<Rightarrow> AddVersion L fi meta z)) of
                  None \<Rightarrow> None
                | Some (Inl err) \<Rightarrow> Some (Some (xl_go_error err), d)
                | Some (Inr z) \<Rightarrow>
                    (case AppendTo L z [] of
                       Inl err \<Rightarrow> Some (Some (xl_go_error err), d)
                     | Inr buf' \<Rightarrow> Some (write_meta S E volume path fi buf' d))))
             in case ReadAll S volume (xl_meta_of path) d of
                  Inl err \<Rightarrow> if err \<noteq> errFileNotFound then Some (Some err, d) else use []
                | Inr buf \<Rightarrow> use buf))"

definition not_found_for :: "string \<Rightarrow> go_error" where
  "not_found_for versionID = (if versionID \<noteq> '''' then errFileVersionNotFound else errFileNotFound)"

definition UpdateMetadata ::
  "xl_libs \<Rightarrow> 'd drive_io \<Rightarrow> call_env \<Rightarrow> string \<Rightarrow> string \<Rightarrow> file_info \<Rightarrow> (string \<times> string) list \<Rightarrow> 'd \<Rightarrow>
     (go_error option \<times> 'd) option" where
  "UpdateMetadata L S E volume path fi meta d =
     (case validateStorageFileInfo fi False of
        Some err \<Rightarrow> Some (Some (storage_go_error err), d)
      | None \<Rightarrow>
          if \<not> validStoragePath path then Some (Some errFileAccessDenied, d)
          else if meta = [] then Some (Some errInvalidArgument, d)
          else
            (case ReadAll S volume (xl_meta_of path) d of
               Inl err \<Rightarrow> Some (Some (if err = errFileNotFound then not_found_for (fi_VersionID fi) else err), d)
             | Inr buf \<Rightarrow>
                 if \<not> isXL2V1Format buf then Some (Some errFileVersionNotFound, d)
                 else
                   (case Load L buf of
                      Inl err \<Rightarrow> Some (Some (xl_go_error err), d)
                    | Inr z \<Rightarrow>
                        (case UpdateObjectVersion L fi meta z of
                           None \<Rightarrow> None
                         | Some (Inl err) \<Rightarrow> Some (Some (xl_go_error err), d)
                         | Some (Inr z') \<Rightarrow>
                             (case AppendTo L z' [] of
                                Inl err \<Rightarrow> Some (Some (xl_go_error err), d)
                              | Inr buf' \<Rightarrow> Some (write_meta S E volume path fi buf' d))))))"

definition trash :: "'d drive_io \<Rightarrow> call_env \<Rightarrow> string" where
  "trash S E = path_Join [diskPath S, ''.otterio.sys/tmp/.trash'', uuid_trash E]"

text \<open>The end of a deletion that leaves versions: metadata first, then the data.\<close>

definition delete_commit ::
  "xl_libs \<Rightarrow> 'd drive_io \<Rightarrow> call_env \<Rightarrow> string \<Rightarrow> string \<Rightarrow> string \<Rightarrow> file_info \<Rightarrow> string \<Rightarrow> xlMetaV2 \<Rightarrow> 'd \<Rightarrow>
     go_error option \<times> 'd" where
  "delete_commit L S E volumeDir volume path fi dataDir z d =
     (let M = lib_msgp L;
          gone = (dataDir \<noteq> '''' \<and> fi_TransitionStatus fi \<noteq> ''pending'');
          versionID = (if fi_VersionID fi = '''' then nullVersionID else fi_VersionID fi);
          data1 = (if gone then snd (inline_remove M dataDir (snd (inline_remove M versionID (x_data z)))) else x_data z);
          dataPath = (if gone then pathJoin [volumeDir, path, dataDir] else '''')
      in case (if gone then checkPathLength dataPath else None) of
           Some err \<Rightarrow> (Some err, d)
         | None \<Rightarrow>
             (case AppendTo L (z\<lparr>x_data := data1\<rparr>) [] of
                Inl err \<Rightarrow> (Some (xl_go_error err), d)
              | Inr buf \<Rightarrow>
                  (case write_meta S E volume path fi buf d of
                     (Some err, d') \<Rightarrow> (Some err, d')
                   | (None, d') \<Rightarrow>
                       if dataPath \<noteq> '''' then
                         (case renameAll S dataPath (trash S E) d' of
                            (Some err, d'') \<Rightarrow> (if err \<noteq> errFileNotFound then Some err else None, d'')
                          | (None, d'') \<Rightarrow> (None, d''))
                       else (None, d'))))"

text \<open>The end of a deletion that leaves no version.\<close>

definition delete_object_files ::
  "'d drive_io \<Rightarrow> call_env \<Rightarrow> string \<Rightarrow> string \<Rightarrow> 'd \<Rightarrow> go_error option \<times> 'd" where
  "delete_object_files S E volumeDir path d =
     (let filePath = retainSlash (pathJoin [volumeDir, path])
      in case checkPathLength filePath of
           Some err \<Rightarrow> (Some err, d)
         | None \<Rightarrow>
             (let (err, d') = renameAll S filePath (trash S E) d;
                  parent = retainSlash (path_Dir (pathJoin [volumeDir, path]))
              in if parent = retainSlash volumeDir then (err, d')
                 else (err, snd (deleteFile S volumeDir parent False d'))))"

definition Drive_DeleteVersion ::
  "xl_libs \<Rightarrow> 'd drive_io \<Rightarrow> call_env \<Rightarrow> string \<Rightarrow> string \<Rightarrow> file_info \<Rightarrow> (string \<times> string) list \<Rightarrow> bool \<Rightarrow> 'd \<Rightarrow>
     (go_error option \<times> 'd) option" where
  "Drive_DeleteVersion L S E volume path fi meta forceDelMarker d =
     (case validateStorageFileInfo fi False of
        Some err \<Rightarrow> Some (Some (storage_go_error err), d)
      | None \<Rightarrow>
          if \<not> validStoragePath path then Some (Some errFileAccessDenied, d)
          else if HasSuffix path ''/'' then Some (Delete S volume path False d)
          else
            (case ReadAll S volume (xl_meta_of path) d of
               Inl err \<Rightarrow>
                 if err \<noteq> errFileNotFound then Some (Some err, d)
                 else if fi_Deleted fi \<and> forceDelMarker then WriteMetadata L S E volume path fi meta d
                 else Some (Some (not_found_for (fi_VersionID fi)), d)
             | Inr buf \<Rightarrow>
                 if buf = [] then Some (Some (not_found_for (fi_VersionID fi)), d)
                 else
                   (case getVolDir (diskPath S) volume of
                      Inl err \<Rightarrow> Some (Some err, d)
                    | Inr volumeDir \<Rightarrow>
                        if \<not> isXL2V1Format buf then
                          (if fi_TransitionStatus fi \<noteq> '''' then Some (Some errMethodNotAllowed, d)
                           else Some (deleteFile S volumeDir (pathJoin [volumeDir, path]) True d))
                        else
                          (case Load L buf of
                             Inl err \<Rightarrow> Some (Some (xl_go_error err), d)
                           | Inr z \<Rightarrow>
                               (case DeleteVersion L fi meta z of
                                  None \<Rightarrow> None
                                | Some (Inl err) \<Rightarrow> Some (Some (xl_go_error err), d)
                                | Some (Inr (dataDir, lastVersion, z')) \<Rightarrow>
                                    if \<not> lastVersion \<or> fi_TransitionStatus fi \<noteq> ''''
                                    then Some (delete_commit L S E volumeDir volume path fi dataDir z' d)
                                    else Some (delete_object_files S E volumeDir path d))))))"

text \<open>One error for every version, in the order of the calls; a panic stops the loop.\<close>

fun delete_versions_loop ::
  "xl_libs \<Rightarrow> 'd drive_io \<Rightarrow> string \<Rightarrow> (call_env \<times> file_info \<times> (string \<times> string) list) list \<Rightarrow> 'd \<Rightarrow>
     (go_error option list \<times> 'd) option" where
  "delete_versions_loop L S volume [] d = Some ([], d)"
| "delete_versions_loop L S volume ((E, fi, meta) # rest) d =
     (case Drive_DeleteVersion L S E volume (fi_Name fi) fi meta False d of
        None \<Rightarrow> None
      | Some (err, d') \<Rightarrow> map_option (apfst ((#) err)) (delete_versions_loop L S volume rest d'))"

definition Drive_DeleteVersions ::
  "xl_libs \<Rightarrow> 'd drive_io \<Rightarrow> string \<Rightarrow> (call_env \<times> file_info \<times> (string \<times> string) list) list \<Rightarrow> 'd \<Rightarrow>
     (go_error option list \<times> 'd) option" where
  "Drive_DeleteVersions L S volume versions d =
     (case (case getVolDir (diskPath S) volume of
              Inl err \<Rightarrow> Some err
            | Inr _ \<Rightarrow> map_option storage_go_error (validateStorageVersions (map (fst \<circ> snd) versions))) of
        Some err \<Rightarrow> Some (replicate (length versions) (Some err), d)
      | None \<Rightarrow> delete_versions_loop L S volume versions d)"

definition smallFileThreshold :: int where
  "smallFileThreshold = 128 * 1024"

text \<open>\<open>json\<close> decodes the old format, as in \<^const>\<open>getFileInfo\<close>; the drive may have renamed an old file.\<close>

definition read_meta ::
  "'d drive_io \<Rightarrow> string \<Rightarrow> string \<Rightarrow> string \<Rightarrow> string \<Rightarrow> 'd \<Rightarrow> (go_error + bytes) \<times> 'd" where
  "read_meta S volumeDir volume path versionID d =
     (let absent = (\<lambda>err. if err = errFileNotFound then not_found_for versionID else err)
      in case ReadAll S volume (xl_meta_of path) d of
           Inr buf \<Rightarrow> (Inr buf, d)
         | Inl err \<Rightarrow>
             if err = errFileNotFound then
               (case renameLegacyMetadata S volumeDir path d of
                  (Some err', d') \<Rightarrow> (Inl (absent err'), d')
                | (None, d') \<Rightarrow>
                    (case ReadAll S volume (xl_meta_of path) d' of
                       Inl err' \<Rightarrow> (Inl (absent err'), d')
                     | Inr buf \<Rightarrow> (Inr buf, d')))
             else (Inl err, d))"

definition ReadVersion ::
  "xl_libs \<Rightarrow> (bytes \<Rightarrow> xlMetaV1Object option) \<Rightarrow> 'd drive_io \<Rightarrow> string \<Rightarrow> string \<Rightarrow> string \<Rightarrow> bool \<Rightarrow> 'd \<Rightarrow>
     ((go_error + file_info) \<times> 'd) option" where
  "ReadVersion L json S volume path versionID readData d =
     (if \<not> validStoragePath path then Some (Inl errFileAccessDenied, d)
      else
        (case getVolDir (diskPath S) volume of
           Inl err \<Rightarrow> Some (Inl err, d)
         | Inr volumeDir \<Rightarrow>
             (case read_meta S volumeDir volume path versionID d of
                (Inl err, d') \<Rightarrow> Some (Inl err, d')
              | (Inr buf, d') \<Rightarrow>
                  if buf = [] then Some (Inl (not_found_for versionID), d')
                  else
                    (case getFileInfo L json buf volume path versionID readData of
                       None \<Rightarrow> None
                     | Some (Inl err) \<Rightarrow> Some (Inl (xl_go_error err), d')
                     | Some (Inr fi) \<Rightarrow>
                         (case validateStorageFileInfo fi True of
                            Some err \<Rightarrow> Some (Inl (storage_go_error err), d')
                          | None \<Rightarrow>
                              if readData \<and> \<not> (length (fi_Data fi) > 0 \<or> fi_Size fi = 0) \<and>
                                 fi_TransitionStatus fi = '''' \<and> fi_DataDir fi \<noteq> '''' \<and>
                                 fi_Size fi \<le> smallFileThreshold \<and> length (fi_Parts fi) = 1
                              then
                                (case readAllData S volumeDir
                                        (pathJoin [volumeDir, path, fi_DataDir fi,
                                           ''part.'' @ Itoa (op_Number (hd (fi_Parts fi)))]) d' of
                                   Inl err \<Rightarrow> Some (Inl err, d')
                                 | Inr data \<Rightarrow> Some (Inr (fi\<lparr>fi_Data := data\<rparr>), d'))
                              else Some (Inr fi, d'))))))"

end
