(* ===== verification/XL_Files.thy ===== *)
theory XL_Files
  imports Go_Files Path_Facts XL_Drive
begin

text \<open>
  The operations of a drive on files and volumes, \<^verbatim>\<open>cmd/xl-storage.go\<close> and \<^verbatim>\<open>cmd/os-reliable.go\<close>, over the calls of the
  package \<^verbatim>\<open>os\<close>, with the errors that they make of the errors of the system. They are the drive that the operations
  on metadata use.
\<close>

section \<open>Errors of the operating system\<close>

primrec errno_name :: "errno \<Rightarrow> string" where
  "errno_name ENOENT = ''ENOENT''"
| "errno_name EACCES = ''EACCES''"
| "errno_name EPERM = ''EPERM''"
| "errno_name EEXIST = ''EEXIST''"
| "errno_name ENOTDIR = ''ENOTDIR''"
| "errno_name EISDIR = ''EISDIR''"
| "errno_name EINVAL = ''EINVAL''"
| "errno_name ENOSPC = ''ENOSPC''"
| "errno_name EIO = ''EIO''"
| "errno_name ENOTEMPTY = ''ENOTEMPTY''"
| "errno_name EXDEV = ''EXDEV''"
| "errno_name EMFILE = ''EMFILE''"
| "errno_name ENFILE = ''ENFILE''"
| "errno_name EBUSY = ''EBUSY''"
| "errno_name ENAMETOOLONG = ''ENAMETOOLONG''"

definition Errno :: "errno \<Rightarrow> go_error" where
  "Errno e = ErrorVar (errno_name e)"

text \<open>
  A drive: its directory, whether it may have metadata of the old format, whether it is read with direct I/O,
  the paths that cannot be read and the random names.
\<close>

record xl_storage =
  xl_diskPath :: string
  formatLegacy :: bool
  requireDirectIO :: bool
  broken :: "string \<Rightarrow> errno option"
  random_name :: "nat \<Rightarrow> string"

text \<open>
  A \<^verbatim>\<open>*os.PathError\<close> and a \<^verbatim>\<open>*os.LinkError\<close> wrap the number. They are pointers and equal to themselves only; the
  directory of the drive tells those of different drives apart.
\<close>

definition PathError :: "xl_storage \<Rightarrow> errno \<Rightarrow> go_error" where
  "PathError C e = Wrapped (''PathError '' @ xl_diskPath C) (Errno e)"

definition LinkError :: "xl_storage \<Rightarrow> errno \<Rightarrow> go_error" where
  "LinkError C e = Wrapped (''LinkError '' @ xl_diskPath C) (Errno e)"

definition isSysErr :: "errno list \<Rightarrow> go_error \<Rightarrow> bool" where
  "isSysErr es err = list_ex (\<lambda>e. errors_Is err (Errno e)) es"

abbreviation isSysErrNoSpace :: "go_error \<Rightarrow> bool" where "isSysErrNoSpace \<equiv> isSysErr [ENOSPC]"
abbreviation isSysErrInvalidArg :: "go_error \<Rightarrow> bool" where "isSysErrInvalidArg \<equiv> isSysErr [EINVAL]"
abbreviation isSysErrIO :: "go_error \<Rightarrow> bool" where "isSysErrIO \<equiv> isSysErr [EIO]"
abbreviation isSysErrIsDir :: "go_error \<Rightarrow> bool" where "isSysErrIsDir \<equiv> isSysErr [EISDIR]"
abbreviation isSysErrNotDir :: "go_error \<Rightarrow> bool" where "isSysErrNotDir \<equiv> isSysErr [ENOTDIR]"
abbreviation isSysErrNotEmpty :: "go_error \<Rightarrow> bool" where "isSysErrNotEmpty \<equiv> isSysErr [ENOTEMPTY]"
abbreviation isSysErrCrossDevice :: "go_error \<Rightarrow> bool" where "isSysErrCrossDevice \<equiv> isSysErr [EXDEV]"
abbreviation isSysErrTooManyFiles :: "go_error \<Rightarrow> bool" where "isSysErrTooManyFiles \<equiv> isSysErr [ENFILE, EMFILE]"

text \<open>\<^verbatim>\<open>Errno.Is\<close> of the library: which numbers stand for the errors of the package \<^verbatim>\<open>os\<close>.\<close>

abbreviation osIsNotExist :: "go_error \<Rightarrow> bool" where "osIsNotExist \<equiv> isSysErr [ENOENT]"
abbreviation osIsPermission :: "go_error \<Rightarrow> bool" where "osIsPermission \<equiv> isSysErr [EACCES, EPERM]"
abbreviation osIsExist :: "go_error \<Rightarrow> bool" where "osIsExist \<equiv> isSysErr [EEXIST, ENOTEMPTY]"

definition isSysErrPathNotFound :: "go_error \<Rightarrow> bool" where
  "isSysErrPathNotFound err =
     (case err of Wrapped n e \<Rightarrow> HasPrefix n ''PathError '' \<and> e = Errno ENOENT | _ \<Rightarrow> False)"

definition errTooManyOpenFiles :: go_error where
  "errTooManyOpenFiles = StorageErr (''too many open files, please increase '' @ [CHR 0x27] @ ''ulimit -n'' @ [CHR 0x27])"

definition errUnsupportedDisk :: go_error where
  "errUnsupportedDisk = StorageErr ''disk does not support O_DIRECT''"

definition errDiskFull :: go_error where
  "errDiskFull = StorageErr ''disk path full''"

definition errIsNotRegular :: go_error where
  "errIsNotRegular = StorageErr ''not of regular file type''"

definition errCrossDeviceLink :: go_error where
  "errCrossDeviceLink = StorageErr ''Rename across devices not allowed, please fix your backend configuration''"

definition errPathNotFound :: go_error where
  "errPathNotFound = StorageErr ''path not found''"

definition errVolumeExists :: go_error where
  "errVolumeExists = StorageErr ''volume already exists''"

definition errVolumeNotEmpty :: go_error where
  "errVolumeNotEmpty = StorageErr ''volume is not empty''"

definition errVolumeAccessDenied :: go_error where
  "errVolumeAccessDenied = StorageErr ''volume access denied''"

definition osErrToFileErr :: "go_error \<Rightarrow> go_error" where
  "osErrToFileErr err =
     (if osIsNotExist err then errFileNotFound
      else if osIsPermission err then errFileAccessDenied
      else if isSysErrNotDir err \<or> isSysErrIsDir err then errFileNotFound
      else if isSysErrPathNotFound err then errFileNotFound
      else if isSysErrTooManyFiles err then errTooManyOpenFiles
      else if isSysErrIO err then errFaultyDisk
      else if isSysErrInvalidArg err then errUnsupportedDisk
      else if isSysErrNoSpace err then errDiskFull
      else err)"

section \<open>Reading\<close>

text \<open>\<^verbatim>\<open>Lstat\<close>, and \<^verbatim>\<open>Access\<close>, which only tells whether the path can be used.\<close>

definition Lstat :: "xl_storage \<Rightarrow> string \<Rightarrow> disk \<Rightarrow> go_error + node" where
  "Lstat C p d =
     (case broken C p of
        Some e \<Rightarrow> Inl (PathError C e)
      | None \<Rightarrow> (case node_at (files d) p of Inl e \<Rightarrow> Inl (PathError C e) | Inr n \<Rightarrow> Inr n))"

definition Access :: "xl_storage \<Rightarrow> string \<Rightarrow> disk \<Rightarrow> go_error option" where
  "Access C p d = (case Lstat C p d of Inl err \<Rightarrow> Some err | Inr _ \<Rightarrow> None)"

text \<open>Linux opens a directory for reading, but not with \<^verbatim>\<open>O_DIRECT\<close>.\<close>

definition open_read :: "xl_storage \<Rightarrow> bool \<Rightarrow> string \<Rightarrow> disk \<Rightarrow> go_error + node" where
  "open_read C direct p d =
     (case Lstat C p d of
        Inl err \<Rightarrow> Inl err
      | Inr n \<Rightarrow> if direct \<and> n = Directory then Inl (PathError C EINVAL) else Inr n)"

definition read_node :: "xl_storage \<Rightarrow> node \<Rightarrow> go_error + bytes" where
  "read_node C n = (case n of File b \<Rightarrow> Inr b | Directory \<Rightarrow> Inl (PathError C EISDIR))"

definition xl_readAllData :: "xl_storage \<Rightarrow> string \<Rightarrow> string \<Rightarrow> disk \<Rightarrow> go_error + bytes" where
  "xl_readAllData C volumeDir filePath d =
     (case open_read C (requireDirectIO C) filePath d of
        Inl err \<Rightarrow>
          Inl (if osIsNotExist err then
                 (case Access C volumeDir d of
                    Some err' \<Rightarrow> if osIsNotExist err' then errVolumeNotFound else errFileNotFound
                  | None \<Rightarrow> errFileNotFound)
               else if osIsPermission err then errFileAccessDenied
               else if isSysErrNotDir err \<or> isSysErrIsDir err then errFileNotFound
               else if isSysErrIO err then errFaultyDisk
               else if isSysErrTooManyFiles err then errTooManyOpenFiles
               else if isSysErrInvalidArg err then
                 (case Lstat C filePath d of Inr Directory \<Rightarrow> errFileNotFound | _ \<Rightarrow> errUnsupportedDisk)
               else err)
      | Inr n \<Rightarrow> (case read_node C n of Inl err \<Rightarrow> Inl (osErrToFileErr err) | Inr b \<Rightarrow> Inr b))"

text \<open>The path of a file of a volume, after the checks that the operations share.\<close>

definition file_path :: "xl_storage \<Rightarrow> string \<Rightarrow> string \<Rightarrow> go_error + string \<times> string" where
  "file_path C volume path =
     (if \<not> validStoragePath path then Inl errFileAccessDenied
      else
        (case getVolDir (xl_diskPath C) volume of
           Inl err \<Rightarrow> Inl err
         | Inr volumeDir \<Rightarrow>
             (let filePath = pathJoin [volumeDir, path]
              in case checkPathLength filePath of
                   Some err \<Rightarrow> Inl err
                 | None \<Rightarrow> Inr (volumeDir, filePath))))"

definition xl_ReadAll :: "xl_storage \<Rightarrow> string \<Rightarrow> string \<Rightarrow> disk \<Rightarrow> go_error + bytes" where
  "xl_ReadAll C volume path d =
     (case file_path C volume path of
        Inl err \<Rightarrow> Inl err
      | Inr (volumeDir, filePath) \<Rightarrow> xl_readAllData C volumeDir filePath d)"

section \<open>Directories and renaming\<close>

text \<open>Both retry once when a directory on the way was removed meanwhile.\<close>

definition reliableMkdirAll :: "xl_storage \<Rightarrow> string \<Rightarrow> disk \<Rightarrow> go_error option \<times> disk" where
  "reliableMkdirAll C dirPath d =
     (case os_MkdirAll dirPath d of
        (Some e, d') \<Rightarrow>
          if osIsNotExist (PathError C e) then apfst (map_option (PathError C)) (os_MkdirAll dirPath d')
          else (Some (PathError C e), d')
      | (None, d') \<Rightarrow> (None, d'))"

definition mkdirAll :: "xl_storage \<Rightarrow> string \<Rightarrow> disk \<Rightarrow> go_error option \<times> disk" where
  "mkdirAll C dirPath d =
     (if dirPath = '''' then (Some errInvalidArgument, d)
      else
        (case checkPathLength dirPath of
           Some err \<Rightarrow> (Some err, d)
         | None \<Rightarrow>
             (case reliableMkdirAll C dirPath d of
                (Some err, d') \<Rightarrow>
                  (Some (if isSysErrNotDir err then errFileAccessDenied
                         else if isSysErrPathNotFound err then errFileAccessDenied
                         else err), d')
              | (None, d') \<Rightarrow> (None, d'))))"

definition reliableRename :: "xl_storage \<Rightarrow> string \<Rightarrow> string \<Rightarrow> disk \<Rightarrow> go_error option \<times> disk" where
  "reliableRename C src dst d =
     (case reliableMkdirAll C (path_Dir dst) d of
        (Some err, d') \<Rightarrow> (Some err, d')
      | (None, d') \<Rightarrow>
          (case os_Rename src dst d' of
             (Some e, d'') \<Rightarrow>
               if osIsNotExist (LinkError C e) then apfst (map_option (LinkError C)) (os_Rename src dst d'')
               else (Some (LinkError C e), d'')
           | (None, d'') \<Rightarrow> (None, d'')))"

definition xl_renameAll :: "xl_storage \<Rightarrow> string \<Rightarrow> string \<Rightarrow> disk \<Rightarrow> go_error option \<times> disk" where
  "xl_renameAll C src dst d =
     (if src = '''' \<or> dst = '''' then (Some errInvalidArgument, d)
      else
        (case (case checkPathLength src of None \<Rightarrow> checkPathLength dst | Some err \<Rightarrow> Some err) of
           Some err \<Rightarrow> (Some err, d)
         | None \<Rightarrow>
             (case reliableRename C src dst d of
                (Some err, d') \<Rightarrow>
                  (Some (if isSysErrNotDir err \<and> \<not> osIsNotExist err then errFileAccessDenied
                         else if isSysErrPathNotFound err then errFileAccessDenied
                         else if isSysErrCrossDevice err then Wrapped (src @ ''->'' @ dst) errCrossDeviceLink
                         else if osIsNotExist err then errFileNotFound
                         else if osIsExist err then errIsNotRegular
                         else err), d')
              | (None, d') \<Rightarrow> (None, d'))))"

definition removeAll :: "xl_storage \<Rightarrow> string \<Rightarrow> disk \<Rightarrow> go_error option \<times> disk" where
  "removeAll C dirPath d =
     (if dirPath = '''' then (Some errInvalidArgument, d)
      else
        (case checkPathLength dirPath of
           Some err \<Rightarrow> (Some err, d)
         | None \<Rightarrow>
             (case (case os_RemoveAll dirPath d of
                      (Some e, d') \<Rightarrow> if isSysErrNotEmpty (PathError C e) then os_RemoveAll dirPath d' else (Some e, d')
                    | (None, d') \<Rightarrow> (None, d')) of
                (Some e, d') \<Rightarrow>
                  (Some (if isSysErrNotDir (PathError C e) then errFileAccessDenied
                         else if isSysErrPathNotFound (PathError C e) then errFileAccessDenied
                         else PathError C e), d')
              | (None, d') \<Rightarrow> (None, d'))))"

text \<open>A fresh name in the trash of the drive.\<close>

definition fresh_trash :: "xl_storage \<Rightarrow> disk \<Rightarrow> string \<times> disk" where
  "fresh_trash C d =
     (path_Join [xl_diskPath C, ''.otterio.sys/tmp/.trash'', random_name C (drawn d)], d\<lparr>drawn := drawn d + 1\<rparr>)"

section \<open>Writing\<close>

definition openFile :: "xl_storage \<Rightarrow> open_flag \<Rightarrow> string \<Rightarrow> disk \<Rightarrow> go_error option \<times> disk" where
  "openFile C flag filePath d =
     (case mkdirAll C (path_Dir filePath) d of
        (Some err, d') \<Rightarrow> (Some (osErrToFileErr err), d')
      | (None, d') \<Rightarrow>
          (case os_Create flag filePath d' of
             (Some e, d'') \<Rightarrow>
               (let err = PathError C e
                in (Some (if isSysErrIsDir err then errIsNotRegular
                          else if osIsPermission err then errFileAccessDenied
                          else if isSysErrIO err then errFaultyDisk
                          else if isSysErrTooManyFiles err then errTooManyOpenFiles
                          else err), d''))
           | (None, d'') \<Rightarrow> (None, d'')))"

definition write_open :: "xl_storage \<Rightarrow> string \<Rightarrow> bytes \<Rightarrow> disk \<Rightarrow> go_error option \<times> disk" where
  "write_open C filePath b d = apfst (map_option (PathError C)) (os_Write filePath b d)"

definition xl_WriteAll :: "xl_storage \<Rightarrow> string \<Rightarrow> string \<Rightarrow> bytes \<Rightarrow> disk \<Rightarrow> go_error option \<times> disk" where
  "xl_WriteAll C volume path b d =
     (case file_path C volume path of
        Inl err \<Rightarrow> (Some err, d)
      | Inr (_, filePath) \<Rightarrow>
          (case openFile C O_TRUNC filePath d of
             (Some err, d') \<Rightarrow> (Some err, d')
           | (None, d') \<Rightarrow> write_open C filePath b d'))"

text \<open>The check that the volume is there, with the errors of the operations that delete, append and rename.\<close>

definition volume_error :: "xl_storage \<Rightarrow> bool \<Rightarrow> string \<Rightarrow> disk \<Rightarrow> go_error option" where
  "volume_error C permissions volumeDir d =
     (case Access C volumeDir d of
        None \<Rightarrow> None
      | Some err \<Rightarrow>
          Some (if osIsNotExist err then errVolumeNotFound
                else if permissions \<and> osIsPermission err then errVolumeAccessDenied
                else if isSysErrIO err then errFaultyDisk
                else err))"

definition AppendFile :: "xl_storage \<Rightarrow> string \<Rightarrow> string \<Rightarrow> bytes \<Rightarrow> disk \<Rightarrow> go_error option \<times> disk" where
  "AppendFile C volume path buf d =
     (if \<not> validStoragePath path then (Some errFileAccessDenied, d)
      else
        (case getVolDir (xl_diskPath C) volume of
           Inl err \<Rightarrow> (Some err, d)
         | Inr volumeDir \<Rightarrow>
             (case volume_error C True volumeDir d of
                Some err \<Rightarrow> (Some err, d)
              | None \<Rightarrow>
                  (let filePath = pathJoin [volumeDir, path]
                   in case checkPathLength filePath of
                        Some err \<Rightarrow> (Some err, d)
                      | None \<Rightarrow>
                          (case openFile C O_APPEND filePath d of
                             (Some err, d') \<Rightarrow> (Some err, d')
                           | (None, d') \<Rightarrow> write_open C filePath buf d')))))"

section \<open>Deleting\<close>

text \<open>After a deletion the parents are deleted as long as they are empty; their errors are dropped.\<close>

function xl_deleteFile :: "xl_storage \<Rightarrow> string \<Rightarrow> string \<Rightarrow> bool \<Rightarrow> disk \<Rightarrow> go_error option \<times> disk" where
  "xl_deleteFile C basePath deletePath recursive d =
     (if basePath = '''' \<or> deletePath = '''' then (None, d)
      else
        (let isObjectDir = HasSuffix deletePath ''/'';
             base = path_Clean basePath;
             del = path_Clean deletePath
         in if \<not> storagePathWithin base del then (Some errFileAccessDenied, d)
            else if del = base then (None, d)
            else
              (case (if recursive
                     then (let (trash, d0) = fresh_trash C d in xl_renameAll C del trash d0)
                     else apfst (map_option (PathError C)) (os_Remove del d)) of
                 (Some err, d') \<Rightarrow>
                   (if isSysErrNotEmpty err then (if isObjectDir then Some errFileNotFound else None)
                    else Some (if osIsNotExist err then errFileNotFound
                               else if osIsPermission err then errFileAccessDenied
                               else if isSysErrIO err then errFaultyDisk
                               else err), d')
               | (None, d') \<Rightarrow> (None, snd (xl_deleteFile C base (path_Dir del) False d')))))"
  by pat_completeness auto
termination
  by (relation "measure (\<lambda>(C, base, del, r, d). length (path_elements del))") (simp_all add: path_Dir_shorter)

declare xl_deleteFile.simps [simp del]

definition xl_Delete :: "xl_storage \<Rightarrow> string \<Rightarrow> string \<Rightarrow> bool \<Rightarrow> disk \<Rightarrow> go_error option \<times> disk" where
  "xl_Delete C volume path recursive d =
     (if \<not> validStoragePath path then (Some errFileAccessDenied, d)
      else
        (case getVolDir (xl_diskPath C) volume of
           Inl err \<Rightarrow> (Some err, d)
         | Inr volumeDir \<Rightarrow>
             (case volume_error C True volumeDir d of
                Some err \<Rightarrow> (Some err, d)
              | None \<Rightarrow>
                  (let filePath = pathJoin [volumeDir, path]
                   in case checkPathLength filePath of
                        Some err \<Rightarrow> (Some err, d)
                      | None \<Rightarrow> xl_deleteFile C volumeDir filePath recursive d))))"

section \<open>Renaming files\<close>

definition xl_renameLegacyMetadata :: "xl_storage \<Rightarrow> string \<Rightarrow> string \<Rightarrow> disk \<Rightarrow> go_error option \<times> disk" where
  "xl_renameLegacyMetadata C volumeDir path d =
     (if \<not> validStoragePath path then (Some errFileAccessDenied, d)
      else if \<not> formatLegacy C then (Some errFileNotFound, d)
      else
        (let filePath = pathJoin [volumeDir, path];
             src = pathJoin [filePath, ''xl.json''];
             dst = pathJoin [filePath, ''xl.meta'']
         in case checkPathLength filePath of
              Some err \<Rightarrow> (Some err, d)
            | None \<Rightarrow>
                (case os_Rename src dst d of
                   (None, d') \<Rightarrow> (None, d')
                 | (Some e, d') \<Rightarrow>
                     (let err = LinkError C e
                      in (Some (if isSysErrNotDir err then errFileNotFound
                                else if isSysErrPathNotFound err then errFileNotFound
                                else if isSysErrCrossDevice err then Wrapped (src @ ''->'' @ dst) errCrossDeviceLink
                                else if osIsNotExist err then errFileNotFound
                                else if osIsExist err then errIsNotRegular
                                else err), d')))))"

text \<open>A directory may only replace an empty directory, which is removed first.\<close>

definition clear_directory :: "xl_storage \<Rightarrow> string \<Rightarrow> disk \<Rightarrow> go_error option \<times> disk" where
  "clear_directory C dstFilePath d =
     (case Lstat C dstFilePath d of
        Inl err \<Rightarrow>
          if isSysErrIO err then (Some errFaultyDisk, d)
          else if osIsNotExist err then (None, d)
          else (Some err, d)
      | Inr (File _) \<Rightarrow> (Some errFileAccessDenied, d)
      | Inr Directory \<Rightarrow>
          (case os_Remove dstFilePath d of
             (Some e, d') \<Rightarrow>
               (Some (if isSysErrNotEmpty (PathError C e) then errFileAccessDenied else PathError C e), d')
           | (None, d') \<Rightarrow> (None, d')))"

definition xl_RenameFile ::
  "xl_storage \<Rightarrow> string \<Rightarrow> string \<Rightarrow> string \<Rightarrow> string \<Rightarrow> disk \<Rightarrow> go_error option \<times> disk" where
  "xl_RenameFile C srcVolume srcPath dstVolume dstPath d =
     (if \<not> validStoragePath srcPath \<or> \<not> validStoragePath dstPath then (Some errFileAccessDenied, d)
      else
        (case (getVolDir (xl_diskPath C) srcVolume, getVolDir (xl_diskPath C) dstVolume) of
           (Inl err, _) \<Rightarrow> (Some err, d)
         | (_, Inl err) \<Rightarrow> (Some err, d)
         | (Inr srcVolumeDir, Inr dstVolumeDir) \<Rightarrow>
             (case (case volume_error C False srcVolumeDir d of
                      Some err \<Rightarrow> Some err
                    | None \<Rightarrow> volume_error C False dstVolumeDir d) of
                Some err \<Rightarrow> (Some err, d)
              | None \<Rightarrow>
                  (let srcIsDir = HasSuffix srcPath ''/'';
                       dstIsDir = HasSuffix dstPath ''/'';
                       srcFilePath = path_Join [srcVolumeDir, srcPath];
                       dstFilePath = path_Join [dstVolumeDir, dstPath]
                   in if srcIsDir \<noteq> dstIsDir then (Some errFileAccessDenied, d)
                      else
                        (case (case checkPathLength srcFilePath of
                                 Some err \<Rightarrow> Some err
                               | None \<Rightarrow> checkPathLength dstFilePath) of
                           Some err \<Rightarrow> (Some err, d)
                         | None \<Rightarrow>
                             (case (if srcIsDir then clear_directory C dstFilePath d else (None, d)) of
                                (Some err, d') \<Rightarrow> (Some err, d')
                              | (None, d') \<Rightarrow>
                                  (case xl_renameAll C srcFilePath dstFilePath d' of
                                     (Some err, d'') \<Rightarrow> (Some (osErrToFileErr err), d'')
                                   | (None, d'') \<Rightarrow>
                                       (None, snd (xl_deleteFile C srcVolumeDir (path_Dir srcFilePath) False d'')))))))))"

section \<open>Volumes and listings\<close>

definition isValidVolname :: "string \<Rightarrow> bool" where
  "isValidVolname volname \<longleftrightarrow> length volname \<ge> 3"

definition errDiskAccess :: "go_error option \<Rightarrow> go_error option" where
  "errDiskAccess err =
     map_option (\<lambda>err. if osIsPermission err then errDiskAccessDenied else if isSysErrIO err then errFaultyDisk else err) err"

definition MakeVol :: "xl_storage \<Rightarrow> string \<Rightarrow> disk \<Rightarrow> go_error option \<times> disk" where
  "MakeVol C volume d =
     (if \<not> isValidVolname volume then (Some errInvalidArgument, d)
      else
        (case getVolDir (xl_diskPath C) volume of
           Inl err \<Rightarrow> (Some err, d)
         | Inr volumeDir \<Rightarrow>
             (case Access C volumeDir d of
                None \<Rightarrow> (Some errVolumeExists, d)
              | Some err \<Rightarrow>
                  apfst errDiskAccess (if osIsNotExist err then reliableMkdirAll C volumeDir d else (Some err, d)))))"

fun make_vols :: "xl_storage \<Rightarrow> string list \<Rightarrow> disk \<Rightarrow> go_error option \<times> disk" where
  "make_vols C [] d = (None, d)"
| "make_vols C (v # vs) d =
     (case MakeVol C v d of
        (Some err, d') \<Rightarrow>
          if errors_Is err errDiskAccessDenied then (Some errDiskAccessDenied, d') else make_vols C vs d'
      | (None, d') \<Rightarrow> make_vols C vs d')"

definition MakeVolBulk :: "xl_storage \<Rightarrow> string list \<Rightarrow> disk \<Rightarrow> go_error option \<times> disk" where
  "MakeVolBulk C volumes d =
     (case find (\<lambda>r. case r of Inl _ \<Rightarrow> True | Inr _ \<Rightarrow> False) (map (getVolDir (xl_diskPath C)) volumes) of
        Some (Inl err) \<Rightarrow> (Some err, d)
      | _ \<Rightarrow> make_vols C volumes d)"

text \<open>The time of creation is not part of the tree.\<close>

definition StatVol :: "xl_storage \<Rightarrow> string \<Rightarrow> disk \<Rightarrow> go_error + string" where
  "StatVol C volume d =
     (case getVolDir (xl_diskPath C) volume of
        Inl err \<Rightarrow> Inl err
      | Inr volumeDir \<Rightarrow>
          (case Lstat C volumeDir d of
             Inl err \<Rightarrow>
               Inl (if osIsNotExist err then errVolumeNotFound
                    else if osIsPermission err then errDiskAccessDenied
                    else if isSysErrIO err then errFaultyDisk
                    else err)
           | Inr _ \<Rightarrow> Inr volume))"

definition DeleteVol :: "xl_storage \<Rightarrow> string \<Rightarrow> bool \<Rightarrow> disk \<Rightarrow> go_error option \<times> disk" where
  "DeleteVol C volume forceDelete d =
     (case getVolDir (xl_diskPath C) volume of
        Inl err \<Rightarrow> (Some err, d)
      | Inr volumeDir \<Rightarrow>
          (case (if forceDelete then os_RemoveAll volumeDir d else os_Remove volumeDir d) of
             (Some e, d') \<Rightarrow>
               (let err = PathError C e
                in (Some (if osIsNotExist err then errVolumeNotFound
                          else if isSysErrNotEmpty err then errVolumeNotEmpty
                          else if osIsPermission err then errDiskAccessDenied
                          else if isSysErrIO err then errFaultyDisk
                          else err), d'))
           | (None, d') \<Rightarrow> (None, d')))"

text \<open>The entries of a directory; a directory has a slash at its end. A negative \<open>count\<close> asks for all of them.\<close>

definition readDirN :: "xl_storage \<Rightarrow> string \<Rightarrow> int \<Rightarrow> disk \<Rightarrow> go_error + string list" where
  "readDirN C dirPath count d =
     (case Lstat C dirPath d of
        Inl err \<Rightarrow> Inl (osErrToFileErr err)
      | Inr (File _) \<Rightarrow> if count = 0 then Inr [] else Inl errFileNotFound
      | Inr Directory \<Rightarrow>
          (let p = elements dirPath;
               entries = map (\<lambda>n. if look (files d) (p @ [n]) = Some Directory then n @ ''/'' else n)
                           (names_in p (files d))
           in Inr (if count < 0 then entries else take (nat count) entries)))"

definition ListVols :: "xl_storage \<Rightarrow> disk \<Rightarrow> go_error + string list" where
  "ListVols C d =
     (case checkPathLength (xl_diskPath C) of
        Some err \<Rightarrow> Inl err
      | None \<Rightarrow>
          (case readDirN C (xl_diskPath C) (-1) d of
             Inl _ \<Rightarrow> Inl errDiskNotFound
           | Inr entries \<Rightarrow>
               Inr (map path_Clean (filter (\<lambda>e. HasSuffix e ''/'' \<and> isValidVolname (path_Clean e)) entries))))"

definition ListDir :: "xl_storage \<Rightarrow> string \<Rightarrow> string \<Rightarrow> int \<Rightarrow> disk \<Rightarrow> go_error + string list" where
  "ListDir C volume dirPath count d =
     (if \<not> validStoragePath dirPath then Inl errFileAccessDenied
      else
        (case getVolDir (xl_diskPath C) volume of
           Inl err \<Rightarrow> Inl err
         | Inr volumeDir \<Rightarrow>
             (case readDirN C (pathJoin [volumeDir, dirPath]) (if count > 0 then count else -1) d of
                Inr entries \<Rightarrow> Inr entries
              | Inl err \<Rightarrow>
                  Inl (if err = errFileNotFound then
                         (case Access C volumeDir d of
                            None \<Rightarrow> err
                          | Some ierr \<Rightarrow>
                              if osIsNotExist ierr then errVolumeNotFound
                              else if isSysErrIO ierr then errFaultyDisk
                              else err)
                       else err))))"

definition isLeaf :: "xl_storage \<Rightarrow> string \<Rightarrow> string \<Rightarrow> disk \<Rightarrow> bool \<times> disk" where
  "isLeaf C volume leafPath d =
     (if \<not> validStoragePath leafPath then (False, d)
      else
        (case getVolDir (xl_diskPath C) volume of
           Inl _ \<Rightarrow> (False, d)
         | Inr volumeDir \<Rightarrow>
             (case Access C (pathJoin [volumeDir, leafPath, ''xl.meta'']) d of
                None \<Rightarrow> (True, d)
              | Some err \<Rightarrow>
                  if osIsNotExist err
                  then apfst (\<lambda>e. e = None) (xl_renameLegacyMetadata C volumeDir leafPath d)
                  else (False, d))))"

section \<open>Checks\<close>

text \<open>
  The call of \<^verbatim>\<open>checkFile\<close> for the parent stands behind a return on every path; what is left is the check of the
  path itself.
\<close>

definition CheckFile :: "xl_storage \<Rightarrow> string \<Rightarrow> string \<Rightarrow> disk \<Rightarrow> go_error option" where
  "CheckFile C volume path d =
     (if \<not> validStoragePath path then Some errFileAccessDenied
      else
        (case getVolDir (xl_diskPath C) volume of
           Inl err \<Rightarrow> Some err
         | Inr volumeDir \<Rightarrow>
             if path = ''.'' \<or> path = ''/'' then Some errPathNotFound
             else
               (let regular = (\<lambda>n. if n = Directory then Some errFileNotFound else None);
                    filePath = pathJoin [volumeDir, path, ''xl.meta''];
                    filePathOld = pathJoin [volumeDir, path, ''xl.json'']
                in case checkPathLength filePath of
                     Some err \<Rightarrow> Some err
                   | None \<Rightarrow>
                       (case Lstat C filePath d of
                          Inr n \<Rightarrow> regular n
                        | Inl _ \<Rightarrow>
                            if \<not> formatLegacy C then Some errPathNotFound
                            else
                              (case checkPathLength filePathOld of
                                 Some err \<Rightarrow> Some err
                               | None \<Rightarrow>
                                   (case Lstat C filePathOld d of
                                      Inr n \<Rightarrow> regular n
                                    | Inl _ \<Rightarrow> Some errPathNotFound))))))"

fun check_parts :: "xl_storage \<Rightarrow> string \<Rightarrow> string \<Rightarrow> file_info \<Rightarrow> object_part list \<Rightarrow> disk \<Rightarrow> go_error option" where
  "check_parts C volumeDir path fi [] d = None"
| "check_parts C volumeDir path fi (part # parts) d =
     (let filePath = pathJoin [volumeDir, pathJoin [path, fi_DataDir fi, ''part.'' @ Itoa (op_Number part)]]
      in case checkPathLength filePath of
           Some err \<Rightarrow> Some err
         | None \<Rightarrow>
             (case Lstat C filePath d of
                Inl err \<Rightarrow> Some (osErrToFileErr err)
              | Inr Directory \<Rightarrow> Some errFileNotFound
              | Inr (File b) \<Rightarrow>
                  if int (length b) < ErasureInfo_ShardFileSize (fi_Erasure fi) (op_Size part) then Some errFileCorrupt
                  else check_parts C volumeDir path fi parts d))"

definition CheckParts :: "xl_storage \<Rightarrow> string \<Rightarrow> string \<Rightarrow> file_info \<Rightarrow> disk \<Rightarrow> go_error option" where
  "CheckParts C volume path fi d =
     (if fi_Deleted fi then Some errFileCorrupt
      else
        (case validateStorageFileInfo fi True of
           Some err \<Rightarrow> Some (storage_go_error err)
         | None \<Rightarrow>
             if \<not> validStoragePath path then Some errFileAccessDenied
             else
               (case getVolDir (xl_diskPath C) volume of
                  Inl err \<Rightarrow> Some err
                | Inr volumeDir \<Rightarrow>
                    (case Access C volumeDir d of
                       Some err \<Rightarrow> Some (if osIsNotExist err then errVolumeNotFound else err)
                     | None \<Rightarrow> check_parts C volumeDir path fi (fi_Parts fi) d))))"

section \<open>Creating files from a stream\<close>

text \<open>A stream is its bytes and the error with which it ends; it ends regularly with \<^const>\<open>None\<close>.\<close>

type_synonym byte_stream = "bytes \<times> go_error option"

definition errLessData :: go_error where
  "errLessData = StorageErr ''less data available than what was requested''"

definition errMoreData :: go_error where
  "errMoreData = StorageErr ''more data was sent than what was advertised''"

definition blockSizeLarge :: nat where
  "blockSizeLarge = 2 * 1024 * 1024"

text \<open>\<^verbatim>\<open>io.Copy\<close> writes all bytes of the stream.\<close>

definition io_Copy :: "xl_storage \<Rightarrow> string \<Rightarrow> byte_stream \<Rightarrow> disk \<Rightarrow> (go_error + int) \<times> disk" where
  "io_Copy C filePath r d =
     (case write_open C filePath (fst r) d of
        (Some err, d') \<Rightarrow> (Inl err, d')
      | (None, d') \<Rightarrow> ((case snd r of Some err \<Rightarrow> Inl err | None \<Rightarrow> Inr (int (length (fst r)))), d'))"

text \<open>
  \<^verbatim>\<open>CopyAligned\<close> reads no more than the announced size, in blocks; of a stream that fails it writes the full
  blocks. The size -1 is unknown.
\<close>

definition CopyAligned :: "xl_storage \<Rightarrow> string \<Rightarrow> byte_stream \<Rightarrow> int \<Rightarrow> disk \<Rightarrow> (go_error + int) \<times> disk" where
  "CopyAligned C filePath r totalSize d =
     (let b = (if totalSize = -1 then fst r else take (nat totalSize) (fst r));
          complete = (totalSize \<noteq> -1 \<and> int (length (fst r)) \<ge> totalSize);
          err = (if complete then None else snd r);
          out = (case err of None \<Rightarrow> b | Some _ \<Rightarrow> take (length b div blockSizeLarge * blockSizeLarge) b)
      in case write_open C filePath out d of
           (Some err', d') \<Rightarrow> (Inl err', d')
         | (None, d') \<Rightarrow> ((case err of Some err' \<Rightarrow> Inl err' | None \<Rightarrow> Inr (int (length out))), d'))"

definition create_content ::
  "xl_storage \<Rightarrow> string \<Rightarrow> int \<Rightarrow> byte_stream \<Rightarrow> disk \<Rightarrow> go_error option \<times> disk" where
  "create_content C filePath fileSize r d =
     (if 0 \<le> fileSize \<and> fileSize \<le> smallFileThreshold then
        (case openFile C O_TRUNC filePath d of
           (Some err, d') \<Rightarrow> (Some err, d')
         | (None, d') \<Rightarrow>
             (case io_Copy C filePath r d' of
                (Inl err, d'') \<Rightarrow> (Some (osErrToFileErr err), d'')
              | (Inr written, d'') \<Rightarrow>
                  (if written < fileSize then Some errLessData
                   else if written > fileSize then Some errMoreData
                   else None, d'')))
      else
        (case mkdirAll C (path_Dir filePath) d of
           (Some err, d') \<Rightarrow> (Some (osErrToFileErr err), d')
         | (None, d') \<Rightarrow>
             (case os_Create O_EXCL filePath d' of
                (Some e, d'') \<Rightarrow> (Some (osErrToFileErr (PathError C e)), d'')
              | (None, d'') \<Rightarrow>
                  (case CopyAligned C filePath r fileSize d'' of
                     (Inl err, d3) \<Rightarrow> (Some err, d3)
                   | (Inr written, d3) \<Rightarrow>
                       (if written < fileSize \<and> fileSize \<ge> 0 then Some errLessData
                        else if written > fileSize \<and> fileSize \<ge> 0 then Some errMoreData
                        else None, d3)))))"

definition CreateFile ::
  "xl_storage \<Rightarrow> string \<Rightarrow> string \<Rightarrow> int \<Rightarrow> byte_stream \<Rightarrow> disk \<Rightarrow> go_error option \<times> disk" where
  "CreateFile C volume path fileSize r d =
     (if \<not> validStoragePath path then (Some errFileAccessDenied, d)
      else if fileSize < -1 then (Some errInvalidArgument, d)
      else
        (case file_path C volume path of
           Inl err \<Rightarrow> (Some err, d)
         | Inr (_, filePath) \<Rightarrow>
             (case create_content C filePath fileSize r d of
                (Some err, d') \<Rightarrow>
                  (Some err,
                   if volume = ''.otterio.sys/tmp'' then snd (removeAll C (path_Dir filePath) d') else d')
              | (None, d') \<Rightarrow> (None, d'))))"

section \<open>The drive behind the interface\<close>

definition xl_drive :: "xl_storage \<Rightarrow> disk drive_io" where
  "xl_drive C = \<lparr>diskPath = xl_diskPath C, ReadAll = xl_ReadAll C, WriteAll = xl_WriteAll C, RenameFile = xl_RenameFile C,
     Delete = xl_Delete C, deleteFile = xl_deleteFile C, renameAll = xl_renameAll C, readAllData = xl_readAllData C,
     renameLegacyMetadata = xl_renameLegacyMetadata C\<rparr>"

end
