(* ===== verification/Object_Info.thy ===== *)
theory Object_Info
  imports XL_Drive
begin

text \<open>
  How an object is looked up at all drives of its set: \<^verbatim>\<open>getObjectFileInfo\<close> of \<^verbatim>\<open>cmd/erasure-object.go\<close> and
  \<^verbatim>\<open>isObjectDangling\<close> of \<^verbatim>\<open>cmd/erasure-healing.go\<close>, over the functions that combine the answers of the drives.
\<close>

section \<open>Dangling objects\<close>

definition transitionReferenceKey :: string where
  "transitionReferenceKey = ''x-otterio-internal-transition-reference''"

definition lost_meta :: "go_error option \<Rightarrow> bool" where
  "lost_meta err = IsErr err [errFileNotFound, errFileVersionNotFound, errCorruptedFormat]"

text \<open>
  The loop over the metadata: the first valid version, and whether a version that is moved to another tier
  stops the loop. \<^const>\<open>None\<close> is the zero value, which is not valid.
\<close>

fun dangling_meta :: "file_info option \<Rightarrow> file_info list \<Rightarrow> file_info option \<times> bool" where
  "dangling_meta validMeta [] = (validMeta, False)"
| "dangling_meta validMeta (m # ms) =
     (if \<not> FileInfo_IsValid m then dangling_meta validMeta ms
      else if fi_TransitionStatus m \<noteq> '''' \<or> (case fi_Metadata m transitionReferenceKey of None \<Rightarrow> '''' | Some v \<Rightarrow> v) \<noteq> ''''
      then (Some m, True)
      else dangling_meta (case validMeta of None \<Rightarrow> Some m | Some v \<Rightarrow> Some v) ms)"

text \<open>
  \<open>dataErrs\<close> is the nil slice or has an entry for every drive, where \<^const>\<open>None\<close> as a result is an index out of range.
\<close>

definition isObjectDangling ::
  "file_info list \<Rightarrow> go_error option list \<Rightarrow> go_error option list \<Rightarrow> (file_info \<times> bool) option" where
  "isObjectDangling metaArr errs dataErrs =
     (if length dataErrs > length errs then None
      else
        (let lost = int (length (filter lost_meta errs));
             notFoundParts = int (length (filter (\<lambda>(err, dataErr). err \<noteq> dataErr \<and>
                IsErr dataErr [errFileNotFound, errFileVersionNotFound]) (zip errs dataErrs)))
         in case dangling_meta None metaArr of
              (m, True) \<Rightarrow> Some (case m of None \<Rightarrow> zero_file_info | Some v \<Rightarrow> v, False)
            | (m, False) \<Rightarrow>
                (let validMeta = (case m of None \<Rightarrow> zero_file_info | Some v \<Rightarrow> v)
                 in if fi_Deleted validMeta \<or> fi_TransitionStatus validMeta = TransitionComplete
                    then Some (validMeta, lost > int (length errs div 2))
                    else if ei_DataBlocks (fi_Erasure validMeta) = 0 then Some (validMeta, True)
                    else Some (validMeta, lost + notFoundParts > ei_ParityBlocks (fi_Erasure validMeta)))))"

section \<open>The metadata of an object\<close>

text \<open>The orders in which the maps of counts are traversed, and the clock at every index.\<close>

record read_orders =
  ro_latest_errs :: "go_error option list"
  ro_latest_times :: "int list"
  ro_latest_dirs :: "string list"
  ro_errs :: "go_error option list"
  ro_times :: "int list"
  ro_dirs :: "string list"
  ro_hashes :: "string list"
  ro_parse_time :: "string \<Rightarrow> int option"
  ro_now :: "nat \<Rightarrow> int"

text \<open>
  A failed read has its error and whether the dangling version is deleted; a read that finds a version has
  the answers of the drives, the drives that agree and whether healing is started.
\<close>

datatype 'd object_read =
  ReadFailed go_error bool
| ReadFound file_info "file_info list" "'d option list" bool

definition missing_blocks :: "file_info \<Rightarrow> (file_info \<times> go_error option) list \<Rightarrow> nat" where
  "missing_blocks fi answers =
     length (filter (\<lambda>(m, err). IsErr err [errFileNotFound] \<or>
       \<not> (FileInfo_IsValid m \<and> fi_ModTime m = fi_ModTime fi \<and> fi_DataDir m = fi_DataDir fi)) answers)"

text \<open>
  \<open>toObjectErr\<close> makes an error of the API, \<open>systemBucket\<close> says whether the bucket is that of the server itself,
  \<open>healing\<close> whether a drive is being healed. \<^const>\<open>None\<close> is a panic.
\<close>

definition getObjectFileInfo ::
  "read_orders \<Rightarrow> (go_error \<Rightarrow> go_error) \<Rightarrow> bool \<Rightarrow> bool \<Rightarrow> storage_class_config \<Rightarrow> int \<Rightarrow>
     ('d \<Rightarrow> file_info \<times> go_error option) \<Rightarrow> 'd option list \<Rightarrow> string \<Rightarrow> bool \<Rightarrow> 'd object_read option" where
  "getObjectFileInfo R toObjectErr systemBucket healing sCfg defaultParityCount read disks versionID versioned =
     (let (metaArr, errs) = readAllFileInfo read disks
      in case objectQuorumFromMeta (ro_latest_errs R) (ro_latest_times R) (ro_latest_dirs R) sCfg metaArr errs
                defaultParityCount of
           None \<Rightarrow> None
         | Some (Inl err) \<Rightarrow> Some (ReadFailed err False)
         | Some (Inr (readQuorum, _)) \<Rightarrow>
             (case reduceReadQuorumErrs (ro_errs R) errs objectOpIgnoredErrs readQuorum of
                Some reducedErr \<Rightarrow>
                  if reducedErr = errErasureReadQuorum \<and> \<not> systemBucket then
                    (case isObjectDangling metaArr errs [] of
                       None \<Rightarrow> None
                     | Some (_, True) \<Rightarrow>
                         Some (ReadFailed (toObjectErr (not_found_for versionID)) (\<not> versioned \<or> versionID \<noteq> ''''))
                     | Some (_, False) \<Rightarrow> Some (ReadFailed (toObjectErr reducedErr) False))
                  else Some (ReadFailed (toObjectErr reducedErr) False)
              | None \<Rightarrow>
                  (case listOnlineDisks (ro_times R) (ro_dirs R) disks metaArr errs of
                     None \<Rightarrow> None
                   | Some (onlineDisks, modTime, dataDir) \<Rightarrow>
                       (case pickValidFileInfo (ro_hashes R) (ro_parse_time R) (ro_now R) metaArr modTime dataDir readQuorum of
                          Inl err \<Rightarrow> Some (ReadFailed err False)
                        | Inr fi \<Rightarrow>
                            (let missing = missing_blocks fi (zip metaArr errs)
                             in Some (ReadFound fi metaArr onlineDisks
                                  (missing > 0 \<and> int missing < readQuorum \<and> \<not> healing)))))))"

end
