(* ===== verification/Object_Info_Facts.thy ===== *)
theory Object_Info_Facts
  imports Object_Info Erasure_Metadata_Facts XL_Journal_Spec
begin

text \<open>
  What the lookup of an object finds: after \<^verbatim>\<open>WriteMetadata\<close> at a quorum of drives \<^verbatim>\<open>getObjectFileInfo\<close> returns
  the written version, whatever the other drives answer, and \<^verbatim>\<open>isObjectDangling\<close> does not give it up.
\<close>

section \<open>A version at most of the drives\<close>

lemma count_list_card: "count_list xs x = card {i. i < length xs \<and> xs ! i = x}"
  by (simp add: count_list_eq_length_filter length_filter_conv_card eq_commute)

lemma count_list_filter: "P x \<Longrightarrow> count_list (filter P xs) x = count_list xs x"
  by (induction xs) auto

lemma count_list_at_least:
  assumes "W \<subseteq> {..<length xs}" "\<forall>i \<in> W. xs ! i = x"
  shows "card W \<le> count_list xs x"
  unfolding count_list_card using assms by (intro card_mono) auto

lemma majority_beats:
  assumes "W \<subseteq> {..<length xs}" "\<forall>i \<in> W. xs ! i = x" "length xs < 2 * card W" "y \<noteq> x"
  shows "count_list xs y < count_list xs x"
  using count_list_at_least [OF assms(1,2)] count_list_two [OF assms(4), of xs] assms(3) by linarith

text \<open>
  The drives in \<open>W\<close> hold the version with the time \<open>t\<close>, the data directory \<open>dir\<close> and \<open>blocks\<close> data blocks; the metadata of
  the others has another time.
\<close>

definition version_at ::
  "read_orders \<Rightarrow> file_info list \<Rightarrow> go_error option list \<Rightarrow> int \<Rightarrow> string \<Rightarrow> int \<Rightarrow> string \<Rightarrow> nat set \<Rightarrow> bool" where
  "version_at R ms es t dir blocks h W \<longleftrightarrow>
     length es = length ms \<and> W \<subseteq> {..<length ms} \<and> length ms < 2 * card W \<and> blocks \<le> int (card W) \<and> 0 < blocks \<and>
     in_int64 t \<and> t \<noteq> 0 \<and> dir \<noteq> '''' \<and>
     (\<forall>i \<in> W. es ! i = None \<and> FileInfo_IsValid (ms ! i) \<and> fi_ModTime (ms ! i) = t \<and> fi_DataDir (ms ! i) = dir \<and>
        ei_DataBlocks (fi_Erasure (ms ! i)) = blocks \<and> meta_preimage (ro_parse_time R) (ro_now R i) (ms ! i) = h) \<and>
     (\<forall>i < length ms. i \<notin> W \<longrightarrow> fi_ModTime (ms ! i) \<noteq> t \<and> (es ! i = None \<longrightarrow> in_int64 (fi_ModTime (ms ! i))))"

text \<open>The times that are compared, and the orders: each lists the keys of the map that is traversed.\<close>

definition answer_times :: "file_info list \<Rightarrow> go_error option list \<Rightarrow> int list" where
  "answer_times ms es = map (\<lambda>(m, e). if e \<noteq> None then timeSentinel else fi_ModTime m) (zip ms es)"

definition orders_ok :: "read_orders \<Rightarrow> file_info list \<Rightarrow> go_error option list \<Rightarrow> bool" where
  "orders_ok R ms es \<longleftrightarrow>
     set (ro_latest_errs R) = error_keys es objectOpIgnoredErrs \<and> set (ro_errs R) = error_keys es objectOpIgnoredErrs \<and>
     set (ro_latest_times R) = set (common_nanos (answer_times ms es)) \<and>
     set (ro_times R) = set (common_nanos (answer_times ms es)) \<and>
     set (ro_latest_dirs R) = set (common_dirs (list_data_dirs ms es)) \<and>
     set (ro_dirs R) = set (common_dirs (list_data_dirs ms es)) \<and>
     (let (t, dir) = commonTime (ro_times R) (ro_dirs R) (answer_times ms es) (list_data_dirs ms es)
      in set (ro_hashes R) =
           set (filter (\<lambda>h. h \<noteq> '''') (meta_hashes (ro_parse_time R) (ro_now R) t dir ms)))"

lemma no_error_wins:
  assumes "set ks = error_keys es ign" "W \<subseteq> {..<length es}" "\<forall>i \<in> W. es ! i = None" "length es < 2 * card W"
    "quorum \<le> int (card W)"
  shows "reduceQuorumErrs ks es ign quorum quorumErr = None"
proof -
  have c: "error_count es ign None = count_list es None"
    unfolding error_count_def by (induction es) (auto simp: IsErrIgnored_def IsErr_def)
  have "card W \<le> error_count es ign None" using count_list_at_least [OF assms(2,3)] c by simp
  moreover have lt: "error_count es ign e < error_count es ign None" if "e \<noteq> None" for e
    using error_count_two [OF that, of es ign] calculation assms(4) by linarith
  have "0 < error_count es ign None" using calculation assms(4) by linarith
  then have n: "None \<in> set ks" using error_count_notin [of None es ign] assms(1) by fastforce
  have "reduceErrs ks es ign = (error_count es ign None, None)"
    unfolding reduceErrs_def
    by (rule errors.loop_unique [OF n]) (use assms(1) error_count_pos lt \<open>0 < _\<close> in auto)
  ultimately show ?thesis using assms(5) by (simp add: reduceQuorumErrs_def)
qed

lemma zip_nth_map: "length es = length ms \<Longrightarrow> i < length ms \<Longrightarrow>
    answer_times ms es ! i = (if es ! i \<noteq> None then timeSentinel else fi_ModTime (ms ! i)) \<and>
    list_data_dirs ms es ! i = (if es ! i \<noteq> None then '''' else fi_DataDir (ms ! i))"
  by (simp add: answer_times_def list_data_dirs_def)

lemma length_answers [simp]: "length es = length ms \<Longrightarrow> length (answer_times ms es) = length ms"
  "length es = length ms \<Longrightarrow> length (list_data_dirs ms es) = length ms"
  by (simp_all add: answer_times_def list_data_dirs_def)

lemma listObjectModtimes_times: "length es = length ms \<Longrightarrow> listObjectModtimes ms es = Some (answer_times ms es)"
  by (simp add: listObjectModtimes_def answer_times_def)

text \<open>The common time and data directory are those of the version.\<close>

lemma commonTime_version:
  assumes "version_at R ms es t dir blocks h W" "set ts = set (common_nanos (answer_times ms es))"
    "set ds = set (common_dirs (list_data_dirs ms es))"
  shows "commonTime ts ds (answer_times ms es) (list_data_dirs ms es) = (t, dir)"
proof -
  let ?mt = "answer_times ms es" and ?dd = "list_data_dirs ms es"
  have v: "length es = length ms" "W \<subseteq> {..<length ms}" "length ms < 2 * card W" "in_int64 t" "t \<noteq> 0" "dir \<noteq> ''''"
    "\<forall>i \<in> W. es ! i = None \<and> fi_ModTime (ms ! i) = t \<and> fi_DataDir (ms ! i) = dir"
    "\<forall>i < length ms. es ! i = None \<longrightarrow> in_int64 (fi_ModTime (ms ! i))"
    using assms(1) by (auto simp: version_at_def)
  have at: "\<forall>i \<in> W. ?mt ! i = t" "\<forall>i \<in> W. ?dd ! i = dir" using v zip_nth_map [OF v(1)] by auto
  have "in_int64 0" by (simp add: in_int64_def min_int64_def max_int64_def)
  then have "list_all in_int64 ?mt" using v(1,8) by (auto simp: list_all_length zip_nth_map timeSentinel_def)
  then have cn: "common_nanos ?mt = filter (\<lambda>t. t \<noteq> timeSentinel) ?mt" by (rule common_nanos_in_int64)
  have ct: "count_list (common_nanos ?mt) y = count_list ?mt y" if "y \<noteq> timeSentinel" for y
    using that unfolding cn by (rule count_list_filter)
  have cd: "count_list (common_dirs ?dd) y = count_list ?dd y" if "y \<noteq> ''''" for y
    using that unfolding common_dirs_def by (rule count_list_filter)
  have t0: "t \<noteq> timeSentinel" using v(5) by (simp add: timeSentinel_def)
  have ltt: "count_list ?mt y < count_list ?mt t" if "y \<noteq> t" for y
    using majority_beats [of W ?mt t y] v(1-3) at(1) that by simp
  have ltd: "count_list ?dd y < count_list ?dd dir" if "y \<noteq> dir" for y
    using majority_beats [of W ?dd dir y] v(1-3) at(2) that by simp
  have post: "0 < count_list ?mt t" using ltt [of "t + 1"] by simp
  have posd: "0 < count_list ?dd dir" using ltd [of "CHR ''x'' # dir"] by simp
  have "foldl (common_time_step (count_list (common_nanos ?mt))) (0, zero_time) ts =
      (count_list (common_nanos ?mt) t, t)"
  proof (rule times.loop_unique)
    show "t \<in> set ts" using post t0 assms(2) cn by (simp add: count_list_pos_iff)
    show "0 < count_list (common_nanos ?mt) t" using post ct t0 by simp
    show "\<forall>k \<in> set ts. 0 < count_list (common_nanos ?mt) k" using assms(2) by (simp add: count_list_pos_iff)
    show "\<forall>k \<in> set ts. k \<noteq> t \<longrightarrow> count_list (common_nanos ?mt) k < count_list (common_nanos ?mt) t"
      using assms(2) cn ltt ct t0 by auto
  qed
  moreover have "foldl (common_dir_step (count_list (common_dirs ?dd))) (0, '''') ds =
      (count_list (common_dirs ?dd) dir, dir)"
  proof (rule dirs.loop_unique)
    show "dir \<in> set ds" using posd v(6) assms(3) by (simp add: count_list_pos_iff common_dirs_def)
    show "0 < count_list (common_dirs ?dd) dir" using posd cd v(6) by simp
    show "\<forall>k \<in> set ds. 0 < count_list (common_dirs ?dd) k" using assms(3) by (simp add: count_list_pos_iff)
    show "\<forall>k \<in> set ds. k \<noteq> dir \<longrightarrow> count_list (common_dirs ?dd) k < count_list (common_dirs ?dd) dir"
      using assms(3) ltd cd v(6) by (auto simp: common_dirs_def)
  qed
  ultimately show ?thesis by (simp add: commonTime_def)
qed

lemma set_filter_nth: "set (filter P xs) = (\<lambda>i. xs ! i) ` {i. i < length xs \<and> P (xs ! i)}"
  by (auto simp: in_set_conv_nth)

lemma latest_in_version:
  assumes "version_at R ms es t dir blocks h W"
  shows "set (map snd (filter (is_latest t dir) (zip (answer_times ms es) ms))) = (\<lambda>i. ms ! i) ` W"
    "card W \<le> length (filter (is_latest t dir) (zip (answer_times ms es) ms))"
proof -
  let ?z = "zip (answer_times ms es) ms"
  have v: "length es = length ms" "W \<subseteq> {..<length ms}" "t \<noteq> 0"
    "\<forall>i \<in> W. es ! i = None \<and> FileInfo_IsValid (ms ! i) \<and> fi_ModTime (ms ! i) = t \<and> fi_DataDir (ms ! i) = dir"
    "\<forall>i < length ms. i \<notin> W \<longrightarrow> fi_ModTime (ms ! i) \<noteq> t"
    using assms by (auto simp: version_at_def)
  have latest: "is_latest t dir (?z ! i) \<longleftrightarrow> i \<in> W" if "i < length ms" for i
  proof -
    have "?z ! i = (if es ! i \<noteq> None then timeSentinel else fi_ModTime (ms ! i), ms ! i)"
      using v(1) that zip_nth_map [OF v(1) that] by simp
    then show ?thesis using v(3-5) that by (cases "i \<in> W") (simp_all add: is_latest_def timeSentinel_def)
  qed
  have len: "length ?z = length ms" using v(1) by simp
  have W: "W = {i. i < length ?z \<and> is_latest t dir (?z ! i)}" using latest v(2) len by auto
  show "card W \<le> length (filter (is_latest t dir) ?z)" using W by (simp add: length_filter_conv_card)
  have "set (filter (is_latest t dir) ?z) = (\<lambda>i. ?z ! i) ` {i. i < length ?z \<and> is_latest t dir (?z ! i)}"
    by (rule set_filter_nth)
  then have "set (map snd (filter (is_latest t dir) ?z)) = (\<lambda>i. snd (?z ! i)) ` W"
    unfolding W [symmetric] by (simp add: image_image)
  also have "\<dots> = (\<lambda>i. ms ! i) ` W" using v(1,2) by (intro image_cong) auto
  finally show "set (map snd (filter (is_latest t dir) ?z)) = (\<lambda>i. ms ! i) ` W" .
qed

lemma version_quorum:
  assumes "version_at R ms es t dir blocks h W" "orders_ok R ms es"
  shows "\<exists>w. objectQuorumFromMeta (ro_latest_errs R) (ro_latest_times R) (ro_latest_dirs R) sCfg ms es parity =
    Some (Inr (blocks, w))"
proof -
  have v: "length es = length ms" "W \<subseteq> {..<length ms}" "length ms < 2 * card W"
    "\<forall>i \<in> W. es ! i = None \<and> ei_DataBlocks (fi_Erasure (ms ! i)) = blocks"
    using assms(1) by (auto simp: version_at_def)
  let ?latest = "map snd (filter (is_latest t dir) (zip (answer_times ms es) ms))"
  have o: "set (ro_latest_errs R) = error_keys es objectOpIgnoredErrs"
    "set (ro_latest_times R) = set (common_nanos (answer_times ms es))"
    "set (ro_latest_dirs R) = set (common_dirs (list_data_dirs ms es))"
    using assms(2) by (auto simp: orders_ok_def)
  have r: "reduceReadQuorumErrs (ro_latest_errs R) es objectOpIgnoredErrs (int (length ms div 2)) = None"
    unfolding reduceReadQuorumErrs_def by (rule no_error_wins [OF o(1)]) (use v in auto)
  have l: "card W \<le> length ?latest" using latest_in_version(2) [OF assms(1)] by simp
  then have ne: "?latest \<noteq> []" using v(3) by auto
  then have "last ?latest \<in> (\<lambda>i. ms ! i) ` W" using latest_in_version(1) [OF assms(1)] last_in_set by blast
  then have "ei_DataBlocks (fi_Erasure (last ?latest)) = blocks" using v(4) by auto
  moreover have "getLatestFileInfo (ro_latest_errs R) (ro_latest_times R) (ro_latest_dirs R) ms es = Some (Inr (last ?latest))"
    unfolding getLatestFileInfo_def r listObjectModtimes_times [OF v(1)] commonTime_version [OF assms(1) o(2,3)] option.case
    using l v(3) ne by (simp add: Let_def)
  ultimately show ?thesis by (simp add: objectQuorumFromMeta_def quorums_of_def Let_def)
qed

lemma set_filter_single:
  "x \<in> set xs \<Longrightarrow> x \<noteq> e \<Longrightarrow> (\<And>y. y \<in> set xs \<Longrightarrow> y \<noteq> e \<Longrightarrow> y = x) \<Longrightarrow> set (filter (\<lambda>h. h \<noteq> e) xs) = {x}"
  unfolding set_filter by blast

lemma version_picked:
  assumes "version_at R ms es t dir blocks h W"
    "set hs = set (filter (\<lambda>h. h \<noteq> '''') (meta_hashes (ro_parse_time R) (ro_now R) t dir ms))"
  shows "\<exists>i \<in> W. pickValidFileInfo hs (ro_parse_time R) (ro_now R) ms t dir blocks = Inr (ms ! i)"
proof -
  let ?hs = "meta_hashes (ro_parse_time R) (ro_now R) t dir ms" and ?H = "sha256_hex h"
  let ?c = "count_list (filter (\<lambda>h. h \<noteq> '''') ?hs)"
  have v: "W \<subseteq> {..<length ms}" "length ms < 2 * card W" "blocks \<le> int (card W)"
    "\<forall>i \<in> W. FileInfo_IsValid (ms ! i) \<and> fi_ModTime (ms ! i) = t \<and> fi_DataDir (ms ! i) = dir \<and>
      meta_preimage (ro_parse_time R) (ro_now R i) (ms ! i) = h"
    "\<forall>i < length ms. i \<notin> W \<longrightarrow> fi_ModTime (ms ! i) \<noteq> t"
    using assms(1) by (auto simp: version_at_def)
  have nth: "?hs ! i = meta_hash (ro_parse_time R) (ro_now R i) t dir (ms ! i)" if "i < length ms" for i
    by (rule meta_hashes_nth [OF that])
  have inW: "?hs ! i = ?H" if "i \<in> W" for i
  proof -
    have "i < length ms" using that v(1) by blast
    from nth [OF this] show ?thesis using that v(4) by (simp add: meta_hash_def)
  qed
  have "W \<noteq> {}" using v(2) by (intro notI) simp
  then obtain k where k: "k \<in> W" by blast
  then have kl: "k < length ms" using v(1) by blast
  have H: "?H \<noteq> ''''"
    using inW [OF k] meta_hash_ne [of "ro_parse_time R" "ro_now R k" t dir "ms ! k"] v(4) k nth [OF kl] by simp
  have outW: "i \<in> W" if "i < length ms" "?hs ! i \<noteq> ''''" for i
  proof -
    have "fi_ModTime (ms ! i) = t" using that(2) unfolding nth [OF that(1)] meta_hash_ne by blast
    then show ?thesis using v(5) that(1) by blast
  qed
  have only: "set hs = {?H}"
    unfolding assms(2)
  proof (rule set_filter_single [OF _ H])
    show "?H \<in> set ?hs" unfolding in_set_conv_nth length_meta_hashes using inW [OF k] kl by blast
  next
    fix x assume x: "x \<in> set ?hs" "x \<noteq> ''''"
    obtain i where i: "i < length ms" "?hs ! i = x" using x(1) unfolding in_set_conv_nth length_meta_hashes by blast
    have "?hs ! i \<noteq> ''''" unfolding i(2) by (rule x(2))
    from inW [OF outW [OF i(1) this]] show "x = ?H" unfolding i(2) .
  qed
  have "card W \<le> ?c ?H"
    using count_list_at_least [of W ?hs ?H] inW v(1) by (simp add: count_list_filter_ne [OF H])
  moreover have "0 < card W" using v(2) by linarith
  ultimately have pos: "0 < ?c ?H" "blocks \<le> int (?c ?H)" using v(3) by linarith+
  have fold: "foldl (max_hash_step ?c) (0, '''') hs = (?c ?H, ?H)"
    by (rule hashes.loop_unique) (use only pos in auto)
  have "find (\<lambda>(h, meta). h = ?H) (zip ?hs ms) \<noteq> None"
    using inW [OF k] kl by (auto simp: find_None_iff in_set_zip)
  then obtain x m where f: "find (\<lambda>(h, meta). h = ?H) (zip ?hs ms) = Some (x, m)" by auto
  then obtain j where j: "j < length ms" "?hs ! j = ?H" "m = ms ! j" by (auto simp: find_Some_iff)
  then have "j \<in> W" using outW H by simp
  moreover have "pickValidFileInfo hs (ro_parse_time R) (ro_now R) ms t dir blocks = Inr m"
    using fold f pos(2) by (simp add: pickValidFileInfo_def findFileInfoInQuorum_def Let_def)
  ultimately show ?thesis using j(3) by blast
qed

text \<open>A version at more than half of the drives, and at as many as it has data blocks, is found.\<close>

lemma getObjectFileInfo_majority:
  assumes "readAllFileInfo read disks = (ms, es)" "version_at R ms es t dir blocks h W" "orders_ok R ms es"
  shows "\<exists>i \<in> W. \<exists>online heal.
    getObjectFileInfo R toObjectErr systemBucket healing sCfg parity read disks versionID versioned =
      Some (ReadFound (ms ! i) ms online heal)"
proof -
  have len: "length es = length ms" "length disks = length ms"
    using assms(1,2) by (auto simp: readAllFileInfo_def Let_def)
  have v: "W \<subseteq> {..<length es}" "\<forall>i \<in> W. es ! i = None" "length es < 2 * card W" "blocks \<le> int (card W)"
    using assms(2) by (auto simp: version_at_def)
  have o: "set (ro_errs R) = error_keys es objectOpIgnoredErrs"
    "set (ro_times R) = set (common_nanos (answer_times ms es))"
    "set (ro_dirs R) = set (common_dirs (list_data_dirs ms es))"
    using assms(3) by (auto simp: orders_ok_def)
  have c: "commonTime (ro_times R) (ro_dirs R) (answer_times ms es) (list_data_dirs ms es) = (t, dir)"
    by (rule commonTime_version [OF assms(2) o(2,3)])
  have h: "set (ro_hashes R) = set (filter (\<lambda>h. h \<noteq> '''') (meta_hashes (ro_parse_time R) (ro_now R) t dir ms))"
    using assms(3) c by (simp add: orders_ok_def)
  obtain w where w: "objectQuorumFromMeta (ro_latest_errs R) (ro_latest_times R) (ro_latest_dirs R) sCfg ms es parity =
      Some (Inr (blocks, w))" using version_quorum [OF assms(2,3)] by blast
  have r: "reduceReadQuorumErrs (ro_errs R) es objectOpIgnoredErrs blocks = None"
    unfolding reduceReadQuorumErrs_def by (rule no_error_wins [OF o(1) v])
  obtain i where i: "i \<in> W" "pickValidFileInfo (ro_hashes R) (ro_parse_time R) (ro_now R) ms t dir blocks = Inr (ms ! i)"
    using version_picked [OF assms(2) h] by blast
  obtain online where online: "listOnlineDisks (ro_times R) (ro_dirs R) disks ms es = Some (online, t, dir)"
    using len by (simp add: listOnlineDisks_def listObjectModtimes_times c)
  have "\<exists>heal. getObjectFileInfo R toObjectErr systemBucket healing sCfg parity read disks versionID versioned =
      Some (ReadFound (ms ! i) ms online heal)"
    unfolding getObjectFileInfo_def assms(1) Let_def prod.case w r online option.case sum.case i(2) by simp
  with i(1) show ?thesis by blast
qed

section \<open>Reading what a drive wrote\<close>

text \<open>The contract of the files of a drive: what was written without an error is read back.\<close>

definition write_laws :: "'d drive_io \<Rightarrow> bool" where
  "write_laws S \<longleftrightarrow> (\<forall>volume path b d d'. WriteAll S volume path b d = (None, d') \<longrightarrow> ReadAll S volume path d' = Inr b)"

locale metadata_files =
  fixes S :: "'d drive_io"
  assumes write_read: "WriteAll S volume path b d = (None, d') \<Longrightarrow> ReadAll S volume path d' = Inr b"

text \<open>The metadata file of the drive is missing, cannot be read, or is a journal.\<close>

definition drive_ok :: "xl_libs \<Rightarrow> 'd drive_io \<Rightarrow> string \<Rightarrow> string \<Rightarrow> 'd \<Rightarrow> bool" where
  "drive_ok L S volume path d \<longleftrightarrow>
     (\<forall>buf z. ReadAll S volume (xl_meta_of path) d = Inr buf \<longrightarrow> Load L buf = Inr z \<longrightarrow>
        journal_ok (x_Versions z) \<and> (\<exists>m. represents (lib_msgp L) (x_data z) m \<and> card (dom m) + 1 < 2 ^ 32))"

lemma empty_data: "represents M [] Map.empty"
  using representsI [of "[]" Map.empty M] by (simp add: storable_def inline_serialize_def)

lemma WriteMetadata_success:
  assumes "WriteMetadata L S E volume path fi meta d = Some (None, d')" "drive_ok L S volume path d"
    "fi_TransitionStatus fi = ''''"
  obtains z m z' buf where "journal_ok (x_Versions z)" "represents (lib_msgp L) (x_data z) m" "card (dom m) + 1 < 2 ^ 32"
    "AddVersion L fi meta z = Some (Inr z')" "AppendTo L z' [] = Inr buf"
    "WriteAll S volume (xl_meta_of path) buf d = (None, d')" "validateStorageFileInfo fi True = None"
    "validStoragePath path"
proof -
  let ?use = "\<lambda>buf. case (if \<not> isXL2V1Format buf then newXLMetaV2 L fi meta
        else (case Load L buf of Inl err \<Rightarrow> Some (Inl err) | Inr z \<Rightarrow> AddVersion L fi meta z)) of
      None \<Rightarrow> None
    | Some (Inl err) \<Rightarrow> Some (Some (xl_go_error err), d)
    | Some (Inr z) \<Rightarrow>
        (case AppendTo L z [] of
           Inl err \<Rightarrow> Some (Some (xl_go_error err), d)
         | Inr buf' \<Rightarrow> Some (write_meta S E volume path fi buf' d))"
  have v: "validateStorageFileInfo fi True = None" "validStoragePath path"
    using assms(1) by (auto simp: WriteMetadata_def split: option.splits if_splits)
  obtain buf0 where use: "?use buf0 = Some (None, d')"
      and buf0: "ReadAll S volume (xl_meta_of path) d = Inr buf0 \<or> buf0 = []"
    using assms(1) v unfolding WriteMetadata_def Let_def by (auto split: sum.splits if_splits)
  obtain z' where z': "(if \<not> isXL2V1Format buf0 then newXLMetaV2 L fi meta
        else (case Load L buf0 of Inl err \<Rightarrow> Some (Inl err) | Inr z \<Rightarrow> AddVersion L fi meta z)) = Some (Inr z')"
    using use by (cases "if \<not> isXL2V1Format buf0 then newXLMetaV2 L fi meta
        else (case Load L buf0 of Inl err \<Rightarrow> Some (Inl err) | Inr z \<Rightarrow> AddVersion L fi meta z)" rule: option.exhaust)
      (auto split: sum.splits)
  obtain buf where buf: "AppendTo L z' [] = Inr buf" "write_meta S E volume path fi buf d = (None, d')"
    using use unfolding z' by (auto split: sum.splits)
  have w: "WriteAll S volume (xl_meta_of path) buf d = (None, d')" using buf(2) assms(3) by (simp add: write_meta_def)
  show thesis
  proof (cases "isXL2V1Format buf0")
    case True
    then have r: "ReadAll S volume (xl_meta_of path) d = Inr buf0"
      using buf0 by (auto simp: isXL2V1Format_def checkXL2V1_def)
    obtain z where z: "Load L buf0 = Inr z" "AddVersion L fi meta z = Some (Inr z')"
      using z' True by (auto split: sum.splits)
    then show ?thesis using that assms(2) r buf(1) w v unfolding drive_ok_def by blast
  next
    case False
    then have "AddVersion L fi meta \<lparr>x_Versions = [], x_data = []\<rparr> = Some (Inr z')" using z' by (simp add: newXLMetaV2_def)
    then show ?thesis using that [of "\<lparr>x_Versions = [], x_data = []\<rparr>" Map.empty] empty_data buf(1) w v by simp
  qed
qed

text \<open>What the drive answers for the version, when it was written as the metadata of an object.\<close>

definition writable :: "xl_libs \<Rightarrow> uuid \<Rightarrow> uuid \<Rightarrow> file_info \<Rightarrow> (string \<times> string) list \<Rightarrow> bool" where
  "writable L uv dd fi meta \<longleftrightarrow>
     names_version L (fi_VersionID fi) uv \<and> data_dir_uuid L (fi_DataDir fi) = Some dd \<and> 0 < wrap64 (fi_ModTime fi) \<and>
     \<not> fi_Deleted fi \<and> fi_TransitionStatus fi = '''' \<and> ordinary_metadata meta \<and>
     map_of meta transition_status_key = None \<and>
     (\<forall>i \<in> set (ei_Distribution (fi_Erasure fi)). 0 \<le> i \<and> i < 256) \<and>
     (uv \<noteq> zero_uuid \<longrightarrow> fi_VersionID fi = uuid_String L uv) \<and>
     length (fi_VersionID fi) < 2 ^ 32 \<and> length (fi_Data fi) < 2 ^ 32"

lemma validate_read_info:
  assumes "validateStorageFileInfo fi True = None" "\<not> fi_Deleted fi" "validStoragePath volume" "validStoragePath path"
    "validStoragePath (uuid_String L dd)"
  shows "validateStorageFileInfo ((read_info L volume path uv dd fi meta)\<lparr>fi_IsLatest := latest, fi_NumVersions := num,
      fi_SuccessorModTime := succ, fi_Data := data\<rparr>) True = None"
proof -
  have "validStorageFileInfoData fi" using assms(1) by (auto simp: validateStorageFileInfo_def split: if_splits)
  then show ?thesis
    using assms(2-5)
    by (auto simp: validateStorageFileInfo_def validStorageFileInfoPaths_def validStorageFileInfoData_def read_info_def
        zero_file_info_def validStorageErasureInfo_def split: if_splits)
qed

lemma ReadVersion_written:
  assumes "WriteMetadata L S E volume path fi meta d = Some (None, d')" "drive_ok L S volume path d"
    "writable L uv dd fi meta" "write_laws S" "sort_laws L" "codec_laws L" "msgp_laws (lib_msgp L)"
    "getVolDir (diskPath S) volume = Inr volumeDir" "validStoragePath (uuid_String L dd)"
    "readData \<longrightarrow> fi_Data fi \<noteq> []"
  shows "\<exists>latest num succ. ReadVersion L json S volume path (inline_name fi) readData d' =
    Some (Inr ((read_info L volume path uv dd fi meta)\<lparr>fi_IsLatest := latest, fi_NumVersions := num,
      fi_SuccessorModTime := succ, fi_Data := (if readData then fi_Data fi else [])\<rparr>), d')"
proof -
  note w = assms(3) [unfolded writable_def]
  have status: "fi_TransitionStatus fi = ''''" using w by blast
  obtain z m z' buf where z: "journal_ok (x_Versions z)" "represents (lib_msgp L) (x_data z) m" "card (dom m) + 1 < 2 ^ 32"
    "AddVersion L fi meta z = Some (Inr z')" "AppendTo L z' [] = Inr buf"
    "WriteAll S volume (xl_meta_of path) buf d = (None, d')" "validateStorageFileInfo fi True = None" "validStoragePath path"
    using WriteMetadata_success [OF assms(1,2) status] by metis
  have name: "names_version L (fi_VersionID fi) uv" "data_dir_uuid L (fi_DataDir fi) = Some dd" "0 < wrap64 (fi_ModTime fi)"
    "\<not> fi_Deleted fi" "ordinary_metadata meta" "\<forall>i \<in> set (ei_Distribution (fi_Erasure fi)). 0 \<le> i \<and> i < 256"
    "length (inline_name fi) < 2 ^ 32" "length (fi_Data fi) < 2 ^ 32"
    using w by (auto simp: inline_name_def nullVersionID_def)
  have "x_data z' = add_inline (lib_msgp L) (inline_name fi) uv dd fi z"
    using AddVersion_success [OF z(1,7) name(3,1,2), of meta] z(4) by (simp add: inline_name_def)
  then have rep: "represents (lib_msgp L) (x_data z') (added_data uv dd fi z m)"
    using add_inline_represents [OF assms(7) z(2,3) name(7,8), of uv dd] by simp
  have "(if version_string L uv = '''' then nullVersionID else version_string L uv) = inline_name fi"
    using names_version_null [OF name(1)] w by (auto simp: version_string_def inline_name_def)
  then have "found_data L uv dd (added_data uv dd fi z m) = fi_Data fi" if readData
    using that assms(10) name(4) by (simp add: found_data_def added_data_def Let_def)
  then obtain latest num succ where g: "getFileInfo L json buf volume path (inline_name fi) readData =
      Some (Inr ((read_info L volume path uv dd fi meta)\<lparr>fi_IsLatest := latest, fi_NumVersions := num,
        fi_SuccessorModTime := succ, fi_Data := (if readData then fi_Data fi else [])\<rparr>))"
    using added_version_read [OF z(1,7) name(3,1,2,4,5,6) assms(5,6) z(4,5) assms(7) rep, of json volume path readData]
    by (cases readData) auto
  have read: "ReadAll S volume (xl_meta_of path) d' = Inr buf" using assms(4) z(6) by (auto simp: write_laws_def)
  have ne: "buf \<noteq> []" using z(5) by (auto simp: AppendTo_def xlHeader_bytes split: option.splits)
  have vol: "validStoragePath volume" using assms(8) by (auto simp: getVolDir_def split: if_splits)
  note valid = validate_read_info [OF z(7) name(4) vol z(8) assms(9)]
  have data: "readData \<Longrightarrow> 0 < length (if readData then fi_Data fi else [])" using assms(10) by simp
  have "ReadVersion L json S volume path (inline_name fi) readData d' =
    Some (Inr ((read_info L volume path uv dd fi meta)\<lparr>fi_IsLatest := latest, fi_NumVersions := num,
      fi_SuccessorModTime := succ, fi_Data := (if readData then fi_Data fi else [])\<rparr>), d')"
    unfolding ReadVersion_def read_meta_def Let_def assms(8) read sum.case prod.case g option.case valid
    using z(8) ne data by (cases readData) simp_all
  then show ?thesis by blast
qed

section \<open>A write at a quorum of drives\<close>

text \<open>
  The answer of a drive to a write and to a read; the goroutine of a drive that panics stops the server,
  which is an error here. The drives after a write at all of them: a drive is written unless its metadata is
  not valid.
\<close>

definition drive_write ::
  "xl_libs \<Rightarrow> 'd drive_io \<Rightarrow> call_env \<Rightarrow> string \<Rightarrow> string \<Rightarrow> (string \<times> string) list \<Rightarrow> 'd \<Rightarrow> file_info \<Rightarrow> go_error option \<times> 'd" where
  "drive_write L S E volume path meta d fi =
     (case WriteMetadata L S E volume path fi meta d of None \<Rightarrow> (Some (ErrorVar ''panic''), d) | Some r \<Rightarrow> r)"

definition drive_read ::
  "xl_libs \<Rightarrow> (bytes \<Rightarrow> xlMetaV1Object option) \<Rightarrow> 'd drive_io \<Rightarrow> string \<Rightarrow> string \<Rightarrow> string \<Rightarrow> bool \<Rightarrow> 'd \<Rightarrow>
     file_info \<times> go_error option" where
  "drive_read L json S volume path vid readData d =
     (case ReadVersion L json S volume path vid readData d of
        None \<Rightarrow> (zero_file_info, Some (ErrorVar ''panic''))
      | Some (Inl err, _) \<Rightarrow> (zero_file_info, Some err)
      | Some (Inr fi, _) \<Rightarrow> (fi, None))"

definition drives_after ::
  "xl_libs \<Rightarrow> 'd drive_io \<Rightarrow> call_env \<Rightarrow> string \<Rightarrow> string \<Rightarrow> (string \<times> string) list \<Rightarrow> file_info list \<Rightarrow> 'd option list \<Rightarrow>
     'd option list" where
  "drives_after L S E volume path meta files disks =
     map (\<lambda>(i, disk). map_option (\<lambda>d.
         if FileInfo_IsValid (unique_file_info i (files ! i))
         then snd (drive_write L S E volume path meta d (unique_file_info i (files ! i))) else d) disk)
       (List.enumerate 0 disks)"

text \<open>The drives where the write succeeded.\<close>

definition written_at ::
  "xl_libs \<Rightarrow> 'd drive_io \<Rightarrow> call_env \<Rightarrow> string \<Rightarrow> string \<Rightarrow> (string \<times> string) list \<Rightarrow> file_info list \<Rightarrow> 'd option list \<Rightarrow>
     nat set" where
  "written_at L S E volume path meta files disks =
     {i. i < length disks \<and> (\<exists>d. disks ! i = Some d \<and> FileInfo_IsValid (unique_file_info i (files ! i)) \<and>
        fst (drive_write L S E volume path meta d (unique_file_info i (files ! i))) = None)}"

text \<open>The metadata of one object for the drives differs in the shard, the index and the checksums only.\<close>

definition same_object :: "file_info \<Rightarrow> file_info \<Rightarrow> bool" where
  "same_object fi f \<longleftrightarrow> length (fi_Data f) = length (fi_Data fi) \<and>
     (\<exists>data index sums. f = fi\<lparr>fi_Data := data,
        fi_Erasure := (fi_Erasure fi)\<lparr>ei_Index := index, ei_Checksums := sums\<rparr>\<rparr>)"

lemma quorum_written:
  assumes "writeUniqueFileInfo ks (\<lambda>d fi. fst (drive_write L S E volume path meta d fi)) disks files quorum =
      Some (ws, online, None)" "length files = length disks" "int (length disks) < 2 * quorum" "0 < quorum"
    "set ks = error_keys (map (\<lambda>(i, disk). snd (write_one (\<lambda>d fi. fst (drive_write L S E volume path meta d fi)) i disk (files ! i)))
       (List.enumerate 0 disks)) objectOpIgnoredErrs"
  shows "quorum \<le> int (card (written_at L S E volume path meta files disks))"
proof -
  let ?w = "\<lambda>d fi. fst (drive_write L S E volume path meta d fi)"
  let ?errs = "map (\<lambda>(i, disk). snd (write_one ?w i disk (files ! i))) (List.enumerate 0 disks)"
  have len: "length ?errs = length disks" by simp
  have nth: "?errs ! i = snd (write_one ?w i (disks ! i) (files ! i))" if "i < length disks" for i
    using that by (simp add: nth_enumerate_eq)
  have eq: "map snd (map (\<lambda>(i, disk). write_one ?w i disk (if i < length files then files ! i else zero_file_info))
      (List.enumerate 0 disks)) = ?errs"
    using assms(2) by (auto simp: in_set_enumerate_eq)
  have "reduceWriteQuorumErrs ks ?errs objectOpIgnoredErrs quorum = None"
    using assms(1) unfolding writeUniqueFileInfo_def Let_def eq by (auto split: if_splits)
  then have r: "reduceQuorumErrs ks ?errs objectOpIgnoredErrs quorum errErasureWriteQuorum = None"
    by (simp only: reduceWriteQuorumErrs_def)
  have "ks \<noteq> []" using r assms(4) by (auto simp: reduceQuorumErrs_def reduceErrs_def)
  with reduceErrs_keys [OF assms(5)] obtain e where e: "reduceErrs ks ?errs objectOpIgnoredErrs =
      (error_count ?errs objectOpIgnoredErrs e, e)" by (simp only: if_False) blast
  then have "e = None" "quorum \<le> int (error_count ?errs objectOpIgnoredErrs None)"
    using r by (auto simp: reduceQuorumErrs_def split: if_splits)
  moreover have "error_count ?errs objectOpIgnoredErrs None = count_list ?errs None"
    unfolding error_count_def by (rule count_list_filter) (simp add: IsErrIgnored_def IsErr_def)
  moreover have "{i. i < length ?errs \<and> ?errs ! i = None} = written_at L S E volume path meta files disks"
    unfolding written_at_def len
    using nth by (auto simp: write_one_def Let_def split: option.splits if_splits)
  ultimately show ?thesis unfolding count_list_card by simp
qed

lemma read_info_unique:
  assumes "same_object fi f"
  shows "read_info L volume path uv dd (unique_file_info i f) meta =
    (read_info L volume path uv dd fi meta)\<lparr>fi_Erasure :=
       (fi_Erasure (read_info L volume path uv dd fi meta))\<lparr>ei_Index := int i + 1\<rparr>\<rparr>"
  using assms by (auto simp: same_object_def read_info_def unique_file_info_def)

lemma writable_unique:
  "writable L uv dd fi meta \<Longrightarrow> same_object fi f \<Longrightarrow> writable L uv dd (unique_file_info i f) meta"
  by (auto simp: writable_def same_object_def unique_file_info_def)

lemma inline_name_unique: "same_object fi f \<Longrightarrow> inline_name (unique_file_info i f) = inline_name fi"
  by (auto simp: inline_name_def same_object_def unique_file_info_def)

text \<open>What the drives answer to a read after the write, and which answers the failed writes leave.\<close>

definition stale_elsewhere :: "nat set \<Rightarrow> int \<Rightarrow> file_info list \<Rightarrow> go_error option list \<Rightarrow> bool" where
  "stale_elsewhere W t ms es \<longleftrightarrow>
     (\<forall>i < length ms. i \<notin> W \<longrightarrow> fi_ModTime (ms ! i) \<noteq> t \<and> (es ! i = None \<longrightarrow> in_int64 (fi_ModTime (ms ! i))))"

definition answer_of :: "xl_libs \<Rightarrow> string \<Rightarrow> string \<Rightarrow> uuid \<Rightarrow> uuid \<Rightarrow> file_info \<Rightarrow> (string \<times> string) list \<Rightarrow> bool \<Rightarrow> file_info \<Rightarrow> bool" where
  "answer_of L volume path uv dd fi meta readData m \<longleftrightarrow>
     (\<exists>latest num succ. m = (read_info L volume path uv dd fi meta)\<lparr>fi_IsLatest := latest, fi_NumVersions := num,
        fi_SuccessorModTime := succ, fi_Data := (if readData then fi_Data fi else [])\<rparr>)"

lemma answer_of_fields:
  assumes "answer_of L volume path uv dd fi meta readData m"
  shows "fi_ModTime m = wrap64 (fi_ModTime fi)" "fi_DataDir m = uuid_String L dd" "fi_Parts m = fi_Parts fi"
    "ei_Distribution (fi_Erasure m) = ei_Distribution (fi_Erasure fi)"
    "ei_DataBlocks (fi_Erasure m) = ei_DataBlocks (fi_Erasure fi)"
    "ei_ParityBlocks (fi_Erasure m) = ei_ParityBlocks (fi_Erasure fi)" "ei_Index (fi_Erasure m) = ei_Index (fi_Erasure fi)"
    "ei_BlockSize (fi_Erasure m) = ei_BlockSize (fi_Erasure fi)"
    "fi_Metadata m = (map_of meta)(transition_status_key := None)" "length (fi_Data m) = (if readData then length (fi_Data fi) else 0)"
    "fi_TransitionStatus m = (case map_of meta transition_status_key of None \<Rightarrow> '''' | Some s \<Rightarrow> s)" "\<not> fi_Deleted m"
    "fi_Size m = fi_Size fi" "fi_Volume m = volume" "fi_Name m = path"
  using assms by (auto simp: answer_of_def read_info_def zero_file_info_def)

lemma answer_preimage:
  assumes "answer_of L volume path uv dd f meta readData m" "same_object fi g" "f = unique_file_info i g"
    "map_of meta transition_status_key = None"
  shows "meta_preimage pt now m =
    concat (map (\<lambda>part. ''part.'' @ Itoa (op_Number part)) (fi_Parts fi)) @
    show_slice (map Itoa (ei_Distribution (fi_Erasure fi))) @
    Itoa (int (if readData then length (fi_Data fi) else 0)) @ [CHR 0x00] @
    json_Marshal_map ((map_of meta)(transition_status_key := None))"
proof -
  have s: "fi_Parts f = fi_Parts fi" "ei_Distribution (fi_Erasure f) = ei_Distribution (fi_Erasure fi)"
    "length (fi_Data f) = length (fi_Data fi)"
    using assms(2,3) by (auto simp: same_object_def unique_file_info_def)
  have t: "fi_TransitionStatus m = ''''" using answer_of_fields(11) [OF assms(1)] assms(4) by simp
  then have "transitionHasLocalData pt now m" by (simp add: transitionHasLocalData_def TransitionComplete_def)
  then show ?thesis
    using t s answer_of_fields(3,4,9,10) [OF assms(1)] by (simp add: meta_preimage_def)
qed

lemma answer_valid:
  assumes "answer_of L volume path uv dd f meta readData m" "FileInfo_IsValid f" "\<not> fi_Deleted f"
    "validStoragePath volume" "validStoragePath path" "validStoragePath (uuid_String L dd)"
  shows "FileInfo_IsValid m"
proof -
  note m = answer_of_fields [OF assms(1)]
  have "validStorageFileInfoPaths m" using assms(4-6) m(2,14,15) by (simp add: validStorageFileInfoPaths_def)
  moreover have "validStorageFileInfoData m"
    using assms(2,3) m(3,5,6,8,12,13)
    by (simp add: FileInfo_IsValid_def validStorageFileInfoData_def validStorageErasureInfo_def split: if_splits)
  ultimately show ?thesis
    using assms(2,3) m(4-7,12) by (simp add: FileInfo_IsValid_def Let_def split: if_splits)
qed

lemma written_answers:
  assumes "\<forall>d. Some d \<in> set disks \<longrightarrow> drive_ok L S volume path d" "length files = length disks"
    "\<forall>f \<in> set files. same_object fi f" "writable L uv dd fi meta" "write_laws S" "sort_laws L" "codec_laws L"
    "msgp_laws (lib_msgp L)" "getVolDir (diskPath S) volume = Inr volumeDir" "validStoragePath (uuid_String L dd)"
    "readData \<longrightarrow> fi_Data fi \<noteq> []" "i \<in> written_at L S E volume path meta files disks"
    "readAllFileInfo (drive_read L json S volume path (inline_name fi) readData)
       (drives_after L S E volume path meta files disks) = (ms, es)"
  shows "es ! i = None \<and> answer_of L volume path uv dd (unique_file_info i (files ! i)) meta readData (ms ! i) \<and>
    FileInfo_IsValid (ms ! i)"
proof -
  let ?f = "unique_file_info i (files ! i)"
  obtain d where d: "i < length disks" "disks ! i = Some d" "FileInfo_IsValid ?f"
      "fst (drive_write L S E volume path meta d ?f) = None"
    using assms(12) by (auto simp: written_at_def)
  then obtain d' where w: "WriteMetadata L S E volume path ?f meta d = Some (None, d')"
    by (auto simp: drive_write_def split: option.splits)
  have f: "same_object fi (files ! i)" using assms(2,3) d(1) by simp
  have ok: "drive_ok L S volume path d" using assms(1) d(1,2) by (metis nth_mem)
  have dat: "readData \<longrightarrow> fi_Data ?f \<noteq> []" using f assms(11) by (auto simp: same_object_def unique_file_info_def)
  obtain latest num succ where r: "ReadVersion L json S volume path (inline_name fi) readData d' =
      Some (Inr ((read_info L volume path uv dd ?f meta)\<lparr>fi_IsLatest := latest, fi_NumVersions := num,
        fi_SuccessorModTime := succ, fi_Data := (if readData then fi_Data ?f else [])\<rparr>), d')"
    using ReadVersion_written [OF w ok writable_unique [OF assms(4) f] assms(5-10) dat, of json]
    unfolding inline_name_unique [OF f] by blast
  have "drives_after L S E volume path meta files disks ! i = Some d'"
    using d w by (simp add: drives_after_def nth_enumerate_eq drive_write_def)
  moreover have "length (drives_after L S E volume path meta files disks) = length disks" by (simp add: drives_after_def)
  ultimately have "ms ! i = fst (drive_read L json S volume path (inline_name fi) readData d')"
    "es ! i = snd (drive_read L json S volume path (inline_name fi) readData d')"
    using assms(13) d(1) by (auto simp: readAllFileInfo_def Let_def)
  then have a: "es ! i = None" "answer_of L volume path uv dd ?f meta readData (ms ! i)"
    unfolding drive_read_def r by (auto simp: answer_of_def)
  have "\<not> fi_Deleted ?f" "validStoragePath volume" "validStoragePath path"
    using writable_unique [OF assms(4) f, of i] assms(9) WriteMetadata_success [OF w ok]
    by (auto simp: writable_def getVolDir_def split: if_splits)
  with answer_valid [OF a(2) d(3)] assms(10) a show ?thesis by blast
qed

text \<open>A version that is written at a quorum of drives is found.\<close>

context metadata_files
begin

lemma laws: "write_laws S"
  using write_read by (simp add: write_laws_def)

lemma quorum_read_back:
  assumes "sort_laws L" "codec_laws L" "msgp_laws (lib_msgp L)" "uuid_laws L" "validStoragePath (uuid_String L dd)"
    "getVolDir (diskPath S) volume = Inr volumeDir" "\<forall>d. Some d \<in> set disks \<longrightarrow> drive_ok L S volume path d"
    "length files = length disks" "\<forall>f \<in> set files. same_object fi f" "writable L uv dd fi meta"
    "in_int64 (fi_ModTime fi)" "readData \<longrightarrow> fi_Data fi \<noteq> []"
    "writeUniqueFileInfo ks (\<lambda>d fi. fst (drive_write L S E volume path meta d fi)) disks files quorum = Some (ws, online, None)"
    "set ks = error_keys (map (\<lambda>(i, disk). snd (write_one (\<lambda>d fi. fst (drive_write L S E volume path meta d fi)) i disk (files ! i)))
       (List.enumerate 0 disks)) objectOpIgnoredErrs"
    "int (length disks) < 2 * quorum" "ei_DataBlocks (fi_Erasure fi) \<le> quorum"
    "readAllFileInfo (drive_read L json S volume path (inline_name fi) readData)
       (drives_after L S E volume path meta files disks) = (ms, es)" "orders_ok R ms es"
    "stale_elsewhere (written_at L S E volume path meta files disks) (fi_ModTime fi) ms es"
  shows "\<exists>i \<in> written_at L S E volume path meta files disks. \<exists>on heal.
    getObjectFileInfo R toObjectErr systemBucket healing sCfg parity
      (drive_read L json S volume path (inline_name fi) readData) (drives_after L S E volume path meta files disks)
      versionID versioned = Some (ReadFound (ms ! i) ms on heal) \<and>
    answer_of L volume path uv dd (unique_file_info i (files ! i)) meta readData (ms ! i)"
proof -
  let ?W = "written_at L S E volume path meta files disks"
  note answers = written_answers [OF assms(7-10) laws assms(1-3,6,5,12) _ assms(17)]
  have q: "0 < quorum" using assms(15) by linarith
  have card: "quorum \<le> int (card ?W)" by (rule quorum_written [OF assms(13,8,15) q assms(14)])
  have len: "length ms = length disks" "length es = length ms"
    using assms(17) by (auto simp: readAllFileInfo_def Let_def drives_after_def)
  have t: "wrap64 (fi_ModTime fi) = fi_ModTime fi" by (rule wrap64_id [OF assms(11)])
  have same: "same_object fi (files ! i)" if "i \<in> ?W" for i using that assms(8,9) by (auto simp: written_at_def)
  have status: "map_of meta transition_status_key = None" using assms(10) by (simp add: writable_def)
  let ?h = "concat (map (\<lambda>part. ''part.'' @ Itoa (op_Number part)) (fi_Parts fi)) @
    show_slice (map Itoa (ei_Distribution (fi_Erasure fi))) @
    Itoa (int (if readData then length (fi_Data fi) else 0)) @ [CHR 0x00] @
    json_Marshal_map ((map_of meta)(transition_status_key := None))"
  have entry: "es ! i = None \<and> FileInfo_IsValid (ms ! i) \<and> fi_ModTime (ms ! i) = fi_ModTime fi \<and>
      fi_DataDir (ms ! i) = uuid_String L dd \<and> ei_DataBlocks (fi_Erasure (ms ! i)) = ei_DataBlocks (fi_Erasure fi) \<and>
      meta_preimage (ro_parse_time R) (ro_now R i) (ms ! i) = ?h" if "i \<in> ?W" for i
  proof -
    note a = answers [OF that, THEN conjunct2, THEN conjunct1]
    have "fi_ModTime (unique_file_info i (files ! i)) = fi_ModTime fi"
      "ei_DataBlocks (fi_Erasure (unique_file_info i (files ! i))) = ei_DataBlocks (fi_Erasure fi)"
      using same [OF that] by (auto simp: same_object_def unique_file_info_def)
    then show ?thesis
      using answers [OF that] answer_of_fields(1,2,5) [OF a] t answer_preimage [OF a same [OF that] refl status] by simp
  qed
  obtain i0 where i0: "i0 \<in> ?W" using card q by (cases "?W = {}") auto
  have blocks: "0 < ei_DataBlocks (fi_Erasure fi)"
    using entry [OF i0] answer_of_fields(12) [OF answers [OF i0, THEN conjunct2, THEN conjunct1]]
    by (auto simp: FileInfo_IsValid_def validStorageFileInfoData_def validStorageErasureInfo_def isXLMetaErasureInfoValid_def
        split: if_splits)
  have "version_at R ms es (fi_ModTime fi) (uuid_String L dd) (ei_DataBlocks (fi_Erasure fi)) ?h ?W"
    unfolding version_at_def
  proof (intro conjI)
    show "?W \<subseteq> {..<length ms}" using len by (auto simp: written_at_def)
    show "fi_ModTime fi \<noteq> 0" using assms(10) t by (auto simp: writable_def)
    show "uuid_String L dd \<noteq> ''''" using assms(4) by (simp add: uuid_laws_def)
    show "\<forall>i < length ms. i \<notin> ?W \<longrightarrow> fi_ModTime (ms ! i) \<noteq> fi_ModTime fi \<and> (es ! i = None \<longrightarrow> in_int64 (fi_ModTime (ms ! i)))"
      using assms(19) by (simp only: stale_elsewhere_def)
  qed (use len card assms(11,15,16) blocks entry in \<open>auto simp del: append.simps\<close>)
  from getObjectFileInfo_majority [OF assms(17) this assms(18), of toObjectErr systemBucket healing sCfg parity versionID versioned]
  show ?thesis using answers by blast
qed

end

section \<open>Dangling objects\<close>

lemma dangling_meta_valid:
  assumes "dangling_meta v ms = (r, stop)" "\<forall>m. v = Some m \<longrightarrow> FileInfo_IsValid m \<and> fi_TransitionStatus m = ''''"
    "v \<noteq> None \<or> (\<exists>m \<in> set ms. FileInfo_IsValid m)"
  shows "\<exists>m. r = Some m \<and> FileInfo_IsValid m \<and> (v = Some m \<or> m \<in> set ms) \<and> (\<not> stop \<longrightarrow> fi_TransitionStatus m = '''')"
  using assms
proof (induction v ms rule: dangling_meta.induct)
  case (2 v m ms)
  show ?case
  proof (cases "FileInfo_IsValid m")
    case False
    then show ?thesis using 2 by auto
  next
    case True
    let ?tier = "fi_TransitionStatus m \<noteq> '''' \<or> (case fi_Metadata m transitionReferenceKey of None \<Rightarrow> '''' | Some v \<Rightarrow> v) \<noteq> ''''"
    show ?thesis
    proof (cases ?tier)
      case tier: True
      then show ?thesis using True "2.prems"(1) by auto
    next
      case False
      then show ?thesis using True "2.IH"(2) "2.prems" by (cases v) auto
    qed
  qed
qed auto


definition sample_layout :: "int \<Rightarrow> file_info" where
  "sample_layout index = zero_file_info\<lparr>fi_Volume := ''b'', fi_Name := ''o'', fi_DataDir := ''d1'', fi_ModTime := 5,
     fi_Erasure := zero_erasure_info\<lparr>ei_DataBlocks := 2, ei_ParityBlocks := 2, ei_BlockSize := 1024,
       ei_Index := index, ei_Distribution := [1, 2, 3, 4]\<rparr>\<rparr>"

lemma sample_layout_valid: "FileInfo_IsValid (sample_layout 1)" "\<not> FileInfo_IsValid zero_file_info"
  by code_simp+

lemma sample_layout_fields: "\<not> fi_Deleted (sample_layout i)" "ei_DataBlocks (fi_Erasure (sample_layout i)) = 2"
  "ei_ParityBlocks (fi_Erasure (sample_layout i)) = 2"
  by (simp_all add: sample_layout_def zero_file_info_def)


text \<open>Without any valid metadata the answer is true, even when every drive is only offline.\<close>

lemma offline_object_dangling:
  assumes "\<forall>m \<in> set ms. \<not> FileInfo_IsValid m"
  shows "isObjectDangling ms es [] = Some (zero_file_info, True)"
proof -
  have "dangling_meta v ms = (v, False)" if "\<forall>m \<in> set ms. \<not> FileInfo_IsValid m" for v
    using that by (induction ms arbitrary: v) auto
  from this [OF assms, of None] show ?thesis
    by (simp add: isObjectDangling_def Let_def zero_file_info_def zero_erasure_info_def TransitionComplete_def)
qed

end
