(* ===== verification/XL_Files_Facts.thy ===== *)
theory XL_Files_Facts
  imports XL_Files Object_Info_Facts
begin

text \<open>
  What the calls of the package \<^verbatim>\<open>os\<close> and the operations of a drive on files change: each is a sequence of small steps
  at paths that satisfy a predicate, and files elsewhere stay. The drive keeps the contract of the operations on
  metadata: what is written without an error is read back.
\<close>

section \<open>Looking up after a change\<close>

lemma look_put [simp]: "p \<noteq> [] \<Longrightarrow> look (put_node p n t) q = (if q = p then Some n else look t q)"
  by (simp add: look_def put_node_def update_conv')

lemma map_of_filter_paths: "map_of (filter (\<lambda>(q, _). P q) t) p = (if P p then map_of t p else None)"
  by (induction t) auto

lemma look_drop_node [simp]: "look (drop_node p t) q = (if q = p \<and> q \<noteq> [] then None else look t q)"
  by (simp add: look_def drop_node_def map_of_filter_paths)

lemma look_drop_below [simp]: "p \<noteq> [] \<Longrightarrow> look (drop_below p t) q = (if prefix p q then None else look t q)"
  by (auto simp: look_def drop_below_def map_of_filter_paths)

lemma map_of_move:
  assumes "\<forall>(q, n) \<in> set t. \<not> prefix d q" "\<not> prefix s d" "\<not> prefix d s"
  shows "map_of (map (\<lambda>(q, n). (if prefix s q then d @ drop (length s) q else q, n)) t) p =
    (if prefix d p then map_of t (s @ drop (length d) p) else if prefix s p then None else map_of t p)"
  using assms(1)
proof (induction t)
  case (Cons x t)
  obtain q n where x: "x = (q, n)" by (cases x)
  have q: "\<not> prefix d q" using Cons.prems x by simp
  show ?case
  proof (cases "prefix s q")
    case True
    then obtain r where r: "q = s @ r" by (auto simp: prefix_def)
    have "d @ r = p \<longleftrightarrow> prefix d p \<and> s @ drop (length d) p = q" unfolding r by (auto simp: prefix_def)
    moreover have "p \<noteq> q" if "\<not> prefix s p" using that True by auto
    ultimately show ?thesis using Cons x r by auto
  next
    case False
    then have "s @ drop (length d) p \<noteq> q" by auto
    moreover have "p \<noteq> q" if "prefix d p" using that q by auto
    moreover have "p \<noteq> q" if "prefix s p" using that False by auto
    ultimately show ?thesis using Cons x False by auto
  qed
qed simp

lemma look_move:
  assumes "s \<noteq> []" "d \<noteq> []" "\<not> prefix s d" "\<not> prefix d s"
  shows "look (move_below s d t) q =
    (if prefix d q then look t (s @ drop (length d) q) else if prefix s q then None else look t q)"
proof -
  let ?t = "drop_below d t"
  have no: "\<forall>(q, n) \<in> set ?t. \<not> prefix d q" by (auto simp: drop_below_def)
  have "\<not> prefix d (s @ r)" for r
  proof
    assume "prefix d (s @ r)"
    then show False using assms(3,4) prefix_same_cases [of d "s @ r" s] by auto
  qed
  then have "map_of ?t (s @ r) = map_of t (s @ r)" for r by (simp add: drop_below_def map_of_filter_paths)
  moreover have "map_of ?t q = map_of t q" if "\<not> prefix d q" using that by (simp add: drop_below_def map_of_filter_paths)
  ultimately show ?thesis
    using assms map_of_move [OF no assms(3,4), of q] by (auto simp: look_def move_below_def)
qed

section \<open>Paths whose parents are directories\<close>

lemma walk_None_iff:
  "walk t pre p = None \<longleftrightarrow> (\<forall>q. q \<noteq> [] \<and> strict_prefix q p \<longrightarrow> look t (pre @ q) = Some Directory)"
proof (induction t pre p rule: walk.induct)
  case (3 t pre x y ys)
  have *: "(\<forall>q. q \<noteq> [] \<and> strict_prefix q (x # y # ys) \<longrightarrow> look t (pre @ q) = Some Directory) \<longleftrightarrow>
      look t (pre @ [x]) = Some Directory \<and>
      (\<forall>q. q \<noteq> [] \<and> strict_prefix q (y # ys) \<longrightarrow> look t ((pre @ [x]) @ q) = Some Directory)" (is "?l \<longleftrightarrow> ?r")
  proof
    assume l: ?l
    have "look t (pre @ [x]) = Some Directory" using l [rule_format, of "[x]"] by simp
    moreover have "look t ((pre @ [x]) @ q) = Some Directory" if "q \<noteq> []" "strict_prefix q (y # ys)" for q
      using l [rule_format, of "x # q"] that by simp
    ultimately show ?r by blast
  next
    assume r: ?r
    show ?l
    proof (intro allI impI)
      fix q assume q: "q \<noteq> [] \<and> strict_prefix q (x # y # ys)"
      then obtain q' where q': "q = x # q'" "strict_prefix q' (y # ys)" by (cases q) auto
      then show "look t (pre @ q) = Some Directory" using r by (cases "q' = []") auto
    qed
  qed
  show ?case
    unfolding * using 3 by (auto split: option.splits node.splits)
qed (auto simp: strict_prefix_def prefix_Cons)

definition parents_ok :: "tree \<Rightarrow> fpath \<Rightarrow> bool" where
  "parents_ok t p \<longleftrightarrow> (\<forall>q. strict_prefix q p \<longrightarrow> look t q = Some Directory)"

lemma look_Nil [simp]: "look t [] = Some Directory"
  by (simp add: look_def)

lemma walk_parents: "walk t [] p = None \<longleftrightarrow> parents_ok t p"
  unfolding walk_None_iff parents_ok_def by (metis append_Nil look_Nil)

lemma parents_ok_butlast: "parents_ok t p \<Longrightarrow> p \<noteq> [] \<Longrightarrow> look t (butlast p) = Some Directory \<and> parents_ok t (butlast p)"
  unfolding parents_ok_def
  by (metis append_butlast_last_id prefix_def prefix_order.less_le_trans strict_prefix_def append_self_conv not_Cons_self2)

lemma parents_ok_put: "p \<noteq> [] \<Longrightarrow> parents_ok (put_node p n t) p = parents_ok t p"
  by (auto simp: parents_ok_def)

lemma node_at_file:
  "node_at t p = Inr (File b) \<longleftrightarrow> parents_ok t (elements p) \<and> look t (elements p) = Some (File b) \<and> \<not> HasSuffix p ''/''"
  by (auto simp: node_at_def walk_parents [symmetric] split: option.splits node.splits)

section \<open>Calls that succeed\<close>

lemma next_fault_files: "next_fault d = (f, d') \<Longrightarrow> files d' = files d"
  by (auto simp: next_fault_def split: list.splits)

lemma change_success:
  "change op d = (None, d') \<Longrightarrow> \<exists>t. op (files d) = Inr t \<and> files d' = t"
  by (auto simp: change_def dest: next_fault_files split: prod.splits fault.splits sum.splits)

lemma change_failed: "change op d = (Some e, d') \<Longrightarrow> files d' = files d"
  by (auto simp: change_def dest: next_fault_files split: prod.splits fault.splits sum.splits)

lemma create_call_success:
  assumes "create_call O_TRUNC p t = Inr t'"
  shows "t' = put_node (elements p) (File []) t" "parents_ok t (elements p)" "\<not> HasSuffix p ''/''" "elements p \<noteq> []"
    "look t (elements p) \<noteq> Some Directory"
proof -
  show "elements p \<noteq> []" using assms by (auto simp: create_call_def split: option.splits if_splits)
  show "t' = put_node (elements p) (File []) t" "parents_ok t (elements p)" "\<not> HasSuffix p ''/''"
    "look t (elements p) \<noteq> Some Directory"
    using assms by (auto simp: create_call_def walk_parents [symmetric] split: option.splits if_splits node.splits)
qed

lemma openFile_trunc:
  assumes "openFile C O_TRUNC p d = (None, d')"
  shows "look (files d') (elements p) = Some (File [])" "parents_ok (files d') (elements p)" "\<not> HasSuffix p ''/''"
    "elements p \<noteq> []"
proof -
  obtain d1 where "os_Create O_TRUNC p d1 = (None, d')"
    using assms by (auto simp: openFile_def Let_def split: prod.splits option.splits)
  then have c: "create_call O_TRUNC p (files d1) = Inr (files d')"
    using change_success [of "create_call O_TRUNC p" d1 d'] by (auto simp: os_Create_def)
  note s = create_call_success [OF c]
  show "look (files d') (elements p) = Some (File [])" "parents_ok (files d') (elements p)" "\<not> HasSuffix p ''/''"
    "elements p \<noteq> []"
    using s by (simp_all add: parents_ok_put)
qed

lemma write_open_success:
  assumes "write_open C p b d = (None, d')" "look (files d) (elements p) = Some (File [])" "elements p \<noteq> []"
  shows "files d' = put_node (elements p) (File b) (files d)"
  using assms by (auto simp: write_open_def os_Write_def append_bytes_def dest: next_fault_files split: prod.splits fault.splits)

text \<open>What is written without an error is read back, if the drive reads.\<close>

lemma xl_write_read:
  assumes "xl_WriteAll C volume path b d = (None, d')" "\<forall>p. broken C p = None"
  shows "xl_ReadAll C volume path d' = Inr b"
proof -
  obtain volumeDir p where p: "file_path C volume path = Inr (volumeDir, p)"
    using assms(1) by (cases "file_path C volume path") (auto simp: xl_WriteAll_def)
  obtain d1 where o: "openFile C O_TRUNC p d = (None, d1)" and w: "write_open C p b d1 = (None, d')"
    using assms(1) p by (auto simp: xl_WriteAll_def split: prod.splits option.splits)
  note open_file = openFile_trunc [OF o]
  have "files d' = put_node (elements p) (File b) (files d1)" using write_open_success [OF w open_file(1,4)] .
  then have "node_at (files d') p = Inr (File b)"
    using open_file by (simp add: node_at_file parents_ok_put)
  then have "xl_readAllData C volumeDir p d' = Inr b"
    using assms(2) by (simp add: xl_readAllData_def open_read_def Lstat_def read_node_def)
  then show ?thesis by (simp add: xl_ReadAll_def p)
qed

lemma xl_drive_fields [simp]:
  "diskPath (xl_drive C) = xl_diskPath C" "ReadAll (xl_drive C) = xl_ReadAll C" "WriteAll (xl_drive C) = xl_WriteAll C"
  "RenameFile (xl_drive C) = xl_RenameFile C" "Delete (xl_drive C) = xl_Delete C" "deleteFile (xl_drive C) = xl_deleteFile C"
  "renameAll (xl_drive C) = xl_renameAll C" "readAllData (xl_drive C) = xl_readAllData C"
  "renameLegacyMetadata (xl_drive C) = xl_renameLegacyMetadata C"
  by (simp_all add: xl_drive_def)

interpretation reading: metadata_files "xl_drive (C\<lparr>broken := \<lambda>_. None\<rparr>)" for C
  by unfold_locales (simp add: xl_write_read)

section \<open>Steps of the tree\<close>

text \<open>The changes that system calls make, at paths that satisfy \<open>P\<close> only.\<close>

inductive tree_step :: "(fpath \<Rightarrow> bool) \<Rightarrow> tree \<Rightarrow> tree \<Rightarrow> bool" for P where
  put_file: "P p \<Longrightarrow> p \<noteq> [] \<Longrightarrow> parents_ok t p \<or> look t p \<noteq> None \<Longrightarrow> look t p \<noteq> Some Directory \<Longrightarrow> tree_step P t (put_node p (File b) t)"
| put_dir: "P p \<Longrightarrow> p \<noteq> [] \<Longrightarrow> parents_ok t p \<Longrightarrow> look t p = None \<Longrightarrow> tree_step P t (put_node p Directory t)"
| drop_one: "P p \<Longrightarrow> p \<noteq> [] \<Longrightarrow> look t p \<noteq> Some Directory \<or> names_in p t = [] \<Longrightarrow> tree_step P t (drop_node p t)"
| drop_all: "(\<And>q. prefix p q \<Longrightarrow> P q) \<Longrightarrow> p \<noteq> [] \<Longrightarrow> tree_step P t (drop_below p t)"
| move: "(\<And>q. prefix s q \<or> prefix d q \<Longrightarrow> P q) \<Longrightarrow> s \<noteq> [] \<Longrightarrow> d \<noteq> [] \<Longrightarrow> \<not> prefix s d \<Longrightarrow> \<not> prefix d s \<Longrightarrow>
    parents_ok t d \<Longrightarrow> look t s = Some n \<Longrightarrow> look t d \<noteq> Some Directory \<Longrightarrow> (n = Directory \<longrightarrow> look t d = None) \<Longrightarrow>
    tree_step P t (move_below s d t)"

abbreviation tree_steps :: "(fpath \<Rightarrow> bool) \<Rightarrow> tree \<Rightarrow> tree \<Rightarrow> bool" where
  "tree_steps P \<equiv> (tree_step P)\<^sup>*\<^sup>*"

lemma tree_step_keep: "tree_step P t t' \<Longrightarrow> \<not> P q \<Longrightarrow> look t' q = look t q"
  by (induction rule: tree_step.induct) (auto simp: look_move)

lemma tree_steps_keep: "tree_steps P t t' \<Longrightarrow> \<not> P q \<Longrightarrow> look t' q = look t q"
  by (induction rule: rtranclp_induct) (auto dest: tree_step_keep)

text \<open>The entries are distinct and stand in directories.\<close>

definition tree_ok :: "tree \<Rightarrow> bool" where
  "tree_ok t \<longleftrightarrow> distinct (map fst t) \<and> (\<forall>p. p \<noteq> [] \<longrightarrow> look t p \<noteq> None \<longrightarrow> look t (butlast p) = Some Directory) \<and> [] \<notin> fst ` set t"

lemma look_in_set: "p \<noteq> [] \<Longrightarrow> look t p \<noteq> None \<longleftrightarrow> p \<in> fst ` set t"
  by (simp add: look_def map_of_eq_None_iff)

lemma names_in_iff: "n \<in> set (names_in p t) \<longleftrightarrow> look t (p @ [n]) \<noteq> None"
proof -
  have "n \<in> set (names_in p t) \<longleftrightarrow> p @ [n] \<in> fst ` set t"
    unfolding names_in_def by (force simp: image_iff) 
  then show ?thesis using look_in_set [of "p @ [n]" t] by simp
qed

lemma tree_ok_D: "tree_ok t \<Longrightarrow> p \<noteq> [] \<Longrightarrow> look t p \<noteq> None \<Longrightarrow> look t (butlast p) = Some Directory"
  by (simp add: tree_ok_def)

text \<open>Below a file there is nothing.\<close>

lemma tree_ok_below:
  assumes "tree_ok t" "strict_prefix p q" "look t p \<noteq> Some Directory"
  shows "look t q = None"
  using assms
proof (induction "length q" arbitrary: q)
  case (Suc n)
  then have ne: "q \<noteq> []" by auto
  show ?case
  proof (rule ccontr)
    assume "look t q \<noteq> None"
    then have d: "look t (butlast q) = Some Directory" using tree_ok_D [OF Suc.prems(1) ne] by simp
    then have "p \<noteq> butlast q" using Suc.prems(3) by auto
    then have "strict_prefix p (butlast q)" using Suc.prems(2) ne
      by (metis append_butlast_last_id prefix_snoc strict_prefix_def)
    moreover have "n = length (butlast q)" using Suc.hyps(2) by simp
    ultimately show False using Suc.hyps(1) [of "butlast q"] Suc.prems(1,3) d by simp
  qed
qed simp

lemma not_prefix_butlast: "\<not> prefix p q \<Longrightarrow> \<not> prefix p (butlast q)"
  using prefix_order.trans [of p "butlast q" q] prefixeq_butlast [of q] by blast

lemma butlast_prefix: "prefix p q \<Longrightarrow> q \<noteq> p \<Longrightarrow> prefix p (butlast q)"
  by (metis append_butlast_last_id butlast.simps(1) prefix_bot.extremum_uniqueI prefix_snoc)

lemma put_node_keys: "[] \<notin> fst ` set t \<Longrightarrow> p \<noteq> [] \<Longrightarrow> [] \<notin> fst ` set (put_node p n t)"
  by (simp add: put_node_def dom_update)

lemma tree_ok_put:
  assumes "tree_ok t" "p \<noteq> []" "parents_ok t p \<or> look t p \<noteq> None" "n = Directory \<or> look t p \<noteq> Some Directory"
  shows "tree_ok (put_node p n t)"
  unfolding tree_ok_def
proof (intro conjI allI impI)
  show "distinct (map fst (put_node p n t))" using assms(1) by (simp add: tree_ok_def put_node_def distinct_update)
  show "[] \<notin> fst ` set (put_node p n t)" using assms(1,2) put_node_keys by (auto simp: tree_ok_def)
  fix q assume q: "q \<noteq> []" "look (put_node p n t) q \<noteq> None"
  have parent: "look t (butlast p) = Some Directory" using parents_ok_butlast [OF _ assms(2)] tree_ok_D [OF assms(1,2)] assms(3) by blast
  have ne: "butlast p \<noteq> p" using assms(2) by (metis append_butlast_last_id append_self_conv not_Cons_self2)
  show "look (put_node p n t) (butlast q) = Some Directory"
  proof (cases "q = p")
    case True
    then show ?thesis using parent ne assms(2) by simp
  next
    case False
    then have "look t (butlast q) = Some Directory" using q assms(1,2) tree_ok_D by simp
    then show ?thesis using assms(2,4) by auto
  qed
qed

lemma distinct_filter_keys: "distinct (map fst t) \<Longrightarrow> distinct (map fst (filter f t))"
  by (induction t) auto

lemma tree_ok_drop_node:
  assumes "tree_ok t" "look t p \<noteq> Some Directory \<or> names_in p t = []"
  shows "tree_ok (drop_node p t)"
  unfolding tree_ok_def
proof (intro conjI allI impI)
  show "distinct (map fst (drop_node p t))" using assms(1) by (simp add: tree_ok_def drop_node_def distinct_filter_keys)
  show "[] \<notin> fst ` set (drop_node p t)" using assms(1) by (auto simp: tree_ok_def drop_node_def)
  fix q assume q: "q \<noteq> []" "look (drop_node p t) q \<noteq> None"
  then have l: "look t q \<noteq> None" "q \<noteq> p" by (auto split: if_splits)
  then have d: "look t (butlast q) = Some Directory" using q assms(1) tree_ok_D by blast
  have "butlast q \<noteq> p"
  proof
    assume b: "butlast q = p"
    then have "last q \<in> set (names_in p t)" using l(1) q(1) names_in_iff [of "last q" p t] by auto
    then show False using assms(2) d b by auto
  qed
  then show "look (drop_node p t) (butlast q) = Some Directory" using d by simp
qed

lemma tree_ok_drop_below:
  assumes "tree_ok t" "p \<noteq> []"
  shows "tree_ok (drop_below p t)"
  unfolding tree_ok_def
proof (intro conjI allI impI)
  show "distinct (map fst (drop_below p t))" using assms(1) by (simp add: tree_ok_def drop_below_def distinct_filter_keys)
  show "[] \<notin> fst ` set (drop_below p t)" using assms(1) by (auto simp: tree_ok_def drop_below_def)
  fix q assume q: "q \<noteq> []" "look (drop_below p t) q \<noteq> None"
  then have l: "look t q \<noteq> None" "\<not> prefix p q" using assms(2) by (auto split: if_splits)
  moreover have "\<not> prefix p (butlast q)" by (rule not_prefix_butlast [OF l(2)])
  ultimately show "look (drop_below p t) (butlast q) = Some Directory" using q assms tree_ok_D by simp
qed

lemma tree_ok_move:
  assumes "tree_ok t" "s \<noteq> []" "d \<noteq> []" "\<not> prefix s d" "\<not> prefix d s" "parents_ok t d" "look t s = Some n"
    "look t d \<noteq> Some Directory"
  shows "tree_ok (move_below s d t)"
  unfolding tree_ok_def
proof (intro conjI allI impI)
  note look = look_move [OF assms(2-5), of t]
  let ?f = "\<lambda>q. if prefix s q then d @ drop (length s) q else q"
  have keys: "map fst (move_below s d t) = map ?f (map fst (drop_below d t))"
    by (simp add: move_below_def comp_def case_prod_unfold)
  have below: "\<not> prefix d q" if "q \<in> set (map fst (drop_below d t))" for q using that by (auto simp: drop_below_def)
  have "inj_on ?f (set (map fst (drop_below d t)))"
  proof (rule inj_onI)
    fix a b assume ab: "a \<in> set (map fst (drop_below d t))" "b \<in> set (map fst (drop_below d t))" "?f a = ?f b"
    have "prefix d (?f q)" if "prefix s q" for q using that by simp
    then have "prefix s a = prefix s b" using ab below by metis
    then show "a = b" using ab(3) by (cases "prefix s a") (auto simp: prefix_def)
  qed
  moreover have "distinct (map fst (drop_below d t))"
    using assms(1) by (simp add: tree_ok_def drop_below_def distinct_filter_keys)
  ultimately show "distinct (map fst (move_below s d t))" unfolding keys by (simp only: distinct_map [of ?f])
  have "?f q \<noteq> []" if "q \<in> set (map fst (drop_below d t))" for q
  proof (cases "prefix s q")
    case False
    have "q \<in> fst ` set t" using that by (auto simp: drop_below_def)
    then have "q \<noteq> []" using assms(1) unfolding tree_ok_def by metis
    then show ?thesis using False by simp
  qed (use assms(3) in simp)
  then have "[] \<notin> ?f ` K" if "K = set (map fst (drop_below d t))" for K using that by fastforce
  then show "[] \<notin> fst ` set (move_below s d t)" using keys by (metis set_map)
  fix q assume q: "q \<noteq> []" "look (move_below s d t) q \<noteq> None"
  show "look (move_below s d t) (butlast q) = Some Directory"
  proof (cases "prefix d q")
    case True
    then obtain r where r: "q = d @ r" by (auto simp: prefix_def)
    show ?thesis
    proof (cases "r = []")
      case True
      have "\<not> prefix d (butlast d)" using assms(3) prefix_length_le [of d "butlast d"] by (cases d) auto
      moreover have "\<not> prefix s (butlast d)" by (rule not_prefix_butlast [OF assms(4)])
      ultimately show ?thesis using parents_ok_butlast [OF assms(6,3)] r True by (simp add: look)
    next
      case False
      have b: "butlast q = d @ butlast r" unfolding r using False by (simp add: butlast_append)
      have "look t (s @ r) \<noteq> None" using q(2) unfolding r look by simp
      moreover have "butlast (s @ r) = s @ butlast r" using False by (simp add: butlast_append)
      ultimately have "look t (s @ butlast r) = Some Directory" using tree_ok_D [OF assms(1), of "s @ r"] False by simp
      then show ?thesis unfolding b look by simp
    qed
  next
    case False
    then have "look (move_below s d t) q = (if prefix s q then None else look t q)" by (simp add: look)
    then have l: "look t q \<noteq> None" "\<not> prefix s q" using q(2) by presburger+
    then have b: "look t (butlast q) = Some Directory" using tree_ok_D [OF assms(1) q(1)] by simp
    have "\<not> prefix s (butlast q)" "\<not> prefix d (butlast q)" using l(2) False not_prefix_butlast by blast+
    then show ?thesis using b by (simp add: look)
  qed
qed

lemma tree_step_ok: "tree_step P t t' \<Longrightarrow> tree_ok t \<Longrightarrow> tree_ok t'"
  by (induction rule: tree_step.induct)
    (simp_all add: tree_ok_put tree_ok_drop_node tree_ok_drop_below tree_ok_move)

lemma tree_steps_ok: "tree_steps P t t' \<Longrightarrow> tree_ok t \<Longrightarrow> tree_ok t'"
  by (induction rule: rtranclp_induct) (auto dest: tree_step_ok)

section \<open>The calls as steps\<close>

definition open_path :: "(fpath \<Rightarrow> bool) \<Rightarrow> tree \<Rightarrow> fpath \<Rightarrow> bool" where
  "open_path P t p \<longleftrightarrow> (\<forall>q. q \<noteq> [] \<and> prefix q p \<longrightarrow> P q \<or> look t q = Some Directory)"

lemma open_path_steps: "open_path P t p \<Longrightarrow> tree_steps P t t' \<Longrightarrow> open_path P t' p"
  unfolding open_path_def using tree_steps_keep by metis

lemma open_path_prefix: "open_path P t p \<Longrightarrow> prefix q p \<Longrightarrow> open_path P t q"
  unfolding open_path_def using prefix_order.trans by blast

lemma tree_steps_trans: "tree_steps P t t' \<Longrightarrow> tree_steps P t' t'' \<Longrightarrow> tree_steps P t t''"
  by (rule rtranclp_trans)

lemma change_steps:
  assumes "change op d = (e, d')" "\<And>t. op (files d) = Inr t \<Longrightarrow> tree_steps P (files d) t"
  shows "tree_steps P (files d) (files d')"
proof (cases e)
  case None
  then show ?thesis using change_success [of op d d'] assms by auto
next
  case (Some e')
  then show ?thesis using change_failed [of op d e' d'] assms(1) by simp
qed

lemma mkdirs_steps:
  assumes "mkdirs pre p d = (e, d')" "\<forall>q. prefix q pre \<longrightarrow> look (files d) q = Some Directory" "open_path P (files d) (pre @ p)"
  shows "tree_steps P (files d) (files d')"
  using assms
proof (induction pre p d arbitrary: e d' rule: mkdirs.induct)
  case (2 pre x xs d)
  note IH_new = "2.IH"(1) and IH_dir = "2.IH"(2)
  show ?case
  proof (cases "look (files d) (pre @ [x])")
    case None
    obtain e1 d1 where c: "change (\<lambda>t. Inr (put_node (pre @ [x]) Directory t)) d = (e1, d1)"
      using prod.exhaust by blast
    have "prefix (pre @ [x]) (pre @ x # xs)" by simp
    then have P: "P (pre @ [x])" using "2.prems"(3) None unfolding open_path_def by (metis append_is_Nil_conv not_Cons_self2 option.distinct(1))
    have parents: "parents_ok (files d) (pre @ [x])" using "2.prems"(2) unfolding parents_ok_def strict_prefix_def prefix_snoc by blast
    have step: "tree_steps P (files d) (files d1)"
      by (rule change_steps [OF c]) (use P parents None in \<open>auto intro: tree_step.put_dir\<close>)
    show ?thesis
    proof (cases e1)
      case e1: None
      then have "files d1 = put_node (pre @ [x]) Directory (files d)" 
        using change_success [of "\<lambda>t. Inr (put_node (pre @ [x]) Directory t)" d d1] c by auto
      then have "\<forall>q. prefix q (pre @ [x]) \<longrightarrow> look (files d1) q = Some Directory" using "2.prems"(2) by auto
      then have "tree_steps P (files d1) (files d')"
        using IH_new [OF None c [unfolded e1, symmetric] refl] open_path_steps [OF "2.prems"(3) step] "2.prems"(1) None c e1 by simp
      then show ?thesis using step tree_steps_trans by blast
    next
      case (Some e2)
      then show ?thesis using "2.prems"(1) None c step by simp
    qed
  next
    case (Some n)
    show ?thesis
    proof (cases n)
      case Directory
      then have "\<forall>q. prefix q (pre @ [x]) \<longrightarrow> look (files d) q = Some Directory" using "2.prems"(2) Some by auto
      then show ?thesis using IH_dir [OF Some Directory] "2.prems"(1,3) Some Directory by simp
    qed (use "2.prems"(1) Some in simp)
  qed
qed simp

lemma os_MkdirAll_steps:
  assumes "os_MkdirAll p d = (e, d')" "open_path P (files d) (elements p)"
  shows "tree_steps P (files d) (files d')"
  using mkdirs_steps [of "[]" "elements p" d e d' P] assms by (simp add: os_MkdirAll_def)

lemma reliableMkdirAll_steps:
  assumes "reliableMkdirAll C p d = (e, d')" "open_path P (files d) (elements p)"
  shows "tree_steps P (files d) (files d')"
proof -
  obtain e1 d1 where m: "os_MkdirAll p d = (e1, d1)" using prod.exhaust by blast
  note s = os_MkdirAll_steps [OF m assms(2)]
  show ?thesis
  proof (cases "d' = d1")
    case False
    then obtain e2 where "os_MkdirAll p d1 = (e2, d')"
      using assms(1) m by (cases "os_MkdirAll p d1") (auto simp: reliableMkdirAll_def split: option.splits if_splits)
    then show ?thesis using os_MkdirAll_steps [OF _ open_path_steps [OF assms(2) s]] s tree_steps_trans by blast
  qed (use s in simp)
qed

lemma mkdirAll_steps:
  assumes "mkdirAll C p d = (e, d')" "open_path P (files d) (elements p)"
  shows "tree_steps P (files d) (files d')"
proof (cases "d' = d")
  case False
  then obtain e1 where "reliableMkdirAll C p d = (e1, d')"
    using assms(1) by (cases "reliableMkdirAll C p d") (auto simp: mkdirAll_def split: option.splits if_splits)
  then show ?thesis using reliableMkdirAll_steps assms(2) by blast
qed simp

lemma os_Create_steps:
  assumes "os_Create flag p d = (e, d')" "P (elements p)"
  shows "tree_steps P (files d) (files d')"
proof (rule change_steps [OF assms(1) [unfolded os_Create_def]])
  fix t assume c: "create_call flag p (files d) = Inr t"
  then have ok: "parents_ok (files d) (elements p)" "look (files d) (elements p) \<noteq> Some Directory"
    by (auto simp: create_call_def walk_parents [symmetric] split: option.splits if_splits)
  then have "elements p \<noteq> []" by auto
  moreover have "t = files d \<or> t = put_node (elements p) (File []) (files d)"
    using c by (auto simp: create_call_def split: option.splits if_splits node.splits open_flag.splits)
  ultimately show "tree_steps P (files d) t" using ok assms(2) by (auto intro: tree_step.put_file)
qed

lemma append_bytes_steps: "P p \<Longrightarrow> tree_steps P t (append_bytes p b t)"
  by (cases "p = []") (auto simp: append_bytes_def intro!: r_into_rtranclp tree_step.put_file split: option.splits node.splits)

lemma os_Write_steps:
  assumes "os_Write p b d = (e, d')" "P (elements p)"
  shows "tree_steps P (files d) (files d')"
  using assms(1) append_bytes_steps [of P "elements p", OF assms(2)]
  by (auto simp: os_Write_def dest!: next_fault_files split: prod.splits fault.splits)

lemma os_Remove_steps:
  assumes "os_Remove p d = (e, d')" "P (elements p)"
  shows "tree_steps P (files d) (files d')"
  by (rule change_steps [OF assms(1) [unfolded os_Remove_def]])
    (use assms(2) in \<open>auto simp: remove_call_def node_at_def intro!: r_into_rtranclp tree_step.drop_one
      split: sum.splits if_splits option.splits node.splits\<close>)

lemma os_RemoveAll_steps:
  assumes "os_RemoveAll p d = (e, d')" "\<And>q. prefix (elements p) q \<Longrightarrow> P q"
  shows "tree_steps P (files d) (files d')"
  by (rule change_steps [OF assms(1) [unfolded os_RemoveAll_def]])
    (use assms(2) in \<open>auto simp: remove_all_call_def intro!: r_into_rtranclp tree_step.drop_all split: sum.splits if_splits errno.splits\<close>)

lemma node_at_dir:
  "parents_ok t (elements p) \<Longrightarrow> look t (elements p) = Some Directory \<Longrightarrow> node_at t p = Inr Directory"
  by (simp add: node_at_def walk_parents [symmetric])

lemma os_Rename_success:
  assumes "os_Rename src dst d = (None, d')"
  shows "elements src = elements dst \<and> files d' = files d \<or>
    \<not> prefix (elements src) (elements dst) \<and> \<not> prefix (elements dst) (elements src) \<and> parents_ok (files d) (elements dst) \<and>
    look (files d) (elements dst) \<noteq> Some Directory \<and>
    (\<exists>n. look (files d) (elements src) = Some n \<and> (n = Directory \<longrightarrow> look (files d) (elements dst) = None)) \<and>
    files d' = move_below (elements src) (elements dst) (files d)"
proof -
  let ?s = "elements src" and ?d = "elements dst" and ?t = "files d"
  have "change (rename_call src dst) d = (None, d')"
    using assms by (auto simp: os_Rename_def split: sum.splits node.splits if_splits)
  then have r: "rename_call src dst ?t = Inr (files d')" using change_success by blast
  then obtain n where ok: "parents_ok ?t ?s" "parents_ok ?t ?d" "node_at ?t src = Inr n"
    by (auto simp: rename_call_def Let_def walk_parents [symmetric] split: option.splits sum.splits)
  have n: "look ?t ?s = Some n" using ok(3) by (auto simp: node_at_def split: option.splits node.splits if_splits)
  show ?thesis
  proof (cases "?s = ?d")
    case True
    then show ?thesis using r by (auto simp: rename_call_def Let_def split: option.splits sum.splits)
  next
    case False
    then have sd: "\<not> prefix ?s ?d"
      using r by (auto simp: rename_call_def Let_def split: option.splits sum.splits)
    have nd: "look ?t ?d \<noteq> Some Directory"
    proof
      assume "look ?t ?d = Some Directory"
      then have "node_at ?t dst = Inr Directory" using node_at_dir ok(2) by blast
      then show False using assms False ok(3) by (simp add: os_Rename_def)
    qed
    then have ds: "\<not> prefix ?d ?s" using ok(1) False by (auto simp: parents_ok_def strict_prefix_def)
    have m: "files d' = move_below ?s ?d ?t" "n = Directory \<longrightarrow> look ?t ?d = None"
      using r ok sd False nd
      by (auto simp: rename_call_def Let_def walk_parents [symmetric] split: option.splits sum.splits node.splits)
    then show ?thesis using ok nd ds sd n by blast
  qed
qed

lemma os_Rename_failed: "os_Rename src dst d = (Some e, d') \<Longrightarrow> files d' = files d"
  by (auto simp: os_Rename_def dest: change_failed split: sum.splits node.splits if_splits)

lemma os_Rename_steps:
  assumes "os_Rename src dst d = (e, d')" "\<And>q. prefix (elements src) q \<or> prefix (elements dst) q \<Longrightarrow> P q"
  shows "tree_steps P (files d) (files d')"
proof (cases e)
  case None
  then consider "files d' = files d" |
      n where "\<not> prefix (elements src) (elements dst)" "\<not> prefix (elements dst) (elements src)"
        "parents_ok (files d) (elements dst)" "look (files d) (elements dst) \<noteq> Some Directory"
        "look (files d) (elements src) = Some n" "n = Directory \<longrightarrow> look (files d) (elements dst) = None"
        "files d' = move_below (elements src) (elements dst) (files d)"
    using os_Rename_success [of src dst d d'] assms(1) by blast
  then show ?thesis
  proof cases
    case 2
    moreover have "elements src \<noteq> []" "elements dst \<noteq> []" using 2(1,2) by auto
    ultimately show ?thesis using assms(2) tree_step.move [of "elements src" "elements dst" P "files d" n] by auto
  qed simp
next
  case (Some e')
  then show ?thesis using os_Rename_failed assms(1) by simp
qed

section \<open>Paths of a drive\<close>

lemma elements_slash: "elements (p @ ''/'') = elements p"
  by (simp add: elements_def clean_components_slash)

lemma elements_Clean: "HasPrefix p ''/'' \<Longrightarrow> elements (path_Clean p) = elements p"
  by (simp add: elements_def clean_components_Clean)

lemma clean_components_join_valid:
  "list_all validStoragePath ps \<Longrightarrow>
     clean_components r (join_byte CHR ''/'' (base # ps)) = clean_components r base @ concat (map path_parts ps)"
proof (induction ps arbitrary: base)
  case (Cons p ps)
  have "join_byte CHR ''/'' (base # p # ps) = join_byte CHR ''/'' ((base @ CHR ''/'' # p) # ps)" by (cases ps) simp_all
  then show ?case using Cons by (simp add: clean_components_append del: join_byte.simps)
qed simp

lemma concat_parts_filter: "concat (map path_parts (filter (\<lambda>e. e \<noteq> '''') ps)) = concat (map path_parts ps)"
  by (induction ps) (auto simp: path_parts_def)

lemma HasPrefix_extend: "HasPrefix p ''/'' \<Longrightarrow> HasPrefix (p @ q) ''/''"
  by (cases p) auto

lemma path_Join_rooted:
  assumes "HasPrefix base ''/''" "list_all validStoragePath ps"
  shows "path_Join (base # ps) = path_Clean (join_byte CHR ''/'' (base # filter (\<lambda>e. e \<noteq> '''') ps))"
    "HasPrefix (join_byte CHR ''/'' (base # filter (\<lambda>e. e \<noteq> '''') ps)) ''/''"
    "elements (path_Join (base # ps)) = elements base @ concat (map path_parts ps)"
proof -
  let ?z = "join_byte CHR ''/'' (base # filter (\<lambda>e. e \<noteq> '''') ps)"
  have "base \<noteq> ''''" using assms(1) by auto
  then show j: "path_Join (base # ps) = path_Clean ?z" by (simp add: path_Join_def)
  show r: "HasPrefix ?z ''/''" using assms(1) HasPrefix_extend by (cases "filter (\<lambda>e. e \<noteq> '''') ps") auto
  have "list_all validStoragePath (filter (\<lambda>e. e \<noteq> '''') ps)" using assms(2) by (auto simp: list_all_iff)
  then show "elements (path_Join (base # ps)) = elements base @ concat (map path_parts ps)"
    using elements_Clean [OF r] j clean_components_join_valid concat_parts_filter by (simp add: elements_def del: join_byte.simps)
qed

lemma path_Dir_slash:
  assumes "HasPrefix z ''/''"
  shows "elements (path_Dir (path_Clean z)) = butlast (elements z)" "HasPrefix (path_Dir (path_Clean z)) ''/''"
    "elements (path_Dir (path_Clean z @ ''/'')) = elements z" "HasPrefix (path_Dir (path_Clean z @ ''/'')) ''/''"
proof -
  have e: "path_elements z = elements z" using assms by (simp add: path_elements_def elements_def)
  have "path_Dir (path_Clean z @ ''/'') = path_Clean (path_Clean z @ ''/'')" by (simp add: path_Dir_def)
  moreover have "HasPrefix (path_Clean z @ ''/'') ''/''" using HasPrefix_extend [OF path_Clean_rooted [OF assms]] .
  ultimately show "elements (path_Dir (path_Clean z @ ''/'')) = elements z" "HasPrefix (path_Dir (path_Clean z @ ''/'')) ''/''"
    using elements_Clean elements_slash elements_Clean [OF assms] path_Clean_rooted by simp_all
  have "elements (path_Dir (path_Clean z)) = butlast (elements z) \<and> HasPrefix (path_Dir (path_Clean z)) ''/''"
  proof (cases "path_elements z = []")
    case True
    then have "path_Clean z = ''/''" using assms by (simp add: path_Clean_def Let_def path_elements_def)
    then have "path_Dir (path_Clean z) = ''/''" by (simp add: path_Dir_def path_Clean_def Let_def clean_components_def clean_step_def)
    moreover have "elements ''/'' = []" by (simp add: elements_def clean_components_def clean_step_def)
    ultimately show ?thesis using True e by simp
  next
    case False
    then show ?thesis
      using path_Dir_elements [of z] assms e by (simp add: path_elements_def [of "path_Dir _"] elements_def [of "path_Dir _"])
  qed
  then show "elements (path_Dir (path_Clean z)) = butlast (elements z)" "HasPrefix (path_Dir (path_Clean z)) ''/''" by simp_all
qed

lemma pathJoin_rooted:
  assumes "HasPrefix base ''/''" "list_all validStoragePath ps"
  shows "elements (pathJoin (base # ps)) = elements base @ concat (map path_parts ps)" "HasPrefix (pathJoin (base # ps)) ''/''"
    "HasPrefix (path_Dir (pathJoin (base # ps))) ''/''"
    "elements (path_Dir (pathJoin (base # ps))) = elements (pathJoin (base # ps)) \<or>
     elements (path_Dir (pathJoin (base # ps))) = butlast (elements (pathJoin (base # ps)))"
proof -
  let ?z = "join_byte CHR ''/'' (base # filter (\<lambda>e. e \<noteq> '''') ps)"
  note j = path_Join_rooted [OF assms]
  have p: "pathJoin (base # ps) = path_Clean ?z \<or> pathJoin (base # ps) = path_Clean ?z @ ''/''" using j(1) by (simp add: pathJoin_def)
  have z: "elements ?z = elements base @ concat (map path_parts ps)" using j elements_Clean by metis
  show e: "elements (pathJoin (base # ps)) = elements base @ concat (map path_parts ps)"
    using p z elements_slash elements_Clean [OF j(2)] by metis
  show "HasPrefix (pathJoin (base # ps)) ''/''" using p path_Clean_rooted [OF j(2)] HasPrefix_extend by metis
  show "HasPrefix (path_Dir (pathJoin (base # ps))) ''/''" using p path_Dir_slash(2,4) [OF j(2)] by metis
  show "elements (path_Dir (pathJoin (base # ps))) = elements (pathJoin (base # ps)) \<or>
     elements (path_Dir (pathJoin (base # ps))) = butlast (elements (pathJoin (base # ps)))"
    using p path_Dir_slash(1,3) [OF j(2)] e z by metis
qed

lemma path_Join_Dir:
  assumes "HasPrefix base ''/''" "list_all validStoragePath ps"
  shows "elements (path_Dir (path_Join (base # ps))) = butlast (elements (path_Join (base # ps)))"
    "HasPrefix (path_Dir (path_Join (base # ps))) ''/''" "HasPrefix (path_Join (base # ps)) ''/''"
  using path_Join_rooted [OF assms] path_Dir_slash path_Clean_rooted elements_Clean by simp_all

lemma getVolDir_rooted:
  assumes "getVolDir disk volume = Inr volumeDir" "HasPrefix disk ''/''"
  shows "HasPrefix volumeDir ''/''" "elements volumeDir = elements disk @ path_parts volume" "strict_prefix (elements disk) (elements volumeDir)"
    "validStoragePath volume"
proof -
  have v: "validStoragePath volume" "volumeDir = pathJoin [disk, volume]" "path_Clean volumeDir \<noteq> path_Clean disk"
    using assms(1) by (auto simp: getVolDir_def Let_def split: if_splits)
  then have valid: "list_all validStoragePath [volume]" by simp
  note j = pathJoin_rooted [OF assms(2) valid]
  show r: "HasPrefix volumeDir ''/''" and e: "elements volumeDir = elements disk @ path_parts volume" using j v(2) by simp_all
  have "elements volumeDir \<noteq> elements disk" using path_Clean_eq_rooted [OF r assms(2)] v(3) by (simp add: elements_def)
  then show "strict_prefix (elements disk) (elements volumeDir)" unfolding e by (auto simp: strict_prefix_def)
  show "validStoragePath volume" by (rule v(1))
qed

lemma file_path_rooted:
  assumes "file_path C volume path = Inr (volumeDir, p)" "HasPrefix (xl_diskPath C) ''/''"
  shows "getVolDir (xl_diskPath C) volume = Inr volumeDir" "p = pathJoin [volumeDir, path]" "validStoragePath path"
    "HasPrefix p ''/''" "elements p = elements volumeDir @ path_parts path" "checkPathLength p = None"
  using assms getVolDir_rooted [of "xl_diskPath C" volume volumeDir] pathJoin_rooted [of volumeDir "[path]"]
  by (auto simp: file_path_def Let_def split: if_splits sum.splits option.splits)

section \<open>The operations of a drive as steps\<close>

lemma openFile_steps:
  assumes "openFile C flag p d = (e, d')" "P (elements p)" "open_path P (files d) (elements (path_Dir p))"
  shows "tree_steps P (files d) (files d')"
proof -
  obtain e1 d1 where m: "mkdirAll C (path_Dir p) d = (e1, d1)" using prod.exhaust by blast
  note s = mkdirAll_steps [OF m assms(3)]
  show ?thesis
  proof (cases e1)
    case None
    obtain e2 d2 where c: "os_Create flag p d1 = (e2, d2)" using prod.exhaust by blast
    then have "d' = d2" using assms(1) m None by (cases e2) (auto simp: openFile_def Let_def)
    then show ?thesis using os_Create_steps [of flag p d1 e2 d2 P, OF c assms(2)] s tree_steps_trans by blast
  qed (use assms(1) m s in \<open>auto simp: openFile_def\<close>)
qed

lemma write_open_steps:
  assumes "write_open C p b d = (e, d')" "P (elements p)"
  shows "tree_steps P (files d) (files d')"
proof -
  obtain e1 where "os_Write p b d = (e1, d')" using assms(1) by (cases "os_Write p b d") (auto simp: write_open_def)
  then show ?thesis using os_Write_steps [of p b d e1 d' P] assms(2) by simp
qed

lemma open_write_steps:
  assumes "openFile C flag p d = (e1, d1)" "P (elements p)" "open_path P (files d) (elements (path_Dir p))"
    "write_open C p b d1 = (e, d')"
  shows "tree_steps P (files d) (files d')"
  using openFile_steps [of C flag p d e1 d1 P, OF assms(1-3)] write_open_steps [of C p b d1 e d' P, OF assms(4,2)] tree_steps_trans by blast

lemma xl_WriteAll_steps:
  assumes "xl_WriteAll C volume path b d = (e, d')"
    "\<And>volumeDir p. file_path C volume path = Inr (volumeDir, p) \<Longrightarrow> P (elements p) \<and> open_path P (files d) (elements (path_Dir p))"
  shows "tree_steps P (files d) (files d')"
proof (cases "file_path C volume path")
  case (Inr vp)
  obtain volumeDir p where vp: "vp = (volumeDir, p)" by (cases vp)
  obtain e1 d1 where o: "openFile C O_TRUNC p d = (e1, d1)" using prod.exhaust by blast
  have P: "P (elements p)" "open_path P (files d) (elements (path_Dir p))" using assms(2) Inr vp by auto
  show ?thesis
  proof (cases e1)
    case None
    then have "write_open C p b d1 = (e, d')" using assms(1) Inr vp o by (simp add: xl_WriteAll_def)
    then show ?thesis using open_write_steps [of C O_TRUNC p d e1 d1 P] o P by blast
  next
    case (Some err)
    then show ?thesis using openFile_steps [of C O_TRUNC p d e1 d1 P] o P assms(1) Inr vp by (simp add: xl_WriteAll_def)
  qed
qed (use assms(1) in \<open>simp add: xl_WriteAll_def\<close>)

lemma reliableRename_steps:
  assumes "reliableRename C src dst d = (e, d')" "\<And>q. prefix (elements src) q \<or> prefix (elements dst) q \<Longrightarrow> P q"
    "open_path P (files d) (elements (path_Dir dst))"
  shows "tree_steps P (files d) (files d')"
proof -
  obtain e1 d1 where m: "reliableMkdirAll C (path_Dir dst) d = (e1, d1)" using prod.exhaust by blast
  note s = reliableMkdirAll_steps [OF m assms(3)]
  show ?thesis
  proof (cases e1)
    case None
    obtain e2 d2 where r: "os_Rename src dst d1 = (e2, d2)" using prod.exhaust by blast
    have s2: "tree_steps P (files d) (files d2)"
      using os_Rename_steps [of src dst d1 e2 d2 P, OF r assms(2)] s tree_steps_trans by blast
    show ?thesis
    proof (cases "d' = d2")
      case False
      then obtain e3 where "os_Rename src dst d2 = (e3, d')"
        using assms(1) m r None
        by (cases "os_Rename src dst d2") (auto simp: reliableRename_def split: option.splits if_splits)
      then show ?thesis using os_Rename_steps [of src dst d2 e3 d' P, OF _ assms(2)] s2 tree_steps_trans by blast
    qed (use s2 in simp)
  qed (use assms(1) m s in \<open>auto simp: reliableRename_def\<close>)
qed

lemma xl_renameAll_steps:
  assumes "xl_renameAll C src dst d = (e, d')" "\<And>q. prefix (elements src) q \<or> prefix (elements dst) q \<Longrightarrow> P q"
    "open_path P (files d) (elements (path_Dir dst))"
  shows "tree_steps P (files d) (files d')"
proof (cases "d' = d")
  case False
  then obtain e1 where "reliableRename C src dst d = (e1, d')"
    using assms(1) by (cases "reliableRename C src dst d") (auto simp: xl_renameAll_def split: option.splits if_splits)
  then show ?thesis using reliableRename_steps [of C src dst d e1 d' P, OF _ assms(2,3)] by blast
qed simp

lemma removeAll_steps:
  assumes "removeAll C p d = (e, d')" "\<And>q. prefix (elements p) q \<Longrightarrow> P q"
  shows "tree_steps P (files d) (files d')"
proof (cases "d' = d")
  case False
  obtain e1 d1 where r: "os_RemoveAll p d = (e1, d1)" using prod.exhaust by blast
  obtain e2 d2 where r2: "os_RemoveAll p d1 = (e2, d2)" using prod.exhaust by blast
  have "d' = d1 \<or> d' = d2"
    using assms(1) False r r2 by (auto simp: removeAll_def split: option.splits if_splits prod.splits)
  then show ?thesis
    using os_RemoveAll_steps [of p d e1 d1 P, OF r assms(2)] os_RemoveAll_steps [of p d1 e2 d2 P, OF r2 assms(2)] tree_steps_trans by blast
qed simp

text \<open>A deletion without recursion takes the path and its parents below the base.\<close>

lemma xl_deleteFile_steps:
  assumes "xl_deleteFile C base del recursive d = (e, d')" "HasPrefix base ''/''" "HasPrefix del ''/''"
    "\<And>q. strict_prefix (elements base) q \<Longrightarrow> prefix q (elements del) \<Longrightarrow> P q"
    "recursive \<Longrightarrow> strict_prefix (elements base) (elements del) \<Longrightarrow>
       (\<forall>q. prefix (elements del) q \<or> prefix (elements (fst (fresh_trash C d))) q \<longrightarrow> P q) \<and>
       open_path P (files d) (elements (path_Dir (fst (fresh_trash C d))))"
  shows "tree_steps P (files d) (files d')"
  using assms
proof (induction C base del recursive d arbitrary: e d' rule: xl_deleteFile.induct)
  case (1 C base del recursive d)
  let ?b = "path_Clean base" and ?p = "path_Clean del"
  have el: "elements ?b = elements base" "elements ?p = elements del" using elements_Clean "1.prems"(2,3) by auto
  have rooted: "HasPrefix ?b ''/''" "HasPrefix ?p ''/''" using path_Clean_rooted "1.prems"(2,3) by auto
  have ne: "\<not> (base = '''' \<or> del = '''')" using "1.prems"(2,3) by auto
  show ?case
  proof (cases "storagePathWithin ?b ?p \<and> ?p \<noteq> ?b")
    case False
    then show ?thesis using "1.prems"(1) ne by (auto simp: xl_deleteFile.simps [of C base] Let_def split: if_splits)
  next
    case True
    have "prefix (elements base) (elements del)" using storagePathWithin_rooted [OF rooted] True el by (simp add: elements_def)
    moreover have "elements del \<noteq> elements base"
      using path_Clean_eq_rooted [OF "1.prems"(3,2)] True by (simp add: elements_def)
    ultimately have below: "strict_prefix (elements base) (elements del)" by (simp add: strict_prefix_def)
    define r where "r = (if recursive then (let (trash, d0) = fresh_trash C d in xl_renameAll C ?p trash d0)
      else apfst (map_option (PathError C)) (os_Remove ?p d))"
    obtain e1 d1 where r1: "r = (e1, d1)" by (cases r)
    have s1: "tree_steps P (files d) (files d1)"
    proof (cases recursive)
      case True
      obtain trash d0 where t: "fresh_trash C d = (trash, d0)" by (cases "fresh_trash C d")
      then have d0: "files d0 = files d" by (auto simp: fresh_trash_def)
      have "xl_renameAll C ?p trash d0 = (e1, d1)" using r1 r_def True t by simp
      moreover have "P q" if "prefix (elements ?p) q \<or> prefix (elements trash) q" for q
        using that "1.prems"(5) [OF True below] t el(2) by auto
      moreover have "open_path P (files d0) (elements (path_Dir trash))" using "1.prems"(5) [OF True below] t d0 by simp
      ultimately show ?thesis using xl_renameAll_steps [of C ?p trash d0 e1 d1 P] d0 by auto
    next
      case False
      then obtain e2 where "os_Remove ?p d = (e2, d1)" using r1 r_def by (cases "os_Remove ?p d") auto
      then show ?thesis using os_Remove_steps [of ?p d e2 d1 P] "1.prems"(4) [OF below] el(2) by simp
    qed
    show ?thesis
    proof (cases e1)
      case (Some err)
      then have "d' = d1"
        using "1.prems"(1) ne True r1 unfolding xl_deleteFile.simps [of C base] Let_def r_def [unfolded Let_def]
        by (auto split: if_splits)
      then show ?thesis using s1 by simp
    next
      case None
      obtain e2 d2 where rec: "xl_deleteFile C ?b (path_Dir ?p) False d1 = (e2, d2)" using prod.exhaust by blast
      have d2: "d' = d2"
        using "1.prems"(1) ne True r1 None rec unfolding xl_deleteFile.simps [of C base] Let_def r_def [unfolded Let_def] by auto
      have dir: "elements (path_Dir ?p) = butlast (elements del)" "HasPrefix (path_Dir ?p) ''/''"
        using path_Dir_slash(1,2) [OF "1.prems"(3)] by simp_all
      have up: "P q" if "strict_prefix (elements ?b) q" "prefix q (elements (path_Dir ?p))" for q
        using "1.prems"(4) [of q] that el(1) dir(1) prefix_order.trans [of q "butlast (elements del)" "elements del"] prefixeq_butlast by auto
      have "tree_steps P (files d1) (files d2)"
        by (rule "1.IH" [OF ne refl refl refl _ _ _ _ rec rooted(1) dir(2) up])
          (use True r1 None r_def in \<open>auto simp: Let_def\<close>)
      then show ?thesis using s1 tree_steps_trans d2 by blast
    qed
  qed
qed

end
