(* ===== verification/Drive_Facts.thy ===== *)
theory Drive_Facts
  imports XL_Files_Facts
begin

text \<open>
  Two promises of a drive, for every schedule of failing system calls. Its operations, of files, volumes and
  metadata, change nothing outside its directory and keep the tree well formed; and the metadata of a
  transitioned object is replaced as a whole or not at all.
\<close>

section \<open>A drive changes nothing outside its directory\<close>

text \<open>The directory of the drive is an absolute path, and a random name is a valid path.\<close>

definition storage_ok :: "xl_storage \<Rightarrow> bool" where
  "storage_ok C \<longleftrightarrow> HasPrefix (xl_diskPath C) ''/'' \<and> (\<forall>n. validStoragePath (random_name C n))"

definition drive_root :: "xl_storage \<Rightarrow> fpath" where
  "drive_root C = elements (xl_diskPath C)"

definition drive_there :: "xl_storage \<Rightarrow> disk \<Rightarrow> bool" where
  "drive_there C d \<longleftrightarrow> (\<forall>q. prefix q (drive_root C) \<longrightarrow> look (files d) q = Some Directory)"

definition contained :: "xl_storage \<Rightarrow> disk \<Rightarrow> disk \<Rightarrow> bool" where
  "contained C d d' \<longleftrightarrow> tree_steps (strict_prefix (drive_root C)) (files d) (files d')"

lemma contained_same: "files d' = files d \<Longrightarrow> contained C d d'"
  by (simp add: contained_def)

lemma contained_refl [simp]: "contained C d d"
  by (simp add: contained_def)

lemma contained_trans: "contained C d d' \<Longrightarrow> contained C d' d'' \<Longrightarrow> contained C d d''"
  unfolding contained_def by (rule tree_steps_trans)

lemma drive_there_contained: "drive_there C d \<Longrightarrow> contained C d d' \<Longrightarrow> drive_there C d'"
  unfolding drive_there_def contained_def
  using tree_steps_keep [of "strict_prefix (drive_root C)" "files d" "files d'"]
  by (metis prefix_order.less_irrefl prefix_order.less_le_trans)

lemma open_path_drive:
  assumes "drive_there C d" "prefix (drive_root C) p"
  shows "open_path (strict_prefix (drive_root C)) (files d) p"
  unfolding open_path_def
proof (intro allI impI)
  fix q assume q: "q \<noteq> [] \<and> prefix q p"
  have "prefix q (drive_root C) \<or> prefix (drive_root C) q" using prefix_same_cases q assms(2) by blast
  then show "strict_prefix (drive_root C) q \<or> look (files d) q = Some Directory"
    using assms(1) unfolding drive_there_def strict_prefix_def by blast
qed

lemma strict_below: "strict_prefix r p \<Longrightarrow> prefix p q \<Longrightarrow> strict_prefix r q"
  by (rule prefix_order.less_le_trans)

lemma strict_butlast: "strict_prefix r p \<Longrightarrow> prefix r (butlast p)"
  by (metis butlast_prefix prefix_order.less_imp_le prefix_order.less_irrefl)

lemma volume_below:
  assumes "getVolDir (xl_diskPath C) volume = Inr volumeDir" "storage_ok C"
  shows "HasPrefix volumeDir ''/''" "strict_prefix (drive_root C) (elements volumeDir)"
  using getVolDir_rooted [OF assms(1)] assms(2) by (simp_all add: storage_ok_def drive_root_def)

lemma path_below:
  assumes "getVolDir (xl_diskPath C) volume = Inr volumeDir" "storage_ok C" "list_all validStoragePath ps"
  shows "strict_prefix (drive_root C) (elements (pathJoin (volumeDir # ps)))" "prefix (drive_root C) (elements (path_Dir (pathJoin (volumeDir # ps))))"
    "HasPrefix (pathJoin (volumeDir # ps)) ''/''" "HasPrefix (path_Dir (pathJoin (volumeDir # ps))) ''/''"
proof -
  note v = volume_below [OF assms(1,2)] and j = pathJoin_rooted [OF volume_below(1) [OF assms(1,2)] assms(3)]
  show b: "strict_prefix (drive_root C) (elements (pathJoin (volumeDir # ps)))" using strict_below [OF v(2)] j(1) by simp
  show "prefix (drive_root C) (elements (path_Dir (pathJoin (volumeDir # ps))))"
    using j(4) b strict_butlast [OF b] by (metis prefix_order.less_imp_le)
  show "HasPrefix (pathJoin (volumeDir # ps)) ''/''" "HasPrefix (path_Dir (pathJoin (volumeDir # ps))) ''/''" using j(2,3) by simp_all
qed

lemma trash_below:
  assumes "storage_ok C" "validStoragePath name"
  shows "strict_prefix (drive_root C) (elements (path_Join [xl_diskPath C, ''.otterio.sys/tmp/.trash'', name]))"
    "prefix (drive_root C) (elements (path_Dir (path_Join [xl_diskPath C, ''.otterio.sys/tmp/.trash'', name])))"
proof -
  have d: "HasPrefix (xl_diskPath C) ''/''" using assms(1) by (simp add: storage_ok_def)
  have v: "list_all validStoragePath [''.otterio.sys/tmp/.trash'', name]"
    using assms(2) by (simp add: validStoragePath_def valid_path_part_def)
  have parts: "path_parts ''.otterio.sys/tmp/.trash'' = [''.otterio.sys'', ''tmp'', ''.trash'']" by (simp add: path_parts_def)
  show b: "strict_prefix (drive_root C) (elements (path_Join [xl_diskPath C, ''.otterio.sys/tmp/.trash'', name]))"
    using path_Join_rooted(3) [OF d v] parts by (simp add: drive_root_def strict_prefix_def)
  show "prefix (drive_root C) (elements (path_Dir (path_Join [xl_diskPath C, ''.otterio.sys/tmp/.trash'', name])))"
    using path_Join_Dir(1) [OF d v] strict_butlast [OF b] by simp
qed

lemma fresh_trash_below:
  assumes "storage_ok C"
  shows "strict_prefix (drive_root C) (elements (fst (fresh_trash C d)))" "prefix (drive_root C) (elements (path_Dir (fst (fresh_trash C d))))"
  using trash_below [OF assms, of "random_name C (drawn d)"] assms by (simp_all add: fresh_trash_def storage_ok_def)

lemma file_path_below:
  assumes "file_path C volume path = Inr (volumeDir, p)" "storage_ok C"
  shows "getVolDir (xl_diskPath C) volume = Inr volumeDir" "strict_prefix (drive_root C) (elements p)"
    "prefix (drive_root C) (elements (path_Dir p))" "HasPrefix p ''/''"
proof -
  have d: "HasPrefix (xl_diskPath C) ''/''" using assms(2) by (simp add: storage_ok_def)
  note f = file_path_rooted [OF assms(1) d]
  note b = path_below [OF f(1) assms(2), of "[path]"]
  show "getVolDir (xl_diskPath C) volume = Inr volumeDir" "strict_prefix (drive_root C) (elements p)"
    "prefix (drive_root C) (elements (path_Dir p))" "HasPrefix p ''/''"
    using f b by simp_all
qed

lemma xl_renameAll_contained:
  assumes "xl_renameAll C src dst d = (e, d')" "drive_there C d" "strict_prefix (drive_root C) (elements src)"
    "strict_prefix (drive_root C) (elements dst)" "prefix (drive_root C) (elements (path_Dir dst))"
  shows "contained C d d'"
  unfolding contained_def
  by (rule xl_renameAll_steps [OF assms(1)]) (use assms strict_below open_path_drive in blast)+

lemma xl_deleteFile_contained:
  assumes "xl_deleteFile C base del recursive d = (e, d')" "storage_ok C" "drive_there C d" "HasPrefix base ''/''" "HasPrefix del ''/''"
    "strict_prefix (drive_root C) (elements base)"
  shows "contained C d d'"
  unfolding contained_def
proof (rule xl_deleteFile_steps [OF assms(1,4,5)])
  show "strict_prefix (drive_root C) q" if "strict_prefix (elements base) q" "prefix q (elements del)" for q
    using that assms(6) prefix_order.less_trans by blast
  assume "strict_prefix (elements base) (elements del)"
  then have "strict_prefix (drive_root C) (elements del)" using assms(6) prefix_order.less_trans by blast
  then show "(\<forall>q. prefix (elements del) q \<or> prefix (elements (fst (fresh_trash C d))) q \<longrightarrow> strict_prefix (drive_root C) q) \<and>
      open_path (strict_prefix (drive_root C)) (files d) (elements (path_Dir (fst (fresh_trash C d))))"
    using fresh_trash_below [OF assms(2)] strict_below open_path_drive [OF assms(3)] by blast
qed

lemma xl_WriteAll_contained:
  assumes "xl_WriteAll C volume path b d = (e, d')" "storage_ok C" "drive_there C d"
  shows "contained C d d'"
  unfolding contained_def
  by (rule xl_WriteAll_steps [OF assms(1)]) (use file_path_below [OF _ assms(2)] open_path_drive [OF assms(3)] in blast)

lemma xl_Delete_contained:
  assumes "xl_Delete C volume path recursive d = (e, d')" "storage_ok C" "drive_there C d"
  shows "contained C d d'"
proof (cases "d' = d")
  case False
  then obtain volumeDir where v: "validStoragePath path" "getVolDir (xl_diskPath C) volume = Inr volumeDir"
    "xl_deleteFile C volumeDir (pathJoin [volumeDir, path]) recursive d = (e, d')"
    using assms(1) by (auto simp: xl_Delete_def Let_def split: if_splits sum.splits option.splits)
  then show ?thesis
    using xl_deleteFile_contained [OF v(3) assms(2,3) volume_below(1) [OF v(2) assms(2)] _ volume_below(2) [OF v(2) assms(2)]]
      path_below(3) [OF v(2) assms(2), of "[path]"] by simp
qed simp

lemma clear_directory_contained:
  assumes "clear_directory C p d = (e, d')" "strict_prefix (drive_root C) (elements p)"
  shows "contained C d d'"
proof (cases "d' = d")
  case False
  then obtain e1 where "os_Remove p d = (e1, d')"
    using assms(1) by (cases "os_Remove p d") (auto simp: clear_directory_def split: sum.splits if_splits node.splits option.splits)
  then show ?thesis unfolding contained_def using os_Remove_steps [of p d e1 d' "strict_prefix (drive_root C)"] assms(2) by blast
qed simp

lemma xl_RenameFile_contained:
  assumes "xl_RenameFile C srcVolume srcPath dstVolume dstPath d = (e, d')" "storage_ok C" "drive_there C d"
  shows "contained C d d'"
proof (cases "d' = d")
  case False
  then obtain sv dv where v: "validStoragePath srcPath" "validStoragePath dstPath"
      "getVolDir (xl_diskPath C) srcVolume = Inr sv" "getVolDir (xl_diskPath C) dstVolume = Inr dv"
    using assms(1) by (auto simp: xl_RenameFile_def split: if_splits sum.splits)
  let ?src = "path_Join [sv, srcPath]" and ?dst = "path_Join [dv, dstPath]"
  have sv: "HasPrefix sv ''/''" "strict_prefix (drive_root C) (elements sv)" using volume_below [OF v(3) assms(2)] by auto
  have dv: "HasPrefix dv ''/''" "strict_prefix (drive_root C) (elements dv)" using volume_below [OF v(4) assms(2)] by auto
  have src: "strict_prefix (drive_root C) (elements ?src)" "HasPrefix (path_Dir ?src) ''/''"
    using path_Join_rooted(3) [OF sv(1), of "[srcPath]"] path_Join_Dir(2) [OF sv(1), of "[srcPath]"] v(1) strict_below [OF sv(2)] by simp_all
  have dst: "strict_prefix (drive_root C) (elements ?dst)"
    using path_Join_rooted(3) [OF dv(1), of "[dstPath]"] v(2) strict_below [OF dv(2)] by simp
  have dstd: "prefix (drive_root C) (elements (path_Dir ?dst))"
    using path_Join_Dir(1) [OF dv(1), of "[dstPath]"] v(2) strict_butlast [OF dst] by simp
  obtain e1 d1 where c: "(if HasSuffix srcPath ''/'' then clear_directory C ?dst d else (None, d)) = (e1, d1)" using prod.exhaust by blast
  have s1: "contained C d d1" using c clear_directory_contained [OF _ dst, of d e1 d1] by (auto split: if_splits)
  obtain e2 d2 where r: "xl_renameAll C ?src ?dst d1 = (e2, d2)" using prod.exhaust by blast
  have there1: "drive_there C d1" using drive_there_contained [OF assms(3) s1] .
  have s2: "contained C d d2" using contained_trans [OF s1 xl_renameAll_contained [OF r there1 src(1) dst dstd]] .
  obtain e3 d3 where x: "xl_deleteFile C sv (path_Dir ?src) False d2 = (e3, d3)" using prod.exhaust by blast
  have there2: "drive_there C d2" using drive_there_contained [OF assms(3) s2] .
  have s3: "contained C d d3" using contained_trans [OF s2 xl_deleteFile_contained [OF x assms(2) there2 sv(1) src(2) sv(2)]] .
  have "d' = d1 \<or> d' = d2 \<or> d' = d3"
    using assms(1) False v c r x unfolding xl_RenameFile_def Let_def
    by (auto split: if_splits option.splits prod.splits)
  then show ?thesis using s1 s2 s3 by blast
qed simp

lemma xl_renameLegacyMetadata_contained:
  assumes "xl_renameLegacyMetadata C volumeDir path d = (e, d')" "storage_ok C" "getVolDir (xl_diskPath C) volume = Inr volumeDir"
  shows "contained C d d'"
proof (cases "d' = d")
  case False
  let ?p = "pathJoin [volumeDir, path]"
  have path: "validStoragePath path"
    using assms(1) False by (auto simp: xl_renameLegacyMetadata_def split: if_splits)
  obtain e1 where r: "os_Rename (pathJoin [?p, ''xl.json'']) (pathJoin [?p, ''xl.meta'']) d = (e1, d')"
    using assms(1) False
    by (cases "os_Rename (pathJoin [?p, ''xl.json'']) (pathJoin [?p, ''xl.meta'']) d")
      (auto simp: xl_renameLegacyMetadata_def Let_def split: if_splits option.splits)
  note b = path_below [OF assms(3,2), of "[path]"]
  have names: "list_all validStoragePath [''xl.json'']" "list_all validStoragePath [''xl.meta'']"
    by (simp_all add: validStoragePath_def valid_path_part_def)
  have "strict_prefix (drive_root C) (elements (pathJoin [?p, ''xl.json'']))" "strict_prefix (drive_root C) (elements (pathJoin [?p, ''xl.meta'']))"
    using pathJoin_rooted(1) [OF _ names(1), of ?p] pathJoin_rooted(1) [OF _ names(2), of ?p] b(3) path strict_below [OF b(1)] by simp_all
  then show ?thesis
    unfolding contained_def using os_Rename_steps [OF r, of "strict_prefix (drive_root C)"] strict_below by blast
qed simp

lemma AppendFile_contained:
  assumes "AppendFile C volume path b d = (e, d')" "storage_ok C" "drive_there C d"
  shows "contained C d d'"
proof (cases "d' = d")
  case False
  then obtain volumeDir where v: "validStoragePath path" "getVolDir (xl_diskPath C) volume = Inr volumeDir"
    using assms(1) by (auto simp: AppendFile_def Let_def split: if_splits sum.splits)
  let ?p = "pathJoin [volumeDir, path]" and ?P = "strict_prefix (drive_root C)"
  note b = path_below [OF v(2) assms(2), of "[path]"]
  obtain e1 d1 where o: "openFile C O_APPEND ?p d = (e1, d1)" using prod.exhaust by blast
  obtain e2 d2 where w: "write_open C ?p b d1 = (e2, d2)" using prod.exhaust by blast
  have P: "?P (elements ?p)" "open_path ?P (files d) (elements (path_Dir ?p))"
    using b v(1) open_path_drive [OF assms(3)] by simp_all
  have "d' = d1 \<or> d' = d2"
    using assms(1) False v o w by (auto simp: AppendFile_def Let_def split: if_splits option.splits)
  then show ?thesis
    unfolding contained_def
    using openFile_steps [of C O_APPEND ?p d e1 d1 ?P, OF o P] open_write_steps [of C O_APPEND ?p d e1 d1 ?P, OF o P w] by blast
qed simp

lemma io_Copy_steps:
  assumes "io_Copy C p r d = (e, d')" "P (elements p)"
  shows "tree_steps P (files d) (files d')"
proof -
  obtain e1 where "write_open C p (fst r) d = (e1, d')"
    using assms(1) by (cases "write_open C p (fst r) d") (auto simp: io_Copy_def split: option.splits)
  then show ?thesis using write_open_steps [of C p "fst r" d e1 d' P] assms(2) by blast
qed

lemma CopyAligned_steps:
  assumes "CopyAligned C p r n d = (e, d')" "P (elements p)"
  shows "tree_steps P (files d) (files d')"
proof -
  obtain b e1 where "write_open C p b d = (e1, d')"
    using assms(1) by (auto simp: CopyAligned_def Let_def split: prod.splits option.splits)
  then show ?thesis using write_open_steps [of C p b d e1 d' P] assms(2) by blast
qed

lemma create_content_steps:
  assumes "create_content C p n r d = (e, d')" "P (elements p)" "open_path P (files d) (elements (path_Dir p))"
  shows "tree_steps P (files d) (files d')"
proof (cases "0 \<le> n \<and> n \<le> smallFileThreshold")
  case True
  obtain e1 d1 where o: "openFile C O_TRUNC p d = (e1, d1)" using prod.exhaust by blast
  obtain e2 d2 where c: "io_Copy C p r d1 = (e2, d2)" using prod.exhaust by blast
  note s1 = openFile_steps [of C O_TRUNC p d e1 d1 P, OF o assms(2,3)]
  have "d' = d1 \<or> d' = d2"
    using assms(1) True o c by (auto simp: create_content_def split: option.splits sum.splits)
  then show ?thesis using s1 io_Copy_steps [of C p r d1 e2 d2 P, OF c assms(2)] tree_steps_trans by blast
next
  case False
  obtain e1 d1 where m: "mkdirAll C (path_Dir p) d = (e1, d1)" using prod.exhaust by blast
  obtain e2 d2 where o: "os_Create O_EXCL p d1 = (e2, d2)" using prod.exhaust by blast
  obtain e3 d3 where c: "CopyAligned C p r n d2 = (e3, d3)" using prod.exhaust by blast
  note s1 = mkdirAll_steps [OF m assms(3)]
  have s2: "tree_steps P (files d) (files d2)"
    using s1 os_Create_steps [of O_EXCL p d1 e2 d2 P, OF o assms(2)] tree_steps_trans by blast
  have "d' = d1 \<or> d' = d2 \<or> d' = d3"
    using assms(1) False m o c by (auto simp: create_content_def split: option.splits sum.splits if_splits)
  then show ?thesis using s1 s2 CopyAligned_steps [of C p r n d2 e3 d3 P, OF c assms(2)] tree_steps_trans by blast
qed

lemma CreateFile_contained:
  assumes "CreateFile C volume path n r d = (e, d')" "storage_ok C" "drive_there C d"
  shows "contained C d d'"
proof (cases "d' = d")
  case False
  then obtain volumeDir p where f: "file_path C volume path = Inr (volumeDir, p)"
    using assms(1) by (cases "file_path C volume path") (auto simp: CreateFile_def split: if_splits)
  let ?P = "strict_prefix (drive_root C)"
  note b = file_path_below [OF f assms(2)]
  obtain e1 d1 where c: "create_content C p n r d = (e1, d1)" using prod.exhaust by blast
  have s1: "contained C d d1"
    unfolding contained_def
    using create_content_steps [of C p n r d e1 d1 ?P, OF c b(2) open_path_drive [OF assms(3) b(3)]] .
  show ?thesis
  proof (cases "d' = d1")
    case no: False
    then obtain e2 where x: "volume = ''.otterio.sys/tmp''" "removeAll C (path_Dir p) d1 = (e2, d')"
      using assms(1) False f c by (cases "removeAll C (path_Dir p) d1") (auto simp: CreateFile_def split: if_splits option.splits)
    have d: "HasPrefix (xl_diskPath C) ''/''" using assms(2) by (simp add: storage_ok_def)
    note fp = file_path_rooted [OF f d]
    have "elements volumeDir = drive_root C @ [''.otterio.sys'', ''tmp'']"
      using getVolDir_rooted(2) [OF fp(1) d] x(1) by (simp add: path_parts_def drive_root_def)
    then have "strict_prefix (drive_root C) (butlast (elements p))" using fp(5) by (cases "path_parts path") (auto simp: strict_prefix_def butlast_append)
    moreover have "elements (path_Dir p) = elements p \<or> elements (path_Dir p) = butlast (elements p)"
      using pathJoin_rooted(4) [of volumeDir "[path]"] volume_below(1) [OF fp(1) assms(2)] fp(2,3) by auto
    ultimately have "strict_prefix (drive_root C) (elements (path_Dir p))" using b(2) by auto
    then have "contained C d1 d'"
      unfolding contained_def using removeAll_steps [of C "path_Dir p" d1 e2 d' ?P, OF x(2)] strict_below by blast
    then show ?thesis using s1 contained_trans by blast
  qed (use s1 in simp)
qed simp

lemma MakeVol_contained:
  assumes "MakeVol C volume d = (e, d')" "storage_ok C" "drive_there C d"
  shows "contained C d d'"
proof (cases "d' = d")
  case False
  then obtain volumeDir e1 where v: "getVolDir (xl_diskPath C) volume = Inr volumeDir" "reliableMkdirAll C volumeDir d = (e1, d')"
    using assms(1) by (cases "reliableMkdirAll C (pathJoin [xl_diskPath C, volume]) d")
      (auto simp: MakeVol_def getVolDir_def Let_def split: if_splits sum.splits option.splits)
  have "prefix (drive_root C) (elements volumeDir)" using volume_below(2) [OF v(1) assms(2)] by (simp add: strict_prefix_def)
  then show ?thesis unfolding contained_def using reliableMkdirAll_steps [OF v(2) open_path_drive [OF assms(3)]] by blast
qed simp

lemma make_vols_contained:
  "make_vols C vs d = (e, d') \<Longrightarrow> storage_ok C \<Longrightarrow> drive_there C d \<Longrightarrow> contained C d d'"
proof (induction C vs d arbitrary: e d' rule: make_vols.induct)
  case (2 C v vs d)
  obtain e1 d1 where m: "MakeVol C v d = (e1, d1)" using prod.exhaust by blast
  note s = MakeVol_contained [OF m "2.prems"(2,3)]
  note IH = "2.IH" [OF m [symmetric]]
  show ?case
  proof (cases "d' = d1")
    case False
    then have "make_vols C vs d1 = (e, d')" using "2.prems"(1) m by (auto split: option.splits if_splits)
    then have "contained C d1 d'"
      using "2.IH" m "2.prems"(1,2) drive_there_contained [OF "2.prems"(3) s] False by (auto split: option.splits if_splits)
    then show ?thesis using s contained_trans by blast
  qed (use s in simp)
qed simp

lemma MakeVolBulk_contained:
  assumes "MakeVolBulk C volumes d = (e, d')" "storage_ok C" "drive_there C d"
  shows "contained C d d'"
proof (cases "d' = d")
  case False
  then have "make_vols C volumes d = (e, d')" using assms(1) by (auto simp: MakeVolBulk_def split: option.splits sum.splits)
  then show ?thesis using make_vols_contained assms by blast
qed simp

lemma DeleteVol_contained:
  assumes "DeleteVol C volume force d = (e, d')" "storage_ok C"
  shows "contained C d d'"
proof (cases "d' = d")
  case False
  then obtain volumeDir where v: "getVolDir (xl_diskPath C) volume = Inr volumeDir"
    using assms(1) by (auto simp: DeleteVol_def split: sum.splits)
  let ?P = "strict_prefix (drive_root C)"
  have below: "?P (elements volumeDir)" using volume_below(2) [OF v assms(2)] .
  obtain e1 where "os_RemoveAll volumeDir d = (e1, d') \<or> os_Remove volumeDir d = (e1, d')"
    using assms(1) v by (auto simp: DeleteVol_def Let_def split: prod.splits option.splits if_splits)
  then show ?thesis
    unfolding contained_def
    using os_RemoveAll_steps [of volumeDir d e1 d' ?P] os_Remove_steps [of volumeDir d e1 d' ?P] below strict_below by blast
qed simp

lemma isLeaf_contained:
  assumes "isLeaf C volume path d = (b, d')" "storage_ok C"
  shows "contained C d d'"
proof (cases "d' = d")
  case False
  then obtain volumeDir e where "getVolDir (xl_diskPath C) volume = Inr volumeDir" "xl_renameLegacyMetadata C volumeDir path d = (e, d')"
    using assms(1)
    by (cases "xl_renameLegacyMetadata C (pathJoin [xl_diskPath C, volume]) path d")
      (auto simp: isLeaf_def getVolDir_def Let_def split: if_splits sum.splits option.splits)
  then show ?thesis using xl_renameLegacyMetadata_contained assms(2) by blast
qed simp

section \<open>The operations on metadata\<close>

lemma writeTransitionMetadata_contained:
  assumes "writeTransitionMetadata (xl_drive C) E volume object data d = (e, d')" "storage_ok C" "drive_there C d"
  shows "contained C d d'"
proof (cases "d' = d")
  case False
  let ?t = "transition_temporary E object"
  obtain e1 d1 where w: "xl_WriteAll C volume ?t data d = (e1, d1)" using prod.exhaust by blast
  note s1 = xl_WriteAll_contained [OF w assms(2,3)]
  obtain e2 d2 where r: "xl_RenameFile C volume ?t volume (xl_meta_of object) d1 = (e2, d2)" using prod.exhaust by blast
  have s2: "contained C d d2"
    using contained_trans [OF s1 xl_RenameFile_contained [OF r assms(2) drive_there_contained [OF assms(3) s1]]] .
  have del: "contained C d (snd (xl_Delete C volume ?t False d0))" if "contained C d d0" for d0
    using contained_trans [OF that xl_Delete_contained [OF _ assms(2) drive_there_contained [OF assms(3) that], of volume ?t False]] prod.collapse by metis
  have "d' = snd (xl_Delete C volume ?t False d1) \<or> d' = snd (xl_Delete C volume ?t False d2)"
    using assms(1) False w r by (auto simp: writeTransitionMetadata_def Let_def split: option.splits prod.splits)
  then show ?thesis using del s1 s2 by blast
qed simp

lemma write_meta_contained:
  assumes "write_meta (xl_drive C) E volume path fi buf d = (e, d')" "storage_ok C" "drive_there C d"
  shows "contained C d d'"
  using assms writeTransitionMetadata_contained xl_WriteAll_contained by (auto simp: write_meta_def split: if_splits)

lemma WriteMetadata_cases:
  assumes "WriteMetadata L S E volume path fi meta d = Some (e, d')"
  shows "d' = d \<or> (\<exists>buf. write_meta S E volume path fi buf d = (e, d'))"
  using assms by (auto simp: WriteMetadata_def Let_def split: option.splits if_splits sum.splits)

lemma UpdateMetadata_cases:
  assumes "UpdateMetadata L S E volume path fi meta d = Some (e, d')"
  shows "d' = d \<or> (\<exists>buf. write_meta S E volume path fi buf d = (e, d'))"
  using assms by (auto simp: UpdateMetadata_def split: option.splits if_splits sum.splits)

lemma WriteMetadata_contained:
  assumes "WriteMetadata L (xl_drive C) E volume path fi meta d = Some (e, d')" "storage_ok C" "drive_there C d"
  shows "contained C d d'"
  using WriteMetadata_cases [OF assms(1)] write_meta_contained [OF _ assms(2,3)] by auto

lemma UpdateMetadata_contained:
  assumes "UpdateMetadata L (xl_drive C) E volume path fi meta d = Some (e, d')" "storage_ok C" "drive_there C d"
  shows "contained C d d'"
  using UpdateMetadata_cases [OF assms(1)] write_meta_contained [OF _ assms(2,3)] by auto

text \<open>The directory of a version of the old format is read from the file, and checked with the version.\<close>

lemma Version_Valid_legacy: "Version_Valid v \<Longrightarrow> version_case v = CaseLegacy m \<Longrightarrow> validStoragePath (v1_DataDir m)"
  by (auto simp: version_case_def Version_Valid_def xlMetaV1Object_valid_def split: if_splits option.splits)

lemma validStoragePath_empty [simp]: "validStoragePath ''''"
  by (simp add: validStoragePath_def valid_path_part_def)

lemma delete_loop_dir:
  assumes "delete_loop fi meta vid uv pre vs = Some (Some (Inr (dir, lv, vs')))"
  shows "validStoragePath dir"
  using assms
proof (induction fi meta vid uv pre vs rule: delete_loop.induct)
  case (2 fi meta vid uv pre v vs)
  show ?case
  proof (cases "version_case v")
    case (CaseLegacy m)
    then show ?thesis using 2 Version_Valid_legacy [OF _ CaseLegacy] by (auto simp: Let_def split: if_splits)
  qed (use 2 in \<open>auto simp: Let_def split: if_splits option.splits\<close>)
qed simp

lemma delete_object_loop_dir:
  assumes "delete_object_loop L fi meta uv data pre vs = Some (Some (Inr (dir, lv, vs')))" "\<forall>u. validStoragePath (uuid_String L u)"
  shows "validStoragePath dir"
  using assms
proof (induction L fi meta uv data pre vs rule: delete_object_loop.induct)
  case (2 L fi meta uv data pre v vs)
  show ?case
  proof (cases "version_case v")
    case (CaseObject ob)
    then show ?thesis using 2 by (auto simp: Let_def split: if_splits option.splits)
  qed (use 2 in \<open>auto simp: Let_def split: if_splits option.splits\<close>)
qed simp

lemma DeleteVersion_dir:
  assumes "DeleteVersion L fi meta z = Some (Inr (dir, lv, z'))" "\<forall>u. validStoragePath (uuid_String L u)"
  shows "validStoragePath dir"
  using assms delete_loop_dir [of fi meta _ _ _ "x_Versions z" dir lv] delete_object_loop_dir [of L fi meta _ _ _ "x_Versions z" dir lv]
  by (auto simp: DeleteVersion_def Let_def map_sum_def split: option.splits if_splits sum.splits prod.splits)

definition calls_ok :: "xl_libs \<Rightarrow> call_env \<Rightarrow> bool" where
  "calls_ok L E \<longleftrightarrow> (\<forall>u. validStoragePath (uuid_String L u)) \<and> validStoragePath (uuid_trash E)"

lemma trash_contained:
  assumes "xl_renameAll C src (trash (xl_drive C) E) d = (e, d')" "storage_ok C" "drive_there C d" "validStoragePath (uuid_trash E)"
    "strict_prefix (drive_root C) (elements src)"
  shows "contained C d d'"
  using xl_renameAll_contained [OF assms(1,3,5)] trash_below [OF assms(2,4)] by (simp add: trash_def)

lemma elements_retainSlash [simp]: "elements (retainSlash p) = elements p"
  by (simp add: retainSlash_def elements_slash)

lemma HasPrefix_retainSlash [simp]: "HasPrefix p ''/'' \<Longrightarrow> HasPrefix (retainSlash p) ''/''"
  by (auto simp: retainSlash_def HasPrefix_extend)

lemma delete_commit_contained:
  assumes "delete_commit L (xl_drive C) E volumeDir volume path fi dir z d = (e, d')" "storage_ok C" "drive_there C d"
    "getVolDir (xl_diskPath C) volume = Inr volumeDir" "validStoragePath path" "validStoragePath dir" "validStoragePath (uuid_trash E)"
  shows "contained C d d'"
proof (cases "d' = d")
  case False
  let ?p = "pathJoin [volumeDir, path, dir]"
  obtain buf e1 d1 where w: "write_meta (xl_drive C) E volume path fi buf d = (e1, d1)"
    and d': "d' = d1 \<or> d' = snd (xl_renameAll C ?p (trash (xl_drive C) E) d1)"
    using assms(1) False by (auto simp: delete_commit_def Let_def split: option.splits sum.splits prod.splits if_splits)
  note s1 = write_meta_contained [OF w assms(2,3)]
  have below: "strict_prefix (drive_root C) (elements ?p)" using path_below(1) [OF assms(4,2), of "[path, dir]"] assms(5,6) by simp
  have "contained C d1 (snd (xl_renameAll C ?p (trash (xl_drive C) E) d1))"
    by (rule trash_contained [OF prod.collapse [symmetric] assms(2) drive_there_contained [OF assms(3) s1] assms(7) below])
  then show ?thesis using d' s1 contained_trans by blast
qed simp

lemma delete_object_files_contained:
  assumes "delete_object_files (xl_drive C) E volumeDir path d = (e, d')" "storage_ok C" "drive_there C d"
    "getVolDir (xl_diskPath C) volume = Inr volumeDir" "validStoragePath path" "validStoragePath (uuid_trash E)"
  shows "contained C d d'"
proof (cases "d' = d")
  case False
  let ?p = "pathJoin [volumeDir, path]"
  obtain e1 d1 where r: "xl_renameAll C (retainSlash ?p) (trash (xl_drive C) E) d = (e1, d1)" using prod.exhaust by blast
  obtain e2 d2 where x: "xl_deleteFile C volumeDir (retainSlash (path_Dir ?p)) False d1 = (e2, d2)" using prod.exhaust by blast
  have d': "d' = d1 \<or> d' = d2"
    using assms(1) False r x by (auto simp: delete_object_files_def Let_def split: option.splits if_splits)
  note b = path_below [OF assms(4,2), of "[path]"]
  have s1: "contained C d d1" using trash_contained [OF r assms(2,3,6)] b(1) assms(5) by simp
  have "contained C d1 d2"
    using xl_deleteFile_contained [OF x assms(2) drive_there_contained [OF assms(3) s1] volume_below(1) [OF assms(4,2)] _ volume_below(2) [OF assms(4,2)]]
      b(4) assms(5) by simp
  then show ?thesis using d' s1 contained_trans by blast
qed simp

lemma Drive_DeleteVersion_contained:
  assumes "Drive_DeleteVersion L (xl_drive C) E volume path fi meta force d = Some (e, d')" "storage_ok C" "drive_there C d"
    "calls_ok L E"
  shows "contained C d d'"
proof (cases "d' = d")
  case False
  consider (delete) "xl_Delete C volume path False d = (e, d')"
    | (metadata) "WriteMetadata L (xl_drive C) E volume path fi meta d = Some (e, d')"
    | (old) volumeDir where "getVolDir (xl_diskPath C) volume = Inr volumeDir" "validStoragePath path"
        "xl_deleteFile C volumeDir (pathJoin [volumeDir, path]) True d = (e, d')"
    | (commit) volumeDir z dir lv z' where "getVolDir (xl_diskPath C) volume = Inr volumeDir" "validStoragePath path"
        "DeleteVersion L fi meta z = Some (Inr (dir, lv, z'))"
        "delete_commit L (xl_drive C) E volumeDir volume path fi dir z' d = (e, d')"
    | (drop) volumeDir where "getVolDir (xl_diskPath C) volume = Inr volumeDir" "validStoragePath path"
        "delete_object_files (xl_drive C) E volumeDir path d = (e, d')"
    using assms(1) False
    by (auto simp: Drive_DeleteVersion_def split: option.splits if_splits sum.splits prod.splits)
  then show ?thesis
  proof cases
    case delete
    then show ?thesis using xl_Delete_contained assms(2,3) by blast
  next
    case metadata
    then show ?thesis using WriteMetadata_contained assms(2,3) by blast
  next
    case old
    then show ?thesis
      using xl_deleteFile_contained [OF old(3) assms(2,3) volume_below(1) [OF old(1) assms(2)] _ volume_below(2) [OF old(1) assms(2)]]
        path_below(3) [OF old(1) assms(2), of "[path]"] by simp
  next
    case commit
    then show ?thesis
      using delete_commit_contained [OF commit(4) assms(2,3) commit(1,2)] DeleteVersion_dir [OF commit(3)] assms(4)
      by (simp add: calls_ok_def)
  next
    case drop
    then show ?thesis using delete_object_files_contained [OF drop(3) assms(2,3) drop(1,2)] assms(4) by (simp add: calls_ok_def)
  qed
qed simp

lemma delete_versions_loop_contained:
  assumes "delete_versions_loop L (xl_drive C) volume xs d = Some (es, d')" "storage_ok C" "drive_there C d"
    "list_all (\<lambda>(E, fi, meta). calls_ok L E) xs"
  shows "contained C d d'"
  using assms
proof (induction xs arbitrary: es d)
  case (Cons x xs)
  obtain E fi meta where x: "x = (E, fi, meta)" by (cases x)
  obtain e1 d1 es1 where one: "Drive_DeleteVersion L (xl_drive C) E volume (fi_Name fi) fi meta False d = Some (e1, d1)"
    and rest: "delete_versions_loop L (xl_drive C) volume xs d1 = Some (es1, d')"
    using Cons.prems(1) x by (auto split: option.splits)
  have s: "contained C d d1" using Drive_DeleteVersion_contained [OF one Cons.prems(2,3)] Cons.prems(4) x by simp
  then have "contained C d1 d'"
    using Cons.IH [OF rest Cons.prems(2) drive_there_contained [OF Cons.prems(3)]] Cons.prems(4) by simp
  then show ?case using s contained_trans by blast
qed simp

lemma Drive_DeleteVersions_contained:
  assumes "Drive_DeleteVersions L (xl_drive C) volume xs d = Some (es, d')" "storage_ok C" "drive_there C d"
    "list_all (\<lambda>(E, fi, meta). calls_ok L E) xs"
  shows "contained C d d'"
  using assms delete_versions_loop_contained [of L C volume xs d es d']
  by (auto simp: Drive_DeleteVersions_def split: option.splits sum.splits)

lemma ReadVersion_contained:
  assumes "ReadVersion L json (xl_drive C) volume path versionID readData d = Some (r, d')" "storage_ok C"
  shows "contained C d d'"
proof (cases "d' = d")
  case False
  then obtain volumeDir r1 where v: "getVolDir (xl_diskPath C) volume = Inr volumeDir" "read_meta (xl_drive C) volumeDir volume path versionID d = (r1, d')"
    using assms(1) by (auto simp: ReadVersion_def split: if_splits sum.splits prod.splits option.splits)
  then obtain e1 where "xl_renameLegacyMetadata C volumeDir path d = (e1, d')"
    using False by (auto simp: read_meta_def Let_def split: sum.splits if_splits prod.splits option.splits)
  then show ?thesis using xl_renameLegacyMetadata_contained v(1) assms(2) by blast
qed simp

section \<open>Sequences of operations\<close>

text \<open>
  An operation of the drive at \<open>C\<close> changes the files from \<open>d\<close> to \<open>d'\<close>, whatever its arguments are, which calls of the system fail and
  what the metadata on the drive says.
\<close>

inductive xl_step :: "xl_libs \<Rightarrow> (bytes \<Rightarrow> xlMetaV1Object option) \<Rightarrow> xl_storage \<Rightarrow> disk \<Rightarrow> disk \<Rightarrow> bool" for L json C where
  make_vol: "MakeVol C volume d = (e, d') \<Longrightarrow> xl_step L json C d d'"
| make_vol_bulk: "MakeVolBulk C volumes d = (e, d') \<Longrightarrow> xl_step L json C d d'"
| delete_vol: "DeleteVol C volume force d = (e, d') \<Longrightarrow> xl_step L json C d d'"
| write_all: "xl_WriteAll C volume path b d = (e, d') \<Longrightarrow> xl_step L json C d d'"
| append_file: "AppendFile C volume path b d = (e, d') \<Longrightarrow> xl_step L json C d d'"
| create_file: "CreateFile C volume path n r d = (e, d') \<Longrightarrow> xl_step L json C d d'"
| delete_file: "xl_Delete C volume path recursive d = (e, d') \<Longrightarrow> xl_step L json C d d'"
| rename_file: "xl_RenameFile C volume path volume' path' d = (e, d') \<Longrightarrow> xl_step L json C d d'"
| is_leaf: "isLeaf C volume path d = (b, d') \<Longrightarrow> xl_step L json C d d'"
| write_metadata: "WriteMetadata L (xl_drive C) E volume path fi meta d = Some (e, d') \<Longrightarrow> xl_step L json C d d'"
| update_metadata: "UpdateMetadata L (xl_drive C) E volume path fi meta d = Some (e, d') \<Longrightarrow> xl_step L json C d d'"
| read_version: "ReadVersion L json (xl_drive C) volume path versionID readData d = Some (res, d') \<Longrightarrow> xl_step L json C d d'"
| delete_version:
    "calls_ok L E \<Longrightarrow> Drive_DeleteVersion L (xl_drive C) E volume path fi meta force d = Some (e, d') \<Longrightarrow> xl_step L json C d d'"
| delete_versions:
    "list_all (\<lambda>(E, fi, meta). calls_ok L E) xs \<Longrightarrow> Drive_DeleteVersions L (xl_drive C) volume xs d = Some (es, d') \<Longrightarrow>
     xl_step L json C d d'"

lemma xl_step_contained: "xl_step L json C d d' \<Longrightarrow> storage_ok C \<Longrightarrow> drive_there C d \<Longrightarrow> contained C d d'"
  by (induction rule: xl_step.induct)
    (blast intro: MakeVol_contained MakeVolBulk_contained DeleteVol_contained xl_WriteAll_contained AppendFile_contained
      CreateFile_contained xl_Delete_contained xl_RenameFile_contained isLeaf_contained WriteMetadata_contained
      UpdateMetadata_contained ReadVersion_contained Drive_DeleteVersion_contained Drive_DeleteVersions_contained)+

lemma xl_steps_contained: "(xl_step L json C)\<^sup>*\<^sup>* d d' \<Longrightarrow> storage_ok C \<Longrightarrow> drive_there C d \<Longrightarrow> contained C d d'"
proof (induction rule: rtranclp_induct)
  case (step d1 d2)
  then show ?case using xl_step_contained drive_there_contained contained_trans by blast
qed simp


section \<open>Examples\<close>

definition example_drive :: xl_storage where
  "example_drive = \<lparr>xl_diskPath = ''/d'', formatLegacy = False, requireDirectIO = False, broken = (\<lambda>_. None), random_name = (\<lambda>_. ''t'')\<rparr>"

definition example_disk :: "fault list \<Rightarrow> disk" where
  "example_disk fs = \<lparr>files = [([''d''], Directory), ([''etc''], File [7])], faults = fs, drawn = 0\<rparr>"

lemma example_storage_ok: "storage_ok example_drive"
  by (simp add: storage_ok_def example_drive_def validStoragePath_def valid_path_part_def)

lemma example_root: "drive_root example_drive = [''d'']"
  by code_simp

lemma example_there: "drive_there example_drive (example_disk fs)"
  unfolding drive_there_def example_root by (auto simp: prefix_Cons look_def example_disk_def)

lemma example_tree_ok: "tree_ok (files (example_disk fs))"
  by (auto simp: tree_ok_def example_disk_def look_def split: if_splits)

text \<open>A volume is made, and a file of the volume is written in part.\<close>

definition example_made :: disk where
  "example_made = snd (MakeVol example_drive ''vol'' (example_disk [Works, Works, Short 1 ENOSPC]))"

definition example_written :: disk where
  "example_written = snd (xl_WriteAll example_drive ''vol'' ''x'' [1, 2] example_made)"

lemma example_steps: "(xl_step L json example_drive)\<^sup>*\<^sup>* (example_disk [Works, Works, Short 1 ENOSPC]) example_written"
proof -
  have "xl_step L json example_drive (example_disk [Works, Works, Short 1 ENOSPC]) example_made"
    unfolding example_made_def by (rule xl_step.make_vol [OF prod.collapse [symmetric]])
  moreover have "xl_step L json example_drive example_made example_written"
    unfolding example_written_def by (rule xl_step.write_all [OF prod.collapse [symmetric]])
  ultimately show ?thesis by (meson rtranclp.rtrancl_into_rtrancl r_into_rtranclp)
qed


section \<open>Replacing the metadata of a transitioned object\<close>

lemma path_parts_join:
  assumes "cs \<noteq> []" "\<forall>c \<in> set cs. CHR ''/'' \<notin> set c \<and> c \<noteq> ''''"
  shows "path_parts (join_byte CHR ''/'' cs) = cs"
  using split_join_byte [of cs "CHR ''/''"] assms by (simp add: path_parts_def filter_id_conv)

lemma path_parts_names: "c \<in> set (path_parts p) \<Longrightarrow> CHR ''/'' \<notin> set c \<and> c \<noteq> ''''"
  using split_byte_no_sep [of c "CHR ''/''" p] by (auto simp: path_parts_def)

lemma clean_components_leading: "clean_components False (''/'' @ p) = clean_components False p"
  using split_byte_append [of "CHR ''/''" "''''" p] by (simp add: clean_components_def clean_step_def)

lemma clean_components_valid:
  "list_all validStoragePath ps \<Longrightarrow> ps \<noteq> [] \<Longrightarrow> clean_components False (join_byte CHR ''/'' ps) = concat (map path_parts ps)"
  using clean_components_join_valid [of ps False "''''"] clean_components_leading [of "join_byte CHR ''/'' ps"]
  by (cases ps) (simp_all add: clean_components_def clean_step_def)

lemma set_join_byte: "x \<in> set (join_byte c ws) \<Longrightarrow> x = c \<or> (\<exists>w \<in> set ws. x \<in> set w)"
  by (induction c ws rule: join_byte.induct) auto

lemma set_split_byte: "w \<in> set (split_byte c s) \<Longrightarrow> set w \<subseteq> set s"
  by (induction s arbitrary: w) (fastforce split: if_splits list.splits)+

text \<open>A path is valid if its parts are.\<close>

lemma path_parts_valid: "validStoragePath p \<Longrightarrow> c \<in> set (path_parts p) \<Longrightarrow> validStoragePath c"
proof -
  assume p: "validStoragePath p" and c: "c \<in> set (path_parts p)"
  have split: "c \<in> set (split_byte CHR ''/'' p)" using c by (simp add: path_parts_def)
  have "split_byte CHR ''/'' c = [c]" using split_byte_id path_parts_names [OF c] by blast
  moreover have "\<not> HasPrefix c ''/''" using path_parts_names [OF c] by (cases c) auto
  moreover have "valid_path_part c" using validStoragePath_parts [OF p] split by (simp add: list_all_iff)
  moreover have "\<not> list_ex (\<lambda>x. x = CHR 0x5C \<or> x = CHR 0x00) c"
    using p set_split_byte [OF split] by (auto simp: validStoragePath_def list_ex_iff split: if_splits)
  ultimately show ?thesis by (simp add: validStoragePath_def)
qed

lemma validStoragePath_join:
  assumes "\<forall>c \<in> set cs. CHR ''/'' \<notin> set c \<and> c \<noteq> '''' \<and> validStoragePath c" "cs \<noteq> []"
  shows "validStoragePath (join_byte CHR ''/'' cs)"
proof -
  have parts: "list_all valid_path_part cs"
    using assms(1) by (auto simp: list_all_iff validStoragePath_def split_byte_id split: if_splits)
  have "\<not> list_ex (\<lambda>x. x = CHR 0x5C \<or> x = CHR 0x00) (join_byte CHR ''/'' cs)"
    using assms(1) set_join_byte [of _ "CHR ''/''" cs] by (fastforce simp: validStoragePath_def list_ex_iff split: if_splits)
  moreover have "\<not> HasPrefix (join_byte CHR ''/'' cs) ''/''" using join_byte_hd [OF assms(2)] assms(1) by blast
  ultimately show ?thesis using split_join_byte [of cs "CHR ''/''"] assms parts by (simp add: validStoragePath_def)
qed

lemma join_byte_no_slash:
  assumes "cs \<noteq> []" "CHR ''/'' \<notin> set (last cs)" "last cs \<noteq> ''''"
  shows "\<not> HasSuffix (join_byte CHR ''/'' cs) ''/''"
proof -
  obtain ds c where cs: "cs = ds @ [c]" using assms(1) rev_exhaust by blast
  moreover obtain x xs where "c = xs @ [x]" using assms(3) cs by (cases c rule: rev_cases) auto
  ultimately show ?thesis
    using assms(2) join_byte_snoc [of ds "CHR ''/''" c]
    by (cases "ds = []") (auto simp: suffix_def append_eq_append_conv2 Cons_eq_append_conv)
qed

lemma path_Clean_no_slash:
  assumes "HasPrefix z ''/''" "elements z = ds @ [c]" "CHR ''/'' \<notin> set c" "c \<noteq> ''''"
  shows "\<not> HasSuffix (path_Clean z) ''/''"
proof -
  have eq: "path_Clean z = CHR ''/'' # join_byte CHR ''/'' (ds @ [c])" using assms(1,2) by (simp add: path_Clean_def elements_def Let_def)
  have "join_byte CHR ''/'' (ds @ [c]) \<noteq> ''''" using assms(4) join_byte_snoc [of ds] by (cases "ds = []") auto
  then show ?thesis
    using join_byte_no_slash [of "ds @ [c]"] assms(3,4) unfolding eq by (auto simp: suffix_def Cons_eq_append_conv)
qed

text \<open>The path of a file of an object.\<close>

lemma object_file:
  assumes "validStoragePath object" "CHR ''/'' \<notin> set name" "name \<noteq> ''''" "validStoragePath name"
  shows "path_parts (pathJoin [object, name]) = path_parts object @ [name]" "\<not> HasSuffix (pathJoin [object, name]) ''/''"
    "validStoragePath (pathJoin [object, name])"
proof -
  have parts: "path_parts name = [name]" using path_parts_join [of "[name]"] assms(2,3) by simp
  let ?es = "filter (\<lambda>e. e \<noteq> '''') [object, name]"
  have no: "\<not> HasSuffix name ''/''" using assms(2) by (auto simp: suffix_def)
  have join: "pathJoin [object, name] = path_Clean (join_byte CHR ''/'' ?es)"
    using no assms(3) by (simp add: pathJoin_def path_Join_def)
  have c: "clean_components False (join_byte CHR ''/'' ?es) = path_parts object @ [name]"
    using clean_components_valid [of ?es] concat_parts_filter [of "[object, name]"] parts assms by simp
  have "\<not> HasPrefix (join_byte CHR ''/'' ?es) ''/''"
    using assms(1-3) by (cases object; cases name) (auto simp: validStoragePath_def)
  then have eq: "pathJoin [object, name] = join_byte CHR ''/'' (path_parts object @ [name])"
    using join c by (simp add: path_Clean_def Let_def)
  show "path_parts (pathJoin [object, name]) = path_parts object @ [name]"
    using path_parts_join [of "path_parts object @ [name]"] path_parts_names assms(2,3) unfolding eq by auto
  show "\<not> HasSuffix (pathJoin [object, name]) ''/''"
    using join_byte_no_slash [of "path_parts object @ [name]"] assms(2,3) unfolding eq by simp
  show "validStoragePath (pathJoin [object, name])"
    using validStoragePath_join [of "path_parts object @ [name]"] path_parts_names path_parts_valid [OF assms(1)] assms(2-4) unfolding eq by auto
qed

lemma xl_ReadAll_look:
  assumes "file_path C volume path = Inr (volumeDir, p)" "\<not> HasSuffix p ''/''" "\<forall>p. broken C p = None" "tree_ok (files d)"
  shows "xl_ReadAll C volume path d = Inr b \<longleftrightarrow> look (files d) (elements p) = Some (File b)"
proof -
  have "xl_ReadAll C volume path d = Inr b \<longleftrightarrow> node_at (files d) p = Inr (File b)"
    using assms(1,3)
    by (auto simp: xl_ReadAll_def xl_readAllData_def open_read_def Lstat_def read_node_def split: sum.splits node.splits if_splits)
  moreover have "parents_ok (files d) (elements p)" if "look (files d) (elements p) \<noteq> None"
    unfolding parents_ok_def
  proof (intro allI impI)
    fix q assume "strict_prefix q (elements p)"
    then show "look (files d) q = Some Directory" using that tree_ok_below [OF assms(4)] by (metis (full_types))
  qed
  ultimately show ?thesis using node_at_file [of "files d" p b] assms(2) by auto
qed

lemma xl_WriteAll_look:
  assumes "xl_WriteAll C volume path b d = (None, d')" "file_path C volume path = Inr (volumeDir, p)"
  shows "look (files d') (elements p) = Some (File b)"
proof -
  obtain d1 where o: "openFile C O_TRUNC p d = (None, d1)" and w: "write_open C p b d1 = (None, d')"
    using assms by (auto simp: xl_WriteAll_def split: prod.splits option.splits)
  note open_file = openFile_trunc [OF o]
  show ?thesis using write_open_success [OF w open_file(1,4)] open_file(4) by simp
qed

text \<open>Before it renames, the drive only makes directories; a rename that fails changes no file.\<close>

lemma xl_renameAll_outcome:
  assumes "xl_renameAll C src dst d = (e, d')" "open_path P (files d) (elements (path_Dir dst))"
  shows "(e \<noteq> None \<longrightarrow> tree_steps P (files d) (files d')) \<and>
    (e = None \<longrightarrow> (\<exists>d1. tree_steps P (files d) (files d1) \<and> os_Rename src dst d1 = (None, d')))"
proof (cases "reliableRename C src dst d = (e, d') \<or> (\<exists>e1. e \<noteq> None \<and> reliableRename C src dst d = (Some e1, d'))")
  case True
  obtain e1 d1 where m: "reliableMkdirAll C (path_Dir dst) d = (e1, d1)" using prod.exhaust by blast
  note s = reliableMkdirAll_steps [OF m assms(2)]
  obtain e2 d2 where r: "os_Rename src dst d1 = (e2, d2)" using prod.exhaust by blast
  obtain e3 d3 where r3: "os_Rename src dst d2 = (e3, d3)" using prod.exhaust by blast
  have failed: "files d2 = files d1" if "e2 \<noteq> None" using that r os_Rename_failed by auto
  have failed3: "files d3 = files d2" if "e3 \<noteq> None" using that r3 os_Rename_failed by auto
  show ?thesis
    using True m s r r3 failed failed3
    by (auto simp: reliableRename_def intro: exI [of _ d2] split: option.splits if_splits)
next
  case False
  then show ?thesis
    using assms(1) by (cases "reliableRename C src dst d") (auto simp: xl_renameAll_def split: option.splits if_splits)
qed

text \<open>The files of an object in a volume: the metadata and the temporary file of the transition.\<close>

lemma object_file_path:
  assumes "getVolDir (xl_diskPath C) volume = Inr volumeDir" "storage_ok C" "validStoragePath object"
    "CHR ''/'' \<notin> set name" "name \<noteq> ''''" "validStoragePath name"
  shows "elements (path_Join [volumeDir, pathJoin [object, name]]) = elements volumeDir @ path_parts object @ [name]"
    "elements (path_Dir (path_Join [volumeDir, pathJoin [object, name]])) = elements volumeDir @ path_parts object"
    "HasPrefix (path_Dir (path_Join [volumeDir, pathJoin [object, name]])) ''/''"
    "pathJoin [volumeDir, pathJoin [object, name]] = path_Join [volumeDir, pathJoin [object, name]]"
    "\<not> HasSuffix (path_Join [volumeDir, pathJoin [object, name]]) ''/''"
proof -
  note v = volume_below(1) [OF assms(1,2)] and f = object_file [OF assms(3-6)]
  have l: "list_all validStoragePath [pathJoin [object, name]]" using f(3) by simp
  show e: "elements (path_Join [volumeDir, pathJoin [object, name]]) = elements volumeDir @ path_parts object @ [name]"
    using path_Join_rooted(3) [OF v l] f(1) by simp
  show "elements (path_Dir (path_Join [volumeDir, pathJoin [object, name]])) = elements volumeDir @ path_parts object"
    using path_Join_Dir(1) [OF v l] e by (simp add: butlast_append)
  show "HasPrefix (path_Dir (path_Join [volumeDir, pathJoin [object, name]])) ''/''" using path_Join_Dir(2) [OF v l] .
  show "pathJoin [volumeDir, pathJoin [object, name]] = path_Join [volumeDir, pathJoin [object, name]]"
    using f(2) by (simp add: pathJoin_def)
  show "\<not> HasSuffix (path_Join [volumeDir, pathJoin [object, name]]) ''/''"
    using path_Clean_no_slash [of _ "elements volumeDir @ path_parts object" name] path_Join_rooted(1,2) [OF v l] e elements_Clean assms(4,5)
    by (metis append.assoc)
qed

definition temporary_name :: "call_env \<Rightarrow> string" where
  "temporary_name E = ''.transition-'' @ uuid_temporary E @ ''.meta''"

lemma object_names:
  "CHR ''/'' \<notin> set (''xl.meta'')" "''xl.meta'' \<noteq> ''''" "validStoragePath ''xl.meta''" "temporary_name E \<noteq> ''''"
  "temporary_name E \<noteq> ''xl.meta''" "CHR ''/'' \<notin> set (uuid_temporary E) \<Longrightarrow> CHR ''/'' \<notin> set (temporary_name E)"
  by (simp_all add: temporary_name_def validStoragePath_def valid_path_part_def)

lemma xl_RenameFile_outcome:
  assumes "xl_RenameFile C volume p volume q d = (e, d')" "\<not> HasSuffix p ''/''"
    "getVolDir (xl_diskPath C) volume = Inr v" "open_path P (files d) (elements (path_Dir (path_Join [v, q])))"
  shows "(e \<noteq> None \<longrightarrow> tree_steps P (files d) (files d')) \<and>
    (e = None \<longrightarrow> validStoragePath p \<and> validStoragePath q \<and> checkPathLength (path_Join [v, q]) = None \<and> \<not> HasSuffix q ''/'' \<and>
       (\<exists>d1 d2. tree_steps P (files d) (files d1) \<and> os_Rename (path_Join [v, p]) (path_Join [v, q]) d1 = (None, d2) \<and>
          d' = snd (xl_deleteFile C v (path_Dir (path_Join [v, p])) False d2)))"
proof -
  obtain e1 d1 where r: "xl_renameAll C (path_Join [v, p]) (path_Join [v, q]) d = (e1, d1)" using prod.exhaust by blast
  show ?thesis
    using assms(1-3) r xl_renameAll_outcome [OF r assms(4)] unfolding xl_RenameFile_def Let_def
    by (auto split: if_splits option.splits)
qed

lemma tree_step_mono:
  assumes "tree_step P a b" "\<And>q. P q \<Longrightarrow> Q q"
  shows "tree_step Q a b"
  using assms by (induction rule: tree_step.induct) (auto intro: tree_step.intros)

lemma tree_steps_mono:
  assumes "tree_steps P a b" "\<And>q. P q \<Longrightarrow> Q q"
  shows "tree_steps Q a b"
  using assms(1)
proof (induction rule: rtranclp_induct)
  case (step b c)
  then show ?case using tree_step_mono [of P b c Q, OF _ assms(2)] by (meson rtranclp.rtrancl_into_rtrancl)
qed simp

lemma temporary_valid:
  assumes "CHR ''/'' \<notin> set (uuid_temporary E)" "validStoragePath (uuid_temporary E)"
  shows "validStoragePath (temporary_name E)"
  using assms split_byte_id [of "CHR ''/''" "temporary_name E"]
  by (auto simp: temporary_name_def validStoragePath_def valid_path_part_def split: if_splits)

lemma xl_Delete_steps:
  assumes "xl_Delete C volume path False d = (e, d')" "storage_ok C" "getVolDir (xl_diskPath C) volume = Inr volumeDir"
    "\<And>q. prefix q (elements (pathJoin [volumeDir, path])) \<Longrightarrow> P q"
  shows "tree_steps P (files d) (files d')"
proof (cases "d' = d")
  case False
  then have v: "validStoragePath path" "xl_deleteFile C volumeDir (pathJoin [volumeDir, path]) False d = (e, d')"
    using assms(1,3) by (auto simp: xl_Delete_def Let_def split: if_splits sum.splits option.splits)
  show ?thesis
    using xl_deleteFile_steps [OF v(2) volume_below(1) [OF assms(3,2)], of P] path_below(3) [OF assms(3,2), of "[path]"] v(1) assms(4)
    by simp
qed simp

text \<open>
  Without an error of the write and the rename the metadata is the new one, with an error it is the old one.
\<close>

lemma transition_outcome:
  assumes "storage_ok C" "tree_ok (files d)" "validStoragePath object"
    "CHR ''/'' \<notin> set (uuid_temporary E)" "validStoragePath (uuid_temporary E)"
    "getVolDir (xl_diskPath C) volume = Inr v"
    "writeTransitionMetadata (xl_drive C) E volume object data d = (e, d')"
  shows "tree_ok (files d')"
    "look (files d') (elements v @ path_parts object @ [''xl.meta'']) =
      (if e = None then Some (File data) else look (files d) (elements v @ path_parts object @ [''xl.meta'']))"
    "e = None \<Longrightarrow> checkPathLength (pathJoin [v, xl_meta_of object]) = None"
proof -
  let ?t = "transition_temporary E object" and ?m = "xl_meta_of object"
  let ?O = "elements v @ path_parts object"
  let ?T = "?O @ [temporary_name E]" and ?M = "?O @ [''xl.meta'']"
  let ?P = "\<lambda>q. prefix q ?T" and ?Q = "\<lambda>q. prefix q ?O"
  have t: "?t = pathJoin [object, temporary_name E]" by (simp add: transition_temporary_def temporary_name_def)
  have m: "?m = pathJoin [object, ''xl.meta'']" by (simp add: xl_meta_of_def)
  note name = object_names(6) [OF assms(4)] object_names(4) temporary_valid [OF assms(4,5)]
  note fT = object_file_path [OF assms(6,1,3) name, folded t] object_file(2) [OF assms(3) name, folded t]
  note fM = object_file_path [OF assms(6,1,3) object_names(1-3), folded m]
  have notM: "\<not> ?P ?M" "\<not> ?Q ?M" "\<not> prefix ?T ?M" "\<not> prefix ?M ?T" "\<not> ?Q ?T" using object_names(5) [of E] by auto
  have mono: "tree_steps ?P a b" if "tree_steps ?Q a b" for a b
    using tree_steps_mono [OF that, of ?P] by (simp add: prefix_order.trans)
  have openQ: "open_path ?Q x ?O" and openP: "open_path ?P x ?O" for x by (auto simp: open_path_def prefix_order.trans)
  have gone: "tree_steps ?P (files a) (files (snd (xl_Delete C volume ?t False a)))" for a
    using xl_Delete_steps [of C volume ?t a _ _ v ?P, OF prod.collapse [symmetric] assms(1,6)] fT(1,4) by simp
  have cleaned: "tree_steps ?Q (files a) (files (snd (xl_deleteFile C v (path_Dir (path_Join [v, ?t])) False a)))" for a
    using xl_deleteFile_steps [of C v "path_Dir (path_Join [v, ?t])" False a _ _ ?Q, OF prod.collapse [symmetric] volume_below(1) [OF assms(6,1)] fT(3)]
      fT(2) by simp
  obtain e1 d1 where w: "xl_WriteAll C volume ?t data d = (e1, d1)" using prod.exhaust by blast
  obtain e2 d2 where r: "xl_RenameFile C volume ?t volume ?m d1 = (e2, d2)" using prod.exhaust by blast
  have w1: "tree_steps ?P (files d) (files d1)"
  proof (rule xl_WriteAll_steps [OF w])
    fix u p assume "file_path C volume ?t = Inr (u, p)"
    then have "p = path_Join [v, ?t]" using assms(6) fT(4) by (auto simp: file_path_def Let_def split: if_splits option.splits)
    then show "?P (elements p) \<and> open_path ?P (files d) (elements (path_Dir p))" using fT(1,2) openP by simp
  qed
  note r1 = xl_RenameFile_outcome [OF r fT(6) assms(6), of ?Q, unfolded fM(2), OF openQ]
  have "tree_ok (files d') \<and> look (files d') ?M = (if e = None then Some (File data) else look (files d) ?M)"
  proof (cases e)
    case (Some err)
    then have "d' = d \<or> d' = snd (xl_Delete C volume ?t False d1) \<or> e2 \<noteq> None \<and> d' = snd (xl_Delete C volume ?t False d2)"
      using assms(7) w r by (auto simp: writeTransitionMetadata_def Let_def split: option.splits)
    then have "tree_steps ?P (files d) (files d')"
      using tree_steps_trans [OF w1 gone] tree_steps_trans [OF tree_steps_trans [OF w1 mono] gone] r1 by auto
    then show ?thesis using tree_steps_keep [of ?P] tree_steps_ok [of ?P] assms(2) notM(1) Some by auto
  next
    case None
    then have n: "e1 = None" "e2 = None" "d' = snd (xl_Delete C volume ?t False d2)"
      using assms(7) w r by (auto simp: writeTransitionMetadata_def Let_def split: option.splits)
    then obtain a b where a: "tree_steps ?Q (files d1) (files a)" "os_Rename (path_Join [v, ?t]) (path_Join [v, ?m]) a = (None, b)"
      "d2 = snd (xl_deleteFile C v (path_Dir (path_Join [v, ?t])) False b)" using r1 by blast
    obtain vp where "file_path C volume ?t = Inr vp" using w n(1) by (auto simp: xl_WriteAll_def split: sum.splits)
    then have "file_path C volume ?t = Inr (v, pathJoin [v, ?t])"
      using assms(6) by (auto simp: file_path_def Let_def split: if_splits option.splits)
    then have "look (files d1) ?T = Some (File data)" using xl_WriteAll_look [OF w [unfolded n(1)]] fT(1,4) by simp
    then have T: "look (files a) ?T = Some (File data)" using tree_steps_keep [OF a(1) notM(5)] by simp
    have ok: "tree_ok (files b)"
      using tree_steps_ok [of ?P "files d" "files d1"] tree_steps_ok [OF a(1)] w1 assms(2)
        os_Rename_steps [OF a(2), of "\<lambda>_. True"] tree_steps_ok [of "\<lambda>_. True" "files a" "files b"] by blast
    have "files b = move_below ?T ?M (files a)"
      using os_Rename_success [OF a(2)] fT(1) fM(1) notM(3) by auto
    then have "look (files b) ?M = Some (File data)" using look_move [of ?T ?M "files a" ?M] notM T by simp
    then have "look (files d2) ?M = Some (File data)" "tree_ok (files d2)"
      using tree_steps_keep [OF cleaned notM(2)] tree_steps_ok [OF cleaned ok] a(3) by simp_all
    then show ?thesis using tree_steps_keep [OF gone notM(1)] tree_steps_ok [OF gone] n(3) None by simp
  qed
  then show "tree_ok (files d')" "look (files d') (elements v @ path_parts object @ [''xl.meta'']) =
      (if e = None then Some (File data) else look (files d) (elements v @ path_parts object @ [''xl.meta'']))" by simp_all
  show "checkPathLength (pathJoin [v, ?m]) = None" if "e = None"
    using that assms(7) w r r1 fM(4) by (auto simp: writeTransitionMetadata_def Let_def split: option.splits)
qed

text \<open>
  C40: For every schedule of failing calls the metadata of a transitioned object is replaced as a whole: without an error a reader gets
  the new bytes, with an error it gets the old ones, or none if there were none, also when the write of the temporary file stops in the middle.
\<close>

theorem transition_metadata_atomic:
  assumes "writeTransitionMetadata (xl_drive C) E volume object data d = (e, d')"
    "storage_ok C" "\<forall>p. broken C p = None" "tree_ok (files d)" "validStoragePath object"
    "CHR ''/'' \<notin> set (uuid_temporary E)" "validStoragePath (uuid_temporary E)"
  shows "if e = None then xl_ReadAll C volume (xl_meta_of object) d' = Inr data
         else \<forall>b. xl_ReadAll C volume (xl_meta_of object) d' = Inr b \<longleftrightarrow> xl_ReadAll C volume (xl_meta_of object) d = Inr b"
proof (cases "getVolDir (xl_diskPath C) volume")
  case (Inl err)
  then have "e \<noteq> None" "d' = d"
    using assms(1)
    by (auto simp: writeTransitionMetadata_def xl_WriteAll_def file_path_def xl_Delete_def Let_def split: option.splits if_splits dest: sym)
  then show ?thesis by auto
next
  case (Inr v)
  let ?p = "pathJoin [v, xl_meta_of object]"
  note out = transition_outcome [OF assms(2,4-7) Inr assms(1)]
  note f = object_file_path [OF Inr assms(2,5) object_names(1-3)] object_file [OF assms(5) object_names(1-3)]
  have p: "elements ?p = elements v @ path_parts object @ [''xl.meta'']" "\<not> HasSuffix ?p ''/''" "validStoragePath (xl_meta_of object)"
    using f by (simp_all add: xl_meta_of_def)
  show ?thesis
  proof (cases "checkPathLength ?p")
    case None
    then have "file_path C volume (xl_meta_of object) = Inr (v, ?p)" using Inr p(3) by (simp add: file_path_def)
    then show ?thesis
      using xl_ReadAll_look [OF _ p(2) assms(3)] out(1,2) assms(4) p(1) by (simp split: if_splits)
  next
    case (Some err)
    then show ?thesis using out(3) Inr p(3) by (auto simp: xl_ReadAll_def file_path_def)
  qed
qed

definition object_disk :: "fault list \<Rightarrow> disk" where
  "object_disk fs =
     \<lparr>files = [([''d''], Directory), ([''d'', ''vol''], Directory), ([''d'', ''vol'', ''o''], Directory),
        ([''d'', ''vol'', ''o'', ''xl.meta''], File [1])], faults = fs, drawn = 0\<rparr>"

definition example_env :: call_env where
  "example_env = \<lparr>ctx_before = None, ctx_written = None, uuid_temporary = ''u'', uuid_trash = ''t''\<rparr>"

definition transition_run :: "fault list \<Rightarrow> go_error option \<times> disk" where
  "transition_run fs = writeTransitionMetadata (xl_drive example_drive) example_env ''vol'' ''o'' [5, 6, 7] (object_disk fs)"

lemma object_tree_ok: "tree_ok (files (object_disk fs))"
  by (auto simp: tree_ok_def object_disk_def look_def split: if_splits)

text \<open>A write of the temporary file that stops after two bytes, and a run without failures.\<close>

theorem transition_metadata_atomic_witness:
  "xl_ReadAll example_drive ''vol'' (xl_meta_of ''o'') (snd (transition_run [Works, Short 2 ENOSPC])) = Inr [1] \<and>
   xl_ReadAll example_drive ''vol'' (xl_meta_of ''o'') (snd (transition_run [])) = Inr [5, 6, 7]"
proof -
  have b: "\<forall>p. broken example_drive p = None" by (simp add: example_drive_def)
  have u: "validStoragePath ''o''" "CHR ''/'' \<notin> set (uuid_temporary example_env)" "validStoragePath (uuid_temporary example_env)"
    by (simp_all add: example_env_def validStoragePath_def valid_path_part_def)
  have run: "writeTransitionMetadata (xl_drive example_drive) example_env ''vol'' ''o'' [5, 6, 7] (object_disk fs) =
      (fst (transition_run fs), snd (transition_run fs))" for fs by (simp add: transition_run_def)
  note atomic = transition_metadata_atomic [OF run example_storage_ok b object_tree_ok u]
  have "fst (transition_run [Works, Short 2 ENOSPC]) \<noteq> None" "fst (transition_run []) = None" by code_simp+
  moreover have "xl_ReadAll example_drive ''vol'' (xl_meta_of ''o'') (object_disk [Works, Short 2 ENOSPC]) = Inr [1]" by code_simp
  ultimately show ?thesis using atomic [of "[Works, Short 2 ENOSPC]"] atomic [of "[]"] by (auto split: if_splits)
qed

text \<open>Written in place, the same failure would leave a part of the new bytes.\<close>

lemma write_all_not_atomic:
  "xl_ReadAll example_drive ''vol'' (xl_meta_of ''o'')
     (snd (xl_WriteAll example_drive ''vol'' (xl_meta_of ''o'') [5, 6, 7] (object_disk [Works, Short 2 ENOSPC]))) = Inr [5, 6]"
  by code_simp

end
