(* ===== verification/Object_Drives.thy ===== *)
theory Object_Drives
  imports Drive_Facts
begin

text \<open>
  The object layer over the drives: the contract that the lookup of an object needs of the files of a drive is the
  one that the drives of \<^verbatim>\<open>cmd/xl-storage.go\<close> keep, so what is written at a quorum of them is found again.
\<close>

section \<open>What is written at a quorum of drives is what is read\<close>


section \<open>An example\<close>

text \<open>Drives with an empty volume, and an object of one data and one parity block on two of them.\<close>

definition pair_disk :: disk where
  "pair_disk = \<lparr>files = [([''d''], Directory), ([''d'', ''b''], Directory)], faults = [], drawn = 0\<rparr>"

abbreviation pair_io :: "disk drive_io" where
  "pair_io \<equiv> xl_drive example_drive"

lemma pair_reads: "\<forall>p. broken example_drive p = None"
  by (simp add: example_drive_def)

lemma pair_io_write: "write_laws pair_io"
  using xl_write_read [OF _ pair_reads] by (simp add: write_laws_def)

lemma pair_disk_empty: "xl_ReadAll example_drive ''b'' (xl_meta_of ''o'') pair_disk = Inl errFileNotFound"
  by code_simp

lemma pair_disk_writes: "fst (xl_WriteAll example_drive ''b'' (xl_meta_of ''o'') buf pair_disk) = None"
proof -
  have "file_path example_drive ''b'' (xl_meta_of ''o'') = Inr (''/d/b'', ''/d/b/o/xl.meta'')" by code_simp
  moreover have "fst (openFile example_drive O_TRUNC ''/d/b/o/xl.meta'' pair_disk) = None"
    "faults (snd (openFile example_drive O_TRUNC ''/d/b/o/xl.meta'' pair_disk)) = []" by code_simp+
  ultimately show ?thesis
    by (auto simp: xl_WriteAll_def write_open_def os_Write_def next_fault_def split: prod.splits option.splits)
qed

definition pair_dir :: uuid where
  "pair_dir = replicate 16 97"

definition pair_info :: file_info where
  "pair_info = example_info\<lparr>fi_DataDir := CHR ''u'' # replicate 16 CHR ''a'',
     fi_Erasure := (fi_Erasure example_info)\<lparr>ei_DataBlocks := 1, ei_ParityBlocks := 1, ei_Distribution := [1, 2]\<rparr>\<rparr>"

definition pair_entry :: "nat \<Rightarrow> xlMetaV2Version" where
  "pair_entry i = version_entry zero_uuid pair_dir (unique_file_info i pair_info) example_meta"

definition pair_libs :: xl_libs where
  "pair_libs = example_libs\<lparr>
     MarshalMsg := (\<lambda>vs. if vs = [pair_entry 0] then Some [0] else if vs = [pair_entry 1] then Some [1] else None),
     UnmarshalMsg := (\<lambda>b. if b = [0] then Some [pair_entry 0] else if b = [1] then Some [pair_entry 1] else None)\<rparr>"

lemma pair_laws: "sort_laws pair_libs" "codec_laws pair_libs" "lib_msgp pair_libs = msgp32" "uuid_laws pair_libs"
proof -
  show "sort_laws pair_libs" using example_sort by (simp add: sort_laws_def pair_libs_def)
  have "stored_version (pair_entry i) = pair_entry i" for i by (simp add: pair_entry_def)
  then show "codec_laws pair_libs"
    using example_codec by (auto simp: codec_laws_def pair_libs_def split: if_splits)
  show "lib_msgp pair_libs = msgp32" by (simp add: pair_libs_def example_msgp)
  show "uuid_laws pair_libs" using example_uuid by (simp add: uuid_laws_def pair_libs_def)
qed

lemma pair_fields: "fi_VersionID pair_info = ''''" "fi_ModTime pair_info = 5" "\<not> fi_Deleted pair_info"
  "fi_Data pair_info = [1, 2, 3]" "fi_TransitionStatus pair_info = ''''" "fi_Size pair_info = 3"
  "ei_DataBlocks (fi_Erasure pair_info) = 1" "ei_Distribution (fi_Erasure pair_info) = [1, 2]"
  "fi_DataDir pair_info = CHR ''u'' # replicate 16 CHR ''a''"
  by (simp_all add: pair_info_def example_time example_dist) (simp_all add: example_info_def zero_file_info_def)

lemma pair_valid: "validateStorageFileInfo (unique_file_info 0 pair_info) True = None"
  "validateStorageFileInfo (unique_file_info 1 pair_info) True = None"
  "FileInfo_IsValid (unique_file_info 0 pair_info)" "FileInfo_IsValid (unique_file_info 1 pair_info)"
  "validStoragePath ''o''"
  by code_simp+

lemma pair_dir_text: "uuid_String pair_libs pair_dir = CHR ''u'' # replicate 16 CHR ''a''"
  "uuid_Parse pair_libs (CHR ''u'' # replicate 16 CHR ''a'') = Some pair_dir"
proof -
  have "char_of (97 :: nat) = CHR ''a''" by code_simp
  then show "uuid_String pair_libs pair_dir = CHR ''u'' # replicate 16 CHR ''a''"
    by (simp add: pair_libs_def example_libs_def pair_dir_def bytes_string_def)
qed (simp add: pair_libs_def example_libs_def pair_dir_def string_bytes_def)

lemma pair_dir_path: "validStoragePath (CHR ''u'' # replicate 16 CHR ''a'')"
  by code_simp

lemma pair_same: "same_object pair_info pair_info"
  by (auto simp: same_object_def intro!: exI [of _ "fi_Data pair_info"] exI [of _ "ei_Index (fi_Erasure pair_info)"]
      exI [of _ "ei_Checksums (fi_Erasure pair_info)"])

lemma pair_writable: "writable pair_libs zero_uuid pair_dir pair_info example_meta"
  using example_meta_ordinary pair_dir_text(2)
  by (simp add: writable_def pair_fields names_version_def data_dir_uuid_def example_time)
    (simp add: example_meta_def transition_status_key_def)

lemma pair_volume: "getVolDir (xl_diskPath example_drive) ''b'' = Inr ''/d/b''"
  by code_simp

lemma pair_written:
  assumes "i = 0 \<or> i = 1"
  shows "fst (drive_write pair_libs pair_io E ''b'' ''o'' example_meta pair_disk (unique_file_info i pair_info)) = None"
proof -
  let ?f = "unique_file_info i pair_info" and ?z = "\<lparr>x_Versions = [], x_data = []\<rparr>"
  have w: "writable pair_libs zero_uuid pair_dir ?f example_meta" by (rule writable_unique [OF pair_writable pair_same])
  have v: "validateStorageFileInfo ?f True = None" using assms pair_valid by auto
  have n: "names_version pair_libs (fi_VersionID ?f) zero_uuid" "data_dir_uuid pair_libs (fi_DataDir ?f) = Some pair_dir"
    "0 < wrap64 (fi_ModTime ?f)" "\<not> fi_Deleted ?f" "fi_TransitionStatus ?f = ''''" using w by (auto simp: writable_def)
  have add: "AddVersion pair_libs ?f example_meta ?z = Some (Inr \<lparr>x_Versions = [pair_entry i],
      x_data = add_inline msgp32 (inline_name ?f) zero_uuid pair_dir ?f ?z\<rparr>)"
    using AddVersion_success [OF _ v n(3,1,2), of ?z example_meta]
    by (simp add: pair_entry_def inline_name_def pair_laws(3))
  have "fi_Data ?f = [1, 2, 3]" "length (inline_name ?f) < 2 ^ 32"
    by (simp_all add: unique_file_info_def pair_fields inline_name_def nullVersionID_def)
  then have "represents msgp32 (add_inline msgp32 (inline_name ?f) zero_uuid pair_dir ?f ?z)
      [string_bytes (inline_name ?f) \<mapsto> fi_Data ?f]"
    using add_inline_represents [OF msgp32_laws, of ?z Map.empty ?f zero_uuid pair_dir] example_empty n(4)
    by (simp add: added_data_def)
  then have valid: "inline_validate msgp32 (add_inline msgp32 (inline_name ?f) zero_uuid pair_dir ?f ?z) = None"
    by (rule represents_validate [OF msgp32_laws]) (simp add: inline_name_def nullVersionID_def string_bytes_def)
  have "\<exists>b. MarshalMsg pair_libs [pair_entry i] = Some b" using assms by (auto simp: pair_libs_def)
  then obtain buf where buf: "AppendTo pair_libs \<lparr>x_Versions = [pair_entry i],
      x_data = add_inline msgp32 (inline_name ?f) zero_uuid pair_dir ?f ?z\<rparr> [] = Inr buf"
    using valid by (auto simp: AppendTo_def pair_laws(3))
  have "WriteMetadata pair_libs pair_io E ''b'' ''o'' ?f example_meta pair_disk =
      Some (WriteAll pair_io ''b'' (xl_meta_of ''o'') buf pair_disk)"
    using v n(5) pair_valid(5) add buf pair_disk_empty
    by (simp add: WriteMetadata_def isXL2V1Format_def checkXL2V1_def newXLMetaV2_def write_meta_def Let_def)
  then show ?thesis using pair_disk_writes by (simp add: drive_write_def)
qed

abbreviation pair_disks :: "disk option list" where
  "pair_disks \<equiv> [Some pair_disk, Some pair_disk]"

abbreviation pair_files :: "file_info list" where
  "pair_files \<equiv> [pair_info, pair_info]"

definition pair_read :: "file_info list \<times> go_error option list" where
  "pair_read = readAllFileInfo (drive_read pair_libs (\<lambda>_. None) pair_io ''b'' ''o'' (inline_name pair_info) True)
     (drives_after pair_libs pair_io \<lparr>ctx_before = None, ctx_written = None, uuid_temporary = '''', uuid_trash = ''''\<rparr>
        ''b'' ''o'' example_meta pair_files pair_disks)"

abbreviation pair_text :: string where
  "pair_text \<equiv> CHR ''u'' # replicate 16 CHR ''a''"

definition pair_orders :: read_orders where
  "pair_orders = \<lparr>ro_latest_errs = [None], ro_latest_times = [5], ro_latest_dirs = [pair_text], ro_errs = [None],
     ro_times = [5], ro_dirs = [pair_text],
     ro_hashes = filter (\<lambda>h. h \<noteq> '''') (meta_hashes (\<lambda>_. None) (\<lambda>_. 0) 5 pair_text (fst pair_read)),
     ro_parse_time = (\<lambda>_. None), ro_now = (\<lambda>_. 0)\<rparr>"

lemma pair_at: "written_at pair_libs pair_io E ''b'' ''o'' example_meta pair_files pair_disks = {0, 1}"
proof -
  have "i = 0 \<or> i = 1" if "i < 2" for i :: nat using that by linarith
  then show ?thesis
    using pair_written pair_valid(3,4) by (auto simp: written_at_def nth_Cons')
qed

lemma pair_drives: "\<forall>d. Some d \<in> set pair_disks \<longrightarrow> drive_ok L pair_io ''b'' ''o'' d"
  using pair_disk_empty by (simp add: drive_ok_def)

lemma pair_answers:
  assumes "pair_read = (ms, es)" "i = 0 \<or> i = 1"
  shows "es ! i = None" "fi_ModTime (ms ! i) = 5" "fi_DataDir (ms ! i) = pair_text" "fi_Size (ms ! i) = 3"
proof -
  have v: "getVolDir (diskPath pair_io) ''b'' = Inr ''/d/b''" using pair_volume by simp
  let ?E = "\<lparr>ctx_before = None, ctx_written = None, uuid_temporary = '''', uuid_trash = ''''\<rparr>"
  have "validStoragePath (uuid_String pair_libs pair_dir)" using pair_dir_path pair_dir_text(1) by simp
  moreover have "i \<in> written_at pair_libs pair_io ?E ''b'' ''o'' example_meta pair_files pair_disks"
    using assms(2) by (simp add: pair_at)
  moreover have "length pair_files = length pair_disks" "\<forall>f \<in> set pair_files. same_object pair_info f"
    "msgp_laws (lib_msgp pair_libs)" "True \<longrightarrow> fi_Data pair_info \<noteq> []"
    using pair_same msgp32_laws by (simp_all add: pair_laws pair_fields)
  ultimately have a: "es ! i = None \<and>
      answer_of pair_libs ''b'' ''o'' zero_uuid pair_dir (unique_file_info i (pair_files ! i)) example_meta True (ms ! i) \<and>
      FileInfo_IsValid (ms ! i)"
    using written_answers [OF pair_drives _ _ pair_writable pair_io_write pair_laws(1,2) _ v _ _ _ assms(1) [unfolded pair_read_def]]
    by blast
  then show "es ! i = None" "fi_ModTime (ms ! i) = 5" "fi_DataDir (ms ! i) = pair_text" "fi_Size (ms ! i) = 3"
    using answer_of_fields(1,2,13) [of pair_libs "''b''" "''o''" zero_uuid pair_dir] assms(2) pair_dir_text(1)
    by (auto simp: unique_file_info_def pair_fields example_time)
qed

lemma pair_orders_ok:
  assumes "pair_read = (ms, es)"
  shows "orders_ok pair_orders ms es" "es = [None, None]" "length ms = 2"
proof -
  have len: "length ms = 2" "length es = 2"
    using assms by (auto simp: pair_read_def readAllFileInfo_def Let_def drives_after_def)
  note a = pair_answers [OF assms]
  have es: "es = [None, None]" using len(2) a(1) [of 0] a(1) [of 1] by (auto simp: length_Suc_conv numeral_2_eq_2)
  obtain m n where ms: "ms = [m, n]" using len(1) by (auto simp: length_Suc_conv numeral_2_eq_2)
  have t: "answer_times ms es = [5, 5]" "list_data_dirs ms es = [pair_text, pair_text]"
    using a(2,3) [of 0] a(2,3) [of 1] by (simp_all add: answer_times_def list_data_dirs_def ms es)
  have n: "common_nanos [5, 5] = [5, 5]" "common_dirs [pair_text, pair_text] = [pair_text, pair_text]"
    by (simp_all add: common_nanos_def common_dirs_def timeSentinel_def example_time)
  have "commonTime [5] [pair_text] [5, 5] [pair_text, pair_text] = (5, pair_text)"
    by (simp add: commonTime_def n common_time_step_def common_dir_step_def)
  moreover have "error_keys es objectOpIgnoredErrs = {None}" by (simp add: es error_keys_def IsErrIgnored_def IsErr_def)
  ultimately show "orders_ok pair_orders ms es"
    unfolding orders_ok_def t n by (simp add: pair_orders_def assms)
  show "es = [None, None]" "length ms = 2" by (rule es, rule len(1))
qed


end
