(* ===== verification/Spec2Isabelle.thy ===== *)
theory Spec2Isabelle
  imports Condition_Facts Bucket_Policy_Facts IAM_Policy_Facts Local_Locker_Facts Dsync_Progress
    Erasure_Coding_Facts File_Info_Facts Erasure_Metadata_Facts Object_Lock_Facts Lifecycle_Facts XL_Journal_Spec
    Object_Drives
begin

text \<open>
  Verification of the otterio object store.

  \<^bold>\<open>The program.\<close> otterio serves the S3 interface over a set of drives. A request is authorized against the
  policy of its bucket and the policies of its user, takes a lock on the object at a quorum of servers, and
  reads or writes the object as shards of an erasure code, with a copy of the metadata at every drive. Object
  lock forbids to delete or to change protected versions, and the lifecycle deletes and moves versions in the
  background. The theories follow these parts. They model the decisions of the code as functions; the
  transport of bytes between clients, servers and drives is not modelled.

  \<^bold>\<open>Conventions.\<close> \<^verbatim>\<open>Go_Prelude\<close>, \<^verbatim>\<open>Go_Strings\<close>, \<^verbatim>\<open>Go_Path\<close>, \<^verbatim>\<open>Go_Ints\<close>, \<^verbatim>\<open>Go_Time\<close> and \<^verbatim>\<open>Go_Hash\<close> hold what the sources use
  of the Go language and its library. A string is a list of bytes, a panic is \<^const>\<open>None\<close>, an error is a left
  value of a sum, an integer of 64 bits wraps where it can overflow, an instant is a number of nanoseconds
  since the epoch, and the clock is an argument. The order in which a Go map is traversed is an argument, so a
  statement for every argument is one for every order.

  \<^bold>\<open>Policies.\<close>
  \<^item> \<^verbatim>\<open>Wildcard\<close> is \<^verbatim>\<open>pkg/wildcard/match.go\<close>: the matcher of \<^verbatim>\<open>Match\<close> and \<^verbatim>\<open>MatchSimple\<close> over runes, its termination,
    the language of a pattern as an inductive relation and the equality of the two.
  \<^item> \<^verbatim>\<open>Condition_Keys\<close>, \<^verbatim>\<open>Condition\<close> and \<^verbatim>\<open>Condition_Functions\<close> are \<^verbatim>\<open>pkg/bucket/policy/condition\<close>: the keys, the
    values, one group of definitions for each condition function, and the parser of a condition block.
    \<^verbatim>\<open>Condition_Facts\<close> gives the meaning of the operators, shows when they panic and what cloning keeps.
  \<^item> \<^verbatim>\<open>Bucket_Policy\<close> is \<^verbatim>\<open>pkg/bucket/policy\<close>: actions, resources, principals, statements, validation, parsing with
    the removal of duplicates, and \<^verbatim>\<open>Policy.IsAllowed\<close>. \<^verbatim>\<open>Bucket_Policy_Facts\<close> has the locale \<open>effect_loops\<close> for the
    two loops that bucket and user policies share, the decision of a policy, monotonicity, the separation of
    buckets, the invariant of parsed policies, and a policy from which the parser drops a denial.
  \<^item> \<^verbatim>\<open>IAM_Policy\<close> and \<^verbatim>\<open>IAM_Policy_Facts\<close> are \<^verbatim>\<open>pkg/iam/policy\<close> in the same way, with merging, the canned policies and
    the policy names of a token.

  The functions of other packages that these sources call are the fields of one record \<open>libs\<close>.

  \<^bold>\<open>Locks.\<close>
  \<^item> \<^verbatim>\<open>Local_Locker\<close> is \<^verbatim>\<open>cmd/local-locker.go\<close>, the lock table of a server; every operation runs under its mutex and is
    one step. \<^verbatim>\<open>Local_Locker_Facts\<close> shows mutual exclusion in all reachable tables (\<open>locker_step\<close>), the effect of
    locking and unlocking and what expiry keeps.
  \<^item> \<^verbatim>\<open>Dsync\<close> is \<^verbatim>\<open>pkg/dsync/drwmutex.go\<close>: one attempt to lock as calls to all lockers, any of which may be lost before or
    after it is carried out, and the state of the mutex. \<^verbatim>\<open>Dsync_Facts\<close> states what a locker promises as the locale
    \<open>net_locker\<close>, interprets it with the lock table, and shows mutual exclusion of the clients over all
    interleavings (\<open>dsync_step\<close>).

  \<^bold>\<open>Objects on drives.\<close>
  \<^item> \<^verbatim>\<open>Erasure_Coding\<close> is \<^verbatim>\<open>cmd/erasure-coding.go\<close> and \<^verbatim>\<open>cmd/erasure-utils.go\<close>. The Reed-Solomon coder is a record of
    functions with the documented laws as hypotheses. \<^verbatim>\<open>Erasure_Coding_Facts\<close> shows that a block survives the loss
    of parity many shards, and the arithmetic of sizes and offsets on 64 bits.
  \<^item> \<^verbatim>\<open>File_Info\<close> is the metadata of a version with its checks (\<^verbatim>\<open>cmd/storage-datatypes.go\<close>,
    \<^verbatim>\<open>cmd/storage-validation.go\<close>, parts of \<^verbatim>\<open>cmd/erasure-metadata.go\<close>). \<^verbatim>\<open>File_Info_Facts\<close> shows that valid paths stay in
    the directory of their drive, that parts are a sorted map and that offsets are found in them.
  \<^item> \<^verbatim>\<open>Storage_Class\<close> is \<^verbatim>\<open>cmd/config/storageclass\<close> with the bounds of every accepted parity.
  \<^item> \<^verbatim>\<open>Erasure_Metadata\<close> is how the answers of the drives are combined (\<^verbatim>\<open>cmd/erasure-metadata-utils.go\<close>,
    \<^verbatim>\<open>cmd/erasure-metadata.go\<close>, \<^verbatim>\<open>cmd/erasure-healing-common.go\<close>). \<^verbatim>\<open>Erasure_Metadata_Facts\<close> has the locale \<open>max_loop\<close>
    for the four loops over counts, the agreement of the drives on an error, a time and metadata, the
    intersection of quorums and the permutation of drives.

  \<^bold>\<open>Protection and lifecycle.\<close>
  \<^item> \<^verbatim>\<open>Object_Lock\<close> is \<^verbatim>\<open>pkg/bucket/object/lock\<close> and \<^verbatim>\<open>cmd/bucket-object-lock.go\<close>. \<^verbatim>\<open>Object_Lock_Facts\<close> shows the compliance
    guarantee over all sequences of operations (\<open>lock_step\<close>) and the exact conditions of a deletion and of a
    change under governance. Parsing and formatting of times are parameters with their documented laws.
  \<^item> \<^verbatim>\<open>Lifecycle\<close> is \<^verbatim>\<open>pkg/bucket/lifecycle\<close>. \<^verbatim>\<open>Lifecycle_Facts\<close> shows that the selected action is the first of the best
    candidates, the bounds of a deadline, and that the announced expiry is the one that is carried out.

  \<^bold>\<open>Termination and bounds.\<close> All definitions are total. The loops are structural recursion, folds, or
  functions with a measure (\<^verbatim>\<open>deepMatchRune\<close>, \<^verbatim>\<open>ReplaceAll\<close>); no fuel is used.

  \<^bold>\<open>Not modelled.\<close> Input and output: the drives, the HTTP handlers, the streams of the erasure code and of bitrot,
  the workers for healing, scanning and replication. Encryption and signatures, which rest on cryptographic
  libraries. The store of users and the configuration, which are caches over files. The listing caches, the
  gateways and the select engine, which are large parts of their own. XML and JSON decoders, whose results are
  arguments. The journal of versions at a drive (\<^verbatim>\<open>cmd/xl-storage-format-v2.go\<close>), versioning and replication rules
  are the next candidates.
\<close>

end
